(* ===== verification/Prelude.thy ===== *)
theory Prelude
  imports Main "HOL-Library.Char_ord" "HOL-Library.List_Lexorder" "HOL-Library.Word"
begin

text \<open>
  Shared ground of the development: the sum type that models Rust's \<open>Result\<close>, the
  combinators for the \<open>?\<close> operator and for \<open>Option::ok_or_else\<close>, and the
  collections the component theories add their facts to.

  \<^item> \<open>ok_iff\<close>: equivalences of the form \<open>f x = Inr y \<longleftrightarrow> \<dots>\<close>, one per fallible operation.
  \<^item> \<open>shape_simps\<close>: rewrite rules that read one component of a handler's result.
\<close>

named_theorems ok_iff
named_theorems shape_simps

subsection \<open>Result values\<close>

definition on_ok :: "'e + 'a \<Rightarrow> ('a \<Rightarrow> 'e + 'b) \<Rightarrow> 'e + 'b" where
  "on_ok r f = (case r of Inl e \<Rightarrow> Inl e | Inr x \<Rightarrow> f x)"

definition map_err :: "('e \<Rightarrow> 'f) \<Rightarrow> 'e + 'a \<Rightarrow> 'f + 'a" where
  "map_err f r = (case r of Inl e \<Rightarrow> Inl (f e) | Inr x \<Rightarrow> Inr x)"

definition ok_or :: "'e \<Rightarrow> 'a option \<Rightarrow> 'e + 'a" where
  "ok_or e x = (case x of None \<Rightarrow> Inl e | Some y \<Rightarrow> Inr y)"

definition is_ok :: "'e + 'a \<Rightarrow> bool" where
  "is_ok r = (case r of Inl e \<Rightarrow> False | Inr x \<Rightarrow> True)"

lemma on_ok_simps [simp]:
  "on_ok (Inl e) f = Inl e"
  "on_ok (Inr x) f = f x"
  by (simp_all add: on_ok_def)

lemma map_err_simps [simp]:
  "map_err g (Inl e) = Inl (g e)"
  "map_err g (Inr x) = Inr x"
  by (simp_all add: map_err_def)

lemma ok_or_simps [simp]:
  "ok_or e None = Inl e"
  "ok_or e (Some x) = Inr x"
  by (simp_all add: ok_or_def)

lemma is_ok_simps [simp]:
  "is_ok (Inl e) = False"
  "is_ok (Inr x) = True"
  by (simp_all add: is_ok_def)

lemma on_ok_Inr_iff [ok_iff]: "on_ok r f = Inr y \<longleftrightarrow> (\<exists>x. r = Inr x \<and> f x = Inr y)"
  by (cases r) auto

lemma on_ok_Inl_iff: "on_ok r f = Inl e \<longleftrightarrow> r = Inl e \<or> (\<exists>x. r = Inr x \<and> f x = Inl e)"
  by (cases r) auto

lemma map_err_Inr_iff [ok_iff]: "map_err g r = Inr y \<longleftrightarrow> r = Inr y"
  by (cases r) auto

lemma ok_or_Inr_iff [ok_iff]: "ok_or e x = Inr y \<longleftrightarrow> x = Some y"
  by (cases x) auto

lemma ok_or_Inl_iff: "ok_or e x = Inl e' \<longleftrightarrow> x = None \<and> e' = e"
  by (cases x) auto

lemma is_ok_iff: "is_ok r \<longleftrightarrow> (\<exists>x. r = Inr x)"
  by (cases r) auto

subsection \<open>Stateful operations that can fail\<close>

text \<open>
  An operation returns its result with the state it leaves. These rules say when a chain
  of early returns ends in a success; they replace case splits in the component proofs.
\<close>

lemma state_bind_iff [ok_iff]:
  "(case r of Inl e \<Rightarrow> (Inl e, m) | Inr x \<Rightarrow> k x) = (Inr y, m') \<longleftrightarrow>
     (\<exists>x. r = Inr x \<and> k x = (Inr y, m'))"
  by (cases r) auto

lemma state_bind_err_iff [ok_iff]:
  "(case r of Inl e \<Rightarrow> (Inl (g e), m) | Inr x \<Rightarrow> k x) = (Inr y, m') \<longleftrightarrow>
     (\<exists>x. r = Inr x \<and> k x = (Inr y, m'))"
  by (cases r) auto

lemma state_bind_pair_iff [ok_iff]:
  "(case p of (r, n) \<Rightarrow> (case r of Inl e \<Rightarrow> (Inl e, n) | Inr x \<Rightarrow> k x n)) = (Inr y, m') \<longleftrightarrow>
     (\<exists>x n. p = (Inr x, n) \<and> k x n = (Inr y, m'))"
  by (cases p; cases "fst p") auto

lemma state_some_iff [ok_iff]:
  "(case q of None \<Rightarrow> (Inl e, m) | Some x \<Rightarrow> k x) = (Inr y, m') \<longleftrightarrow>
     (\<exists>x. q = Some x \<and> k x = (Inr y, m'))"
  by (cases q) auto

lemma state_none_iff [ok_iff]:
  "(case q of None \<Rightarrow> k | Some x \<Rightarrow> (Inl e, m)) = (Inr y, m') \<longleftrightarrow> q = None \<and> k = (Inr y, m')"
  by (cases q) auto

lemma state_guard_iff [ok_iff]:
  "(if b then (Inl e, m) else k) = (Inr y, m') \<longleftrightarrow> \<not> b \<and> k = (Inr y, m')"
  by auto

subsection \<open>Hash maps\<close>

text \<open>
  A \<open>HashMap\<close> whose iteration order no caller observes is a partial function.
  \<open>retain\<close> keeps the entries a predicate accepts, as \<open>HashMap::retain\<close> does.
\<close>

definition retain :: "('k \<Rightarrow> 'v \<Rightarrow> bool) \<Rightarrow> ('k \<rightharpoonup> 'v) \<Rightarrow> ('k \<rightharpoonup> 'v)" where
  "retain p m = (\<lambda>k. case m k of None \<Rightarrow> None | Some v \<Rightarrow> if p k v then Some v else None)"

lemma retain_Some_iff [simp]: "retain p m k = Some v \<longleftrightarrow> m k = Some v \<and> p k v"
  by (auto simp: retain_def split: option.splits)

lemma retain_None_iff: "retain p m k = None \<longleftrightarrow> m k = None \<or> (\<exists>v. m k = Some v \<and> \<not> p k v)"
  by (auto simp: retain_def split: option.splits)

lemma retain_empty [simp]: "retain p Map.empty = Map.empty"
  by (simp add: retain_def fun_eq_iff)

lemma retain_upd_keep [simp]: "p k v \<Longrightarrow> retain p (m(k \<mapsto> v)) = (retain p m)(k \<mapsto> v)"
  by (auto simp: retain_def fun_eq_iff)

lemma retain_upd_drop: "\<not> p k v \<Longrightarrow> retain p (m(k \<mapsto> v)) = (retain p m)(k := None)"
  by (auto simp: retain_def fun_eq_iff)

text \<open>
  The order in which a \<open>HashMap\<close> hands out its entries is not specified. Where the source
  iterates over one, the order is a choice: a list of numbers, each picking the next of the entries
  that are left. The choices yield exactly the orders of the entries.
\<close>

fun iterate :: "nat list \<Rightarrow> 'a list \<Rightarrow> 'a list" where
  "iterate [] xs = xs"
| "iterate (p # ps) [] = []"
| "iterate (p # ps) (x # xs) =
     (let i = p mod Suc (length xs)
      in (x # xs) ! i # iterate ps (take i (x # xs) @ drop (Suc i) (x # xs)))"

lemma pick_apart:
  assumes "i < length xs"
  shows "set (xs ! i # take i xs @ drop (Suc i) xs) = set xs"
    and "distinct (map f (xs ! i # take i xs @ drop (Suc i) xs)) = distinct (map f xs)"
proof -
  have "xs = take i xs @ xs ! i # drop (Suc i) xs" using assms by (rule id_take_nth_drop)
  then have "set xs = set (take i xs @ xs ! i # drop (Suc i) xs)"
    and "distinct (map f xs) = distinct (map f (take i xs @ xs ! i # drop (Suc i) xs))"
    by (rule arg_cong)+
  then show "set (xs ! i # take i xs @ drop (Suc i) xs) = set xs"
    and "distinct (map f (xs ! i # take i xs @ drop (Suc i) xs)) = distinct (map f xs)"
    by auto
qed

lemma set_iterate [simp]: "set (iterate ps xs) = set xs"
proof (induction ps xs rule: iterate.induct)
  case (3 p ps x xs)
  have "p mod Suc (length xs) < length (x # xs)" by simp
  from pick_apart(1) [OF this] 3 show ?case by (simp add: Let_def)
qed simp_all

lemma distinct_map_iterate [simp]: "distinct (map f (iterate ps xs)) = distinct (map f xs)"
proof (induction ps xs rule: iterate.induct)
  case (3 p ps x xs)
  have "p mod Suc (length xs) < length (x # xs)" by simp
  note same = pick_apart(2) [OF this, of f]
  show ?case
    using 3 [OF refl] same
    by (simp only: iterate.simps Let_def list.map distinct.simps list.set_map set_iterate)
qed simp_all

lemma iterate_any_order:
  "distinct ys \<Longrightarrow> distinct xs \<Longrightarrow> set ys = set xs \<Longrightarrow> \<exists>ps. iterate ps xs = ys"
proof (induction ys arbitrary: xs)
  case Nil
  then show ?case by (intro exI [of _ "[]"]) simp
next
  case (Cons y ys)
  then obtain i where i: "i < length xs" "xs ! i = y" by (metis in_set_conv_nth list.set_intros(1))
  let ?rest = "take i xs @ drop (Suc i) xs"
  have "distinct (y # ?rest)" "set (y # ?rest) = set (y # ys)"
    using pick_apart(1) [OF i(1)] pick_apart(2) [OF i(1), of id] i(2) Cons.prems by (simp_all only: list.map_id)
  then have "distinct ?rest" "set ys = set ?rest" using Cons.prems(1) by (auto simp: insert_ident)
  then obtain ps where "iterate ps ?rest = ys" using Cons.IH Cons.prems(1) by (meson distinct.simps(2))
  with i have "iterate (i # ps) xs = y # ys" by (cases xs) (simp_all add: Let_def)
  then show ?case by blast
qed

subsection \<open>Lists\<close>

lemma find_Some_iff_ex: "(\<exists>x. find p xs = Some x) \<longleftrightarrow> (\<exists>x \<in> set xs. p x)"
  by (induction xs) auto

lemma find_SomeD: "find p xs = Some x \<Longrightarrow> x \<in> set xs \<and> p x"
  by (induction xs) (auto split: if_splits)

lemma those_Some_length: "those xs = Some ys \<Longrightarrow> length ys = length xs"
  by (induction xs arbitrary: ys) (auto split: option.splits)

lemma those_Some_iff: "those xs = Some ys \<longleftrightarrow> xs = map Some ys"
proof (induction xs arbitrary: ys)
  case Nil
  then show ?case by auto
next
  case (Cons x xs)
  then show ?case by (cases ys) (auto split: option.splits)
qed

end
