(* ===== verification/Rust_Strings.thy ===== *)
theory Rust_Strings
  imports Prelude
begin

text \<open>
  Rust's \<open>str\<close> as its UTF-8 bytes: a \<open>string\<close> is a list of byte-sized characters, so
  \<open>length\<close> is \<open>str::len\<close> and equality, order, prefixes and suffixes are the byte-wise
  ones of Rust. The operations of the standard library that look at Unicode characters
  (\<open>trim\<close>, \<open>split_whitespace\<close>) recognise the UTF-8 encodings of the characters with the
  \<open>White_Space\<close> property.
\<close>

subsection \<open>Bytes\<close>

definition byte :: "char \<Rightarrow> nat" where
  "byte c = of_char c"

definition is_ascii_digit :: "char \<Rightarrow> bool" where
  "is_ascii_digit c \<longleftrightarrow> 48 \<le> byte c \<and> byte c \<le> 57"

definition is_ascii_upper :: "char \<Rightarrow> bool" where
  "is_ascii_upper c \<longleftrightarrow> 65 \<le> byte c \<and> byte c \<le> 90"

definition is_ascii_alphanumeric :: "char \<Rightarrow> bool" where
  "is_ascii_alphanumeric c \<longleftrightarrow>
     is_ascii_digit c \<or> is_ascii_upper c \<or> (97 \<le> byte c \<and> byte c \<le> 122)"

definition is_ascii_hexdigit :: "char \<Rightarrow> bool" where
  "is_ascii_hexdigit c \<longleftrightarrow>
     is_ascii_digit c \<or> (65 \<le> byte c \<and> byte c \<le> 70) \<or> (97 \<le> byte c \<and> byte c \<le> 102)"

text \<open>\<open>char::is_ascii_whitespace\<close>: space, tab, line feed, form feed, carriage return.\<close>

definition is_ascii_whitespace :: "char \<Rightarrow> bool" where
  "is_ascii_whitespace c \<longleftrightarrow> byte c \<in> {32, 9, 10, 12, 13}"

definition is_utf8_continuation :: "char \<Rightarrow> bool" where
  "is_utf8_continuation c \<longleftrightarrow> 128 \<le> byte c \<and> byte c < 192"

definition ascii_lower :: "char \<Rightarrow> char" where
  "ascii_lower c = (if is_ascii_upper c then char_of (byte c + 32) else c)"

definition to_ascii_lowercase :: "string \<Rightarrow> string" where
  "to_ascii_lowercase s = map ascii_lower s"

text \<open>The characters of a string, each as its bytes: a byte and the continuation bytes after it.\<close>

fun utf8_chars :: "string \<Rightarrow> string list" where
  "utf8_chars [] = []"
| "utf8_chars (c # s) =
     (case utf8_chars s of
        [] \<Rightarrow> [[c]]
      | k # ks \<Rightarrow>
          if k \<noteq> [] \<and> is_utf8_continuation (hd k) then (c # k) # ks else [c] # k # ks)"

lemma concat_utf8_chars: "concat (utf8_chars s) = s"
  by (induction s) (auto split: list.splits)

lemma utf8_chars_ascii: "list_all (\<lambda>c. byte c < 128) s \<Longrightarrow> utf8_chars s = map (\<lambda>c. [c]) s"
  by (induction s) (auto simp: is_utf8_continuation_def split: list.splits)

subsection \<open>Prefixes, suffixes, searching\<close>

definition starts_with :: "string \<Rightarrow> string \<Rightarrow> bool" where
  "starts_with p s \<longleftrightarrow> take (length p) s = p"

definition ends_with :: "string \<Rightarrow> string \<Rightarrow> bool" where
  "ends_with p s \<longleftrightarrow> length p \<le> length s \<and> drop (length s - length p) s = p"

definition strip_suffix :: "string \<Rightarrow> string \<Rightarrow> string option" where
  "strip_suffix p s = (if ends_with p s then Some (take (length s - length p) s) else None)"

fun rfind :: "string \<Rightarrow> string \<Rightarrow> nat option" where
  "rfind p [] = (if p = [] then Some 0 else None)"
| "rfind p (c # s) =
     (case rfind p s of
        Some i \<Rightarrow> Some (Suc i)
      | None \<Rightarrow> if starts_with p (c # s) then Some 0 else None)"

fun join :: "string \<Rightarrow> string list \<Rightarrow> string" where
  "join sep [] = []"
| "join sep [x] = x"
| "join sep (x # y # ys) = x @ sep @ join sep (y # ys)"

lemma strip_suffix_Some_iff: "strip_suffix p s = Some r \<longleftrightarrow> s = r @ p"
proof
  assume "strip_suffix p s = Some r"
  then show "s = r @ p"
    by (auto simp: strip_suffix_def ends_with_def split: if_splits)
      (metis append_take_drop_id)
next
  assume "s = r @ p"
  then show "strip_suffix p s = Some r"
    by (simp add: strip_suffix_def ends_with_def)
qed

lemma starts_with_append [simp]: "starts_with p (p @ s)"
  by (simp add: starts_with_def)

lemma starts_with_iff: "starts_with p s \<longleftrightarrow> (\<exists>r. s = p @ r)"
  by (metis append_eq_conv_conj append_take_drop_id starts_with_def)

lemma rfind_Some_le: "rfind p s = Some i \<Longrightarrow> i \<le> length s"
  by (induction s arbitrary: i) (auto split: if_splits option.splits)

subsection \<open>White space\<close>

text \<open>
  The length in bytes of the white-space character a string starts with, 0 if there is
  none: the ASCII ones, U+0085 and U+00A0 (two bytes), U+1680, U+2000 to U+200A, U+2028,
  U+2029, U+202F, U+205F and U+3000 (three bytes).
\<close>

definition is_ws3 :: "nat \<Rightarrow> nat \<Rightarrow> nat \<Rightarrow> bool" where
  "is_ws3 a b c \<longleftrightarrow>
     (a = 225 \<and> b = 154 \<and> c = 128) \<or>
     (a = 226 \<and> b = 128 \<and> (128 \<le> c \<and> c \<le> 138 \<or> c = 168 \<or> c = 169 \<or> c = 175)) \<or>
     (a = 226 \<and> b = 129 \<and> c = 159) \<or>
     (a = 227 \<and> b = 128 \<and> c = 128)"

definition is_ws1 :: "nat \<Rightarrow> bool" where
  "is_ws1 a \<longleftrightarrow> a = 32 \<or> (9 \<le> a \<and> a \<le> 13)"

definition is_ws2 :: "nat \<Rightarrow> nat \<Rightarrow> bool" where
  "is_ws2 a b \<longleftrightarrow> a = 194 \<and> (b = 133 \<or> b = 160)"

fun ws_len :: "string \<Rightarrow> nat" where
  "ws_len [] = 0"
| "ws_len [a] = (if is_ws1 (byte a) then 1 else 0)"
| "ws_len [a, b] =
     (if is_ws1 (byte a) then 1 else if is_ws2 (byte a) (byte b) then 2 else 0)"
| "ws_len (a # b # c # s) =
     (if is_ws1 (byte a) then 1
      else if is_ws2 (byte a) (byte b) then 2
      else if is_ws3 (byte a) (byte b) (byte c) then 3 else 0)"

text \<open>The same at the end of a string, read on the reversed bytes.\<close>

fun ws_len_rev :: "string \<Rightarrow> nat" where
  "ws_len_rev [] = 0"
| "ws_len_rev [a] = (if is_ws1 (byte a) then 1 else 0)"
| "ws_len_rev [a, b] =
     (if is_ws1 (byte a) then 1 else if is_ws2 (byte b) (byte a) then 2 else 0)"
| "ws_len_rev (a # b # c # s) =
     (if is_ws1 (byte a) then 1
      else if is_ws2 (byte b) (byte a) then 2
      else if is_ws3 (byte c) (byte b) (byte a) then 3 else 0)"

lemma ws_len_le: "ws_len s \<le> length s"
  by (cases s rule: ws_len.cases) auto

lemma ws_len_rev_le: "ws_len_rev s \<le> length s"
  by (cases s rule: ws_len_rev.cases) auto

lemma ws_len_nonempty: "0 < ws_len s \<Longrightarrow> 0 < length s"
  by (cases s) auto

lemma ws_len_rev_nonempty: "0 < ws_len_rev s \<Longrightarrow> 0 < length s"
  by (cases s) auto

function trim_start :: "string \<Rightarrow> string" where
  "trim_start s = (if ws_len s = 0 then s else trim_start (drop (ws_len s) s))"
  by pat_completeness auto
termination
  by (relation "measure length") (auto dest: ws_len_nonempty intro: diff_less)

function trim_rev :: "string \<Rightarrow> string" where
  "trim_rev s = (if ws_len_rev s = 0 then s else trim_rev (drop (ws_len_rev s) s))"
  by pat_completeness auto
termination
  by (relation "measure length") (auto dest: ws_len_rev_nonempty intro: diff_less)

declare trim_start.simps [simp del] trim_rev.simps [simp del]

definition trim_end :: "string \<Rightarrow> string" where
  "trim_end s = rev (trim_rev (rev s))"

definition trim :: "string \<Rightarrow> string" where
  "trim s = trim_end (trim_start s)"

function split_ws_aux :: "string \<Rightarrow> string \<Rightarrow> string list" where
  "split_ws_aux acc [] = (if acc = [] then [] else [rev acc])"
| "split_ws_aux acc (c # s) =
     (if ws_len (c # s) = 0 then split_ws_aux (c # acc) s
      else (if acc = [] then [] else [rev acc]) @ split_ws_aux [] (drop (ws_len (c # s) - 1) s))"
  by pat_completeness auto
termination
  by (relation "measure (\<lambda>(acc, s). length s)") auto

definition split_whitespace :: "string \<Rightarrow> string list" where
  "split_whitespace s = split_ws_aux [] s"

text \<open>\<open>str::lines\<close>: a line ends at a line feed, which takes a carriage return before it along.\<close>

fun lines_aux :: "string \<Rightarrow> string \<Rightarrow> string list" where
  "lines_aux acc [] = (if acc = [] then [] else [rev acc])"
| "lines_aux acc (c # s) =
     (if byte c = 10
      then rev (case acc of [] \<Rightarrow> [] | d # t \<Rightarrow> if byte d = 13 then t else acc) # lines_aux [] s
      else lines_aux (c # acc) s)"

definition lines :: "string \<Rightarrow> string list" where
  "lines s = lines_aux [] s"

subsection \<open>Numbers in format strings\<close>

definition digit_char :: "nat \<Rightarrow> char" where
  "digit_char d = char_of (if d < 10 then 48 + d else 87 + d)"

fun show_base :: "nat \<Rightarrow> nat \<Rightarrow> string" where
  "show_base b n =
     (if b < 2 \<or> n < b then [digit_char n] else show_base b (n div b) @ [digit_char (n mod b)])"

declare show_base.simps [simp del]

definition show_nat :: "nat \<Rightarrow> string" where
  "show_nat n = show_base 10 n"

definition show_int :: "int \<Rightarrow> string" where
  "show_int i = (if i < 0 then CHR ''-'' # show_nat (nat (- i)) else show_nat (nat i))"

definition pad_left :: "nat \<Rightarrow> string \<Rightarrow> string" where
  "pad_left w s = replicate (w - length s) (CHR ''0'') @ s"

text \<open>Decimal numbers are read back by evaluating their digits, leading zeros included.\<close>

definition dec_value :: "string \<Rightarrow> nat" where
  "dec_value s = foldl (\<lambda>a c. a * 10 + (byte c - 48)) 0 s"

lemma byte_digit_char: "d < 10 \<Longrightarrow> byte (digit_char d) = 48 + d"
  by (simp add: byte_def digit_char_def)

lemma dec_value_show: "dec_value (show_base 10 n) = n"
proof (induction n rule: less_induct)
  case (less n)
  show ?case
  proof (cases "n < 10")
    case True
    then show ?thesis by (simp add: show_base.simps [of 10 n] dec_value_def byte_digit_char)
  next
    case False
    then have "dec_value (show_base 10 (n div 10)) = n div 10" by (intro less.IH) simp
    then show ?thesis
      using False by (simp add: show_base.simps [of 10 n] dec_value_def byte_digit_char)
  qed
qed

lemma dec_value_pad: "dec_value (pad_left w s) = dec_value s"
proof -
  have "foldl (\<lambda>a c. a * 10 + (byte c - 48)) 0 (replicate k CHR ''0'' @ s) =
        foldl (\<lambda>a c. a * 10 + (byte c - 48)) 0 s" for k
    by (induction k) (simp_all add: byte_def)
  then show ?thesis by (simp add: dec_value_def pad_left_def)
qed

lemma pad_show_inj: "pad_left w (show_nat m) = pad_left w (show_nat n) \<longleftrightarrow> m = n"
  by (metis dec_value_pad dec_value_show show_nat_def)

lemma trim_empty [simp]: "trim [] = []"
  by (simp add: trim_def trim_end_def trim_start.simps trim_rev.simps)

lemma length_trim_start: "length (trim_start s) \<le> length s"
proof (induction s rule: trim_start.induct)
  case (1 s)
  show ?case
  proof (cases "ws_len s = 0")
    case True
    then show ?thesis by (simp add: trim_start.simps [of s])
  next
    case False
    with 1 have "length (trim_start (drop (ws_len s) s)) \<le> length s" by fastforce
    with False show ?thesis by (simp add: trim_start.simps [of s])
  qed
qed

lemma length_trim_rev: "length (trim_rev s) \<le> length s"
proof (induction s rule: trim_rev.induct)
  case (1 s)
  show ?case
  proof (cases "ws_len_rev s = 0")
    case True
    then show ?thesis by (simp add: trim_rev.simps [of s])
  next
    case False
    with 1 have "length (trim_rev (drop (ws_len_rev s) s)) \<le> length s" by fastforce
    with False show ?thesis by (simp add: trim_rev.simps [of s])
  qed
qed

lemma length_trim: "length (trim s) \<le> length s"
  using length_trim_rev [of "rev (trim_start s)"] length_trim_start [of s]
  by (simp add: trim_def trim_end_def)

lemma trim_nonempty_imp: "trim s \<noteq> [] \<Longrightarrow> s \<noteq> []"
  by auto

lemma ws_len_rev_last:
  assumes "byte c < 128" and "\<not> is_ws1 (byte c)"
  shows "ws_len_rev (xs @ [c]) \<le> length xs"
  using assms
  by (cases xs rule: ws_len_rev.cases) (auto simp: is_ws2_def is_ws3_def Suc_le_eq split: list.splits)

lemma trim_rev_last:
  assumes "byte c < 128" and "\<not> is_ws1 (byte c)"
  shows "trim_rev (xs @ [c]) \<noteq> []"
proof (induction "length xs" arbitrary: xs rule: less_induct)
  case less
  let ?n = "ws_len_rev (xs @ [c])"
  show ?case
  proof (cases "?n = 0")
    case True
    then show ?thesis by (simp add: trim_rev.simps [of "xs @ [c]"])
  next
    case False
    have le: "?n \<le> length xs" by (rule ws_len_rev_last [OF assms])
    then have "drop ?n (xs @ [c]) = drop ?n xs @ [c]" by simp
    moreover have "trim_rev (drop ?n xs @ [c]) \<noteq> []"
      using False le by (intro less) simp
    ultimately show ?thesis using False by (simp add: trim_rev.simps [of "xs @ [c]"])
  qed
qed

lemma trim_head:
  assumes "byte c < 128" and "\<not> is_ws1 (byte c)"
  shows "trim (c # s) \<noteq> []"
proof -
  have "ws_len (c # s) = 0"
    using assms by (cases "c # s" rule: ws_len.cases) (auto simp: is_ws2_def is_ws3_def)
  then have "trim_start (c # s) = c # s" by (simp add: trim_start.simps)
  then show ?thesis
    using trim_rev_last [OF assms, of "rev s"] by (simp add: trim_def trim_end_def)
qed

lemma trim_prefix [simp]:
  "trim (CHR ''i'' # s) \<noteq> []" "trim (CHR ''a'' # s) \<noteq> []" "trim (CHR ''h'' # s) \<noteq> []"
  "trim (CHR ''c'' # s) \<noteq> []"
  by (rule trim_head; simp add: byte_def is_ws1_def)+

end
