(* ===== verification/App_Error.thy ===== *)
theory App_Error
  imports Rust_Strings
begin

text \<open>
  \<open>error.rs\<close>: the one error shape of every failure path, its constructors and its
  \<open>Display\<close> text.
\<close>

record app_error =
  error_code :: string
  message :: string
  err_module :: string
  recoverable :: bool
  cause :: "string option"
  suggestion :: "string option"
  trace_id :: "string option"

definition new_error :: "string \<Rightarrow> string \<Rightarrow> string \<Rightarrow> bool \<Rightarrow> app_error" where
  "new_error code msg md rec =
     \<lparr>error_code = code, message = msg, err_module = md, recoverable = rec,
      cause = None, suggestion = None, trace_id = None\<rparr>"

definition with_cause :: "string \<Rightarrow> app_error \<Rightarrow> app_error" where
  "with_cause c e = e\<lparr>cause := Some c\<rparr>"

definition with_suggestion :: "string \<Rightarrow> app_error \<Rightarrow> app_error" where
  "with_suggestion s e = e\<lparr>suggestion := Some s\<rparr>"

definition with_trace_id :: "string \<Rightarrow> app_error \<Rightarrow> app_error" where
  "with_trace_id t e = e\<lparr>trace_id := Some t\<rparr>"

definition display_error :: "app_error \<Rightarrow> string" where
  "display_error e =
     err_module e @ '' ['' @ error_code e @ '']: '' @ message e
     @ (case cause e of None \<Rightarrow> [] | Some c \<Rightarrow> '' Cause: '' @ c)
     @ (case suggestion e of None \<Rightarrow> [] | Some s \<Rightarrow> '' Suggestion: '' @ s)"

lemma new_error_sel [simp]:
  "error_code (new_error c m md r) = c"
  "message (new_error c m md r) = m"
  "err_module (new_error c m md r) = md"
  "recoverable (new_error c m md r) = r"
  "cause (new_error c m md r) = None"
  "suggestion (new_error c m md r) = None"
  by (simp_all add: new_error_def)

lemma with_cause_sel [simp]:
  "error_code (with_cause t e) = error_code e"
  "message (with_cause t e) = message e"
  "err_module (with_cause t e) = err_module e"
  "recoverable (with_cause t e) = recoverable e"
  "cause (with_cause t e) = Some t"
  "suggestion (with_cause t e) = suggestion e"
  by (simp_all add: with_cause_def)

lemma with_suggestion_sel [simp]:
  "error_code (with_suggestion t e) = error_code e"
  "message (with_suggestion t e) = message e"
  "err_module (with_suggestion t e) = err_module e"
  "recoverable (with_suggestion t e) = recoverable e"
  "cause (with_suggestion t e) = cause e"
  "suggestion (with_suggestion t e) = Some t"
  by (simp_all add: with_suggestion_def)

end
