(* ===== verification/Json.thy ===== *)
theory Json
  imports App_Error
begin

text \<open>
  \<open>serde_json::Value\<close> as the source uses it: the tree itself, the accessors
  (\<open>get\<close>, \<open>as_str\<close>, \<open>as_array\<close>, \<open>as_bool\<close>), the index assignment, and the decoding that
  \<open>from_value\<close> does for the structs the source derives \<open>Deserialize\<close> for. A struct is
  decoded from an object by field name (unknown fields are ignored) or from an array by
  position, with at most as many elements as the struct has fields. The text of a decoding
  error is the library's own and a parameter, \<open>serde_msg\<close>, of the operations that report it.
  A number is an integer or the bits of a double.
\<close>

datatype json =
    JNull
  | JBool bool
  | JInt int
  | JFloat "64 word"
  | JStr string
  | JArr "json list"
  | JObj "(string \<times> json) list"

type_synonym serde_text = "string \<Rightarrow> json \<Rightarrow> string"

definition strings_json :: "string list \<Rightarrow> json" where
  "strings_json xs = JArr (map JStr xs)"

text \<open>The serialised form of an error; absent optional fields are skipped.\<close>

definition app_error_json :: "app_error \<Rightarrow> json" where
  "app_error_json e =
     JObj ([(''errorCode'', JStr (error_code e)), (''message'', JStr (message e)),
            (''module'', JStr (err_module e)), (''recoverable'', JBool (recoverable e))]
        @ (case cause e of None \<Rightarrow> [] | Some c \<Rightarrow> [(''cause'', JStr c)])
        @ (case suggestion e of None \<Rightarrow> [] | Some s \<Rightarrow> [(''suggestion'', JStr s)])
        @ (case trace_id e of None \<Rightarrow> [] | Some t \<Rightarrow> [(''traceId'', JStr t)]))"

subsection \<open>Accessors\<close>

fun json_get :: "string \<Rightarrow> json \<Rightarrow> json option" where
  "json_get k (JObj m) = map_of m k"
| "json_get k _ = None"

fun as_str :: "json \<Rightarrow> string option" where
  "as_str (JStr s) = Some s"
| "as_str _ = None"

fun as_bool :: "json \<Rightarrow> bool option" where
  "as_bool (JBool b) = Some b"
| "as_bool _ = None"

fun as_array :: "json \<Rightarrow> json list option" where
  "as_array (JArr xs) = Some xs"
| "as_array _ = None"

fun is_object :: "json \<Rightarrow> bool" where
  "is_object (JObj m) = True"
| "is_object _ = False"

definition get_str :: "string \<Rightarrow> json \<Rightarrow> string option" where
  "get_str k v = Option.bind (json_get k v) as_str"

text \<open>
  Assignment through \<open>IndexMut\<close>, \<open>v[k] = x\<close>: on an object the field is replaced or added.
  On other values Rust turns \<open>null\<close> into an object and panics for the rest; the source only
  assigns to objects, which the theorems about its callers show, and the model leaves any
  other value alone.
\<close>

fun assoc_put :: "string \<Rightarrow> 'v \<Rightarrow> (string \<times> 'v) list \<Rightarrow> (string \<times> 'v) list" where
  "assoc_put k x [] = [(k, x)]"
| "assoc_put k x ((a, b) # m) = (if a = k then (a, x) # m else (a, b) # assoc_put k x m)"

fun json_put :: "string \<Rightarrow> json \<Rightarrow> json \<Rightarrow> json" where
  "json_put k x (JObj m) = JObj (assoc_put k x m)"
| "json_put k x JNull = JObj [(k, x)]"
| "json_put k x v = v"

lemma map_of_assoc_put [simp]: "map_of (assoc_put k x m) j = (if j = k then Some x else map_of m j)"
  by (induction k x m rule: assoc_put.induct) auto

lemma json_get_put [simp]:
  "is_object v \<Longrightarrow> json_get j (json_put k x v) = (if j = k then Some x else json_get j v)"
  by (cases v) auto

lemma is_object_put [simp]: "is_object v \<Longrightarrow> is_object (json_put k x v)"
  by (cases v) auto

lemma get_str_put [simp]:
  "is_object v \<Longrightarrow> get_str j (json_put k x v) = (if j = k then as_str x else get_str j v)"
  by (simp add: get_str_def)

lemma json_get_Some_object: "json_get k v = Some x \<Longrightarrow> is_object v"
  by (cases v) auto

lemma get_str_Some_object: "get_str k v = Some s \<Longrightarrow> is_object v"
  by (auto simp: get_str_def bind_eq_Some_conv intro: json_get_Some_object)

lemma as_str_Some_iff [simp]: "as_str v = Some s \<longleftrightarrow> v = JStr s"
  by (cases v) auto

lemma as_array_Some_iff [simp]: "as_array v = Some xs \<longleftrightarrow> v = JArr xs"
  by (cases v) auto

lemma get_str_Some_iff: "get_str k v = Some s \<longleftrightarrow> json_get k v = Some (JStr s)"
  by (auto simp: get_str_def bind_eq_Some_conv)

lemma is_object_iff: "is_object v \<longleftrightarrow> (\<exists>m. v = JObj m)"
  by (cases v) auto

subsection \<open>Decoding\<close>

abbreviation "de_string \<equiv> as_str"
abbreviation "de_bool \<equiv> as_bool"

fun de_uint :: "nat \<Rightarrow> json \<Rightarrow> nat option" where
  "de_uint w (JInt i) = (if 0 \<le> i \<and> i < 2 ^ w then Some (nat i) else None)"
| "de_uint w _ = None"

fun de_vec :: "(json \<Rightarrow> 'a option) \<Rightarrow> json \<Rightarrow> 'a list option" where
  "de_vec d (JArr xs) = those (map d xs)"
| "de_vec d _ = None"

fun de_option :: "(json \<Rightarrow> 'a option) \<Rightarrow> json \<Rightarrow> 'a option option" where
  "de_option d JNull = Some None"
| "de_option d v = map_option Some (d v)"

text \<open>The name of a variant without fields: a string, or an object with this one key and no value.\<close>

fun de_variant :: "json \<Rightarrow> string option" where
  "de_variant (JStr s) = Some s"
| "de_variant (JObj [(s, JNull)]) = Some s"
| "de_variant _ = None"

text \<open>The value a struct's decoder finds for the field at a position with a name.\<close>

fun struct_field :: "nat \<Rightarrow> string \<Rightarrow> json \<Rightarrow> json option" where
  "struct_field i k (JObj m) = map_of m k"
| "struct_field i k (JArr xs) = (if i < length xs then Some (xs ! i) else None)"
| "struct_field i k _ = None"

fun struct_shape :: "nat \<Rightarrow> json \<Rightarrow> bool" where
  "struct_shape n (JObj m) = True"
| "struct_shape n (JArr xs) = (length xs \<le> n)"
| "struct_shape n _ = False"

definition required :: "(json \<Rightarrow> 'a option) \<Rightarrow> json option \<Rightarrow> 'a option" where
  "required d f = Option.bind f d"

definition defaulted :: "'a \<Rightarrow> (json \<Rightarrow> 'a option) \<Rightarrow> json option \<Rightarrow> 'a option" where
  "defaulted x d f = (case f of None \<Rightarrow> Some x | Some v \<Rightarrow> d v)"

definition decode_struct :: "nat \<Rightarrow> (json \<Rightarrow> 'a option) \<Rightarrow> json \<Rightarrow> 'a option" where
  "decode_struct n d v = (if struct_shape n v then d v else None)"

lemma required_Some_iff [ok_iff]: "required d f = Some x \<longleftrightarrow> (\<exists>v. f = Some v \<and> d v = Some x)"
  by (auto simp: required_def bind_eq_Some_conv)

lemma defaulted_Some_iff [ok_iff]:
  "defaulted x d f = Some y \<longleftrightarrow> (f = None \<and> y = x) \<or> (\<exists>v. f = Some v \<and> d v = Some y)"
  by (cases f) (auto simp: defaulted_def)

lemma decode_struct_Some_iff [ok_iff]:
  "decode_struct n d v = Some x \<longleftrightarrow> struct_shape n v \<and> d v = Some x"
  by (auto simp: decode_struct_def)

text \<open>\<open>from_value\<close> with the caller's error around the library's message.\<close>

definition from_value :: "(json \<Rightarrow> string) \<Rightarrow> (json \<Rightarrow> 'a option) \<Rightarrow> app_error \<Rightarrow> json \<Rightarrow> app_error + 'a" where
  "from_value serde_msg d e v =
     (case d v of None \<Rightarrow> Inl (with_cause (serde_msg v) e) | Some x \<Rightarrow> Inr x)"

lemma from_value_Inr_iff [ok_iff]: "from_value sm d e v = Inr x \<longleftrightarrow> d v = Some x"
  by (auto simp: from_value_def split: option.splits)

lemma from_value_Inl_iff: "from_value sm d e v = Inl err \<longleftrightarrow> d v = None \<and> err = with_cause (sm v) e"
  by (auto simp: from_value_def split: option.splits)

definition both :: "'a option \<Rightarrow> 'b option \<Rightarrow> ('a \<times> 'b) option" where
  "both x y = (case x of None \<Rightarrow> None | Some a \<Rightarrow> map_option (\<lambda>b. (a, b)) y)"

lemma both_Some_iff [ok_iff]: "both x y = Some (a, b) \<longleftrightarrow> x = Some a \<and> y = Some b"
  by (auto simp: both_def split: option.splits)

end
