(* ===== verification/Ordered_Map.thy ===== *)
theory Ordered_Map
  imports Prelude
begin

text \<open>
  \<open>BTreeMap\<close> and \<open>BTreeSet\<close> of the standard library as strictly sorted lists: the code
  iterates over them in key order, so the order is part of the model. The locale
  \<open>ordered_map\<close> is the interface the account database and the device directory use; it
  is interpreted on the list operations at the end of the theory.
\<close>

type_synonym ('k, 'v) btree_map = "('k \<times> 'v) list"
type_synonym 'k btree_set = "'k list"

definition keys :: "('k, 'v) btree_map \<Rightarrow> 'k list" where
  "keys m = map fst m"

definition bt_ok :: "('k::linorder, 'v) btree_map \<Rightarrow> bool" where
  "bt_ok m \<longleftrightarrow> sorted_wrt (<) (keys m)"

definition bt_get :: "'k \<Rightarrow> ('k, 'v) btree_map \<Rightarrow> 'v option" where
  "bt_get k m = map_of m k"

fun bt_insert :: "'k::linorder \<Rightarrow> 'v \<Rightarrow> ('k, 'v) btree_map \<Rightarrow> ('k, 'v) btree_map" where
  "bt_insert k v [] = [(k, v)]"
| "bt_insert k v ((a, b) # m) =
     (if k = a then (k, v) # m
      else if k < a then (k, v) # (a, b) # m
      else (a, b) # bt_insert k v m)"

definition bt_remove :: "'k \<Rightarrow> ('k, 'v) btree_map \<Rightarrow> ('k, 'v) btree_map" where
  "bt_remove k m = filter (\<lambda>(a, b). a \<noteq> k) m"

fun bs_insert :: "'k::linorder \<Rightarrow> 'k btree_set \<Rightarrow> 'k btree_set" where
  "bs_insert k [] = [k]"
| "bs_insert k (a # s) =
     (if k = a then a # s else if k < a then k # a # s else a # bs_insert k s)"

definition bs_remove :: "'k \<Rightarrow> 'k btree_set \<Rightarrow> 'k btree_set" where
  "bs_remove k s = filter (\<lambda>a. a \<noteq> k) s"

subsection \<open>The interface\<close>

locale ordered_map =
  fixes get :: "'k::linorder \<Rightarrow> 'm \<Rightarrow> 'v option"
    and put :: "'k \<Rightarrow> 'v \<Rightarrow> 'm \<Rightarrow> 'm"
    and del :: "'k \<Rightarrow> 'm \<Rightarrow> 'm"
    and entries :: "'m \<Rightarrow> ('k \<times> 'v) list"
    and wf :: "'m \<Rightarrow> bool"
  assumes get_put: "get j (put k v m) = (if j = k then Some v else get j m)"
    and get_del: "get j (del k m) = (if j = k then None else get j m)"
    and wf_put: "wf m \<Longrightarrow> wf (put k v m)"
    and wf_del: "wf m \<Longrightarrow> wf (del k m)"
    and entries_get: "wf m \<Longrightarrow> (k, v) \<in> set (entries m) \<longleftrightarrow> get k m = Some v"
    and entries_order: "wf m \<Longrightarrow> sorted_wrt (<) (map fst (entries m))"
begin

lemma get_put_same: "get k (put k v m) = Some v"
  by (simp add: get_put)

lemma get_put_other: "j \<noteq> k \<Longrightarrow> get j (put k v m) = get j m"
  by (simp add: get_put)

lemma get_del_same: "get k (del k m) = None"
  by (simp add: get_del)

lemma get_del_other: "j \<noteq> k \<Longrightarrow> get j (del k m) = get j m"
  by (simp add: get_del)

lemma values_get: "wf m \<Longrightarrow> v \<in> snd ` set (entries m) \<longleftrightarrow> (\<exists>k. get k m = Some v)"
proof -
  have "v \<in> snd ` set (entries m) \<longleftrightarrow> (\<exists>k. (k, v) \<in> set (entries m))" by force
  then show "wf m \<Longrightarrow> v \<in> snd ` set (entries m) \<longleftrightarrow> (\<exists>k. get k m = Some v)"
    by (simp add: entries_get)
qed

text \<open>A property of all stored values survives an insertion of a value that has it.\<close>

lemma all_put:
  assumes "\<And>k v. get k m = Some v \<Longrightarrow> P k v" and "P k v"
  shows "get j (put k v m) = Some w \<Longrightarrow> P j w"
  using assms by (auto simp: get_put split: if_splits)

lemma all_del:
  assumes "\<And>k v. get k m = Some v \<Longrightarrow> P k v"
  shows "get j (del k m) = Some w \<Longrightarrow> P j w"
  using assms by (auto simp: get_del split: if_splits)

lemma entries_distinct: "wf m \<Longrightarrow> distinct (map fst (entries m))"
  using entries_order strict_sorted_iff by blast

end

subsection \<open>The provider\<close>

lemma keys_bt_insert: "set (keys (bt_insert k v m)) = insert k (set (keys m))"
  by (induction k v m rule: bt_insert.induct) (auto simp: keys_def)

lemma bt_get_insert [simp]: "bt_get j (bt_insert k v m) = (if j = k then Some v else bt_get j m)"
  by (induction k v m rule: bt_insert.induct) (auto simp: bt_get_def)

lemma bt_get_remove [simp]: "bt_get j (bt_remove k m) = (if j = k then None else bt_get j m)"
  by (induction m) (auto simp: bt_get_def bt_remove_def)

lemma bt_ok_insert: "bt_ok m \<Longrightarrow> bt_ok (bt_insert k v m)"
proof (induction k v m rule: bt_insert.induct)
  case (1 k v)
  then show ?case by (simp add: bt_ok_def keys_def)
next
  case (2 k v a b m)
  have ok: "bt_ok m" and lt: "\<forall>x \<in> set (keys m). a < x"
    using "2.prems" by (auto simp: bt_ok_def keys_def)
  show ?case
  proof (cases "k = a \<or> k < a")
    case True
    then show ?thesis using "2.prems" by (auto simp: bt_ok_def keys_def)
  next
    case False
    with "2.IH" ok have IH: "bt_ok (bt_insert k v m)" by auto
    from False have "a < k" by auto
    with lt have "\<forall>x \<in> set (keys (bt_insert k v m)). a < x" by (auto simp: keys_bt_insert)
    with False IH show ?thesis by (auto simp: bt_ok_def keys_def)
  qed
qed

lemma bt_ok_remove: "bt_ok m \<Longrightarrow> bt_ok (bt_remove k m)"
proof -
  have "map fst (filter (\<lambda>(a, b). a \<noteq> k) m) = filter (\<lambda>a. a \<noteq> k) (map fst m)"
    by (induction m) auto
  then show "bt_ok m \<Longrightarrow> bt_ok (bt_remove k m)"
    by (simp add: bt_ok_def keys_def bt_remove_def sorted_wrt_filter)
qed

lemma bt_ok_distinct: "bt_ok m \<Longrightarrow> distinct (map fst m)"
  using strict_sorted_iff by (auto simp: bt_ok_def keys_def)

text \<open>A map has one representation: the sorted list of its entries.\<close>

lemma bt_eqI:
  assumes "bt_ok m" and "bt_ok m'" and "\<And>k. bt_get k m = bt_get k m'"
  shows "m = m'"
proof (rule map_sorted_distinct_set_unique [of fst])
  have d: "distinct (map fst m)" "distinct (map fst m')" using assms(1,2) by (simp_all add: bt_ok_distinct)
  then show "set m = set m'"
    using assms(3) map_of_inject_set [OF d] by (simp add: bt_get_def fun_eq_iff)
  show "inj_on fst (set m \<union> set m')"
    using d \<open>set m = set m'\<close> by (simp add: distinct_map)
qed (use assms(1,2) bt_ok_distinct in \<open>auto simp: bt_ok_def keys_def strict_sorted_iff\<close>)

interpretation btree: ordered_map bt_get bt_insert bt_remove "\<lambda>m. m" bt_ok
proof (unfold_locales, goal_cases)
  case (5 m k v)
  then show ?case by (simp add: bt_get_def bt_ok_distinct)
qed (auto simp: bt_ok_insert bt_ok_remove, auto simp: bt_ok_def keys_def)

subsection \<open>Sets\<close>

lemma set_bs_insert [simp]: "set (bs_insert k s) = insert k (set s)"
  by (induction k s rule: bs_insert.induct) auto

lemma set_bs_remove [simp]: "set (bs_remove k s) = set s - {k}"
  by (auto simp: bs_remove_def)

lemma sorted_bs_insert: "sorted_wrt (<) s \<Longrightarrow> sorted_wrt (<) (bs_insert k s)"
  by (induction k s rule: bs_insert.induct) auto

lemma sorted_bs_remove: "sorted_wrt (<) s \<Longrightarrow> sorted_wrt (<) (bs_remove k s)"
  by (simp add: bs_remove_def sorted_wrt_filter)

end
