(* ===== verification/Transition.thy ===== *)
theory Transition
  imports Prelude
begin

text \<open>
  State machines: the states reachable from a set of start states by a step relation, and
  the contract under which a predicate holds in all of them. Every stateful component of
  the development interprets the locale on its own start states and steps.
\<close>

inductive reachable :: "('s \<Rightarrow> bool) \<Rightarrow> ('s \<Rightarrow> 's \<Rightarrow> bool) \<Rightarrow> 's \<Rightarrow> bool"
  for start :: "'s \<Rightarrow> bool" and step :: "'s \<Rightarrow> 's \<Rightarrow> bool" where
  reachable_start: "start s \<Longrightarrow> reachable start step s"
| reachable_step: "reachable start step s \<Longrightarrow> step s t \<Longrightarrow> reachable start step t"

locale invariant_machine =
  fixes start :: "'s \<Rightarrow> bool"
    and step :: "'s \<Rightarrow> 's \<Rightarrow> bool"
    and inv :: "'s \<Rightarrow> bool"
  assumes start_inv: "start s \<Longrightarrow> inv s"
    and step_inv: "inv s \<Longrightarrow> step s t \<Longrightarrow> inv t"
begin

lemma reach_inv: "reachable start step s \<Longrightarrow> inv s"
  by (induction rule: reachable.induct) (auto intro: start_inv step_inv)

text \<open>Induction over runs that may use the invariant of the state before each step.\<close>

lemma reach_induct:
  assumes "reachable start step s"
    and "\<And>s. start s \<Longrightarrow> P s"
    and "\<And>s t. inv s \<Longrightarrow> P s \<Longrightarrow> step s t \<Longrightarrow> P t"
  shows "P s"
  using assms(1)
  by (induction rule: reachable.induct) (auto intro: assms(2,3) reach_inv)

end

text \<open>
  A machine that implements another: each of its steps is a step of the abstract machine on the
  abstracted states, or leaves the abstracted state as it is.
\<close>

locale simulation = invariant_machine start step inv
  for start :: "'s \<Rightarrow> bool" and step :: "'s \<Rightarrow> 's \<Rightarrow> bool" and inv :: "'s \<Rightarrow> bool" +
  fixes astart :: "'a \<Rightarrow> bool"
    and astep :: "'a \<Rightarrow> 'a \<Rightarrow> bool"
    and abs :: "'s \<Rightarrow> 'a"
  assumes start_abs: "start s \<Longrightarrow> astart (abs s)"
    and step_abs: "inv s \<Longrightarrow> step s t \<Longrightarrow> abs t = abs s \<or> astep (abs s) (abs t)"
begin

lemma reach_abs: "reachable start step s \<Longrightarrow> reachable astart astep (abs s)"
proof (induction rule: reachable.induct)
  case (reachable_start s)
  then show ?case by (intro reachable.reachable_start start_abs)
next
  case (reachable_step s t)
  from step_abs [OF reach_inv [OF reachable_step.hyps(1)] reachable_step.hyps(2)]
  show ?case
    using reachable_step.IH by (auto intro: reachable.reachable_step)
qed

text \<open>An invariant of the abstract machine holds of every abstracted state.\<close>

lemma reach_abs_inv:
  assumes "invariant_machine astart astep P" and "reachable start step s"
  shows "P (abs s)"
  by (rule invariant_machine.reach_inv [OF assms(1) reach_abs [OF assms(2)]])

end

end
