(* ===== verification/Remote_Auth.thy ===== *)
theory Remote_Auth
  imports App_Error Ordered_Map Transition
begin

text \<open>
  \<open>remote/auth.rs\<close>: the account database, its sessions and its file. \<open>manager\<close> is
  \<open>RemoteAccountManager\<close> with the file it owns: the mutex-protected \<open>State\<close> (database and
  sessions), the session time-to-live, the state of the file on disk, and whether the mutex
  is poisoned. What the operations read from outside (clock, random bytes, the file
  system's answer) is an argument, \<open>auth_env\<close>; the argon2 library is the parameter \<open>argon\<close>.
\<close>

subsection \<open>Data\<close>

datatype remote_role = Admin | User

record remote_account =
  ra_username :: string
  ra_role :: remote_role
  ra_devices :: "string list"
  ra_built_in :: bool
  ra_password_change_required :: bool

record authenticated_session =
  as_token :: string
  as_username :: string
  as_role :: remote_role
  as_devices :: "string btree_set"
  as_password_change_required :: bool

record stored_account =
  sa_username :: string
  sa_password_hash :: string
  sa_role :: remote_role
  sa_devices :: "string btree_set"
  sa_built_in :: bool
  sa_password_change_required :: bool

record account_database =
  db_version :: nat
  db_users :: "(string, stored_account) btree_map"

record session_record =
  sr_username :: string
  sr_expires_at :: nat

text \<open>What \<open>fs::read\<close> and \<open>serde_json::from_slice\<close> make of the database file.\<close>

datatype account_file =
    No_file
  | Unreadable string
  | Unparsable string
  | Parsed account_database

record manager =
  mg_session_ttl :: nat
  mg_database :: account_database
  mg_sessions :: "string \<rightharpoonup> session_record"
  mg_file :: account_file
  mg_poisoned :: bool

text \<open>
  The file system's answer to a write: a failure after the truncating open leaves some
  other content behind.
\<close>

datatype disk_reply =
    Disk_ok
  | Dir_failed string
  | Serialize_failed string
  | Open_failed string
  | Write_failed string account_file

record auth_env =
  env_now :: nat
  env_token :: string
  env_salt :: string
  env_disk :: disk_reply

record argon =
  salt_encode :: "string \<Rightarrow> string + string"
  argon_hash :: "string \<Rightarrow> string \<Rightarrow> string + string"
  phc_parse :: "string \<Rightarrow> string + string"
  argon_verify :: "string \<Rightarrow> string \<Rightarrow> bool"

definition default_admin_username :: string where
  "default_admin_username = ''admin''"

definition default_admin_password :: string where
  "default_admin_password = ''admin''"

definition database_version :: nat where
  "database_version = 1"

definition default_session_ttl :: nat where
  "default_session_ttl = 8 * 60 * 60"

subsection \<open>Errors\<close>

definition invalid_credentials :: app_error where
  "invalid_credentials =
     new_error ''REMOTE_AUTH_CREDENTIALS_INVALID'' ''Username or password is incorrect.''
       ''remote.auth'' False"

definition user_not_found :: "string \<Rightarrow> app_error" where
  "user_not_found username =
     new_error ''REMOTE_AUTH_USER_NOT_FOUND''
       (''Remote account '' @ username @ '' does not exist.'') ''remote.auth'' False"

definition storage_error :: "string \<Rightarrow> string \<Rightarrow> app_error" where
  "storage_error code c =
     with_cause c
       (new_error code ''Failed to access the remote account database.'' ''remote.auth'' True)"

definition session_missing :: app_error where
  "session_missing =
     new_error ''REMOTE_AUTH_SESSION_INVALID''
       ''Remote session is missing, expired, or revoked.'' ''remote.auth'' True"

definition session_orphaned :: app_error where
  "session_orphaned =
     new_error ''REMOTE_AUTH_SESSION_INVALID''
       ''Remote session account no longer exists.'' ''remote.auth'' True"

definition user_exists :: app_error where
  "user_exists =
     new_error ''REMOTE_AUTH_USER_EXISTS''
       ''A remote account with this username already exists.'' ''remote.auth'' False"

definition builtin_immutable :: app_error where
  "builtin_immutable =
     new_error ''REMOTE_AUTH_BUILTIN_USER_IMMUTABLE''
       ''The built-in administrator account cannot be deleted or renamed.'' ''remote.auth'' False"

definition database_invalid :: app_error where
  "database_invalid =
     new_error ''REMOTE_AUTH_DATABASE_INVALID''
       ''Remote account database is unsupported or missing the built-in administrator.''
       ''remote.auth'' False"

subsection \<open>Validation, hashing, views\<close>

definition username_byte :: "char \<Rightarrow> bool" where
  "username_byte c \<longleftrightarrow> is_ascii_alphanumeric c \<or> c \<in> {CHR ''.'', CHR ''_'', CHR ''-''}"

definition validate_username :: "string \<Rightarrow> app_error + unit" where
  "validate_username username =
     (if 3 \<le> length username \<and> length username \<le> 64 \<and> list_all username_byte username
      then Inr ()
      else Inl (new_error ''REMOTE_AUTH_USERNAME_INVALID''
        ''Username must be 3-64 ASCII letters, digits, dots, underscores, or hyphens.''
        ''remote.auth'' False))"

definition validate_new_password :: "string \<Rightarrow> app_error + unit" where
  "validate_new_password password =
     (if 8 \<le> length password \<and> length password \<le> 1024
      then Inr ()
      else Inl (new_error ''REMOTE_AUTH_PASSWORD_INVALID''
        ''New passwords must contain 8-1024 bytes.'' ''remote.auth'' False))"

definition hash_password :: "argon \<Rightarrow> auth_env \<Rightarrow> string \<Rightarrow> app_error + string" where
  "hash_password A env password =
     on_ok (map_err (\<lambda>c. with_cause c (new_error ''REMOTE_AUTH_PASSWORD_HASH_FAILED''
              ''Failed to generate a password salt.'' ''remote.auth'' False))
            (salt_encode A (env_salt env)))
       (\<lambda>salt. map_err (\<lambda>c. with_cause c (new_error ''REMOTE_AUTH_PASSWORD_HASH_FAILED''
              ''Failed to hash the remote account password.'' ''remote.auth'' False))
            (argon_hash A password salt))"

definition verify_password :: "argon \<Rightarrow> string \<Rightarrow> string \<Rightarrow> app_error + unit" where
  "verify_password A password encoded_hash =
     on_ok (map_err (\<lambda>c. with_cause c (new_error ''REMOTE_AUTH_DATABASE_INVALID''
              ''Stored remote password hash is invalid.'' ''remote.auth'' False))
            (phc_parse A encoded_hash))
       (\<lambda>parsed. if argon_verify A password parsed then Inr () else Inl invalid_credentials)"

definition public_account :: "stored_account \<Rightarrow> remote_account" where
  "public_account u =
     \<lparr>ra_username = sa_username u, ra_role = sa_role u, ra_devices = sa_devices u,
      ra_built_in = sa_built_in u,
      ra_password_change_required = sa_password_change_required u\<rparr>"

definition session_from_user :: "string \<Rightarrow> stored_account \<Rightarrow> authenticated_session" where
  "session_from_user token u =
     \<lparr>as_token = token, as_username = sa_username u, as_role = sa_role u,
      as_devices = sa_devices u,
      as_password_change_required = sa_password_change_required u\<rparr>"

text \<open>
  \<open>database.users[DEFAULT_ADMIN_USERNAME]\<close> is only evaluated after \<open>contains_key\<close>
  succeeded; the short-circuit is the case distinction.
\<close>

definition validate_database :: "account_database \<Rightarrow> app_error + unit" where
  "validate_database db =
     (if db_version db \<noteq> database_version then Inl database_invalid
      else (case bt_get default_admin_username (db_users db) of
              None \<Rightarrow> Inl database_invalid
            | Some u \<Rightarrow>
                if sa_role u \<noteq> Admin \<or> \<not> sa_built_in u then Inl database_invalid
                else Inr ()))"

subsection \<open>Persistence\<close>

definition persist_database ::
    "disk_reply \<Rightarrow> account_database \<Rightarrow> account_file \<Rightarrow> (app_error + unit) \<times> account_file" where
  "persist_database reply db file =
     (case reply of
        Disk_ok \<Rightarrow> (Inr (), Parsed db)
      | Dir_failed c \<Rightarrow> (Inl (storage_error ''REMOTE_AUTH_DIRECTORY_CREATE_FAILED'' c), file)
      | Serialize_failed c \<Rightarrow> (Inl (storage_error ''REMOTE_AUTH_SERIALIZE_FAILED'' c), file)
      | Open_failed c \<Rightarrow> (Inl (storage_error ''REMOTE_AUTH_WRITE_FAILED'' c), file)
      | Write_failed c left \<Rightarrow> (Inl (storage_error ''REMOTE_AUTH_WRITE_FAILED'' c), left))"

definition persist_locked :: "auth_env \<Rightarrow> manager \<Rightarrow> (app_error + unit) \<times> manager" where
  "persist_locked env m =
     (case persist_database (env_disk env) (mg_database m) (mg_file m) of
        (r, file) \<Rightarrow> (r, m\<lparr>mg_file := file\<rparr>))"

definition initial_admin :: "string \<Rightarrow> stored_account" where
  "initial_admin hash =
     \<lparr>sa_username = default_admin_username, sa_password_hash = hash, sa_role = Admin,
      sa_devices = [], sa_built_in = True, sa_password_change_required = True\<rparr>"

definition initial_database :: "string \<Rightarrow> account_database" where
  "initial_database hash =
     \<lparr>db_version = database_version,
      db_users = bt_insert default_admin_username (initial_admin hash) []\<rparr>"

definition opened :: "nat \<Rightarrow> account_database \<Rightarrow> account_file \<Rightarrow> manager" where
  "opened ttl db file =
     \<lparr>mg_session_ttl = ttl, mg_database = db, mg_sessions = Map.empty,
      mg_file = file, mg_poisoned = False\<rparr>"

text \<open>Both constructors; the second component is the file afterwards.\<close>

definition load_or_initialize_with_session_ttl ::
    "argon \<Rightarrow> auth_env \<Rightarrow> nat \<Rightarrow> account_file \<Rightarrow> (app_error + manager) \<times> account_file" where
  "load_or_initialize_with_session_ttl A env ttl file =
     (case file of
        Unreadable c \<Rightarrow> (Inl (storage_error ''REMOTE_AUTH_READ_FAILED'' c), file)
      | Unparsable c \<Rightarrow> (Inl (storage_error ''REMOTE_AUTH_DATABASE_INVALID'' c), file)
      | Parsed db \<Rightarrow>
          (case validate_database db of
             Inl e \<Rightarrow> (Inl e, file)
           | Inr _ \<Rightarrow> (Inr (opened ttl db file), file))
      | No_file \<Rightarrow>
          (case hash_password A env default_admin_password of
             Inl e \<Rightarrow> (Inl e, file)
           | Inr hash \<Rightarrow>
               (case persist_database (env_disk env) (initial_database hash) file of
                  (Inl e, file') \<Rightarrow> (Inl e, file')
                | (Inr _, file') \<Rightarrow> (Inr (opened ttl (initial_database hash) file'), file'))))"

definition load_or_initialize ::
    "argon \<Rightarrow> auth_env \<Rightarrow> account_file \<Rightarrow> (app_error + manager) \<times> account_file" where
  "load_or_initialize A env file =
     load_or_initialize_with_session_ttl A env default_session_ttl file"

subsection \<open>Operations\<close>

definition lock_state :: "manager \<Rightarrow> app_error + unit" where
  "lock_state m =
     (if mg_poisoned m
      then Inl (new_error ''REMOTE_AUTH_STATE_UNAVAILABLE''
        ''Remote account state lock is unavailable.'' ''remote.auth'' True)
      else Inr ())"

definition set_users :: "(string, stored_account) btree_map \<Rightarrow> manager \<Rightarrow> manager" where
  "set_users us m = m\<lparr>mg_database := (mg_database m)\<lparr>db_users := us\<rparr>\<rparr>"

abbreviation users :: "manager \<Rightarrow> (string, stored_account) btree_map" where
  "users m \<equiv> db_users (mg_database m)"

definition drop_sessions_of :: "string \<Rightarrow> manager \<Rightarrow> manager" where
  "drop_sessions_of username m =
     m\<lparr>mg_sessions := retain (\<lambda>_ s. sr_username s \<noteq> username) (mg_sessions m)\<rparr>"

definition login ::
    "argon \<Rightarrow> auth_env \<Rightarrow> string \<Rightarrow> string \<Rightarrow> manager \<Rightarrow> (app_error + authenticated_session) \<times> manager" where
  "login A env username password m =
     (case lock_state m of Inl e \<Rightarrow> (Inl e, m) | Inr _ \<Rightarrow>
      (case bt_get username (users m) of
         None \<Rightarrow> (Inl invalid_credentials, m)
       | Some user \<Rightarrow>
           (case verify_password A password (sa_password_hash user) of
              Inl e \<Rightarrow> (Inl e, m)
            | Inr _ \<Rightarrow>
                (Inr (session_from_user (env_token env) user),
                 m\<lparr>mg_sessions := (mg_sessions m)(env_token env \<mapsto>
                     \<lparr>sr_username = username, sr_expires_at = env_now env + mg_session_ttl m\<rparr>)\<rparr>))))"

definition purge_expired :: "nat \<Rightarrow> manager \<Rightarrow> manager" where
  "purge_expired now m =
     m\<lparr>mg_sessions := retain (\<lambda>_ s. sr_expires_at s > now) (mg_sessions m)\<rparr>"

definition authenticate ::
    "auth_env \<Rightarrow> string \<Rightarrow> manager \<Rightarrow> (app_error + authenticated_session) \<times> manager" where
  "authenticate env token m =
     (case lock_state m of Inl e \<Rightarrow> (Inl e, m) | Inr _ \<Rightarrow>
      (let m' = purge_expired (env_now env) m in
       (case mg_sessions m' token of
          None \<Rightarrow> (Inl session_missing, m')
        | Some rec \<Rightarrow>
            (case bt_get (sr_username rec) (users m') of
               None \<Rightarrow> (Inl session_orphaned, m')
             | Some user \<Rightarrow> (Inr (session_from_user token user), m')))))"

definition logout :: "string \<Rightarrow> manager \<Rightarrow> (app_error + unit) \<times> manager" where
  "logout token m =
     (case lock_state m of Inl e \<Rightarrow> (Inl e, m) | Inr _ \<Rightarrow>
      (Inr (), m\<lparr>mg_sessions := (mg_sessions m)(token := None)\<rparr>))"

definition list_accounts :: "manager \<Rightarrow> app_error + remote_account list" where
  "list_accounts m = on_ok (lock_state m) (\<lambda>_. Inr (map (public_account \<circ> snd) (users m)))"

definition new_user :: "string \<Rightarrow> string \<Rightarrow> stored_account" where
  "new_user username hash =
     \<lparr>sa_username = username, sa_password_hash = hash, sa_role = User, sa_devices = [],
      sa_built_in = False, sa_password_change_required = False\<rparr>"

definition create_user ::
    "argon \<Rightarrow> auth_env \<Rightarrow> string \<Rightarrow> string \<Rightarrow> manager \<Rightarrow> (app_error + remote_account) \<times> manager" where
  "create_user A env username password m =
     (case validate_username username of Inl e \<Rightarrow> (Inl e, m) | Inr _ \<Rightarrow>
      (case validate_new_password password of Inl e \<Rightarrow> (Inl e, m) | Inr _ \<Rightarrow>
       (case lock_state m of Inl e \<Rightarrow> (Inl e, m) | Inr _ \<Rightarrow>
        (case bt_get username (users m) of
           Some _ \<Rightarrow> (Inl user_exists, m)
         | None \<Rightarrow>
             (case hash_password A env password of
                Inl e \<Rightarrow> (Inl e, m)
              | Inr hash \<Rightarrow>
                  (case persist_locked env
                          (set_users (bt_insert username (new_user username hash) (users m)) m) of
                     (Inl e, m') \<Rightarrow> (Inl e, m')
                   | (Inr _, m') \<Rightarrow> (Inr (public_account (new_user username hash)), m')))))))"

definition delete_user :: "auth_env \<Rightarrow> string \<Rightarrow> manager \<Rightarrow> (app_error + unit) \<times> manager" where
  "delete_user env username m =
     (if username = default_admin_username then (Inl builtin_immutable, m)
      else (case lock_state m of Inl e \<Rightarrow> (Inl e, m) | Inr _ \<Rightarrow>
        (case bt_get username (users m) of
           None \<Rightarrow> (Inl (user_not_found username), m)
         | Some _ \<Rightarrow>
             persist_locked env
               (drop_sessions_of username (set_users (bt_remove username (users m)) m)))))"

definition change_own_password ::
    "argon \<Rightarrow> auth_env \<Rightarrow> string \<Rightarrow> string \<Rightarrow> string \<Rightarrow> manager \<Rightarrow> (app_error + unit) \<times> manager" where
  "change_own_password A env username current_password new_password m =
     (case validate_new_password new_password of Inl e \<Rightarrow> (Inl e, m) | Inr _ \<Rightarrow>
      (case lock_state m of Inl e \<Rightarrow> (Inl e, m) | Inr _ \<Rightarrow>
       (case bt_get username (users m) of
          None \<Rightarrow> (Inl (user_not_found username), m)
        | Some user \<Rightarrow>
            (case verify_password A current_password (sa_password_hash user) of
               Inl e \<Rightarrow> (Inl e, m)
             | Inr _ \<Rightarrow>
                 (case hash_password A env new_password of
                    Inl e \<Rightarrow> (Inl e, m)
                  | Inr hash \<Rightarrow>
                      persist_locked env (drop_sessions_of username (set_users
                        (bt_insert username
                          (user\<lparr>sa_password_hash := hash, sa_password_change_required := False\<rparr>)
                          (users m)) m)))))))"

definition reset_password ::
    "argon \<Rightarrow> auth_env \<Rightarrow> string \<Rightarrow> string \<Rightarrow> manager \<Rightarrow> (app_error + unit) \<times> manager" where
  "reset_password A env username new_password m =
     (case validate_new_password new_password of Inl e \<Rightarrow> (Inl e, m) | Inr _ \<Rightarrow>
      (case lock_state m of Inl e \<Rightarrow> (Inl e, m) | Inr _ \<Rightarrow>
       (case bt_get username (users m) of
          None \<Rightarrow> (Inl (user_not_found username), m)
        | Some user \<Rightarrow>
            (case hash_password A env new_password of
               Inl e \<Rightarrow> (Inl e, m)
             | Inr hash \<Rightarrow>
                 persist_locked env (drop_sessions_of username (set_users
                   (bt_insert username
                     (user\<lparr>sa_password_hash := hash, sa_password_change_required := True\<rparr>)
                     (users m)) m))))))"

definition assign_devices :: "bool \<Rightarrow> string \<Rightarrow> stored_account \<Rightarrow> stored_account" where
  "assign_devices assigned device_id user =
     user\<lparr>sa_devices := (if assigned then bs_insert device_id (sa_devices user)
                         else bs_remove device_id (sa_devices user))\<rparr>"

definition set_device_access ::
    "auth_env \<Rightarrow> string \<Rightarrow> string \<Rightarrow> bool \<Rightarrow> manager \<Rightarrow> (app_error + remote_account) \<times> manager" where
  "set_device_access env username device_id assigned m =
     (if trim device_id = []
      then (Inl (new_error ''REMOTE_AUTH_DEVICE_ID_INVALID'' ''deviceId must not be empty.''
              ''remote.auth'' False), m)
      else (case lock_state m of Inl e \<Rightarrow> (Inl e, m) | Inr _ \<Rightarrow>
        (case bt_get username (users m) of
           None \<Rightarrow> (Inl (user_not_found username), m)
         | Some user \<Rightarrow>
             (case persist_locked env (set_users
                     (bt_insert username (assign_devices assigned device_id user) (users m)) m) of
                (Inl e, m') \<Rightarrow> (Inl e, m')
              | (Inr _, m') \<Rightarrow> (Inr (public_account (assign_devices assigned device_id user)), m')))))"

end
