(* ===== verification/Remote_Auth_Facts.thy ===== *)
theory Remote_Auth_Facts
  imports Remote_Auth
begin

text \<open>
  Facts about the account manager: how each operation changes the database, the sessions
  and the file; the well-formedness invariant of the manager and its preservation by every
  operation, whatever the clock, the random source and the file system answer.
\<close>

subsection \<open>Reading results\<close>

lemma lock_state_Inr_iff [ok_iff]: "lock_state m = Inr u \<longleftrightarrow> \<not> mg_poisoned m"
  by (simp add: lock_state_def)

lemma validate_username_Inr_iff [ok_iff]:
  "validate_username n = Inr u \<longleftrightarrow>
     3 \<le> length n \<and> length n \<le> 64 \<and> list_all username_byte n"
  by (simp add: validate_username_def)

lemma validate_new_password_Inr_iff [ok_iff]:
  "validate_new_password p = Inr u \<longleftrightarrow> 8 \<le> length p \<and> length p \<le> 1024"
  by (simp add: validate_new_password_def)

lemma verify_password_Inr_iff [ok_iff]:
  "verify_password A p h = Inr u \<longleftrightarrow> (\<exists>d. phc_parse A h = Inr d \<and> argon_verify A p d)"
  by (auto simp: verify_password_def ok_iff)

lemma validate_database_Inr_iff [ok_iff]:
  "validate_database db = Inr u \<longleftrightarrow>
     db_version db = database_version \<and>
     (\<exists>a. bt_get default_admin_username (db_users db) = Some a \<and> sa_role a = Admin \<and> sa_built_in a)"
  by (auto simp: validate_database_def split: option.splits)

lemma users_set_users [simp]: "users (set_users us m) = us"
  by (simp add: set_users_def)

lemma set_users_frame [simp]:
  "mg_sessions (set_users us m) = mg_sessions m"
  "mg_session_ttl (set_users us m) = mg_session_ttl m"
  "mg_file (set_users us m) = mg_file m"
  "mg_poisoned (set_users us m) = mg_poisoned m"
  "db_version (mg_database (set_users us m)) = db_version (mg_database m)"
  by (simp_all add: set_users_def)

lemma drop_sessions_frame [simp]:
  "mg_database (drop_sessions_of n m) = mg_database m"
  "mg_session_ttl (drop_sessions_of n m) = mg_session_ttl m"
  "mg_file (drop_sessions_of n m) = mg_file m"
  "mg_poisoned (drop_sessions_of n m) = mg_poisoned m"
  by (simp_all add: drop_sessions_of_def)

lemma drop_sessions_Some_iff [simp]:
  "mg_sessions (drop_sessions_of n m) t = Some r \<longleftrightarrow> mg_sessions m t = Some r \<and> sr_username r \<noteq> n"
  by (simp add: drop_sessions_of_def)

lemma purge_frame [simp]:
  "mg_database (purge_expired now m) = mg_database m"
  "mg_session_ttl (purge_expired now m) = mg_session_ttl m"
  "mg_file (purge_expired now m) = mg_file m"
  "mg_poisoned (purge_expired now m) = mg_poisoned m"
  by (simp_all add: purge_expired_def)

lemma purge_Some_iff [simp]:
  "mg_sessions (purge_expired now m) t = Some r \<longleftrightarrow> mg_sessions m t = Some r \<and> now < sr_expires_at r"
  by (simp add: purge_expired_def)

lemma persist_frame [simp]:
  "mg_database (snd (persist_locked env m)) = mg_database m"
  "mg_sessions (snd (persist_locked env m)) = mg_sessions m"
  "mg_session_ttl (snd (persist_locked env m)) = mg_session_ttl m"
  "mg_poisoned (snd (persist_locked env m)) = mg_poisoned m"
  by (simp_all add: persist_locked_def split: prod.splits)

lemma persist_Inr_iff [ok_iff]:
  "fst (persist_locked env m) = Inr u \<longleftrightarrow> env_disk env = Disk_ok"
  by (auto simp: persist_locked_def persist_database_def split: disk_reply.splits)

lemma persist_pair_iff [ok_iff]:
  "persist_locked env m = (Inr u, m') \<longleftrightarrow>
     env_disk env = Disk_ok \<and> m' = m\<lparr>mg_file := Parsed (mg_database m)\<rparr>"
  by (auto simp: persist_locked_def persist_database_def split: disk_reply.splits)

lemma persist_ok: "env_disk env = Disk_ok \<Longrightarrow> persist_locked env m = (Inr (), m\<lparr>mg_file := Parsed (mg_database m)\<rparr>)"
  by (simp add: persist_locked_def persist_database_def)

subsection \<open>The invariant\<close>

definition account_ok :: "string \<Rightarrow> stored_account \<Rightarrow> bool" where
  "account_ok k u \<longleftrightarrow>
     sa_username u = k \<and>
     (sa_role u = Admin \<longleftrightarrow> k = default_admin_username) \<and>
     (sa_built_in u \<longleftrightarrow> k = default_admin_username) \<and>
     sorted_wrt (<) (sa_devices u)"

definition database_ok :: "account_database \<Rightarrow> bool" where
  "database_ok db \<longleftrightarrow>
     db_version db = database_version \<and> bt_ok (db_users db) \<and>
     bt_get default_admin_username (db_users db) \<noteq> None \<and>
     (\<forall>k u. bt_get k (db_users db) = Some u \<longrightarrow> account_ok k u)"

definition manager_ok :: "manager \<Rightarrow> bool" where
  "manager_ok m \<longleftrightarrow>
     database_ok (mg_database m) \<and>
     (\<forall>t r. mg_sessions m t = Some r \<longrightarrow> bt_get (sr_username r) (users m) \<noteq> None)"

lemma manager_okD:
  assumes "manager_ok m"
  shows "bt_ok (users m)"
    and "\<exists>u. bt_get default_admin_username (users m) = Some u \<and> sa_role u = Admin \<and> sa_built_in u"
    and "bt_get k (users m) = Some u \<Longrightarrow> account_ok k u"
    and "mg_sessions m t = Some r \<Longrightarrow> \<exists>u. bt_get (sr_username r) (users m) = Some u"
  using assms by (auto simp: manager_ok_def database_ok_def account_ok_def)

lemma manager_ok_cong:
  "mg_database m' = mg_database m \<Longrightarrow>
   (\<And>t r. mg_sessions m' t = Some r \<Longrightarrow> bt_get (sr_username r) (users m) \<noteq> None) \<Longrightarrow>
   manager_ok m \<Longrightarrow> manager_ok m'"
  by (simp add: manager_ok_def)

lemma manager_ok_persist: "manager_ok m \<Longrightarrow> manager_ok (snd (persist_locked env m))"
  by (simp add: manager_ok_def)

lemma manager_ok_persistD: "persist_locked env m = (r, m') \<Longrightarrow> manager_ok m \<Longrightarrow> manager_ok m'"
  by (metis manager_ok_persist snd_conv)

lemma manager_ok_drop: "manager_ok m \<Longrightarrow> manager_ok (drop_sessions_of n m)"
  by (auto simp: manager_ok_def)

lemma manager_ok_purge: "manager_ok m \<Longrightarrow> manager_ok (purge_expired now m)"
  by (auto simp: manager_ok_def)

lemma manager_ok_put:
  assumes "manager_ok m" and "account_ok n u"
  shows "manager_ok (set_users (bt_insert n u (users m)) m)"
  using assms by (auto simp: manager_ok_def database_ok_def bt_ok_insert split: if_splits)

lemma manager_ok_del:
  assumes "manager_ok m" and "n \<noteq> default_admin_username"
  shows "manager_ok (drop_sessions_of n (set_users (bt_remove n (users m)) m))"
  using assms by (auto simp: manager_ok_def database_ok_def bt_ok_remove split: if_splits)

lemma account_ok_update:
  "account_ok n u \<Longrightarrow> account_ok n (u\<lparr>sa_password_hash := h, sa_password_change_required := b\<rparr>)"
  by (simp add: account_ok_def)

lemma account_ok_assign: "account_ok n u \<Longrightarrow> account_ok n (assign_devices a d u)"
  by (simp add: account_ok_def assign_devices_def sorted_bs_insert sorted_bs_remove)

lemma account_ok_new: "n \<noteq> default_admin_username \<Longrightarrow> account_ok n (new_user n h)"
  by (simp add: account_ok_def new_user_def)

lemma opened_ok: "database_ok db \<Longrightarrow> manager_ok (opened ttl db file)"
  by (simp add: manager_ok_def opened_def)

lemma initial_database_ok: "database_ok (initial_database hash)"
  by (simp add: database_ok_def initial_database_def bt_ok_def keys_def bt_get_def
      initial_admin_def account_ok_def)

subsection \<open>Every operation keeps it\<close>

text \<open>
  \<open>opens\<close> is a start of the core: a fresh data directory, or a file whose database is
  well formed. \<open>auth_step\<close> has one rule per public operation.
\<close>

definition opens :: "argon \<Rightarrow> manager \<Rightarrow> bool" where
  "opens A m \<longleftrightarrow> (\<exists>env ttl file.
     fst (load_or_initialize_with_session_ttl A env ttl file) = Inr m \<and>
     (\<forall>db. file = Parsed db \<longrightarrow> database_ok db))"

inductive auth_step :: "argon \<Rightarrow> manager \<Rightarrow> manager \<Rightarrow> bool" for A :: argon where
  step_login: "auth_step A m (snd (login A env u p m))"
| step_authenticate: "auth_step A m (snd (authenticate env t m))"
| step_logout: "auth_step A m (snd (logout t m))"
| step_create: "auth_step A m (snd (create_user A env u p m))"
| step_delete: "auth_step A m (snd (delete_user env u m))"
| step_change: "auth_step A m (snd (change_own_password A env u p q m))"
| step_reset: "auth_step A m (snd (reset_password A env u q m))"
| step_assign: "auth_step A m (snd (set_device_access env u d b m))"

inductive_cases auth_stepE: "auth_step A m m'"

lemma manager_ok_login: "manager_ok m \<Longrightarrow> manager_ok (snd (login A env u p m))"
  by (auto simp: login_def manager_ok_def split: sum.splits option.splits if_splits)

lemma manager_ok_authenticate: "manager_ok m \<Longrightarrow> manager_ok (snd (authenticate env t m))"
  by (auto simp: authenticate_def Let_def manager_ok_purge split: sum.splits option.splits)

lemma manager_ok_logout: "manager_ok m \<Longrightarrow> manager_ok (snd (logout t m))"
  by (auto simp: logout_def manager_ok_def split: sum.splits if_splits)

lemma manager_ok_create:
  assumes "manager_ok m"
  shows "manager_ok (snd (create_user A env u p m))"
proof -
  have "bt_get u (users m) = None \<Longrightarrow> u \<noteq> default_admin_username"
    using manager_okD(2) [OF assms] by auto
  then show ?thesis
    using assms
    by (auto simp: create_user_def split: sum.splits option.splits prod.splits
        elim!: manager_ok_persistD intro!: manager_ok_put account_ok_new)
qed

lemma manager_ok_delete: "manager_ok m \<Longrightarrow> manager_ok (snd (delete_user env u m))"
  by (auto simp: delete_user_def split: sum.splits option.splits
      intro!: manager_ok_persist manager_ok_del)

lemma manager_ok_change:
  "manager_ok m \<Longrightarrow> manager_ok (snd (change_own_password A env u p q m))"
  by (auto simp: change_own_password_def split: sum.splits option.splits
      intro!: manager_ok_persist manager_ok_drop manager_ok_put account_ok_update
      dest: manager_okD(3))

lemma manager_ok_reset: "manager_ok m \<Longrightarrow> manager_ok (snd (reset_password A env u q m))"
  by (auto simp: reset_password_def split: sum.splits option.splits
      intro!: manager_ok_persist manager_ok_drop manager_ok_put account_ok_update
      dest: manager_okD(3))

lemma manager_ok_assign: "manager_ok m \<Longrightarrow> manager_ok (snd (set_device_access env u d b m))"
  by (auto simp: set_device_access_def split: sum.splits option.splits prod.splits
      elim!: manager_ok_persistD intro!: manager_ok_put account_ok_assign dest: manager_okD(3))

lemmas manager_ok_ops =
  manager_ok_login manager_ok_authenticate manager_ok_logout manager_ok_create
  manager_ok_delete manager_ok_change manager_ok_reset manager_ok_assign

lemma load_ok:
  assumes "fst (load_or_initialize_with_session_ttl A env ttl fl) = Inr m"
    and "\<And>db. fl = Parsed db \<Longrightarrow> database_ok db"
  shows "manager_ok m"
  using assms
  by (cases fl) (auto simp: load_or_initialize_with_session_ttl_def
      intro: opened_ok initial_database_ok split: sum.splits prod.splits)

lemma opens_ok: "opens A m \<Longrightarrow> manager_ok m"
  by (auto simp: opens_def intro: load_ok)

interpretation auth: invariant_machine "opens A" "auth_step A" manager_ok for A
  by unfold_locales (auto intro: opens_ok manager_ok_ops elim!: auth_stepE)

subsection \<open>What a successful operation did\<close>

lemma login_Inr_iff:
  "login A env n p m = (Inr s, m') \<longleftrightarrow>
     \<not> mg_poisoned m \<and>
     (\<exists>user. bt_get n (users m) = Some user \<and> verify_password A p (sa_password_hash user) = Inr () \<and>
        s = session_from_user (env_token env) user \<and>
        m' = m\<lparr>mg_sessions := (mg_sessions m)(env_token env \<mapsto>
               \<lparr>sr_username = n, sr_expires_at = env_now env + mg_session_ttl m\<rparr>)\<rparr>)"
  by (auto simp: login_def ok_iff)

lemma authenticate_Inr_iff:
  "authenticate env t m = (Inr s, m') \<longleftrightarrow>
     \<not> mg_poisoned m \<and> m' = purge_expired (env_now env) m \<and>
     (\<exists>r user. mg_sessions m t = Some r \<and> env_now env < sr_expires_at r \<and>
        bt_get (sr_username r) (users m) = Some user \<and> s = session_from_user t user)"
  by (auto simp: authenticate_def Let_def ok_iff)

lemma authenticate_state:
  "snd (authenticate env t m) = (if mg_poisoned m then m else purge_expired (env_now env) m)"
  by (auto simp: authenticate_def lock_state_def Let_def split: option.splits)

lemma authenticate_fst_iff:
  "fst (authenticate env t m) = Inr s \<longleftrightarrow>
     \<not> mg_poisoned m \<and>
     (\<exists>r user. mg_sessions m t = Some r \<and> env_now env < sr_expires_at r \<and>
        bt_get (sr_username r) (users m) = Some user \<and> s = session_from_user t user)"
proof -
  have "fst (authenticate env t m) = Inr s \<longleftrightarrow>
      authenticate env t m = (Inr s, snd (authenticate env t m))"
    by (simp add: prod_eq_iff)
  then show ?thesis by (simp only: authenticate_Inr_iff) (auto simp: authenticate_state)
qed

text \<open>The account that an operation stores, and the state it leaves when the write succeeded.\<close>

definition stored :: "string \<Rightarrow> stored_account \<Rightarrow> manager \<Rightarrow> manager" where
  "stored n u m = (let m' = set_users (bt_insert n u (users m)) m in m'\<lparr>mg_file := Parsed (mg_database m')\<rparr>)"

definition erased :: "string \<Rightarrow> manager \<Rightarrow> manager" where
  "erased n m = (let m' = set_users (bt_remove n (users m)) m in m'\<lparr>mg_file := Parsed (mg_database m')\<rparr>)"

lemma change_own_password_Inr_iff:
  "change_own_password A env n p q m = (Inr (), m') \<longleftrightarrow>
     validate_new_password q = Inr () \<and> \<not> mg_poisoned m \<and> env_disk env = Disk_ok \<and>
     (\<exists>user h. bt_get n (users m) = Some user \<and> verify_password A p (sa_password_hash user) = Inr () \<and>
        hash_password A env q = Inr h \<and>
        m' = drop_sessions_of n (stored n
               (user\<lparr>sa_password_hash := h, sa_password_change_required := False\<rparr>) m))"
  by (auto simp: change_own_password_def ok_iff stored_def drop_sessions_of_def Let_def)

lemma reset_password_Inr_iff:
  "reset_password A env n q m = (Inr (), m') \<longleftrightarrow>
     validate_new_password q = Inr () \<and> \<not> mg_poisoned m \<and> env_disk env = Disk_ok \<and>
     (\<exists>user h. bt_get n (users m) = Some user \<and> hash_password A env q = Inr h \<and>
        m' = drop_sessions_of n (stored n
               (user\<lparr>sa_password_hash := h, sa_password_change_required := True\<rparr>) m))"
  by (auto simp: reset_password_def ok_iff stored_def drop_sessions_of_def Let_def)

lemma delete_user_Inr_iff:
  "delete_user env n m = (Inr (), m') \<longleftrightarrow>
     n \<noteq> default_admin_username \<and> \<not> mg_poisoned m \<and> env_disk env = Disk_ok \<and>
     (\<exists>user. bt_get n (users m) = Some user) \<and> m' = drop_sessions_of n (erased n m)"
  by (auto simp: delete_user_def ok_iff erased_def drop_sessions_of_def Let_def)

lemma create_user_Inr_iff:
  "create_user A env n p m = (Inr acc, m') \<longleftrightarrow>
     validate_username n = Inr () \<and> validate_new_password p = Inr () \<and> \<not> mg_poisoned m \<and>
     env_disk env = Disk_ok \<and> bt_get n (users m) = None \<and>
     (\<exists>h. hash_password A env p = Inr h \<and> acc = public_account (new_user n h) \<and>
        m' = stored n (new_user n h) m)"
  by (auto simp: create_user_def ok_iff stored_def Let_def)

lemma set_device_access_Inr_iff:
  "set_device_access env n d b m = (Inr acc, m') \<longleftrightarrow>
     trim d \<noteq> [] \<and> \<not> mg_poisoned m \<and> env_disk env = Disk_ok \<and>
     (\<exists>user. bt_get n (users m) = Some user \<and> acc = public_account (assign_devices b d user) \<and>
        m' = stored n (assign_devices b d user) m)"
  by (auto simp: set_device_access_def ok_iff stored_def Let_def)

lemmas op_Inr_iffs =
  login_Inr_iff change_own_password_Inr_iff reset_password_Inr_iff delete_user_Inr_iff
  create_user_Inr_iff set_device_access_Inr_iff

lemma stored_sel [simp]:
  "users (stored n u m) = bt_insert n u (users m)"
  "mg_sessions (stored n u m) = mg_sessions m"
  "mg_session_ttl (stored n u m) = mg_session_ttl m"
  "mg_poisoned (stored n u m) = mg_poisoned m"
  "mg_file (stored n u m) = Parsed (mg_database (stored n u m))"
  by (simp_all add: stored_def Let_def)

lemma erased_sel [simp]:
  "users (erased n m) = bt_remove n (users m)"
  "mg_sessions (erased n m) = mg_sessions m"
  "mg_session_ttl (erased n m) = mg_session_ttl m"
  "mg_poisoned (erased n m) = mg_poisoned m"
  "mg_file (erased n m) = Parsed (mg_database (erased n m))"
  by (simp_all add: erased_def Let_def)


subsection \<open>Properties\<close>

text \<open>In every state that a sequence of account operations can reach from a start of the
  core, whatever the clock, the random source and the file system answered and whether or
  not the operations succeeded: the built-in administrator exists, it is the only account
  with the administrator role, every account is stored under its own name, and every live
  session belongs to an existing account.\<close>

theorem reachable_accounts_ok:
  assumes "reachable (opens A) (auth_step A) m"
  shows "(\<exists>a. bt_get default_admin_username (users m) = Some a \<and> sa_role a = Admin \<and> sa_built_in a) \<and>
         (\<forall>k u. bt_get k (users m) = Some u \<longrightarrow>
            sa_username u = k \<and> (sa_role u = Admin \<longleftrightarrow> k = default_admin_username)) \<and>
         (\<forall>t r. mg_sessions m t = Some r \<longrightarrow> (\<exists>u. bt_get (sr_username r) (users m) = Some u))"
  using manager_okD [OF auth.reach_inv [OF assms]] by (auto simp: account_ok_def)

text \<open>A token from a successful login authenticates as the same session exactly while its
  time-to-live has not passed, and afterwards is refused as missing.\<close>

theorem login_authenticate:
  assumes "login A env n p m = (Inr s, m')"
  shows "fst (authenticate env' (as_token s) m') =
           (if env_now env' < env_now env + mg_session_ttl m then Inr s else Inl session_missing)"
  using assms
  by (auto simp: login_Inr_iff authenticate_def Let_def lock_state_def purge_expired_def
      retain_def session_from_user_def)

lemma revoked_authenticate:
  assumes "manager_ok m" and "mg_sessions m' = mg_sessions (drop_sessions_of n m)"
    and "mg_poisoned m' = mg_poisoned m"
    and "\<And>k. k \<noteq> n \<Longrightarrow> bt_get k (users m') = bt_get k (users m)"
    and "\<And>k u. bt_get k (users m') = Some u \<Longrightarrow> sa_username u = k"
  shows "fst (authenticate env t m') = Inr s \<longleftrightarrow>
           fst (authenticate env t m) = Inr s \<and> as_username s \<noteq> n"
  using assms manager_okD(3) [OF assms(1)]
  by (auto simp: authenticate_fst_iff session_from_user_def account_ok_def)

text \<open>C11. A successful password change, password reset or deletion revokes every session of
  the account and no other: afterwards a token authenticates exactly if it did before and
  belongs to another account. The deletion of the built-in administrator is refused whatever the
  state, and changes nothing.\<close>

theorem credential_change_revokes:
  assumes "manager_ok m"
    and "change_own_password A env n p q m = (Inr (), m') \<or>
         reset_password A env n q m = (Inr (), m') \<or> delete_user env n m = (Inr (), m')"
  shows "(fst (authenticate env' t m') = Inr s \<longleftrightarrow>
            fst (authenticate env' t m) = Inr s \<and> as_username s \<noteq> n) \<and>
         delete_user env'' default_admin_username m'' = (Inl builtin_immutable, m'')"
proof
  show "delete_user env'' default_admin_username m'' = (Inl builtin_immutable, m'')"
    by (simp add: delete_user_def)
  show "fst (authenticate env' t m') = Inr s \<longleftrightarrow>
      fst (authenticate env' t m) = Inr s \<and> as_username s \<noteq> n"
  proof (rule revoked_authenticate [OF assms(1)])
    show "mg_sessions m' = mg_sessions (drop_sessions_of n m)" "mg_poisoned m' = mg_poisoned m"
      using assms(2) by (auto simp: op_Inr_iffs drop_sessions_of_def)
    show "bt_get k (users m') = bt_get k (users m)" if "k \<noteq> n" for k
      using that assms(2) by (auto simp: op_Inr_iffs)
    show "sa_username u = k" if "bt_get k (users m') = Some u" for k u
      using that assms(2) manager_okD(3) [OF assms(1)]
      by (auto simp: op_Inr_iffs account_ok_def split: if_splits)
  qed
qed

text \<open>After a successful change of the own password the new password logs in and the
  account no longer has to change it, every other account is as it was, and logging in with a
  password succeeds only if the argon2 library accepts it for the new hash. The library is
  assumed to accept a password for the hash it made from it.\<close>

theorem change_password_then_login:
  assumes law: "\<And>pw salt h. argon_hash A pw salt = Inr h \<Longrightarrow> \<exists>d. phc_parse A h = Inr d \<and> argon_verify A pw d"
    and ok: "change_own_password A env n p q m = (Inr (), m')"
  shows "(\<exists>s m''. login A env' n q m' = (Inr s, m'') \<and> \<not> as_password_change_required s) \<and>
         (\<forall>k. k \<noteq> n \<longrightarrow> bt_get k (users m') = bt_get k (users m)) \<and>
         (\<exists>h. hash_password A env q = Inr h \<and>
            (\<forall>r. is_ok (fst (login A env' n r m')) \<longrightarrow> verify_password A r h = Inr ()))"
proof -
  from ok obtain user h where
    user: "bt_get n (users m) = Some user" and hash: "hash_password A env q = Inr h" and
    np: "\<not> mg_poisoned m" and
    m': "m' = drop_sessions_of n (stored n
               (user\<lparr>sa_password_hash := h, sa_password_change_required := False\<rparr>) m)"
    by (auto simp: change_own_password_Inr_iff)
  from hash have v: "verify_password A q h = Inr ()"
    using law by (auto simp: hash_password_def verify_password_Inr_iff ok_iff)
  have "\<exists>s m''. login A env' n q m' = (Inr s, m'') \<and> \<not> as_password_change_required s"
    using np v by (auto simp: m' login_Inr_iff session_from_user_def)
  moreover have "verify_password A r h = Inr ()" if "is_ok (fst (login A env' n r m'))" for r
  proof -
    from that obtain s m'' where "login A env' n r m' = (Inr s, m'')"
      by (cases "login A env' n r m'") (auto simp: is_ok_iff)
    then show ?thesis by (auto simp: m' login_Inr_iff)
  qed
  ultimately show ?thesis using hash by (auto simp: m')
qed

text \<open>C28. What a successful operation changed survives a restart: if the manager was well
  formed, then after a successful creation, deletion, password change, password reset or
  device assignment the file holds the database in memory, and opening the file again yields
  this database with no session.\<close>

theorem mutation_survives_restart:
  assumes "manager_ok m"
    and "create_user A env n p m = (Inr acc, m') \<or> delete_user env n m = (Inr (), m') \<or>
         change_own_password A env n p q m = (Inr (), m') \<or>
         reset_password A env n q m = (Inr (), m') \<or>
         set_device_access env n d b m = (Inr acc, m')"
  shows "load_or_initialize_with_session_ttl A env' ttl (mg_file m') =
           (Inr (opened ttl (mg_database m') (mg_file m')), mg_file m')"
proof -
  have fl: "mg_file m' = Parsed (mg_database m')"
    using assms(2) by (auto simp: op_Inr_iffs)
  have "m' = snd (create_user A env n p m) \<or> m' = snd (delete_user env n m) \<or>
        m' = snd (change_own_password A env n p q m) \<or> m' = snd (reset_password A env n q m) \<or>
        m' = snd (set_device_access env n d b m)"
    using assms(2) by auto
  then have "manager_ok m'" using assms(1) by (auto intro: manager_ok_ops)
  then have "validate_database (mg_database m') = Inr ()"
    using manager_okD(2) by (auto simp: validate_database_Inr_iff manager_ok_def database_ok_def)
  then show ?thesis
    by (simp add: fl load_or_initialize_with_session_ttl_def)
qed

text \<open>The error path of account creation: when only the write to the file fails, the
  caller gets a storage error, yet the account already exists in memory and its password
  logs in, while the file does not hold it unless the failed write left it there.\<close>

theorem create_user_write_failure:
  assumes law: "\<And>pw salt h. argon_hash A pw salt = Inr h \<Longrightarrow> \<exists>d. phc_parse A h = Inr d \<and> argon_verify A pw d"
    and "validate_username n = Inr ()" and "validate_new_password p = Inr ()"
    and "\<not> mg_poisoned m" and "bt_get n (users m) = None" and "hash_password A env p = Inr h"
    and "env_disk env = Open_failed c"
  shows "fst (create_user A env n p m) = Inl (storage_error ''REMOTE_AUTH_WRITE_FAILED'' c) \<and>
         is_ok (fst (login A env' n p (snd (create_user A env n p m)))) \<and>
         mg_file (snd (create_user A env n p m)) = mg_file m"
proof -
  let ?m = "set_users (bt_insert n (new_user n h) (users m)) m"
  have c: "create_user A env n p m = (Inl (storage_error ''REMOTE_AUTH_WRITE_FAILED'' c), ?m)"
    using assms by (simp add: create_user_def lock_state_def persist_locked_def persist_database_def)
  have "verify_password A p h = Inr ()"
    using assms(6) law by (auto simp: hash_password_def verify_password_Inr_iff ok_iff)
  then have "is_ok (fst (login A env' n p ?m))"
    using assms(4) by (simp add: login_def lock_state_def new_user_def)
  then show ?thesis by (simp add: c)
qed

text \<open>Device assignment: on success exactly this device is added to or removed from the
  account, the account keeps its name, role, password and flags, every other account and all
  sessions are untouched, and the returned view lists the devices in order.\<close>

theorem set_device_access_effect:
  assumes "set_device_access env n d b m = (Inr acc, m')" and "manager_ok m"
  shows "\<exists>u u'. bt_get n (users m) = Some u \<and> bt_get n (users m') = Some u' \<and>
           set (sa_devices u') = (if b then insert d (set (sa_devices u)) else set (sa_devices u) - {d}) \<and>
           u'\<lparr>sa_devices := sa_devices u\<rparr> = u \<and>
           (\<forall>k. k \<noteq> n \<longrightarrow> bt_get k (users m') = bt_get k (users m)) \<and>
           mg_sessions m' = mg_sessions m \<and>
           ra_devices acc = sa_devices u' \<and> sorted_wrt (<) (ra_devices acc)"
proof -
  from assms(1) obtain u where u: "bt_get n (users m) = Some u"
    and acc: "acc = public_account (assign_devices b d u)"
    and m': "m' = stored n (assign_devices b d u) m"
    by (auto simp: set_device_access_Inr_iff)
  have "sorted_wrt (<) (sa_devices u)"
    using manager_okD(3) [OF assms(2) u] by (simp add: account_ok_def)
  then show ?thesis
    by (auto simp: u acc m' assign_devices_def public_account_def sorted_bs_insert sorted_bs_remove)
qed

text \<open>Account creation succeeds only for a new name of 3 to 64 permitted bytes and a
  password of 8 to 1024 bytes; it adds exactly one account, an ordinary user with no device,
  whose password the library hashed, and it changes no session.\<close>

theorem create_user_effect:
  assumes "create_user A env n p m = (Inr acc, m')"
  shows "3 \<le> length n \<and> length n \<le> 64 \<and> list_all username_byte n \<and>
         8 \<le> length p \<and> length p \<le> 1024 \<and> bt_get n (users m) = None \<and>
         ra_username acc = n \<and> ra_role acc = User \<and> ra_devices acc = [] \<and>
         (\<exists>u. bt_get n (users m') = Some u \<and> sa_role u = User \<and>
              hash_password A env p = Inr (sa_password_hash u)) \<and>
         (\<forall>k. k \<noteq> n \<longrightarrow> bt_get k (users m') = bt_get k (users m)) \<and>
         mg_sessions m' = mg_sessions m"
  using assms
  by (auto simp: create_user_Inr_iff ok_iff new_user_def public_account_def)

end
