(* ===== verification/Ipc.thy ===== *)
theory Ipc
  imports Json Remote_Auth_Facts
begin

text \<open>
  The request and response envelopes of the stdio protocol (\<open>protocol.rs\<close>) and of the remote
  protocol (\<open>remote/service.rs\<close>), their constructors, and the JSON the handlers answer with.
\<close>

record ipc_request =
  rq_id :: string
  rq_method :: string
  rq_params :: json

record ipc_response =
  rs_id :: "string option"
  rs_ok :: bool
  rs_result :: "json option"
  rs_error :: "app_error option"

definition ipc_success :: "string \<Rightarrow> json \<Rightarrow> ipc_response" where
  "ipc_success i v = \<lparr>rs_id = Some i, rs_ok = True, rs_result = Some v, rs_error = None\<rparr>"

definition ipc_failure :: "string option \<Rightarrow> app_error \<Rightarrow> ipc_response" where
  "ipc_failure i e = \<lparr>rs_id = i, rs_ok = False, rs_result = None, rs_error = Some e\<rparr>"

record remote_request =
  rr_id :: string
  rr_session_token :: "string option"
  rr_method :: string
  rr_params :: json

record remote_response =
  rp_id :: "string option"
  rp_ok :: bool
  rp_result :: "json option"
  rp_error :: "app_error option"

definition remote_success :: "string \<Rightarrow> json \<Rightarrow> remote_response" where
  "remote_success i v = \<lparr>rp_id = Some i, rp_ok = True, rp_result = Some v, rp_error = None\<rparr>"

definition remote_failure :: "string option \<Rightarrow> app_error \<Rightarrow> remote_response" where
  "remote_failure i e = \<lparr>rp_id = i, rp_ok = False, rp_result = None, rp_error = Some e\<rparr>"

lemma ipc_response_sel [simp]:
  "rs_id (ipc_success i v) = Some i" "rs_ok (ipc_success i v)"
  "rs_result (ipc_success i v) = Some v" "rs_error (ipc_success i v) = None"
  "rs_id (ipc_failure j e) = j" "\<not> rs_ok (ipc_failure j e)"
  "rs_result (ipc_failure j e) = None" "rs_error (ipc_failure j e) = Some e"
  by (simp_all add: ipc_success_def ipc_failure_def)

lemma remote_response_sel [simp]:
  "rp_id (remote_success i v) = Some i" "rp_ok (remote_success i v)"
  "rp_result (remote_success i v) = Some v" "rp_error (remote_success i v) = None"
  "rp_id (remote_failure j e) = j" "\<not> rp_ok (remote_failure j e)"
  "rp_result (remote_failure j e) = None" "rp_error (remote_failure j e) = Some e"
  by (simp_all add: remote_success_def remote_failure_def)

text \<open>
  The \<open>match \<dots> { Ok(v) => success(id, v), Err(e) => failure(Some(id), e) }\<close> that ends nearly
  every handler.
\<close>

definition ipc_reply :: "string \<Rightarrow> app_error + json \<Rightarrow> ipc_response" where
  "ipc_reply i r = (case r of Inl e \<Rightarrow> ipc_failure (Some i) e | Inr v \<Rightarrow> ipc_success i v)"

definition remote_reply :: "string \<Rightarrow> app_error + json \<Rightarrow> remote_response" where
  "remote_reply i r = (case r of Inl e \<Rightarrow> remote_failure (Some i) e | Inr v \<Rightarrow> remote_success i v)"

definition map_ok :: "('a \<Rightarrow> 'b) \<Rightarrow> 'e + 'a \<Rightarrow> 'e + 'b" where
  "map_ok f r = (case r of Inl e \<Rightarrow> Inl e | Inr x \<Rightarrow> Inr (f x))"

lemma map_ok_simps [simp]: "map_ok f (Inl e) = Inl e" "map_ok f (Inr x) = Inr (f x)"
  by (simp_all add: map_ok_def)

lemma ipc_reply_sel [simp]:
  "rs_id (ipc_reply i r) = Some i" "rs_ok (ipc_reply i r) \<longleftrightarrow> is_ok r"
  by (cases r; simp add: ipc_reply_def)+

lemma remote_reply_sel [simp]:
  "rp_id (remote_reply i r) = Some i" "rp_ok (remote_reply i r) \<longleftrightarrow> is_ok r"
  by (cases r; simp add: remote_reply_def)+

subsection \<open>Values the handlers serialise\<close>

fun role_json :: "remote_role \<Rightarrow> json" where
  "role_json Admin = JStr ''admin''"
| "role_json User = JStr ''user''"

definition account_json :: "remote_account \<Rightarrow> json" where
  "account_json a =
     JObj [(''username'', JStr (ra_username a)), (''role'', role_json (ra_role a)),
           (''devices'', strings_json (ra_devices a)), (''builtIn'', JBool (ra_built_in a)),
           (''passwordChangeRequired'', JBool (ra_password_change_required a))]"

subsection \<open>Decoding parameters\<close>

definition string_field :: "nat \<Rightarrow> string \<Rightarrow> json \<Rightarrow> string option" where
  "string_field i k v = required de_string (struct_field i k v)"

text \<open>The private \<open>Params\<close> structs of the administration handlers.\<close>

definition decode_one :: "string \<Rightarrow> json \<Rightarrow> string option" where
  "decode_one k = decode_struct 1 (string_field 0 k)"

definition decode_two :: "string \<Rightarrow> string \<Rightarrow> json \<Rightarrow> (string \<times> string) option" where
  "decode_two j k = decode_struct 2 (\<lambda>v. both (string_field 0 j v) (string_field 1 k v))"

definition decode_assign :: "json \<Rightarrow> (string \<times> string \<times> bool) option" where
  "decode_assign = decode_struct 3 (\<lambda>v.
     both (string_field 0 ''username'' v)
       (both (string_field 1 ''deviceId'' v)
         (defaulted True de_bool (struct_field 2 ''assigned'' v))))"

end
