(* ===== verification/Local_Admin.thy ===== *)
theory Local_Admin
  imports Ipc
begin

text \<open>
  \<open>remote/local_admin.rs\<close>: the management interface of the host process. A handler returns
  the value or the error of its reply and the account manager it leaves; \<open>local_admin_handle\<close>
  wraps it into the response, whose id is always the request's. A request makes several calls
  of the account manager, each of which reads the clock, the random source and the file system
  on its own: call \<open>i\<close> of a request sees \<open>E i\<close>. \<open>sm k v\<close> is the text serde reports when the
  struct \<open>k\<close> cannot be decoded from \<open>v\<close>. Serialising the replies cannot fail.
\<close>

type_synonym auth_envs = "nat \<Rightarrow> auth_env"

definition local_params :: "serde_text \<Rightarrow> string \<Rightarrow> (json \<Rightarrow> 'a option) \<Rightarrow> json \<Rightarrow> app_error + 'a" where
  "local_params sm k d v =
     from_value (sm k) d
       (new_error ''REMOTE_PROTOCOL_PARAMS_INVALID''
          ''Local remote-administration parameters are invalid.'' ''remote.protocol'' False) v"

definition require_remote_user :: "string \<Rightarrow> app_error + unit" where
  "require_remote_user username =
     (if username = default_admin_username
      then Inl (new_error ''REMOTE_AUTH_BUILTIN_USER_IMMUTABLE''
        ''The built-in administrator is managed only through the password settings flow.''
        ''remote.auth'' False)
      else Inr ())"

definition local_forbidden :: app_error where
  "local_forbidden =
     new_error ''REMOTE_AUTH_FORBIDDEN''
       ''Only the built-in administrator can use the local management interface.''
       ''remote.auth'' False"

definition media_admin_refused :: app_error where
  "media_admin_refused =
     new_error ''REMOTE_AUTH_ADMIN_LOCAL_ONLY''
       ''The built-in administrator cannot use the remote media gateway.'' ''remote.auth'' False"

definition local_change_required :: app_error where
  "local_change_required =
     new_error ''REMOTE_AUTH_PASSWORD_CHANGE_REQUIRED''
       ''The administrator password must be changed before management is allowed.''
       ''remote.auth'' False"

definition local_method_unknown :: app_error where
  "local_method_unknown =
     new_error ''IPC_METHOD_NOT_FOUND'' ''Unknown local remote-administration method.''
       ''ipc.protocol'' False"

definition login_required_json :: "string \<Rightarrow> json" where
  "login_required_json k = JObj [(k, JBool True), (''loginRequired'', JBool True)]"

definition inspect_remote_session ::
    "serde_text \<Rightarrow> auth_envs \<Rightarrow> json \<Rightarrow> manager \<Rightarrow> (app_error + json) \<times> manager" where
  "inspect_remote_session sm E params m =
     (case local_params sm ''inspect'' (decode_one ''remoteSessionToken'') params of
        Inl e \<Rightarrow> (Inl e, m)
      | Inr token \<Rightarrow>
          (case authenticate (E 0) token m of (r, m') \<Rightarrow>
             (case r of
                Inl e \<Rightarrow> (Inl e, m')
              | Inr s \<Rightarrow>
                  if as_role s = User
                  then (Inr (JObj [(''username'', JStr (as_username s)),
                          (''role'', role_json (as_role s)),
                          (''devices'', strings_json (as_devices s)),
                          (''passwordChangeRequired'', JBool (as_password_change_required s))]), m')
                  else (Inl media_admin_refused, m'))))"

definition local_login ::
    "argon \<Rightarrow> serde_text \<Rightarrow> auth_envs \<Rightarrow> json \<Rightarrow> manager \<Rightarrow> (app_error + json) \<times> manager" where
  "local_login A sm E params m =
     (case local_params sm ''login'' (decode_one ''password'') params of
        Inl e \<Rightarrow> (Inl e, m)
      | Inr password \<Rightarrow>
          (case login A (E 0) default_admin_username password m of (r, m') \<Rightarrow>
             (case r of
                Inl e \<Rightarrow> (Inl e, m')
              | Inr s \<Rightarrow>
                  (Inr (JObj [(''sessionToken'', JStr (as_token s)),
                     (''username'', JStr (as_username s)), (''role'', role_json (as_role s)),
                     (''passwordChangeRequired'', JBool (as_password_change_required s))]), m'))))"

definition authenticate_admin ::
    "serde_text \<Rightarrow> auth_envs \<Rightarrow> json \<Rightarrow> manager \<Rightarrow> (app_error + authenticated_session) \<times> manager" where
  "authenticate_admin sm E params m =
     (case local_params sm ''session'' (decode_one ''sessionToken'') params of
        Inl e \<Rightarrow> (Inl e, m)
      | Inr token \<Rightarrow>
          (case authenticate (E 0) token m of (r, m') \<Rightarrow>
             (case r of
                Inl e \<Rightarrow> (Inl e, m')
              | Inr s \<Rightarrow>
                  if as_role s \<noteq> Admin \<or> as_username s \<noteq> default_admin_username
                  then (Inl local_forbidden, m')
                  else (Inr s, m'))))"

definition local_change_password ::
    "argon \<Rightarrow> serde_text \<Rightarrow> auth_envs \<Rightarrow> json \<Rightarrow> string \<Rightarrow> manager \<Rightarrow> (app_error + json) \<times> manager" where
  "local_change_password A sm E params token m =
     (case local_params sm ''changePassword'' (decode_two ''currentPassword'' ''newPassword'') params of
        Inl e \<Rightarrow> (Inl e, m)
      | Inr pq \<Rightarrow>
          (case authenticate (E 1) token m of (r, m1) \<Rightarrow>
             (case r of
                Inl e \<Rightarrow> (Inl e, m1)
              | Inr s \<Rightarrow>
                  (case change_own_password A (E 2) (as_username s) (fst pq) (snd pq) m1 of (q, m2) \<Rightarrow>
                     (map_ok (\<lambda>_. login_required_json ''passwordChanged'') q, m2)))))"

definition local_list_users :: "manager \<Rightarrow> (app_error + json) \<times> manager" where
  "local_list_users m =
     (map_ok (\<lambda>accounts. JArr (map account_json (filter (\<lambda>a. ra_role a = User) accounts)))
        (list_accounts m), m)"

definition local_create_user ::
    "argon \<Rightarrow> serde_text \<Rightarrow> auth_envs \<Rightarrow> json \<Rightarrow> manager \<Rightarrow> (app_error + json) \<times> manager" where
  "local_create_user A sm E params m =
     (case local_params sm ''create'' (decode_two ''username'' ''password'') params of
        Inl e \<Rightarrow> (Inl e, m)
      | Inr up \<Rightarrow>
          (case create_user A (E 1) (fst up) (snd up) m of (r, m') \<Rightarrow> (map_ok account_json r, m')))"

definition local_delete_user ::
    "serde_text \<Rightarrow> auth_envs \<Rightarrow> json \<Rightarrow> manager \<Rightarrow> (app_error + json) \<times> manager" where
  "local_delete_user sm E params m =
     (case local_params sm ''delete'' (decode_one ''username'') params of
        Inl e \<Rightarrow> (Inl e, m)
      | Inr username \<Rightarrow>
          (case require_remote_user username of
             Inl e \<Rightarrow> (Inl e, m)
           | Inr _ \<Rightarrow>
               (case delete_user (E 1) username m of (r, m') \<Rightarrow>
                  (map_ok (\<lambda>_. JObj [(''deleted'', JBool True)]) r, m'))))"

definition local_reset_password ::
    "argon \<Rightarrow> serde_text \<Rightarrow> auth_envs \<Rightarrow> json \<Rightarrow> manager \<Rightarrow> (app_error + json) \<times> manager" where
  "local_reset_password A sm E params m =
     (case local_params sm ''reset'' (decode_two ''username'' ''newPassword'') params of
        Inl e \<Rightarrow> (Inl e, m)
      | Inr up \<Rightarrow>
          (case require_remote_user (fst up) of
             Inl e \<Rightarrow> (Inl e, m)
           | Inr _ \<Rightarrow>
               (case reset_password A (E 1) (fst up) (snd up) m of (r, m') \<Rightarrow>
                  (map_ok (\<lambda>_. login_required_json ''passwordReset'') r, m'))))"

definition local_assign_device ::
    "serde_text \<Rightarrow> auth_envs \<Rightarrow> json \<Rightarrow> manager \<Rightarrow> (app_error + json) \<times> manager" where
  "local_assign_device sm E params m =
     (case local_params sm ''assign'' decode_assign params of
        Inl e \<Rightarrow> (Inl e, m)
      | Inr p \<Rightarrow>
          (case require_remote_user (fst p) of
             Inl e \<Rightarrow> (Inl e, m)
           | Inr _ \<Rightarrow>
               (case set_device_access (E 1) (fst p) (fst (snd p)) (snd (snd p)) m of (r, m') \<Rightarrow>
                  (map_ok account_json r, m'))))"

definition free_while_change_required :: "string list" where
  "free_while_change_required =
     [''remote.admin.me'', ''remote.admin.logout'', ''remote.admin.changePassword'']"

definition local_manage ::
    "argon \<Rightarrow> serde_text \<Rightarrow> auth_envs \<Rightarrow> string \<Rightarrow> json \<Rightarrow> authenticated_session \<Rightarrow> manager \<Rightarrow>
     (app_error + json) \<times> manager" where
  "local_manage A sm E mth params s m =
     (if mth = ''remote.admin.me''
      then (Inr (JObj [(''username'', JStr (as_username s)), (''role'', role_json (as_role s)),
              (''passwordChangeRequired'', JBool (as_password_change_required s))]), m)
      else if mth = ''remote.admin.logout''
      then (case logout (as_token s) m of (r, m') \<Rightarrow>
              (map_ok (\<lambda>_. JObj [(''loggedOut'', JBool True)]) r, m'))
      else if mth = ''remote.admin.changePassword''
      then local_change_password A sm E params (as_token s) m
      else if mth = ''remote.admin.users.list'' then local_list_users m
      else if mth = ''remote.admin.users.create'' then local_create_user A sm E params m
      else if mth = ''remote.admin.users.delete'' then local_delete_user sm E params m
      else if mth = ''remote.admin.users.resetPassword'' then local_reset_password A sm E params m
      else if mth = ''remote.admin.devices.assign'' then local_assign_device sm E params m
      else (Inl local_method_unknown, m))"

definition local_admin_result ::
    "argon \<Rightarrow> serde_text \<Rightarrow> auth_envs \<Rightarrow> string \<Rightarrow> json \<Rightarrow> manager \<Rightarrow> (app_error + json) \<times> manager" where
  "local_admin_result A sm E mth params m =
     (if mth = ''remote.internal.session.inspect'' then inspect_remote_session sm E params m
      else if mth = ''remote.admin.login'' then local_login A sm E params m
      else
        (case authenticate_admin sm E params m of (r, m') \<Rightarrow>
           (case r of
              Inl e \<Rightarrow> (Inl e, m')
            | Inr s \<Rightarrow>
                if as_password_change_required s \<and> mth \<notin> set free_while_change_required
                then (Inl local_change_required, m')
                else local_manage A sm E mth params s m')))"

definition local_admin_handle ::
    "argon \<Rightarrow> serde_text \<Rightarrow> auth_envs \<Rightarrow> ipc_request \<Rightarrow> manager \<Rightarrow> ipc_response \<times> manager" where
  "local_admin_handle A sm E rq m =
     (case local_admin_result A sm E (rq_method rq) (rq_params rq) m of
        (r, m') \<Rightarrow> (ipc_reply (rq_id rq) r, m'))"

subsection \<open>Facts\<close>

lemma local_params_Inr_iff [ok_iff]: "local_params sm k d v = Inr x \<longleftrightarrow> d v = Some x"
  by (simp add: local_params_def ok_iff)

lemma require_remote_user_Inr_iff [ok_iff]:
  "require_remote_user n = Inr u \<longleftrightarrow> n \<noteq> default_admin_username"
  by (simp add: require_remote_user_def)

lemma map_ok_Inr_iff [ok_iff]: "map_ok f r = Inr y \<longleftrightarrow> (\<exists>x. r = Inr x \<and> y = f x)"
  by (cases r) auto

lemma is_ok_map_ok [simp]: "is_ok (map_ok f r) = is_ok r"
  by (cases r) auto

lemma manager_ok_authenticateD: "authenticate env t m = (r, m') \<Longrightarrow> manager_ok m \<Longrightarrow> manager_ok m'"
  by (metis manager_ok_authenticate snd_conv)

lemma manager_ok_inspect: "manager_ok m \<Longrightarrow> manager_ok (snd (inspect_remote_session sm E p m))"
  by (auto simp: inspect_remote_session_def elim!: manager_ok_authenticateD
      split: sum.splits prod.splits)

lemma snd_case_login:
  "snd (case p of (r, m') \<Rightarrow> (case r of Inl e \<Rightarrow> (Inl e, m') | Inr s \<Rightarrow> (f s, m'))) = snd p"
  by (cases p; cases "fst p") auto

lemma snd_case_map: "snd (case p of (r, m') \<Rightarrow> (f r, m')) = snd p"
  by (cases p) auto

lemma manager_ok_local_login: "manager_ok m \<Longrightarrow> manager_ok (snd (local_login A sm E p m))"
  by (simp add: local_login_def snd_case_login manager_ok_login split: sum.splits)

lemma authenticate_admin_state:
  "snd (authenticate_admin sm E p m) = m \<or>
   snd (authenticate_admin sm E p m) = purge_expired (env_now (E 0)) m"
proof (cases "local_params sm ''session'' (decode_one ''sessionToken'') p")
  case (Inr t)
  then show ?thesis
    using authenticate_state [of "E 0" t m]
    by (cases "authenticate (E 0) t m"; cases "fst (authenticate (E 0) t m)")
      (auto simp: authenticate_admin_def split: if_splits)
qed (simp add: authenticate_admin_def)

lemma authenticate_admin_Inr_iff:
  "authenticate_admin sm E p m = (Inr s, m') \<longleftrightarrow>
     (\<exists>t. decode_one ''sessionToken'' p = Some t \<and> authenticate (E 0) t m = (Inr s, m')) \<and>
     as_role s = Admin \<and> as_username s = default_admin_username"
  by (auto simp: authenticate_admin_def ok_iff)

lemma manager_ok_local_change:
  assumes "manager_ok m"
  shows "manager_ok (snd (local_change_password A sm E p t m))"
proof (cases "local_params sm ''changePassword'' (decode_two ''currentPassword'' ''newPassword'') p")
  case (Inr pq)
  obtain r m1 where a: "authenticate (E 1) t m = (r, m1)" by (cases "authenticate (E 1) t m")
  then have "manager_ok m1" using assms by (rule manager_ok_authenticateD)
  then show ?thesis
    using Inr a by (cases r) (auto simp: local_change_password_def snd_case_map manager_ok_change)
qed (use assms in \<open>simp add: local_change_password_def\<close>)

lemma manager_ok_manage:
  assumes "manager_ok m"
  shows "manager_ok (snd (local_manage A sm E mth p s m))"
proof -
  have "manager_ok (snd (local_create_user A sm E p m))"
    using assms by (simp add: local_create_user_def snd_case_map manager_ok_create split: sum.splits)
  moreover have "manager_ok (snd (local_delete_user sm E p m))"
    using assms by (simp add: local_delete_user_def snd_case_map manager_ok_delete split: sum.splits)
  moreover have "manager_ok (snd (local_reset_password A sm E p m))"
    using assms by (simp add: local_reset_password_def snd_case_map manager_ok_reset split: sum.splits)
  moreover have "manager_ok (snd (local_assign_device sm E p m))"
    using assms by (simp add: local_assign_device_def snd_case_map manager_ok_assign split: sum.splits)
  moreover have "manager_ok (snd (local_list_users m))"
    using assms by (simp add: local_list_users_def)
  ultimately show ?thesis
    using assms
    by (simp add: local_manage_def snd_case_map manager_ok_logout manager_ok_local_change)
qed

lemma manager_ok_local_result:
  assumes "manager_ok m"
  shows "manager_ok (snd (local_admin_result A sm E mth p m))"
proof -
  have adm: "manager_ok (snd (authenticate_admin sm E p m))"
    using authenticate_admin_state [of sm E p m] assms by (auto simp: manager_ok_purge)
  show ?thesis
  proof (cases "fst (authenticate_admin sm E p m)")
    case (Inl e)
    then show ?thesis
      using assms adm by (auto simp: local_admin_result_def manager_ok_inspect
          manager_ok_local_login case_prod_beta)
  next
    case (Inr s)
    then show ?thesis
      using assms adm by (auto simp: local_admin_result_def manager_ok_inspect
          manager_ok_local_login case_prod_beta manager_ok_manage)
  qed
qed

lemma manager_ok_local_admin:
  "manager_ok m \<Longrightarrow> manager_ok (snd (local_admin_handle A sm E rq m))"
  by (simp add: local_admin_handle_def snd_case_map manager_ok_local_result)

subsection \<open>Properties\<close>

lemma database_frame:
  "mg_database (snd (authenticate env t m)) = mg_database m"
  "mg_database (snd (login A env n p m)) = mg_database m"
  "mg_database (snd (logout t m)) = mg_database m"
  by (auto simp: authenticate_state login_def logout_def split: sum.splits option.splits)

lemma database_inspect: "mg_database (snd (inspect_remote_session sm E p m)) = mg_database m"
  using database_frame(1) [of "E 0" _ m]
  by (auto simp: inspect_remote_session_def split: sum.splits prod.splits) (metis snd_conv)+

lemma database_local_login: "mg_database (snd (local_login A sm E p m)) = mg_database m"
  by (simp add: local_login_def snd_case_login database_frame split: sum.splits)

lemma database_authenticate_admin: "mg_database (snd (authenticate_admin sm E p m)) = mg_database m"
  using authenticate_admin_state [of sm E p m] by auto

lemma local_admin_result_cases:
  assumes "fst (local_admin_result A sm E mth p m) = Inr v \<and>
             mth \<notin> {''remote.internal.session.inspect'', ''remote.admin.login''} \<or>
           mg_database (snd (local_admin_result A sm E mth p m)) \<noteq> mg_database m"
  obtains s m' where "authenticate_admin sm E p m = (Inr s, m')"
    and "\<not> as_password_change_required s \<or> mth \<in> set free_while_change_required"
proof -
  have no: "mth \<notin> {''remote.internal.session.inspect'', ''remote.admin.login''}"
    using assms database_inspect database_local_login
    by (auto simp: local_admin_result_def)
  obtain r m' where a: "authenticate_admin sm E p m = (r, m')"
    by (cases "authenticate_admin sm E p m")
  then have db: "mg_database m' = mg_database m"
    using database_authenticate_admin [of sm E p m] by simp
  show ?thesis
  proof (cases r)
    case (Inl e)
    then show ?thesis using assms no a db by (simp add: local_admin_result_def)
  next
    case (Inr s)
    moreover have "\<not> as_password_change_required s \<or> mth \<in> set free_while_change_required"
      using assms no a db Inr by (auto simp: local_admin_result_def split: if_splits)
    ultimately show ?thesis using a that by blast
  qed
qed

text \<open>C24. Whenever the local management interface answers a method other than login and
  session inspection with success, or changes the account database at all, the request carried
  a token of an unexpired session of the built-in administrator; and unless that account's
  password had already been changed, the method is one of identity, logout and password change.\<close>

theorem local_management_authority:
  assumes "manager_ok m"
    and "rs_ok (fst (local_admin_handle A sm E rq m)) \<and>
           rq_method rq \<notin> {''remote.internal.session.inspect'', ''remote.admin.login''} \<or>
         mg_database (snd (local_admin_handle A sm E rq m)) \<noteq> mg_database m"
  shows "\<exists>t r u. decode_one ''sessionToken'' (rq_params rq) = Some t \<and> mg_sessions m t = Some r \<and>
           env_now (E 0) < sr_expires_at r \<and> sr_username r = default_admin_username \<and>
           bt_get default_admin_username (users m) = Some u \<and>
           (sa_password_change_required u \<longrightarrow> rq_method rq \<in> set free_while_change_required)"
proof -
  let ?res = "local_admin_result A sm E (rq_method rq) (rq_params rq) m"
  obtain v where "fst ?res = Inr v \<and>
          rq_method rq \<notin> {''remote.internal.session.inspect'', ''remote.admin.login''} \<or>
        mg_database (snd ?res) \<noteq> mg_database m"
    using assms(2) by (auto simp: local_admin_handle_def case_prod_beta is_ok_iff)
  then obtain s m' where s: "authenticate_admin sm E (rq_params rq) m = (Inr s, m')"
    and gate: "\<not> as_password_change_required s \<or> rq_method rq \<in> set free_while_change_required"
    by (rule local_admin_result_cases)
  then obtain t r u where "decode_one ''sessionToken'' (rq_params rq) = Some t"
    "mg_sessions m t = Some r" "env_now (E 0) < sr_expires_at r"
    "bt_get (sr_username r) (users m) = Some u" "s = session_from_user t u"
    "as_username s = default_admin_username"
    by (auto simp: authenticate_admin_Inr_iff authenticate_Inr_iff)
  moreover from this have "sa_username u = sr_username r"
    using manager_okD(3) [OF assms(1)] by (simp add: account_ok_def)
  ultimately show ?thesis using gate by (auto simp: session_from_user_def)
qed

lemma admin_entry_kept:
  assumes "n \<noteq> default_admin_username"
  shows "bt_get default_admin_username (users (snd (delete_user env n m))) = bt_get default_admin_username (users m)"
    and "bt_get default_admin_username (users (snd (reset_password A env n q m))) = bt_get default_admin_username (users m)"
    and "bt_get default_admin_username (users (snd (set_device_access env n d b m))) = bt_get default_admin_username (users m)"
  using assms
  by (auto simp: delete_user_def reset_password_def set_device_access_def persist_locked_def
      split: sum.splits option.splits prod.splits)

lemma admin_entry_create:
  assumes "bt_get default_admin_username (users m) \<noteq> None"
  shows "bt_get default_admin_username (users (snd (create_user A env n p m))) = bt_get default_admin_username (users m)"
  using assms
  by (cases "n = default_admin_username")
    (auto simp: create_user_def persist_locked_def split: sum.splits option.splits prod.splits)

text \<open>The account of the built-in administrator is changed by no local management method but
  the password change: creation, deletion, password reset and device assignment leave it
  exactly as it is, whatever the request and whether or not the reply is a success.\<close>

theorem local_management_keeps_admin:
  assumes "manager_ok m" and "rq_method rq \<noteq> ''remote.admin.changePassword''"
  shows "bt_get default_admin_username (users (snd (local_admin_handle A sm E rq m))) =
           bt_get default_admin_username (users m)"
proof -
  let ?adm = "\<lambda>m. bt_get default_admin_username (users m)"
  have keep: "?adm (snd (local_manage A sm E (rq_method rq) p s n)) = ?adm n"
    if "?adm n \<noteq> None" for s n p
    using that assms(2)
    by (auto simp: local_manage_def snd_case_map database_frame local_list_users_def
        local_create_user_def local_delete_user_def local_reset_password_def
        local_assign_device_def admin_entry_kept admin_entry_create require_remote_user_Inr_iff
        split: sum.splits)
  have some: "?adm m \<noteq> None" using manager_okD(2) [OF assms(1)] by auto
  obtain r m' where a: "authenticate_admin sm E (rq_params rq) m = (r, m')"
    by (cases "authenticate_admin sm E (rq_params rq) m")
  then have "users m' = users m"
    using database_authenticate_admin [of sm E "rq_params rq" m] by simp
  then show ?thesis
    using a some keep [of m']
    by (cases r) (auto simp: local_admin_handle_def snd_case_map local_admin_result_def
        database_inspect database_local_login)
qed

text \<open>Session inspection, the host's media gateway, changes nothing but dropping expired
  sessions, answers only for a live session of an ordinary user, with exactly that account's
  name, role, devices and password flag, and never with a token.\<close>

theorem inspect_session_effect:
  assumes "rq_method rq = ''remote.internal.session.inspect''" and "manager_ok m"
  shows "mg_database (snd (local_admin_handle A sm E rq m)) = mg_database m \<and>
         (\<forall>t r. mg_sessions (snd (local_admin_handle A sm E rq m)) t = Some r \<longrightarrow> mg_sessions m t = Some r) \<and>
         (\<forall>v. rs_result (fst (local_admin_handle A sm E rq m)) = Some v \<longrightarrow>
            (\<exists>t r u. decode_one ''remoteSessionToken'' (rq_params rq) = Some t \<and>
               mg_sessions m t = Some r \<and> env_now (E 0) < sr_expires_at r \<and>
               sr_username r \<noteq> default_admin_username \<and>
               bt_get (sr_username r) (users m) = Some u \<and> sa_role u = User \<and>
               v = JObj [(''username'', JStr (sr_username r)), (''role'', JStr ''user''),
                         (''devices'', strings_json (sa_devices u)),
                         (''passwordChangeRequired'', JBool (sa_password_change_required u))]))"
proof -
  let ?res = "inspect_remote_session sm E (rq_params rq) m"
  have h: "local_admin_handle A sm E rq m = (ipc_reply (rq_id rq) (fst ?res), snd ?res)"
    using assms(1) by (simp add: local_admin_handle_def local_admin_result_def case_prod_beta)
  have st: "snd ?res = m \<or> snd ?res = purge_expired (env_now (E 0)) m"
    using authenticate_state [of "E 0" _ m]
    by (auto simp: inspect_remote_session_def split: sum.splits prod.splits if_splits) (metis snd_conv)+
  have val: "\<exists>t r u. decode_one ''remoteSessionToken'' (rq_params rq) = Some t \<and>
               mg_sessions m t = Some r \<and> env_now (E 0) < sr_expires_at r \<and>
               sr_username r \<noteq> default_admin_username \<and>
               bt_get (sr_username r) (users m) = Some u \<and> sa_role u = User \<and>
               v = JObj [(''username'', JStr (sr_username r)), (''role'', JStr ''user''),
                         (''devices'', strings_json (sa_devices u)),
                         (''passwordChangeRequired'', JBool (sa_password_change_required u))]"
    if "fst ?res = Inr v" for v
  proof -
    from that have "?res = (Inr v, snd ?res)" by (simp add: prod_eq_iff)
    then obtain t s m' where t: "decode_one ''remoteSessionToken'' (rq_params rq) = Some t"
      and s: "authenticate (E 0) t m = (Inr s, m')" and role: "as_role s = User"
      and v: "v = JObj [(''username'', JStr (as_username s)), (''role'', role_json (as_role s)),
                (''devices'', strings_json (as_devices s)),
                (''passwordChangeRequired'', JBool (as_password_change_required s))]"
      by (auto simp: inspect_remote_session_def ok_iff split: if_splits)
    from s obtain r u where u: "mg_sessions m t = Some r" "env_now (E 0) < sr_expires_at r"
      "bt_get (sr_username r) (users m) = Some u" "s = session_from_user t u"
      by (auto simp: authenticate_Inr_iff)
    then have "sa_username u = sr_username r" "sa_role u = User" "sr_username r \<noteq> default_admin_username"
      using manager_okD(3) [OF assms(2), of "sr_username r" u] role
      by (auto simp: account_ok_def session_from_user_def)
    with t u v show ?thesis by (simp add: session_from_user_def)
  qed
  have "rs_result (fst (local_admin_handle A sm E rq m)) = Some v \<Longrightarrow> fst ?res = Inr v" for v
    by (cases "fst ?res") (simp_all add: h ipc_reply_def)
  then show ?thesis using val st by (auto simp: h)
qed

end
