(* ===== verification/Device_Identity.thy ===== *)
theory Device_Identity
  imports Rust_Strings
begin

text \<open>
  The device identities of \<open>remote/service.rs\<close>: two names denote the same device when they are
  equal or when both are wireless-debugging mDNS service names that differ only in the
  collision counter \<open>" (n)"\<close>; and the device serials in the output of \<open>adb devices -l\<close>.
\<close>

definition mdns_suffix :: string where
  "mdns_suffix = ''._adb-tls-connect._tcp''"

definition normalized_mdns_service_identity :: "string \<Rightarrow> string option" where
  "normalized_mdns_service_identity v =
     (case strip_suffix mdns_suffix v of
        None \<Rightarrow> None
      | Some service \<Rightarrow>
          (case rfind '' ('' service of
             None \<Rightarrow> if service \<noteq> [] then Some service else None
           | Some opening \<Rightarrow>
               (case strip_suffix '')'' service of
                  None \<Rightarrow> None
                | Some body \<Rightarrow>
                    if length body < opening + 2 then None
                    else if drop (opening + 2) body \<noteq> [] \<and>
                            list_all is_ascii_digit (drop (opening + 2) body)
                    then Some (take opening service)
                    else if service \<noteq> [] then Some service else None)))"

definition same_remote_device_identity :: "string \<Rightarrow> string \<Rightarrow> bool" where
  "same_remote_device_identity l r \<longleftrightarrow>
     l = r \<or>
     (case normalized_mdns_service_identity l of
        None \<Rightarrow> False
      | Some a \<Rightarrow>
          (case normalized_mdns_service_identity r of None \<Rightarrow> False | Some b \<Rightarrow> a = b))"

fun position :: "('a \<Rightarrow> bool) \<Rightarrow> 'a list \<Rightarrow> nat option" where
  "position p [] = None"
| "position p (x # xs) = (if p x then Some 0 else map_option Suc (position p xs))"

definition parse_adb_device_id :: "string \<Rightarrow> string option" where
  "parse_adb_device_id line =
     (let fields = split_whitespace line in
      case position (\<lambda>f. f \<in> {''device'', ''offline'', ''unauthorized''}) fields of
        None \<Rightarrow> None
      | Some state_index \<Rightarrow>
          if 0 < state_index \<and> fields ! state_index = ''device''
          then Some (join '' '' (take state_index fields)) else None)"

definition device_scoped_commands :: "string list" where
  "device_scoped_commands =
     [''shell'', ''exec-out'', ''push'', ''pull'', ''install'', ''install-multiple'',
      ''install-multi-package'', ''uninstall'', ''forward'', ''reverse'', ''reboot'', ''root'',
      ''unroot'', ''remount'', ''disable-verity'', ''enable-verity'', ''bugreport'', ''logcat'',
      ''jdwp'', ''get-state'', ''get-serialno'', ''get-devpath'', ''features'']"

definition is_device_scoped_adb_command :: "string \<Rightarrow> bool" where
  "is_device_scoped_adb_command command \<longleftrightarrow> command \<in> set device_scoped_commands"

lemma identity_refl [simp]: "same_remote_device_identity d d"
  by (simp add: same_remote_device_identity_def)

lemma identity_sym: "same_remote_device_identity a b \<Longrightarrow> same_remote_device_identity b a"
  by (auto simp: same_remote_device_identity_def split: option.splits)

lemma identity_trans:
  "same_remote_device_identity a b \<Longrightarrow> same_remote_device_identity b c \<Longrightarrow>
   same_remote_device_identity a c"
  by (auto simp: same_remote_device_identity_def split: option.splits)

text \<open>
  An identity class of names: what a locale client needs of the relation to speak of "the
  same device".
\<close>

locale device_identity =
  fixes same :: "'d \<Rightarrow> 'd \<Rightarrow> bool"
  assumes same_refl: "same d d"
    and same_sym: "same a b \<Longrightarrow> same b a"
    and same_trans: "same a b \<Longrightarrow> same b c \<Longrightarrow> same a c"
begin

text \<open>Replacing a name by another name of the same device decides every lookup alike.\<close>

lemma lookup_alias: "same d d' \<Longrightarrow> (\<exists>x \<in> S. same x d) \<longleftrightarrow> (\<exists>x \<in> S. same x d')"
  using same_sym same_trans by blast

lemma same_left: "same d d' \<Longrightarrow> same x d \<longleftrightarrow> same x d'"
  using same_sym same_trans by blast

end

interpretation mdns: device_identity same_remote_device_identity
  by unfold_locales (auto intro: identity_sym identity_trans)

lemma rfind_append_suffix:
  assumes "rfind p s = None" and "p \<noteq> []" and "\<And>k. k < length s \<Longrightarrow> \<not> starts_with p (drop k s @ t)"
  shows "rfind p (s @ t) = map_option (\<lambda>i. i + length s) (rfind p t)"
  using assms
proof (induction s)
  case Nil
  then show ?case by (cases "rfind p t") auto
next
  case (Cons c s)
  have "rfind p s = None" using Cons.prems(1) by (auto split: option.splits if_splits)
  moreover have "\<not> starts_with p (drop k s @ t)" if "k < length s" for k
    using Cons.prems(3) [of "Suc k"] that by simp
  ultimately have IH: "rfind p (s @ t) = map_option (\<lambda>i. i + length s) (rfind p t)"
    using Cons.IH Cons.prems(2) by blast
  have "\<not> starts_with p ((c # s) @ t)" using Cons.prems(3) [of 0] by simp
  then show ?case using IH by (cases "rfind p t") auto
qed

end
