(* ===== verification/Remote_Service.thy ===== *)
theory Remote_Service
  imports Local_Admin Device_Identity
begin

text \<open>
  \<open>remote/service.rs\<close>: the service behind the remote transport. It authenticates every request
  but the login, answers the account methods itself and forwards the rest to the core, for an
  ordinary user only after resolving the device's current name and authorising the request.
  The core is the trait \<open>CoreRequestHandler\<close>, here a function \<open>core\<close> on the accounts it shares
  with this service and on its own state. The lines the service writes to the standard error
  stream are kept in \<open>sv_log\<close>. \<open>E i\<close> is what the service's i-th call of the account manager
  sees of the outside.
\<close>

type_synonym 'c core_handler = "ipc_request \<Rightarrow> manager \<times> 'c \<Rightarrow> ipc_response \<times> manager \<times> 'c"

record 'c service =
  sv_accounts :: manager
  sv_core :: 'c
  sv_log :: "json list"

type_synonym 'c outcome = "(app_error + json) \<times> 'c service"

definition remote_protocol :: string where
  "remote_protocol = ''adbcontrol-core-remote-quic''"

definition remote_protocol_version :: nat where
  "remote_protocol_version = 1"

definition call_core :: "'c core_handler \<Rightarrow> ipc_request \<Rightarrow> 'c service \<Rightarrow> ipc_response \<times> 'c service" where
  "call_core core rq st =
     (case core rq (sv_accounts st, sv_core st) of
        (resp, m, c) \<Rightarrow> (resp, st\<lparr>sv_accounts := m, sv_core := c\<rparr>))"

definition on_accounts :: "(manager \<Rightarrow> 'r \<times> manager) \<Rightarrow> 'c service \<Rightarrow> 'r \<times> 'c service" where
  "on_accounts f st = (case f (sv_accounts st) of (r, m) \<Rightarrow> (r, st\<lparr>sv_accounts := m\<rparr>))"

subsection \<open>Errors and parameters\<close>

definition permission_denied :: app_error where
  "permission_denied =
     new_error ''REMOTE_AUTH_FORBIDDEN''
       ''The remote account is not authorized for this operation or device.'' ''remote.auth'' False"

definition session_required :: app_error where
  "session_required =
     new_error ''REMOTE_AUTH_REQUIRED'' ''A valid remote session token is required.''
       ''remote.auth'' True"

definition remote_change_required :: app_error where
  "remote_change_required =
     new_error ''REMOTE_AUTH_PASSWORD_CHANGE_REQUIRED''
       ''The account password must be changed before remote control is allowed.'' ''remote.auth'' False"

definition admin_local_only :: app_error where
  "admin_local_only =
     new_error ''REMOTE_AUTH_ADMIN_LOCAL_ONLY''
       ''The built-in administrator can only sign in through the local management frontend.''
       ''remote.auth'' False"

definition batch_invalid :: app_error where
  "batch_invalid =
     new_error ''REMOTE_DIAGNOSTIC_BATCH_INVALID''
       ''Diagnostic batches must contain between 1 and 50 events.'' ''remote.diagnostics'' True"

definition device_not_connected :: app_error where
  "device_not_connected =
     new_error ''REMOTE_AUTH_DEVICE_NOT_CONNECTED''
       ''Only a device currently known to the core can be assigned.'' ''remote.auth'' True"

definition remote_params :: "serde_text \<Rightarrow> string \<Rightarrow> (json \<Rightarrow> 'a option) \<Rightarrow> json \<Rightarrow> app_error + 'a" where
  "remote_params sm k d v =
     from_value (sm k) d
       (new_error ''REMOTE_PROTOCOL_PARAMS_INVALID''
          ''Remote request parameters are invalid.'' ''remote.protocol'' False) v"

definition require_admin :: "authenticated_session \<Rightarrow> app_error + unit" where
  "require_admin s = (if as_role s = Admin then Inr () else Inl permission_denied)"

subsection \<open>Authorisation\<close>

definition session_can_access_device :: "authenticated_session \<Rightarrow> string \<Rightarrow> bool" where
  "session_can_access_device s d \<longleftrightarrow>
     list_ex (\<lambda>assigned. same_remote_device_identity assigned d) (as_devices s)"

definition authorize_device_id :: "json option \<Rightarrow> authenticated_session \<Rightarrow> app_error + unit" where
  "authorize_device_id v s =
     (let d = (case Option.bind v as_str of None \<Rightarrow> [] | Some d \<Rightarrow> d) in
      if d \<noteq> [] \<and> session_can_access_device s d then Inr () else Inl permission_denied)"

definition user_read_only_methods :: "string list" where
  "user_read_only_methods =
     [''core.getHostTarget'', ''adb.asset.current'', ''companion.protocol.info'',
      ''capability.list'', ''device.list'']"

definition user_device_methods :: "string list" where
  "user_device_methods = [''device.getCapabilities'', ''device.getPermissionState'', ''device.invoke'']"

fun selected_device :: "json list \<Rightarrow> string option" where
  "selected_device (selector # device_id # rest) =
     (if as_str selector = Some ''-s'' then as_str device_id else None)"
| "selected_device _ = None"

definition nth_opt :: "nat \<Rightarrow> 'a list \<Rightarrow> 'a option" where
  "nth_opt i xs = (if i < length xs then Some (xs ! i) else None)"

definition authorize_user_core_request ::
    "string \<Rightarrow> json \<Rightarrow> authenticated_session \<Rightarrow> app_error + unit" where
  "authorize_user_core_request mth params s =
     (if mth \<in> set user_read_only_methods then Inr ()
      else if mth \<in> set user_device_methods then authorize_device_id (json_get ''deviceId'' params) s
      else if mth = ''adb.exec''
      then on_ok (ok_or permission_denied (Option.bind (json_get ''args'' params) as_array))
             (\<lambda>args. case (selected_device args, Option.bind (nth_opt 2 args) as_str) of
                (Some d, Some command) \<Rightarrow>
                  if session_can_access_device s d \<and> is_device_scoped_adb_command command
                  then Inr () else Inl permission_denied
              | _ \<Rightarrow> Inl permission_denied)
      else Inl permission_denied)"

subsection \<open>The device's current name\<close>

definition probe_request :: ipc_request where
  "probe_request =
     \<lparr>rq_id = ''remote-current-adb-devices'', rq_method = ''adb.exec'',
      rq_params = JObj [(''args'', strings_json [''devices'', ''-l''])]\<rparr>"

definition parsed_adb_devices :: "ipc_response \<Rightarrow> string list" where
  "parsed_adb_devices resp =
     (case Option.bind (rs_result resp) (get_str ''stdout'') of
        None \<Rightarrow> []
      | Some out \<Rightarrow> List.map_filter parse_adb_device_id (lines out))"

definition current_adb_device_ids :: "'c core_handler \<Rightarrow> 'c service \<Rightarrow> string list \<times> 'c service" where
  "current_adb_device_ids core st =
     (case call_core core probe_request st of (resp, st') \<Rightarrow> (parsed_adb_devices resp, st'))"

definition requested_device :: "string \<Rightarrow> json \<Rightarrow> string option" where
  "requested_device mth params =
     (if mth = ''adb.exec''
      then Option.bind (Option.bind (Option.bind (json_get ''args'' params) as_array) (nth_opt 1)) as_str
      else if mth \<in> set user_device_methods then get_str ''deviceId'' params
      else None)"

definition set_requested_device :: "string \<Rightarrow> string \<Rightarrow> json \<Rightarrow> json" where
  "set_requested_device mth current params =
     (if mth = ''adb.exec''
      then (case Option.bind (json_get ''args'' params) as_array of
              None \<Rightarrow> params
            | Some args \<Rightarrow> json_put ''args'' (JArr (args[1 := JStr current])) params)
      else json_put ''deviceId'' (JStr current) params)"

definition resolve_request_device_alias ::
    "'c core_handler \<Rightarrow> authenticated_session \<Rightarrow> remote_request \<Rightarrow> 'c service \<Rightarrow>
     remote_request \<times> 'c service" where
  "resolve_request_device_alias core s rr st =
     (case requested_device (rr_method rr) (rr_params rr) of
        None \<Rightarrow> (rr, st)
      | Some requested \<Rightarrow>
          if \<not> session_can_access_device s requested then (rr, st)
          else (case current_adb_device_ids core st of (ids, st') \<Rightarrow>
                  (case find (same_remote_device_identity requested) ids of
                     None \<Rightarrow> (rr, st')
                   | Some current \<Rightarrow>
                       (rr\<lparr>rr_params := set_requested_device (rr_method rr) current (rr_params rr)\<rparr>, st'))))"

subsection \<open>The device list of a user\<close>

text \<open>\<open>Iterator::max_by_key\<close> with a boolean key: the last of the maximal elements.\<close>

definition max_by_key :: "('a \<Rightarrow> bool) \<Rightarrow> 'a list \<Rightarrow> 'a option" where
  "max_by_key key xs =
     foldl (\<lambda>acc x. case acc of None \<Rightarrow> Some x
                    | Some y \<Rightarrow> if key y \<and> \<not> key x then Some y else Some x) None xs"

definition known_as :: "string \<Rightarrow> json \<Rightarrow> bool" where
  "known_as d device =
     (case get_str ''deviceId'' device of None \<Rightarrow> False | Some known \<Rightarrow> same_remote_device_identity known d)"

definition is_ready :: "json \<Rightarrow> bool" where
  "is_ready device \<longleftrightarrow> get_str ''connectionState'' device = Some ''ready''"

definition offline_states :: "string list" where
  "offline_states = [''adb'', ''disconnected'', ''offline'']"

definition reconcile_entry :: "string option \<Rightarrow> json option \<Rightarrow> string \<Rightarrow> json" where
  "reconcile_entry current_id registered_entry display_id =
     (let entry = (case registered_entry of None \<Rightarrow> JObj [] | Some e \<Rightarrow> e);
          previous_id = (case get_str ''deviceId'' entry of None \<Rightarrow> [] | Some p \<Rightarrow> p);
          replace_name = (case get_str ''name'' entry of None \<Rightarrow> True | Some n \<Rightarrow> n = [] \<or> n = previous_id);
          e1 = json_put ''deviceId'' (JStr display_id) entry;
          e2 = json_put ''adbState'' (JStr (if current_id \<noteq> None then ''device'' else ''offline'')) e1;
          stale = (json_get ''connectionState'' e2 = None \<or>
                   (case get_str ''connectionState'' e2 of None \<Rightarrow> False | Some c \<Rightarrow> c \<in> set offline_states));
          e3 = (if stale
                then json_put ''connectionState'' (JStr (if current_id \<noteq> None then ''adb'' else ''offline'')) e2
                else e2)
      in if replace_name then json_put ''name'' (JStr display_id) e3 else e3)"

definition reconcile_step :: "string list \<Rightarrow> json list \<Rightarrow> json list \<Rightarrow> string \<Rightarrow> json list" where
  "reconcile_step current_adb_ids registered reconciled assigned_id =
     (let current_id = find (same_remote_device_identity assigned_id) current_adb_ids;
          registered_entry = max_by_key is_ready (filter (known_as assigned_id) registered);
          remembered_id = Option.bind registered_entry (get_str ''deviceId'');
          display_id = (case current_id of Some c \<Rightarrow> c
                        | None \<Rightarrow> (case remembered_id of Some r \<Rightarrow> r | None \<Rightarrow> assigned_id))
      in if list_ex (known_as display_id) reconciled then reconciled
         else reconciled @ [reconcile_entry current_id registered_entry display_id])"

definition reconcile_remote_device_list ::
    "json list \<Rightarrow> authenticated_session \<Rightarrow> string list \<Rightarrow> json list" where
  "reconcile_remote_device_list devices s current_adb_ids =
     foldl (reconcile_step current_adb_ids devices) [] (as_devices s)"

subsection \<open>Handlers\<close>

definition remote_of_ipc :: "ipc_response \<Rightarrow> remote_response" where
  "remote_of_ipc r =
     \<lparr>rp_id = rs_id r, rp_ok = rs_ok r, rp_result = rs_result r, rp_error = rs_error r\<rparr>"

definition forward_core_request ::
    "'c core_handler \<Rightarrow> authenticated_session \<Rightarrow> remote_request \<Rightarrow> 'c service \<Rightarrow>
     remote_response \<times> 'c service" where
  "forward_core_request core s rr0 st0 =
     (case (if as_role s \<noteq> Admin then resolve_request_device_alias core s rr0 st0 else (rr0, st0)) of
        (rr, st) \<Rightarrow>
          (case (if as_role s \<noteq> Admin
                 then authorize_user_core_request (rr_method rr) (rr_params rr) s else Inr ()) of
             Inl e \<Rightarrow> (remote_failure (Some (rr_id rr)) e, st)
           | Inr _ \<Rightarrow>
               (case call_core core
                       \<lparr>rq_id = rr_id rr, rq_method = rr_method rr, rq_params = rr_params rr\<rparr> st of
                  (resp, st1) \<Rightarrow>
                    if rr_method rr = ''device.list'' \<and> as_role s \<noteq> Admin \<and> rs_ok resp
                    then (case Option.bind (rs_result resp) as_array of
                            None \<Rightarrow> (remote_of_ipc resp, st1)
                          | Some devices \<Rightarrow>
                              (case current_adb_device_ids core st1 of (ids, st2) \<Rightarrow>
                                 (remote_of_ipc (resp\<lparr>rs_result :=
                                    Some (JArr (reconcile_remote_device_list devices s ids))\<rparr>), st2)))
                    else (remote_of_ipc resp, st1))))"

definition assignment_check_request :: ipc_request where
  "assignment_check_request =
     \<lparr>rq_id = ''remote-assignment-device-check'', rq_method = ''device.list'', rq_params = JObj []\<rparr>"

definition core_has_device :: "'c core_handler \<Rightarrow> string \<Rightarrow> 'c service \<Rightarrow> bool \<times> 'c service" where
  "core_has_device core d st =
     (case call_core core assignment_check_request st of (resp, st') \<Rightarrow>
        (case Option.bind (rs_result resp) as_array of
           None \<Rightarrow> False
         | Some devices \<Rightarrow> list_ex (\<lambda>v. get_str ''deviceId'' v = Some d) devices, st'))"

definition remote_login ::
    "argon \<Rightarrow> serde_text \<Rightarrow> auth_envs \<Rightarrow> json \<Rightarrow> 'c service \<Rightarrow> 'c outcome" where
  "remote_login A sm E params st =
     (case remote_params sm ''login'' (decode_two ''username'' ''password'') params of
        Inl e \<Rightarrow> (Inl e, st)
      | Inr up \<Rightarrow>
          if fst up = default_admin_username then (Inl admin_local_only, st)
          else (case on_accounts (login A (E 0) (fst up) (snd up)) st of (r, st') \<Rightarrow>
            (map_ok (\<lambda>s. JObj
               [(''protocol'', JStr remote_protocol),
                (''protocolVersion'', JInt (int remote_protocol_version)),
                (''sessionToken'', JStr (as_token s)), (''username'', JStr (as_username s)),
                (''role'', role_json (as_role s)), (''devices'', strings_json (as_devices s)),
                (''passwordChangeRequired'', JBool (as_password_change_required s))]) r, st')))"

definition remote_change_password ::
    "argon \<Rightarrow> serde_text \<Rightarrow> auth_envs \<Rightarrow> json \<Rightarrow> authenticated_session \<Rightarrow> 'c service \<Rightarrow> 'c outcome" where
  "remote_change_password A sm E params s st =
     (case remote_params sm ''changePassword'' (decode_two ''currentPassword'' ''newPassword'') params of
        Inl e \<Rightarrow> (Inl e, st)
      | Inr pq \<Rightarrow>
          (case on_accounts (change_own_password A (E 1) (as_username s) (fst pq) (snd pq)) st of
             (r, st') \<Rightarrow> (map_ok (\<lambda>_. login_required_json ''passwordChanged'') r, st')))"

definition admin_list_users :: "authenticated_session \<Rightarrow> 'c service \<Rightarrow> 'c outcome" where
  "admin_list_users s st =
     (case require_admin s of
        Inl e \<Rightarrow> (Inl e, st)
      | Inr _ \<Rightarrow>
          (map_ok (\<lambda>accounts. JArr (map account_json accounts)) (list_accounts (sv_accounts st)), st))"

definition admin_create_user ::
    "argon \<Rightarrow> serde_text \<Rightarrow> auth_envs \<Rightarrow> json \<Rightarrow> authenticated_session \<Rightarrow> 'c service \<Rightarrow> 'c outcome" where
  "admin_create_user A sm E params s st =
     (case require_admin s of
        Inl e \<Rightarrow> (Inl e, st)
      | Inr _ \<Rightarrow>
          (case remote_params sm ''create'' (decode_two ''username'' ''password'') params of
             Inl e \<Rightarrow> (Inl e, st)
           | Inr up \<Rightarrow>
               (case on_accounts (create_user A (E 1) (fst up) (snd up)) st of
                  (r, st') \<Rightarrow> (map_ok account_json r, st'))))"

definition admin_delete_user ::
    "serde_text \<Rightarrow> auth_envs \<Rightarrow> json \<Rightarrow> authenticated_session \<Rightarrow> 'c service \<Rightarrow> 'c outcome" where
  "admin_delete_user sm E params s st =
     (case require_admin s of
        Inl e \<Rightarrow> (Inl e, st)
      | Inr _ \<Rightarrow>
          (case remote_params sm ''delete'' (decode_one ''username'') params of
             Inl e \<Rightarrow> (Inl e, st)
           | Inr username \<Rightarrow>
               (case on_accounts (delete_user (E 1) username) st of
                  (r, st') \<Rightarrow> (map_ok (\<lambda>_. JObj [(''deleted'', JBool True)]) r, st'))))"

definition admin_reset_password ::
    "argon \<Rightarrow> serde_text \<Rightarrow> auth_envs \<Rightarrow> json \<Rightarrow> authenticated_session \<Rightarrow> 'c service \<Rightarrow> 'c outcome" where
  "admin_reset_password A sm E params s st =
     (case require_admin s of
        Inl e \<Rightarrow> (Inl e, st)
      | Inr _ \<Rightarrow>
          (case remote_params sm ''reset'' (decode_two ''username'' ''newPassword'') params of
             Inl e \<Rightarrow> (Inl e, st)
           | Inr up \<Rightarrow>
               (case on_accounts (reset_password A (E 1) (fst up) (snd up)) st of
                  (r, st') \<Rightarrow> (map_ok (\<lambda>_. login_required_json ''passwordReset'') r, st'))))"

definition admin_assign_device ::
    "'c core_handler \<Rightarrow> serde_text \<Rightarrow> auth_envs \<Rightarrow> json \<Rightarrow> authenticated_session \<Rightarrow> 'c service \<Rightarrow> 'c outcome" where
  "admin_assign_device core sm E params s st =
     (case require_admin s of
        Inl e \<Rightarrow> (Inl e, st)
      | Inr _ \<Rightarrow>
          (case remote_params sm ''assign'' decode_assign params of
             Inl e \<Rightarrow> (Inl e, st)
           | Inr p \<Rightarrow>
               (case (if snd (snd p) then core_has_device core (fst (snd p)) st else (True, st)) of
                  (known, st1) \<Rightarrow>
                    if \<not> known then (Inl device_not_connected, st1)
                    else (case on_accounts
                              (set_device_access (E 1) (fst p) (fst (snd p)) (snd (snd p))) st1 of
                            (r, st') \<Rightarrow> (map_ok account_json r, st')))))"

subsection \<open>Client diagnostics\<close>

record client_event =
  ce_level :: string
  ce_phase :: string
  ce_module :: string
  ce_ok :: bool
  ce_elapsed_ms :: nat
  ce_error_code :: string
  ce_detail :: string

definition text_field :: "nat \<Rightarrow> string \<Rightarrow> json \<Rightarrow> string option" where
  "text_field i k v = defaulted [] de_string (struct_field i k v)"

definition decode_client_event :: "json \<Rightarrow> client_event option" where
  "decode_client_event = decode_struct 7 (\<lambda>v.
     map_option (\<lambda>(l, p, md, k, t, c, d).
         \<lparr>ce_level = l, ce_phase = p, ce_module = md, ce_ok = k, ce_elapsed_ms = t,
          ce_error_code = c, ce_detail = d\<rparr>)
       (both (text_field 0 ''level'' v) (both (text_field 1 ''phase'' v)
         (both (text_field 2 ''module'' v)
           (both (defaulted False de_bool (struct_field 3 ''ok'' v))
             (both (defaulted 0 (de_uint 64) (struct_field 4 ''elapsedMs'' v))
               (both (text_field 5 ''errorCode'' v) (text_field 6 ''detail'' v))))))))"

definition decode_report :: "json \<Rightarrow> (string \<times> client_event list) option" where
  "decode_report = decode_struct 2 (\<lambda>v.
     both (text_field 0 ''sessionId'' v)
       (required (de_vec decode_client_event) (struct_field 1 ''events'' v)))"

definition safe_byte :: "char \<Rightarrow> bool" where
  "safe_byte c \<longleftrightarrow> is_ascii_alphanumeric c \<or> c \<in> set ''_.:+-/=@ ''"

definition safe :: "string \<Rightarrow> nat \<Rightarrow> string" where
  "safe v mx =
     (let t = trim v in
      if t = [] \<or> length t > mx \<or> \<not> list_all safe_byte t then ''unknown'' else t)"

definition diagnostic_line :: "string \<Rightarrow> string \<Rightarrow> client_event \<Rightarrow> json" where
  "diagnostic_line actor session_id ev =
     JObj [(''event'', JStr ''mobile_client_diagnostic''), (''actor'', JStr actor),
           (''sessionId'', JStr session_id), (''level'', JStr (safe (ce_level ev) 16)),
           (''phase'', JStr (safe (ce_phase ev) 96)), (''module'', JStr (safe (ce_module ev) 96)),
           (''ok'', JBool (ce_ok ev)), (''elapsedMs'', JInt (int (ce_elapsed_ms ev))),
           (''errorCode'', JStr (if ce_ok ev then [] else safe (ce_error_code ev) 96)),
           (''detail'', JStr (safe (ce_detail ev) 200))]"

definition report_diagnostics ::
    "serde_text \<Rightarrow> json \<Rightarrow> authenticated_session \<Rightarrow> 'c service \<Rightarrow> 'c outcome" where
  "report_diagnostics sm params s st =
     (case remote_params sm ''report'' decode_report params of
        Inl e \<Rightarrow> (Inl e, st)
      | Inr p \<Rightarrow>
          if snd p = [] \<or> length (snd p) > 50 then (Inl batch_invalid, st)
          else (Inr (JObj [(''accepted'', JInt (int (length (snd p))))]),
                st\<lparr>sv_log := sv_log st @
                     map (diagnostic_line (as_username s) (safe (fst p) 64)) (snd p)\<rparr>))"

subsection \<open>The dispatcher\<close>

definition remote_free_methods :: "string list" where
  "remote_free_methods = [''auth.me'', ''auth.changePassword'', ''auth.logout'']"

definition reply_with :: "string \<Rightarrow> 'c outcome \<Rightarrow> remote_response \<times> 'c service" where
  "reply_with i p = (remote_reply i (fst p), snd p)"

definition remote_dispatch ::
    "argon \<Rightarrow> serde_text \<Rightarrow> 'c core_handler \<Rightarrow> auth_envs \<Rightarrow> remote_request \<Rightarrow> string \<Rightarrow>
     authenticated_session \<Rightarrow> 'c service \<Rightarrow> remote_response \<times> 'c service" where
  "remote_dispatch A sm core E rr token s st =
     (let mth = rr_method rr; params = rr_params rr; reply = reply_with (rr_id rr) in
      if mth = ''auth.me''
      then (remote_success (rr_id rr)
              (JObj [(''username'', JStr (as_username s)), (''role'', role_json (as_role s)),
                     (''devices'', strings_json (as_devices s)),
                     (''passwordChangeRequired'', JBool (as_password_change_required s))]), st)
      else if mth = ''auth.logout''
      then (case on_accounts (logout token) st of
              (r, st') \<Rightarrow> reply (map_ok (\<lambda>_. JObj [(''loggedOut'', JBool True)]) r, st'))
      else if mth = ''auth.changePassword'' then reply (remote_change_password A sm E params s st)
      else if mth = ''diagnostics.report'' then reply (report_diagnostics sm params s st)
      else if mth = ''admin.users.list'' then reply (admin_list_users s st)
      else if mth = ''admin.users.create'' then reply (admin_create_user A sm E params s st)
      else if mth = ''admin.users.delete'' then reply (admin_delete_user sm E params s st)
      else if mth = ''admin.users.resetPassword'' then reply (admin_reset_password A sm E params s st)
      else if mth = ''admin.devices.assign'' then reply (admin_assign_device core sm E params s st)
      else forward_core_request core s rr st)"

definition remote_handle_request ::
    "argon \<Rightarrow> serde_text \<Rightarrow> 'c core_handler \<Rightarrow> auth_envs \<Rightarrow> remote_request \<Rightarrow> 'c service \<Rightarrow>
     remote_response \<times> 'c service" where
  "remote_handle_request A sm core E rr st =
     (if rr_method rr = ''auth.login''
      then reply_with (rr_id rr) (remote_login A sm E (rr_params rr) st)
      else
        (case rr_session_token rr of
           None \<Rightarrow> (remote_failure (Some (rr_id rr)) session_required, st)
         | Some token \<Rightarrow>
             if token = [] then (remote_failure (Some (rr_id rr)) session_required, st)
             else
               (case on_accounts (authenticate (E 0) token) st of (r, st') \<Rightarrow>
                  (case r of
                     Inl e \<Rightarrow> (remote_failure (Some (rr_id rr)) e, st')
                   | Inr s \<Rightarrow>
                       if as_password_change_required s \<and> rr_method rr \<notin> set remote_free_methods
                       then (remote_failure (Some (rr_id rr)) remote_change_required, st')
                       else remote_dispatch A sm core E rr token s st'))))"

text \<open>
  \<open>handle_json_bytes\<close>, up to the encoding of the response; \<open>parse\<close> is serde's reading of the
  bytes.
\<close>

definition remote_invalid_json :: app_error where
  "remote_invalid_json =
     new_error ''REMOTE_PROTOCOL_INVALID_JSON'' ''Remote request must be a valid JSON object.''
       ''remote.protocol'' False"

definition remote_handle_json_bytes ::
    "argon \<Rightarrow> serde_text \<Rightarrow> 'c core_handler \<Rightarrow> auth_envs \<Rightarrow> (string \<Rightarrow> string + remote_request) \<Rightarrow>
     string \<Rightarrow> 'c service \<Rightarrow> remote_response \<times> 'c service" where
  "remote_handle_json_bytes A sm core E parse bytes st =
     (case parse bytes of
        Inl c \<Rightarrow> (remote_failure None (with_cause c remote_invalid_json), st)
      | Inr rr \<Rightarrow> remote_handle_request A sm core E rr st)"

end
