(* ===== verification/Remote_Service_Facts.thy ===== *)
theory Remote_Service_Facts
  imports Remote_Service
begin

text \<open>
  Facts about the remote service: which requests it lets reach the core, the device list it
  shows to a user, and the resolution of device aliases.
\<close>

subsection \<open>Device lists\<close>

lemma max_by_key_in: "max_by_key key xs = Some x \<Longrightarrow> x \<in> set xs"
proof -
  have "foldl (\<lambda>acc x. case acc of None \<Rightarrow> Some x
          | Some y \<Rightarrow> if key y \<and> \<not> key x then Some y else Some x) a xs = Some x \<Longrightarrow>
        x \<in> set xs \<or> a = Some x" for a
    by (induction xs arbitrary: a) (fastforce split: option.splits if_splits)+
  then show "max_by_key key xs = Some x \<Longrightarrow> x \<in> set xs"
    unfolding max_by_key_def by blast
qed

lemma known_as_iff:
  "known_as d v \<longleftrightarrow> (\<exists>k. get_str ''deviceId'' v = Some k \<and> same_remote_device_identity k d)"
  by (simp add: known_as_def split: option.splits)

lemma registered_entry_known:
  assumes "max_by_key key (filter (known_as a) ds) = Some e"
  shows "is_object e" and "\<exists>k. get_str ''deviceId'' e = Some k \<and> same_remote_device_identity k a"
  using max_by_key_in [OF assms] by (auto simp: known_as_iff intro: get_str_Some_object)

lemma reconcile_entry_id:
  assumes "\<And>e. reg = Some e \<Longrightarrow> is_object e"
  shows "is_object (reconcile_entry cur reg d)"
    and "get_str ''deviceId'' (reconcile_entry cur reg d) = Some d"
    and "get_str ''adbState'' (reconcile_entry cur reg d) = Some (if cur = None then ''offline'' else ''device'')"
  using assms by (auto simp: reconcile_entry_def Let_def split: option.splits)

definition entry_ids :: "json list \<Rightarrow> string option list" where
  "entry_ids ds = map (get_str ''deviceId'') ds"

text \<open>
  What a list of entries must satisfy towards the assigned devices: every entry names one of
  them, and no two entries name the same device.
\<close>

definition directory_of :: "string set \<Rightarrow> json list \<Rightarrow> bool" where
  "directory_of assigned ds \<longleftrightarrow>
     (\<forall>v \<in> set ds. \<exists>d. get_str ''deviceId'' v = Some d \<and> (\<exists>a \<in> assigned. same_remote_device_identity a d)) \<and>
     sorted_wrt (\<lambda>v w. \<not> known_as (the (get_str ''deviceId'' w)) v) ds"

lemma reconcile_step_cases:
  fixes cur reg acc a
  defines "c \<equiv> find (same_remote_device_identity a) cur"
    and "e \<equiv> max_by_key is_ready (filter (known_as a) reg)"
  obtains d where "same_remote_device_identity a d"
    and "reconcile_step cur reg acc a =
           (if list_ex (known_as d) acc then acc else acc @ [reconcile_entry c e d])"
    and "get_str ''deviceId'' (reconcile_entry c e d) = Some d"
proof -
  let ?d = "case c of Some c \<Rightarrow> c
            | None \<Rightarrow> (case Option.bind e (get_str ''deviceId'') of Some r \<Rightarrow> r | None \<Rightarrow> a)"
  have "same_remote_device_identity a ?d"
    using find_SomeD [of "same_remote_device_identity a" cur]
      registered_entry_known(2) [of is_ready a reg]
    by (auto simp: c_def e_def bind_eq_Some_conv split: option.splits intro: identity_sym)
  moreover have "get_str ''deviceId'' (reconcile_entry c e ?d) = Some ?d"
    by (rule reconcile_entry_id) (auto simp: e_def dest: registered_entry_known(1))
  moreover have "reconcile_step cur reg acc a =
      (if list_ex (known_as ?d) acc then acc else acc @ [reconcile_entry c e ?d])"
    unfolding reconcile_step_def Let_def c_def [symmetric] e_def [symmetric] by (rule refl)
  ultimately show thesis by (intro that [of ?d])
qed

lemma directory_step:
  assumes "directory_of S acc"
  shows "directory_of (insert a S) (reconcile_step cur reg acc a)"
    and "list_ex (known_as a) (reconcile_step cur reg acc a)"
    and "set acc \<subseteq> set (reconcile_step cur reg acc a)"
proof -
  obtain d e c where d: "same_remote_device_identity a d"
    and st: "reconcile_step cur reg acc a =
           (if list_ex (known_as d) acc then acc else acc @ [reconcile_entry c e d])"
    and i: "get_str ''deviceId'' (reconcile_entry c e d) = Some d"
    by (rule reconcile_step_cases [of a cur reg acc]) blast
  show "directory_of (insert a S) (reconcile_step cur reg acc a)"
    using assms d i by (fastforce simp: directory_of_def st sorted_wrt_append list_ex_iff)
  have "known_as a v \<longleftrightarrow> known_as d v" for v
    using mdns.same_left [OF d] by (simp add: known_as_iff)
  then show "list_ex (known_as a) (reconcile_step cur reg acc a)"
    using i by (auto simp: st list_ex_iff known_as_iff)
  show "set acc \<subseteq> set (reconcile_step cur reg acc a)" by (auto simp: st)
qed

lemma directory_fold:
  assumes "directory_of S acc" and "\<forall>a \<in> S. list_ex (known_as a) acc"
  shows "directory_of (S \<union> set as) (foldl (reconcile_step cur reg) acc as) \<and>
         (\<forall>a \<in> S \<union> set as. list_ex (known_as a) (foldl (reconcile_step cur reg) acc as))"
  using assms
proof (induction as arbitrary: S acc)
  case Nil
  then show ?case by simp
next
  case (Cons a as)
  have "\<forall>b \<in> insert a S. list_ex (known_as b) (reconcile_step cur reg acc a)"
    using Cons.prems directory_step(2) [OF Cons.prems(1), of a cur reg]
      directory_step(3) [OF Cons.prems(1), of cur reg a]
    by (auto simp: list_ex_iff)
  with Cons.IH [OF directory_step(1) [OF Cons.prems(1)]] show ?case by simp
qed

subsection \<open>Requests that reach the core\<close>

text \<open>\<open>logged core\<close> behaves as \<open>core\<close> and writes down every request it receives.\<close>

definition logged :: "'c core_handler \<Rightarrow> ('c \<times> ipc_request list) core_handler" where
  "logged core rq st =
     (case st of (m, c, log) \<Rightarrow>
        (case core rq (m, c) of (resp, m', c') \<Rightarrow> (resp, m', c', log @ [rq])))"

definition core_log :: "('c \<times> ipc_request list) service \<Rightarrow> ipc_request list" where
  "core_log st = snd (sv_core st)"

text \<open>The requests an ordinary user's session entitles to.\<close>

definition user_permitted :: "authenticated_session \<Rightarrow> ipc_request \<Rightarrow> bool" where
  "user_permitted s rq \<longleftrightarrow>
     rq = probe_request \<or>
     rq_method rq \<in> set user_read_only_methods \<or>
     (rq_method rq \<in> set user_device_methods \<and>
        (\<exists>d. get_str ''deviceId'' (rq_params rq) = Some d \<and> session_can_access_device s d)) \<or>
     (rq_method rq = ''adb.exec'' \<and>
        (\<exists>d command rest.
           json_get ''args'' (rq_params rq) = Some (JArr (JStr ''-s'' # JStr d # JStr command # rest)) \<and>
           session_can_access_device s d \<and> is_device_scoped_adb_command command))"

lemma call_core_log [simp]:
  "core_log (snd (call_core (logged core) rq st)) = core_log st @ [rq]"
  by (auto simp: call_core_def logged_def core_log_def split: prod.splits)

lemma on_accounts_frame [simp]:
  "sv_core (snd (on_accounts f st)) = sv_core st" "sv_log (snd (on_accounts f st)) = sv_log st"
  "sv_accounts (snd (on_accounts f st)) = snd (f (sv_accounts st))"
  "fst (on_accounts f st) = fst (f (sv_accounts st))"
  by (simp_all add: on_accounts_def case_prod_beta)

lemma on_accounts_log [simp]: "core_log (snd (on_accounts f st)) = core_log st"
  by (simp add: core_log_def)

lemma probe_log [simp]:
  "core_log (snd (current_adb_device_ids (logged core) st)) = core_log st @ [probe_request]"
  by (simp add: current_adb_device_ids_def case_prod_beta)

lemma resolve_log:
  "set (core_log (snd (resolve_request_device_alias (logged core) s rr st)))
     \<subseteq> insert probe_request (set (core_log st))"
  by (auto simp: resolve_request_device_alias_def case_prod_beta split: option.splits)

lemma authorize_device_id_Inr_iff [ok_iff]:
  "authorize_device_id v s = Inr u \<longleftrightarrow>
     (\<exists>d. v = Some (JStr d) \<and> d \<noteq> [] \<and> session_can_access_device s d)"
  by (cases v) (auto simp: authorize_device_id_def Let_def split: option.splits)

lemma selected_device_Some_iff:
  "selected_device args = Some d \<longleftrightarrow> (\<exists>rest. args = JStr ''-s'' # JStr d # rest)"
  by (cases args rule: selected_device.cases) auto

lemma exec_args_iff:
  "(case selected_device args of None \<Rightarrow> Inl e
    | Some d \<Rightarrow> (case Option.bind (nth_opt 2 args) as_str of None \<Rightarrow> Inl e
        | Some command \<Rightarrow> if P d \<and> Q command then Inr () else Inl e)) = Inr () \<longleftrightarrow>
   (\<exists>d command rest. args = JStr ''-s'' # JStr d # JStr command # rest \<and> P d \<and> Q command)"
proof (cases "selected_device args")
  case None
  then show ?thesis by auto
next
  case (Some d)
  then obtain rest where "args = JStr ''-s'' # JStr d # rest"
    by (auto simp: selected_device_Some_iff)
  then show ?thesis
    by (cases rest; cases "as_str (hd rest)") (auto simp: nth_opt_def split: if_splits)
qed

lemma authorize_exec_iff:
  "authorize_user_core_request ''adb.exec'' p s = Inr () \<longleftrightarrow>
     (\<exists>d command rest.
        json_get ''args'' p = Some (JArr (JStr ''-s'' # JStr d # JStr command # rest)) \<and>
        session_can_access_device s d \<and> is_device_scoped_adb_command command)"
  by (simp add: authorize_user_core_request_def user_read_only_methods_def
      user_device_methods_def ok_iff exec_args_iff bind_eq_Some_conv) blast

lemma authorize_Inr_permitted:
  assumes "authorize_user_core_request (rq_method rq) (rq_params rq) s = Inr ()"
  shows "user_permitted s rq"
proof (cases "rq_method rq = ''adb.exec''")
  case True
  then show ?thesis
    using assms by (simp add: authorize_exec_iff user_permitted_def)
next
  case False
  then show ?thesis
    using assms
    by (auto simp: authorize_user_core_request_def user_permitted_def ok_iff get_str_Some_iff
        split: if_splits)
qed

lemma forward_log:
  assumes "rq \<in> set (core_log (snd (forward_core_request (logged core) s rr st)))"
  shows "rq \<in> set (core_log st) \<or> as_role s = Admin \<or> user_permitted s rq"
proof (cases "as_role s = Admin")
  case False
  obtain rr' st' where r: "resolve_request_device_alias (logged core) s rr st = (rr', st')"
    by (cases "resolve_request_device_alias (logged core) s rr st")
  then have l: "set (core_log st') \<subseteq> insert probe_request (set (core_log st))"
    using resolve_log [of core s rr st] by simp
  have p: "user_permitted s probe_request" by (simp add: user_permitted_def)
  show ?thesis
  proof (cases "authorize_user_core_request (rr_method rr') (rr_params rr') s")
    case (Inl e)
    then show ?thesis using assms r False l p by (auto simp: forward_core_request_def)
  next
    case (Inr u)
    let ?rq = "\<lparr>rq_id = rr_id rr', rq_method = rr_method rr', rq_params = rr_params rr'\<rparr>"
    have perm: "user_permitted s ?rq" using Inr by (intro authorize_Inr_permitted) simp
    have "set (core_log (snd (forward_core_request (logged core) s rr st)))
            \<subseteq> insert ?rq (insert probe_request (set (core_log st')))"
      using False Inr r
      by (auto simp: forward_core_request_def case_prod_beta split: option.splits if_splits)
    then show ?thesis using assms l perm p by blast
  qed
qed simp

lemma dispatch_log:
  assumes "rq \<in> set (core_log (snd (remote_dispatch A sm (logged core) E rr t s st)))"
  shows "rq \<in> set (core_log st) \<or> as_role s = Admin \<or> user_permitted s rq"
proof -
  have hand: "core_log (snd (remote_change_password A sm E p s st)) = core_log st"
    "core_log (snd (report_diagnostics sm p s st)) = core_log st"
    "core_log (snd (admin_list_users s st)) = core_log st"
    "core_log (snd (admin_create_user A sm E p s st)) = core_log st"
    "core_log (snd (admin_delete_user sm E p s st)) = core_log st"
    "core_log (snd (admin_reset_password A sm E p s st)) = core_log st" for p
    by (auto simp: remote_change_password_def report_diagnostics_def admin_list_users_def
        admin_create_user_def admin_delete_user_def admin_reset_password_def core_log_def
        case_prod_beta split: sum.splits)
  have "as_role s = Admin \<or> core_log (snd (admin_assign_device (logged core) sm E p s st)) = core_log st" for p
    by (auto simp: admin_assign_device_def require_admin_def split: sum.splits)
  with assms hand forward_log [of rq core s rr st] show ?thesis
    by (simp add: remote_dispatch_def Let_def reply_with_def case_prod_beta split: if_splits)
      (metis (no_types))+
qed

lemma dispatch_free_log:
  "rr_method rr \<in> set remote_free_methods \<Longrightarrow>
   core_log (snd (remote_dispatch A sm (logged core) E rr t s st)) = core_log st"
  by (auto simp: remote_dispatch_def Let_def reply_with_def remote_free_methods_def case_prod_beta
      remote_change_password_def core_log_def split: sum.splits)

text \<open>The two ways a request other than the login can go.\<close>

lemma remote_handle_cases:
  assumes "rr_method rr \<noteq> ''auth.login''"
  obtains (refused) e st' where
    "remote_handle_request A sm core E rr st = (remote_failure (Some (rr_id rr)) e, st')"
    "st' = st \<or> (\<exists>t. st' = snd (on_accounts (authenticate (E 0) t) st))"
  | (session) t s where "rr_session_token rr = Some t"
    "fst (authenticate (E 0) t (sv_accounts st)) = Inr s"
    "as_password_change_required s \<longrightarrow> rr_method rr \<in> set remote_free_methods"
    "remote_handle_request A sm core E rr st =
       remote_dispatch A sm core E rr t s (snd (on_accounts (authenticate (E 0) t) st))"
proof (cases "\<exists>t. rr_session_token rr = Some t \<and> t \<noteq> []")
  case False
  then show ?thesis
    using assms
    by (intro refused [of session_required st]) (auto simp: remote_handle_request_def split: option.splits)
next
  case True
  then obtain t where t: "rr_session_token rr = Some t" "t \<noteq> []" by blast
  obtain r st' where a: "on_accounts (authenticate (E 0) t) st = (r, st')"
    by (cases "on_accounts (authenticate (E 0) t) st")
  then have r: "fst (authenticate (E 0) t (sv_accounts st)) = r"
    and st': "st' = snd (on_accounts (authenticate (E 0) t) st)"
    using on_accounts_frame(4) [of "authenticate (E 0) t" st] by simp_all
  show ?thesis
  proof (cases r)
    case (Inl e)
    then have "remote_handle_request A sm core E rr st = (remote_failure (Some (rr_id rr)) e, st')"
      using assms t a by (simp add: remote_handle_request_def)
    then show ?thesis using st' refused by blast
  next
    case (Inr s)
    show ?thesis
    proof (cases "as_password_change_required s \<and> rr_method rr \<notin> set remote_free_methods")
      case True
      then have "remote_handle_request A sm core E rr st =
          (remote_failure (Some (rr_id rr)) remote_change_required, st')"
        using assms t a Inr by (simp add: remote_handle_request_def)
      then show ?thesis using st' refused by blast
    next
      case False
      then have "remote_handle_request A sm core E rr st = remote_dispatch A sm core E rr t s st'"
        using assms t a Inr by (auto simp: remote_handle_request_def)
      moreover have "as_password_change_required s \<longrightarrow> rr_method rr \<in> set remote_free_methods"
        using False by blast
      ultimately show ?thesis using session t(1) r Inr st' by metis
    qed
  qed
qed

lemma remote_login_log [simp]: "core_log (snd (remote_login A sm E p st)) = core_log st"
  by (auto simp: remote_login_def core_log_def case_prod_beta split: sum.splits)

subsection \<open>Properties\<close>

text \<open>C3. Complete mediation: a remote request makes the core do anything only if it carries the
  token of a live session whose password change is not outstanding; and if that session is not
  the administrator's, every request the core then receives is permitted to it: the probe for
  connected devices, a read-only method, a device method on a device assigned to the account,
  or an adb command that is confined to an assigned device by a leading \<open>-s\<close> selector.\<close>

theorem remote_complete_mediation:
  assumes "rq \<in> set (core_log (snd (remote_handle_request A sm (logged core) E rr st)))"
    and "core_log st = []"
  shows "\<exists>t s. rr_session_token rr = Some t \<and> fst (authenticate (E 0) t (sv_accounts st)) = Inr s \<and>
           \<not> as_password_change_required s \<and> (as_role s = Admin \<or> user_permitted s rq)"
proof (cases "rr_method rr = ''auth.login''")
  case True
  then show ?thesis using assms by (simp add: remote_handle_request_def reply_with_def)
next
  case False
  then show ?thesis
  proof (cases rule: remote_handle_cases
      [where A = A and sm = sm and core = "logged core" and E = E and st = st])
    case (refused e st')
    then show ?thesis using assms by auto
  next
    case (session t s)
    let ?st = "snd (on_accounts (authenticate (E 0) t) st)"
    have "\<not> as_password_change_required s"
    proof
      assume "as_password_change_required s"
      then have "core_log (snd (remote_handle_request A sm (logged core) E rr st)) = core_log ?st"
        using session by (simp add: dispatch_free_log)
      then show False using assms by simp
    qed
    moreover have "as_role s = Admin \<or> user_permitted s rq"
      using dispatch_log [of rq A sm core E rr t s ?st] assms session by simp
    ultimately show ?thesis using session by blast
  qed
qed

text \<open>C25. The device directory of an ordinary user: whatever the core registers and adb reports,
  every entry of the reconciled list names a device assigned to the account, no device has two
  entries, and every assigned device has one, connected or not.\<close>

theorem reconciled_directory:
  "(\<forall>v \<in> set (reconcile_remote_device_list devices s ids).
      \<exists>d. get_str ''deviceId'' v = Some d \<and> session_can_access_device s d) \<and>
   sorted_wrt (\<lambda>v w. \<not> known_as (the (get_str ''deviceId'' w)) v)
     (reconcile_remote_device_list devices s ids) \<and>
   (\<forall>a \<in> set (as_devices s). list_ex (known_as a) (reconcile_remote_device_list devices s ids))"
  using directory_fold [of "{}" "[]" "as_devices s" ids devices]
  by (auto simp: directory_of_def reconcile_remote_device_list_def session_can_access_device_def
      list_ex_iff)

lemma access_alias:
  "same_remote_device_identity d cur \<Longrightarrow>
   session_can_access_device s cur \<longleftrightarrow> session_can_access_device s d"
  using mdns.lookup_alias [of d cur "set (as_devices s)"]
  by (auto simp: session_can_access_device_def list_ex_iff)

lemma join_nonempty: "xs \<noteq> [] \<Longrightarrow> \<forall>x \<in> set xs. x \<noteq> [] \<Longrightarrow> join sep xs \<noteq> []"
  by (induction sep xs rule: join.induct) auto

lemma split_ws_nonempty: "x \<in> set (split_ws_aux acc s) \<Longrightarrow> x \<noteq> []"
  by (induction acc s rule: split_ws_aux.induct) (auto split: if_splits)

lemma position_Some_less: "position p xs = Some i \<Longrightarrow> i < length xs"
  by (induction xs arbitrary: i) (auto split: if_splits)

lemma parsed_device_nonempty:
  assumes "parse_adb_device_id l = Some d"
  shows "d \<noteq> []"
proof -
  let ?pos = "position (\<lambda>f. f \<in> {''device'', ''offline'', ''unauthorized''}) (split_whitespace l)"
  have "?pos \<noteq> None" using assms unfolding parse_adb_device_id_def Let_def by (cases ?pos) simp_all
  then obtain i where i: "?pos = Some i" by blast
  then have "0 < i \<and> d = join '' '' (take i (split_whitespace l))"
    using assms unfolding parse_adb_device_id_def Let_def
    by (cases "0 < i \<and> split_whitespace l ! i = ''device''") simp_all
  then have "0 < i" "d = join '' '' (take i (split_whitespace l))" by blast+
  moreover have "take i (split_whitespace l) \<noteq> []"
    using \<open>0 < i\<close> position_Some_less [OF i] by auto
  moreover have "x \<noteq> []" if "x \<in> set (take i (split_whitespace l))" for x
    using split_ws_nonempty [of x "[]" l] in_set_takeD [OF that] by (simp add: split_whitespace_def)
  ultimately show ?thesis
    using join_nonempty [of "take i (split_whitespace l)" "'' ''"] by simp
qed

lemma parsed_adb_nonempty: "d \<in> set (parsed_adb_devices resp) \<Longrightarrow> d \<noteq> []"
  by (auto simp: parsed_adb_devices_def map_filter_def parsed_device_nonempty split: option.splits)

lemma set_requested_device_authorized:
  assumes "requested_device mth p = Some d" and same: "same_remote_device_identity d cur"
    and "cur \<noteq> []" and "session_can_access_device s d"
  shows "requested_device mth (set_requested_device mth cur p) = Some cur"
    and "d \<noteq> [] \<Longrightarrow> is_ok (authorize_user_core_request mth (set_requested_device mth cur p) s) =
           is_ok (authorize_user_core_request mth p s)"
proof -
  have acc: "session_can_access_device s cur" "session_can_access_device s d"
    using assms(4) access_alias [OF same] by simp_all
  have "requested_device mth (set_requested_device mth cur p) = Some cur \<and>
        (d \<noteq> [] \<longrightarrow> is_ok (authorize_user_core_request mth (set_requested_device mth cur p) s) =
           is_ok (authorize_user_core_request mth p s))"
  proof (cases "mth = ''adb.exec''")
    case True
    with assms(1) obtain args where args: "json_get ''args'' p = Some (JArr args)"
      and d: "nth_opt 1 args = Some (JStr d)"
      by (auto simp: requested_device_def bind_eq_Some_conv)
    then have obj: "is_object p" by (auto intro: json_get_Some_object)
    from d obtain x rest where "args = x # JStr d # rest"
      by (cases args rule: selected_device.cases) (auto simp: nth_opt_def split: if_splits)
    with True args obj acc show ?thesis
      by (auto simp: requested_device_def set_requested_device_def nth_opt_def is_ok_iff
          authorize_exec_iff)
  next
    case False
    with assms(1) have m: "mth \<in> set user_device_methods" and g: "get_str ''deviceId'' p = Some d"
      by (auto simp: requested_device_def split: if_splits)
    then have obj: "is_object p" by (auto intro: get_str_Some_object)
    have "mth \<notin> set user_read_only_methods"
      using m by (auto simp: user_device_methods_def user_read_only_methods_def)
    with False m g obj acc assms(3) show ?thesis
      by (auto simp: requested_device_def set_requested_device_def get_str_Some_iff is_ok_iff
          authorize_user_core_request_def authorize_device_id_Inr_iff)
  qed
  then show "requested_device mth (set_requested_device mth cur p) = Some cur"
    and "d \<noteq> [] \<Longrightarrow> is_ok (authorize_user_core_request mth (set_requested_device mth cur p) s) =
           is_ok (authorize_user_core_request mth p s)" by blast+
qed

lemma identity_empty [simp]: "same_remote_device_identity [] d \<longleftrightarrow> d = []"
  by (auto simp: same_remote_device_identity_def normalized_mdns_service_identity_def
      strip_suffix_def ends_with_def mdns_suffix_def)

text \<open>Resolving a device alias never widens a request: the method, the id and the token stay,
  the device is replaced only by a name adb currently reports for the same device, and only if
  the session may use it; the authorisation check decides alike before and after.\<close>

theorem alias_resolution_sound:
  assumes "resolve_request_device_alias core s rr st = (rr', st')"
  shows "rr_id rr' = rr_id rr \<and> rr_method rr' = rr_method rr \<and>
         rr_session_token rr' = rr_session_token rr \<and>
         is_ok (authorize_user_core_request (rr_method rr') (rr_params rr') s) =
           is_ok (authorize_user_core_request (rr_method rr) (rr_params rr) s) \<and>
         (rr' = rr \<or>
          (\<exists>d cur. requested_device (rr_method rr) (rr_params rr) = Some d \<and>
             session_can_access_device s d \<and>
             requested_device (rr_method rr) (rr_params rr') = Some cur \<and>
             same_remote_device_identity d cur \<and>
             cur \<in> set (parsed_adb_devices (fst (call_core core probe_request st)))))"
proof (cases "rr' = rr")
  case False
  let ?ids = "parsed_adb_devices (fst (call_core core probe_request st))"
  from False assms obtain d cur where d: "requested_device (rr_method rr) (rr_params rr) = Some d"
    "session_can_access_device s d" "find (same_remote_device_identity d) ?ids = Some cur"
    and rr': "rr' = rr\<lparr>rr_params := set_requested_device (rr_method rr) cur (rr_params rr)\<rparr>"
    by (auto simp: resolve_request_device_alias_def current_adb_device_ids_def case_prod_beta
        split: option.splits if_splits)
  from find_SomeD [OF d(3)] have cur: "cur \<in> set ?ids" "same_remote_device_identity d cur" by auto
  then have "cur \<noteq> []" "d \<noteq> []" using parsed_adb_nonempty by force+
  with set_requested_device_authorized [OF d(1) cur(2) _ d(2)] d cur
  show ?thesis by (auto simp: rr')
qed simp

lemma remote_login_Inr:
  assumes "fst (remote_login A sm E p st) = Inr v"
  shows "\<exists>n q s. n \<noteq> default_admin_username \<and>
           login A (E 0) n q (sv_accounts st) =
             (Inr s, sv_accounts (snd (remote_login A sm E p st))) \<and>
           get_str ''role'' v = as_str (role_json (as_role s))"
proof -
  obtain up where up: "remote_params sm ''login'' (decode_two ''username'' ''password'') p = Inr up"
    using assms by (cases "remote_params sm ''login'' (decode_two ''username'' ''password'') p")
      (simp_all add: remote_login_def)
  have n: "fst up \<noteq> default_admin_username" using assms up by (auto simp: remote_login_def)
  obtain r st' where r: "on_accounts (login A (E 0) (fst up) (snd up)) st = (r, st')"
    by (cases "on_accounts (login A (E 0) (fst up) (snd up)) st")
  then obtain s where s: "r = Inr s"
    using assms up n by (cases r) (auto simp: remote_login_def)
  have "login A (E 0) (fst up) (snd up) (sv_accounts st) = (Inr s, sv_accounts st')"
    using r s by (auto simp: on_accounts_def split: prod.splits)
  moreover have "get_str ''role'' v = as_str (role_json (as_role s))"
    "snd (remote_login A sm E p st) = st'"
    using assms up n r s by (auto simp: remote_login_def get_str_def)
  ultimately show ?thesis using n by blast
qed

text \<open>The remote login never signs in the built-in administrator: the only session it can
  create belongs to another account, and its reply names that account with the user role.\<close>

theorem remote_login_never_admin:
  assumes "rr_method rr = ''auth.login''" and "manager_ok (sv_accounts st)"
    and "remote_handle_request A sm core E rr st = (resp, st')"
  shows "(\<forall>t r. mg_sessions (sv_accounts st') t = Some r \<longrightarrow>
            mg_sessions (sv_accounts st) t = Some r \<or> sr_username r \<noteq> default_admin_username) \<and>
         mg_database (sv_accounts st') = mg_database (sv_accounts st) \<and>
         (\<forall>v. rp_result resp = Some v \<longrightarrow> get_str ''role'' v = Some ''user'')"
proof -
  let ?r = "remote_login A sm E (rr_params rr) st"
  have h: "resp = remote_reply (rr_id rr) (fst ?r)" "st' = snd ?r"
    using assms(1,3) by (auto simp: remote_handle_request_def reply_with_def)
  show ?thesis
  proof (cases "fst ?r")
    case (Inl e)
    then have "st' = st"
      by (auto simp: h remote_login_def on_accounts_def login_def case_prod_beta
          split: sum.splits option.splits if_splits)
    then show ?thesis by (simp add: h Inl remote_reply_def)
  next
    case (Inr v)
    then obtain n p s where n: "n \<noteq> default_admin_username"
      and l: "login A (E 0) n p (sv_accounts st) = (Inr s, sv_accounts st')"
      and v: "get_str ''role'' v = as_str (role_json (as_role s))"
      using remote_login_Inr [of A sm E "rr_params rr" st v] h by metis
    from l obtain u where u: "bt_get n (users (sv_accounts st)) = Some u"
      "s = session_from_user (env_token (E 0)) u"
      by (auto simp: login_Inr_iff)
    then have "as_role s = User"
      using manager_okD(3) [OF assms(2) u(1)] n
      by (cases "sa_role u") (auto simp: account_ok_def session_from_user_def)
    then show ?thesis using l n v by (auto simp: h Inr remote_reply_def login_Inr_iff split: if_splits)
  qed
qed

subsection \<open>What the service needs of the core\<close>

definition local_method :: "string \<Rightarrow> bool" where
  "local_method mth \<longleftrightarrow> starts_with ''remote.admin.'' mth \<or> starts_with ''remote.internal.'' mth"

text \<open>
  The contract of \<open>CoreRequestHandler\<close> the remote service relies on: a response carries the id
  of its request, the accounts stay well formed, and only the local administration methods
  touch them.
\<close>

locale core_request_handler =
  fixes core :: "'c core_handler"
  assumes echo: "rs_id (fst (core rq st)) = Some (rq_id rq)"
    and accounts_ok: "manager_ok (fst st) \<Longrightarrow> manager_ok (fst (snd (core rq st)))"
    and accounts_frame: "\<not> local_method (rq_method rq) \<Longrightarrow> fst (snd (core rq st)) = fst st"
begin

lemma call_echo: "rs_id (fst (call_core core rq st)) = Some (rq_id rq)"
  using echo [of rq "(sv_accounts st, sv_core st)"] by (simp add: call_core_def case_prod_beta)

lemma call_ok: "manager_ok (sv_accounts st) \<Longrightarrow> manager_ok (sv_accounts (snd (call_core core rq st)))"
  using accounts_ok [of "(sv_accounts st, sv_core st)" rq]
  by (simp add: call_core_def case_prod_beta)

lemma call_frame:
  "\<not> local_method (rq_method rq) \<Longrightarrow> sv_accounts (snd (call_core core rq st)) = sv_accounts st"
  using accounts_frame [of rq "(sv_accounts st, sv_core st)"]
  by (simp add: call_core_def case_prod_beta)

lemma probe_frame [simp]: "sv_accounts (snd (current_adb_device_ids core st)) = sv_accounts st"
  by (simp add: current_adb_device_ids_def case_prod_beta call_frame probe_request_def
      local_method_def starts_with_def)

lemma resolve_frame:
  "rr_id (fst (resolve_request_device_alias core s rr st)) = rr_id rr"
  "rr_method (fst (resolve_request_device_alias core s rr st)) = rr_method rr"
  "sv_accounts (snd (resolve_request_device_alias core s rr st)) = sv_accounts st"
  by (auto simp: resolve_request_device_alias_def case_prod_beta split: option.splits)

lemma forward_echo: "rp_id (fst (forward_core_request core s rr st)) = Some (rr_id rr)"
  by (auto simp: forward_core_request_def case_prod_beta remote_of_ipc_def call_echo resolve_frame
      split: sum.splits option.splits)

lemma forward_ok:
  "manager_ok (sv_accounts st) \<Longrightarrow> manager_ok (sv_accounts (snd (forward_core_request core s rr st)))"
  by (auto simp: forward_core_request_def case_prod_beta resolve_frame call_ok
      split: sum.splits option.splits)

lemma has_device_frame: "sv_accounts (snd (core_has_device core d st)) = sv_accounts st"
  by (simp add: core_has_device_def case_prod_beta call_frame assignment_check_request_def
      local_method_def starts_with_def)

lemma assign_ok:
  "manager_ok (sv_accounts st) \<Longrightarrow>
   manager_ok (sv_accounts (snd (admin_assign_device core sm E p s st)))"
  by (auto simp: admin_assign_device_def case_prod_beta has_device_frame manager_ok_assign
      split: sum.splits)

lemma dispatch_echo: "rp_id (fst (remote_dispatch A sm core E rr t s st)) = Some (rr_id rr)"
  by (simp add: remote_dispatch_def Let_def reply_with_def case_prod_beta forward_echo)

lemma dispatch_ok:
  assumes "manager_ok (sv_accounts st)"
  shows "manager_ok (sv_accounts (snd (remote_dispatch A sm core E rr t s st)))"
proof -
  have "manager_ok (sv_accounts (snd (remote_change_password A sm E p s st)))"
    "manager_ok (sv_accounts (snd (report_diagnostics sm p s st)))"
    "manager_ok (sv_accounts (snd (admin_list_users s st)))"
    "manager_ok (sv_accounts (snd (admin_create_user A sm E p s st)))"
    "manager_ok (sv_accounts (snd (admin_delete_user sm E p s st)))"
    "manager_ok (sv_accounts (snd (admin_reset_password A sm E p s st)))" for p
    using assms
    by (auto simp: remote_change_password_def report_diagnostics_def admin_list_users_def
        admin_create_user_def admin_delete_user_def admin_reset_password_def case_prod_beta
        manager_ok_ops split: sum.splits)
  then show ?thesis
    using assms forward_ok assign_ok
    by (simp add: remote_dispatch_def Let_def reply_with_def case_prod_beta manager_ok_ops)
qed

lemma login_ok:
  "manager_ok (sv_accounts st) \<Longrightarrow> manager_ok (sv_accounts (snd (remote_login A sm E p st)))"
  by (auto simp: remote_login_def case_prod_beta manager_ok_ops split: sum.splits)

lemma remote_echo: "rp_id (fst (remote_handle_request A sm core E rr st)) = Some (rr_id rr)"
proof (cases "rr_method rr = ''auth.login''")
  case False
  then show ?thesis
    by (cases rule: remote_handle_cases [where A = A and sm = sm and core = core and E = E and st = st])
      (simp_all add: dispatch_echo)
qed (simp add: remote_handle_request_def reply_with_def)

lemma remote_accounts_ok:
  assumes "manager_ok (sv_accounts st)"
  shows "manager_ok (sv_accounts (snd (remote_handle_request A sm core E rr st)))"
proof (cases "rr_method rr = ''auth.login''")
  case False
  then show ?thesis
    using assms
    by (cases rule: remote_handle_cases [where A = A and sm = sm and core = core and E = E and st = st])
      (auto simp: dispatch_ok manager_ok_ops)
qed (use assms in \<open>simp add: remote_handle_request_def reply_with_def login_ok\<close>)

text \<open>An ordinary user changes the account database only by changing the own password.\<close>

lemma user_dispatch_database:
  assumes "as_role s \<noteq> Admin"
    and "bt_get k (users (sv_accounts (snd (remote_dispatch A sm core E rr t s st)))) \<noteq>
         bt_get k (users (sv_accounts st))"
  shows "rr_method rr = ''auth.changePassword'' \<and> k = as_username s"
proof -
  have fwd: "users (sv_accounts (snd (forward_core_request core s rr st))) = users (sv_accounts st)"
  proof -
    have "\<not> local_method (rr_method rr)"
      if "authorize_user_core_request (rr_method rr) p s = Inr ()" for p
      using that by (auto simp: authorize_user_core_request_def user_read_only_methods_def
          user_device_methods_def local_method_def starts_with_def split: if_splits)
    then show ?thesis
      using assms(1)
      by (auto simp: forward_core_request_def case_prod_beta resolve_frame call_frame
          split: sum.splits option.splits)
  qed
  have adm: "admin_list_users s st = (Inl permission_denied, st)"
    "admin_create_user A sm E p s st = (Inl permission_denied, st)"
    "admin_delete_user sm E p s st = (Inl permission_denied, st)"
    "admin_reset_password A sm E p s st = (Inl permission_denied, st)"
    "admin_assign_device core sm E p s st = (Inl permission_denied, st)" for p
    using assms(1) by (simp_all add: require_admin_def admin_list_users_def admin_create_user_def
        admin_delete_user_def admin_reset_password_def admin_assign_device_def)
  have rep: "users (sv_accounts (snd (report_diagnostics sm p s st))) = users (sv_accounts st)" for p
    by (auto simp: report_diagnostics_def split: sum.splits)
  have chg: "bt_get k (users (sv_accounts (snd (remote_change_password A sm E p s st)))) =
      bt_get k (users (sv_accounts st))" if "k \<noteq> as_username s" for p
    using that by (auto simp: remote_change_password_def case_prod_beta change_own_password_def
        split: sum.splits option.splits)
  show ?thesis
    using assms(2) fwd adm rep chg
    by (cases "k = as_username s") (auto simp: remote_dispatch_def Let_def reply_with_def case_prod_beta database_frame
        split: if_splits)
qed

lemma database_change:
  assumes "bt_get k (users (sv_accounts (snd (remote_handle_request A sm core E rr st)))) \<noteq>
           bt_get k (users (sv_accounts st))"
  shows "\<exists>t s. rr_session_token rr = Some t \<and> fst (authenticate (E 0) t (sv_accounts st)) = Inr s \<and>
           (as_role s = Admin \<or> rr_method rr = ''auth.changePassword'' \<and> k = as_username s)"
proof -
  have nolog: "rr_method rr \<noteq> ''auth.login''"
  proof
    assume "rr_method rr = ''auth.login''"
    then show False
      using assms by (auto simp: remote_handle_request_def reply_with_def remote_login_def
          case_prod_beta database_frame split: sum.splits if_splits)
  qed
  then show ?thesis
  proof (cases rule: remote_handle_cases [where A = A and sm = sm and core = core and E = E and st = st])
    case (refused e st')
    then show ?thesis using assms by (auto simp: database_frame)
  next
    case (session t s)
    then show ?thesis
      using assms user_dispatch_database [of s k A sm E rr t "snd (on_accounts (authenticate (E 0) t) st)"]
      by (auto simp: database_frame)
  qed
qed

end

lemma safe_bytes: "list_all safe_byte (safe v mx)" "length (safe v mx) \<le> max 7 mx"
  by (auto simp: safe_def Let_def safe_byte_def is_ascii_alphanumeric_def is_ascii_digit_def
      is_ascii_upper_def byte_def)

lemma assoc_mem: "map_of xs k = Some x \<Longrightarrow> k \<noteq> j \<Longrightarrow> x \<in> snd ` set (filter (\<lambda>(i, _). i \<noteq> j) xs)"
  by (induction xs) (auto split: if_splits)

lemma diagnostic_line_texts:
  assumes "get_str k (diagnostic_line a i ev) = Some v" and "k \<noteq> ''actor''"
  shows "v \<in> {''mobile_client_diagnostic'', i, safe (ce_level ev) 16, safe (ce_phase ev) 96,
           safe (ce_module ev) 96, [], safe (ce_error_code ev) 96, safe (ce_detail ev) 200}"
proof -
  have "JStr v \<in> snd ` set (filter (\<lambda>(i, _). i \<noteq> ''actor'')
      [(''event'', JStr ''mobile_client_diagnostic''), (''actor'', JStr a),
           (''sessionId'', JStr i), (''level'', JStr (safe (ce_level ev) 16)),
           (''phase'', JStr (safe (ce_phase ev) 96)), (''module'', JStr (safe (ce_module ev) 96)),
           (''ok'', JBool (ce_ok ev)), (''elapsedMs'', JInt (int (ce_elapsed_ms ev))),
           (''errorCode'', JStr (if ce_ok ev then [] else safe (ce_error_code ev) 96)),
           (''detail'', JStr (safe (ce_detail ev) 200))])"
    by (rule assoc_mem [OF _ assms(2)])
      (use assms(1) in \<open>simp only: get_str_Some_iff diagnostic_line_def json_get.simps\<close>)
  then show ?thesis by simp (metis (full_types))
qed

text \<open>Client diagnostics are bounded and cannot forge a log line: one request writes at most
  50 lines, and in each of them every text but the account's own name consists of letters,
  digits and a few punctuation bytes and is at most 200 bytes long.\<close>

theorem diagnostics_bounded_and_safe:
  assumes "report_diagnostics sm p s st = (r, st')"
  shows "\<exists>ls. sv_log st' = sv_log st @ ls \<and> length ls \<le> 50 \<and> (is_ok r \<longleftrightarrow> ls \<noteq> []) \<and>
           sv_accounts st' = sv_accounts st \<and> sv_core st' = sv_core st \<and>
           (\<forall>l \<in> set ls. \<forall>k v. k \<noteq> ''actor'' \<longrightarrow> get_str k l = Some v \<longrightarrow>
              list_all safe_byte v \<and> length v \<le> 200)"
proof -
  have line: "list_all safe_byte v \<and> length v \<le> 200"
    if "get_str k (diagnostic_line a (safe i 64) ev) = Some v" "k \<noteq> ''actor''" for k v a i ev
  proof -
    have "list_all safe_byte ''mobile_client_diagnostic''" by code_simp
    moreover have "list_all safe_byte (safe t n) \<and> length (safe t n) \<le> 200" if "n \<le> 200" for t n
      using safe_bytes [of t n] that by simp
    ultimately show ?thesis
      using diagnostic_line_texts [OF that] by (elim insertE emptyE) simp_all
  qed
  obtain ls where "sv_log st' = sv_log st @ ls" "length ls \<le> 50" "is_ok r \<longleftrightarrow> ls \<noteq> []"
    "sv_accounts st' = sv_accounts st" "sv_core st' = sv_core st"
    "\<forall>l \<in> set ls. \<exists>a i ev. l = diagnostic_line a (safe i 64) ev"
  proof (cases "remote_params sm ''report'' decode_report p")
    case (Inl e)
    then show ?thesis using assms that [of "[]"] by (auto simp: report_diagnostics_def)
  next
    case (Inr q)
    show ?thesis
    proof (cases "snd q = [] \<or> length (snd q) > 50")
      case True
      then show ?thesis using assms Inr that [of "[]"] by (auto simp: report_diagnostics_def)
    next
      case False
      then show ?thesis
        by (intro that [of "map (diagnostic_line (as_username s) (safe (fst q) 64)) (snd q)"])
          (use assms Inr in \<open>auto simp: report_diagnostics_def\<close>)
    qed
  qed
  moreover have "list_all safe_byte v \<and> length v \<le> 200"
    if "l \<in> set ls" "k \<noteq> ''actor''" "get_str k l = Some v" for l k v
    using that calculation(6) line by metis
  ultimately show ?thesis by (intro exI [of _ ls]) simp
qed

end
