(* ===== verification/Capability.thy ===== *)
theory Capability
  imports Json
begin

text \<open>
  \<open>capability.rs\<close>: the capabilities of the Android companion, the permission state a device
  reports for one, and the catalog the core is the authority for.
\<close>

datatype capability_provider = Adb | AndroidCompanion

datatype capability_transport =
    Ipc
  | QuicControl
  | QuicDataStream
  | QuicMediaStream
  | QuicDatagram

datatype capability_sensitivity = Sens_Low | Sens_Medium | Sens_High | Sens_Critical

record permission_requirement =
  pr_android_permissions :: "string list"
  pr_special_permissions :: "string list"
  pr_requires_user_consent :: bool
  pr_audit_required :: bool

record capability =
  cap_id :: string
  cap_title :: string
  cap_description :: string
  cap_provider :: capability_provider
  cap_transport :: capability_transport
  cap_sensitivity :: capability_sensitivity
  cap_permission :: permission_requirement
  cap_operations :: "string list"

record permission_state =
  ps_capability_id :: string
  ps_granted :: bool
  ps_android_permissions :: "string list"
  ps_missing_permissions :: "string list"
  ps_special_grants :: "string list"
  ps_missing_special_grants :: "string list"
  ps_user_consent_required :: bool

definition capability ::
    "string \<Rightarrow> string \<Rightarrow> string \<Rightarrow> capability_transport \<Rightarrow> capability_sensitivity \<Rightarrow>
     string list \<Rightarrow> string list \<Rightarrow> string list \<Rightarrow> bool \<Rightarrow> capability" where
  "capability i title description transport sensitivity operations android special consent =
     \<lparr>cap_id = i, cap_title = title, cap_description = description,
      cap_provider = AndroidCompanion, cap_transport = transport, cap_sensitivity = sensitivity,
      cap_permission =
        \<lparr>pr_android_permissions = android, pr_special_permissions = special,
         pr_requires_user_consent = consent,
         pr_audit_required = (sensitivity = Sens_High \<or> sensitivity = Sens_Critical)\<rparr>,
      cap_operations = operations\<rparr>"

subsection \<open>The catalog\<close>

definition cap_input_ime :: capability where
  "cap_input_ime =
     capability ''android.input.ime'' ''Input method and text injection''
     ''Provide controlled text input through the Android companion input channel.''
     QuicControl Sens_High
     [''input.text'', ''input.key'']
     []
     [''input-method-service''] True"

definition cap_file_read :: capability where
  "cap_file_read =
     capability ''android.file.read'' ''File read''
     ''Read files that the Android companion is allowed to access.''
     QuicDataStream Sens_High
     [''file.read'']
     [''android.permission.READ_MEDIA_IMAGES'', ''android.permission.READ_MEDIA_VIDEO'']
     [''scoped-storage-or-document-picker''] True"

definition cap_file_write :: capability where
  "cap_file_write =
     capability ''android.file.write'' ''File write''
     ''Write files through scoped storage or user-granted document targets.''
     QuicDataStream Sens_High
     [''file.write'']
     []
     [''scoped-storage-or-document-picker''] True"

definition cap_camera_stream :: capability where
  "cap_camera_stream =
     capability ''android.camera.stream'' ''Camera stream''
     ''Open camera preview stream after permission and foreground visibility checks.''
     QuicMediaStream Sens_Critical
     [''camera.open'', ''camera.close'']
     [''android.permission.CAMERA'']
     [] True"

definition cap_audio_record :: capability where
  "cap_audio_record =
     capability ''android.audio.record'' ''Audio recording''
     ''Record microphone audio and stream it to Core after explicit authorization.''
     QuicMediaStream Sens_Critical
     [''audio.record.start'', ''audio.record.stop'']
     [''android.permission.RECORD_AUDIO'']
     [] True"

definition cap_sms_read :: capability where
  "cap_sms_read =
     capability ''android.sms.read'' ''SMS read''
     ''Read SMS only when platform policy and user authorization allow it.''
     QuicControl Sens_Critical
     [''sms.read'']
     [''android.permission.READ_SMS'']
     [] True"

definition cap_sms_send :: capability where
  "cap_sms_send =
     capability ''android.sms.send'' ''SMS send''
     ''Send SMS only after explicit user and policy authorization.''
     QuicControl Sens_Critical
     [''sms.send'']
     [''android.permission.SEND_SMS'']
     [] True"

definition cap_phone_call :: capability where
  "cap_phone_call =
     capability ''android.phone.call'' ''Phone call''
     ''Start a phone call through Android after explicit authorization.''
     QuicControl Sens_Critical
     [''phone.call'']
     [''android.permission.CALL_PHONE'', ''android.permission.READ_PHONE_STATE'']
     [] True"

definition cap_clipboard_read :: capability where
  "cap_clipboard_read =
     capability ''android.clipboard.read'' ''Clipboard read''
     ''Read current clipboard content with foreground and privacy constraints.''
     QuicControl Sens_High
     [''clipboard.read'']
     []
     [''foreground-required''] True"

definition cap_clipboard_write :: capability where
  "cap_clipboard_write =
     capability ''android.clipboard.write'' ''Clipboard write''
     ''Write clipboard content and mark sensitive clips when requested.''
     QuicControl Sens_High
     [''clipboard.write'']
     []
     [''sensitive-clip-flag''] True"

definition cap_sensor_motion :: capability where
  "cap_sensor_motion =
     capability ''android.sensor.motion'' ''Motion and orientation sensors''
     ''Subscribe to accelerometer, gyroscope and rotation vector updates.''
     QuicDatagram Sens_Medium
     [''sensor.subscribe'', ''sensor.unsubscribe'']
     []
     [] False"

definition cap_app_list :: capability where
  "cap_app_list =
     capability ''android.app.list'' ''Application list''
     ''List installed applications visible to the companion app package queries.''
     QuicControl Sens_Medium
     [''app.list'']
     []
     [''package-visibility-query''] True"

definition cap_volume_media :: capability where
  "cap_volume_media =
     capability ''android.volume.media'' ''Media volume control''
     ''Read or change Android media stream volume.''
     QuicControl Sens_Medium
     [''volume.get'', ''volume.set'']
     []
     [] False"

definition cap_ui_background_surface :: capability where
  "cap_ui_background_surface =
     capability ''android.ui.background_surface'' ''Background surface prompt''
     ''Bring a controlled companion UI surface to foreground when policy allows it.''
     QuicControl Sens_High
     [''ui.surface.show'']
     []
     [''background-launch-policy''] True"

definition cap_ui_overlay :: capability where
  "cap_ui_overlay =
     capability ''android.ui.overlay'' ''Overlay window''
     ''Show a companion overlay after special overlay permission is granted.''
     QuicControl Sens_High
     [''overlay.show'', ''overlay.hide'']
     [''android.permission.SYSTEM_ALERT_WINDOW'']
     [''draw-over-apps''] True"

definition cap_accessibility_control :: capability where
  "cap_accessibility_control =
     capability ''android.accessibility.control'' ''Accessibility control''
     ''Perform accessibility-backed global actions and touch gestures after explicit user authorization.''
     QuicControl Sens_Critical
     [''accessibility.status'', ''accessibility.global.back'', ''accessibility.global.home'', ''accessibility.global.recents'', ''accessibility.global.notifications'', ''accessibility.global.quickSettings'', ''accessibility.global.powerDialog'', ''accessibility.touch.tap'', ''accessibility.touch.swipe'']
     []
     [''accessibility-service''] True"

definition cap_intent_chain_launch :: capability where
  "cap_intent_chain_launch =
     capability ''android.intent.chain_launch'' ''Chained intent launch''
     ''Launch a declared chain of Android intents with strict validation.''
     QuicControl Sens_High
     [''intent.chainLaunch'']
     []
     [''explicit-intent-only''] True"

definition android_companion_capability_catalog :: "capability list" where
  "android_companion_capability_catalog =
     [cap_input_ime, cap_file_read, cap_file_write,
      cap_camera_stream, cap_audio_record, cap_sms_read,
      cap_sms_send, cap_phone_call, cap_clipboard_read,
      cap_clipboard_write, cap_sensor_motion, cap_app_list,
      cap_volume_media, cap_ui_background_surface, cap_ui_overlay,
      cap_accessibility_control, cap_intent_chain_launch]"

subsection \<open>Serialisation\<close>

fun provider_json :: "capability_provider \<Rightarrow> json" where
  "provider_json Adb = JStr ''adb''"
| "provider_json AndroidCompanion = JStr ''android-companion''"

fun transport_json :: "capability_transport \<Rightarrow> json" where
  "transport_json Ipc = JStr ''ipc''"
| "transport_json QuicControl = JStr ''quic-control''"
| "transport_json QuicDataStream = JStr ''quic-data-stream''"
| "transport_json QuicMediaStream = JStr ''quic-media-stream''"
| "transport_json QuicDatagram = JStr ''quic-datagram''"

fun sensitivity_json :: "capability_sensitivity \<Rightarrow> json" where
  "sensitivity_json Sens_Low = JStr ''low''"
| "sensitivity_json Sens_Medium = JStr ''medium''"
| "sensitivity_json Sens_High = JStr ''high''"
| "sensitivity_json Sens_Critical = JStr ''critical''"

definition capability_json :: "capability \<Rightarrow> json" where
  "capability_json c =
     JObj [(''id'', JStr (cap_id c)), (''title'', JStr (cap_title c)),
           (''description'', JStr (cap_description c)),
           (''provider'', provider_json (cap_provider c)),
           (''transport'', transport_json (cap_transport c)),
           (''sensitivity'', sensitivity_json (cap_sensitivity c)),
           (''permission'', JObj
              [(''androidPermissions'', strings_json (pr_android_permissions (cap_permission c))),
               (''specialPermissions'', strings_json (pr_special_permissions (cap_permission c))),
               (''requiresUserConsent'', JBool (pr_requires_user_consent (cap_permission c))),
               (''auditRequired'', JBool (pr_audit_required (cap_permission c)))]),
           (''operations'', strings_json (cap_operations c))]"

definition permission_state_json :: "permission_state \<Rightarrow> json" where
  "permission_state_json p =
     JObj [(''capabilityId'', JStr (ps_capability_id p)), (''granted'', JBool (ps_granted p)),
           (''androidPermissions'', strings_json (ps_android_permissions p)),
           (''missingPermissions'', strings_json (ps_missing_permissions p)),
           (''specialGrants'', strings_json (ps_special_grants p)),
           (''missingSpecialGrants'', strings_json (ps_missing_special_grants p)),
           (''userConsentRequired'', JBool (ps_user_consent_required p))]"

subsection \<open>Looking an entry up\<close>

definition catalog_entry :: "string \<Rightarrow> capability option" where
  "catalog_entry i = find (\<lambda>c. cap_id c = i) android_companion_capability_catalog"

lemma catalog_entry_Some:
  "catalog_entry i = Some c \<Longrightarrow> c \<in> set android_companion_capability_catalog \<and> cap_id c = i"
  unfolding catalog_entry_def by (drule find_SomeD) simp

text \<open>The catalog: its identifiers are distinct, every entry has an operation, all entries are
  provided by the companion, an audit is required exactly for high and critical sensitivity,
  and every capability of high or critical sensitivity asks for the user's consent.\<close>

theorem catalog_wellformed:
  "distinct (map cap_id android_companion_capability_catalog) \<and>
   list_all (\<lambda>c. cap_operations c \<noteq> [] \<and> cap_provider c = AndroidCompanion \<and>
       (pr_audit_required (cap_permission c) =
          (cap_sensitivity c = Sens_High \<or> cap_sensitivity c = Sens_Critical)) \<and>
       (pr_audit_required (cap_permission c) \<le> pr_requires_user_consent (cap_permission c)))
     android_companion_capability_catalog"
  by code_simp

end
