(* ===== verification/Companion_Protocol.thy ===== *)
theory Companion_Protocol
  imports Capability
begin

text \<open>
  \<open>companion/protocol.rs\<close>: the envelope that core and companion exchange, the payloads of the
  handshake and of a command, and the guard every inbound envelope passes first.
\<close>

definition companion_protocol :: string where
  "companion_protocol = ''adbcontrol-companion-quic''"

definition companion_protocol_version :: nat where
  "companion_protocol_version = 1"

definition companion_alpn :: string where
  "companion_alpn = ''adbcontrol-companion/1''"

record connection_info =
  ci_listen_address :: string
  ci_server_name :: string
  ci_certificate_der_base64 :: string
  ci_certificate_fingerprint :: string

datatype quic_channel = Control | Data | Media

datatype message_kind =
    Hello
  | HelloAck
  | Heartbeat
  | CapabilityList
  | PermissionState
  | CommandRequest
  | CommandResponse
  | StreamOpen
  | StreamChunk
  | StreamClose
  | ErrorMessage

text \<open>The version is a \<open>u16\<close>.\<close>

record envelope =
  ev_protocol :: string
  ev_version :: nat
  ev_message_id :: string
  ev_trace_id :: "string option"
  ev_device_id :: "string option"
  ev_channel :: quic_channel
  ev_kind :: message_kind
  ev_payload :: json

record hello =
  h_app_version :: string
  h_device_id :: string
  h_device_name :: string
  h_android_sdk :: nat
  h_supported_versions :: "nat list"

record command_request =
  cr_request_id :: string
  cr_capability_id :: string
  cr_operation :: string
  cr_args :: json

fun kind_name :: "message_kind \<Rightarrow> string" where
  "kind_name Hello = ''hello''"
| "kind_name HelloAck = ''helloAck''"
| "kind_name Heartbeat = ''heartbeat''"
| "kind_name CapabilityList = ''capabilityList''"
| "kind_name PermissionState = ''permissionState''"
| "kind_name CommandRequest = ''commandRequest''"
| "kind_name CommandResponse = ''commandResponse''"
| "kind_name StreamOpen = ''streamOpen''"
| "kind_name StreamChunk = ''streamChunk''"
| "kind_name StreamClose = ''streamClose''"
| "kind_name ErrorMessage = ''error''"

text \<open>The \<open>Debug\<close> text of a kind, which two error messages contain.\<close>

fun kind_debug :: "message_kind \<Rightarrow> string" where
  "kind_debug Hello = ''Hello''"
| "kind_debug HelloAck = ''HelloAck''"
| "kind_debug Heartbeat = ''Heartbeat''"
| "kind_debug CapabilityList = ''CapabilityList''"
| "kind_debug PermissionState = ''PermissionState''"
| "kind_debug CommandRequest = ''CommandRequest''"
| "kind_debug CommandResponse = ''CommandResponse''"
| "kind_debug StreamOpen = ''StreamOpen''"
| "kind_debug StreamChunk = ''StreamChunk''"
| "kind_debug StreamClose = ''StreamClose''"
| "kind_debug ErrorMessage = ''Error''"

definition all_kinds :: "message_kind list" where
  "all_kinds = [Hello, HelloAck, Heartbeat, CapabilityList, PermissionState, CommandRequest,
     CommandResponse, StreamOpen, StreamChunk, StreamClose, ErrorMessage]"

fun channel_name :: "quic_channel \<Rightarrow> string" where
  "channel_name Control = ''control''"
| "channel_name Data = ''data''"
| "channel_name Media = ''media''"

definition decode_kind :: "json \<Rightarrow> message_kind option" where
  "decode_kind v = Option.bind (de_variant v) (\<lambda>s. find (\<lambda>k. kind_name k = s) all_kinds)"

definition decode_channel :: "json \<Rightarrow> quic_channel option" where
  "decode_channel v =
     Option.bind (de_variant v) (\<lambda>s. find (\<lambda>c. channel_name c = s) [Control, Data, Media])"

definition quic_protocol_descriptor :: json where
  "quic_protocol_descriptor =
     JObj [(''protocol'', JStr companion_protocol),
           (''version'', JInt (int companion_protocol_version)),
           (''channels'', strings_json [''control'', ''data'', ''media'']),
           (''messageKinds'', strings_json
              [''hello'', ''helloAck'', ''heartbeat'', ''capabilityList'', ''permissionState'',
               ''commandRequest'', ''commandResponse'', ''streamOpen'', ''streamChunk'',
               ''streamClose'', ''error'']),
           (''controlStream'', JStr ''JSON envelope over reliable QUIC stream''),
           (''dataStream'',
              JStr ''length-prefixed binary or JSON envelope over reliable QUIC stream''),
           (''mediaStream'',
              JStr ''binary frame stream or unreliable datagram depending on capability'')]"

definition optional_json :: "string \<Rightarrow> string option \<Rightarrow> (string \<times> json) list" where
  "optional_json k x = (case x of None \<Rightarrow> [] | Some s \<Rightarrow> [(k, JStr s)])"

definition envelope_json :: "envelope \<Rightarrow> json" where
  "envelope_json e =
     JObj ([(''protocol'', JStr (ev_protocol e)), (''version'', JInt (int (ev_version e))),
            (''messageId'', JStr (ev_message_id e))]
        @ optional_json ''traceId'' (ev_trace_id e) @ optional_json ''deviceId'' (ev_device_id e)
        @ [(''channel'', JStr (channel_name (ev_channel e))), (''kind'', JStr (kind_name (ev_kind e))),
           (''payload'', ev_payload e)])"

text \<open>A missing \<open>Option\<close> field decodes to \<open>None\<close>; a missing payload to \<open>null\<close>.\<close>

definition decode_envelope :: "json \<Rightarrow> envelope option" where
  "decode_envelope = decode_struct 8 (\<lambda>v.
     map_option (\<lambda>(p, w, m, t, d, c, k, pl).
         \<lparr>ev_protocol = p, ev_version = w, ev_message_id = m, ev_trace_id = t, ev_device_id = d,
          ev_channel = c, ev_kind = k, ev_payload = pl\<rparr>)
       (both (required de_string (struct_field 0 ''protocol'' v))
         (both (required (de_uint 16) (struct_field 1 ''version'' v))
           (both (required de_string (struct_field 2 ''messageId'' v))
             (both (defaulted None (de_option de_string) (struct_field 3 ''traceId'' v))
               (both (defaulted None (de_option de_string) (struct_field 4 ''deviceId'' v))
                 (both (required decode_channel (struct_field 5 ''channel'' v))
                   (both (required decode_kind (struct_field 6 ''kind'' v))
                     (defaulted JNull Some (struct_field 7 ''payload'' v))))))))))"

definition decode_hello :: "json \<Rightarrow> hello option" where
  "decode_hello = decode_struct 5 (\<lambda>v.
     map_option (\<lambda>(a, d, n, s, w).
         \<lparr>h_app_version = a, h_device_id = d, h_device_name = n, h_android_sdk = s,
          h_supported_versions = w\<rparr>)
       (both (required de_string (struct_field 0 ''appVersion'' v))
         (both (required de_string (struct_field 1 ''deviceId'' v))
           (both (required de_string (struct_field 2 ''deviceName'' v))
             (both (required (de_uint 32) (struct_field 3 ''androidSdk'' v))
               (required (de_vec (de_uint 16)) (struct_field 4 ''supportedProtocolVersions'' v)))))))"

definition command_request_json :: "command_request \<Rightarrow> json" where
  "command_request_json r =
     JObj [(''requestId'', JStr (cr_request_id r)), (''capabilityId'', JStr (cr_capability_id r)),
           (''operation'', JStr (cr_operation r)), (''args'', cr_args r)]"

definition validate_quic_envelope :: "envelope \<Rightarrow> app_error + unit" where
  "validate_quic_envelope e =
     (if ev_protocol e \<noteq> companion_protocol
      then Inl (new_error ''COMPANION_PROTOCOL_MISMATCH''
        ''Companion QUIC envelope protocol does not match ADBControl.'' ''companion.protocol'' False)
      else if ev_version e \<noteq> companion_protocol_version
      then Inl (new_error ''COMPANION_PROTOCOL_VERSION_UNSUPPORTED''
        (''Unsupported companion protocol version: '' @ show_nat (ev_version e) @ ''.'')
        ''companion.protocol'' False)
      else if trim (ev_message_id e) = []
      then Inl (new_error ''COMPANION_MESSAGE_ID_MISSING''
        ''Companion QUIC envelope messageId must not be empty.'' ''companion.protocol'' False)
      else Inr ())"

lemma validate_envelope_Inr_iff [ok_iff]:
  "validate_quic_envelope e = Inr u \<longleftrightarrow>
     ev_protocol e = companion_protocol \<and> ev_version e = companion_protocol_version \<and>
     trim (ev_message_id e) \<noteq> []"
  by (simp add: validate_quic_envelope_def)

lemma decode_kind_name [simp]: "decode_kind (JStr (kind_name k)) = Some k"
  by (cases k) (simp_all add: decode_kind_def all_kinds_def)

lemma decode_channel_name [simp]: "decode_channel (JStr (channel_name c)) = Some c"
  by (cases c) (simp_all add: decode_channel_def)

text \<open>Envelopes survive the wire: decoding the JSON of an envelope whose version fits 16 bits
  yields the envelope itself, whichever optional fields are left out.\<close>

theorem envelope_roundtrip:
  assumes "ev_version e < 2 ^ 16"
  shows "decode_envelope (envelope_json e) = Some e"
  using assms
  by (cases "ev_trace_id e"; cases "ev_device_id e")
    (simp_all add: decode_envelope_def envelope_json_def optional_json_def decode_struct_def
      required_def defaulted_def both_def)

end
