(* ===== verification/Companion_Registry.thy ===== *)
theory Companion_Registry
  imports Companion_Protocol Transition
begin

text \<open>
  \<open>companion/registry.rs\<close>: the devices the core knows, in the order they were first added, one
  entry per device id. The lock around the vector is taken by one operation at a time and no
  operation panics while it holds it, so an operation is a function on the list.
\<close>

datatype connection_state = Disconnected | Connecting | Handshaking | Ready | Degraded | Failed

record device =
  dv_device_id :: string
  dv_display_name :: string
  dv_app_version :: string
  dv_android_sdk :: nat
  dv_connection_state :: connection_state
  dv_capabilities :: "capability list"
  dv_permission_states :: "permission_state list"

fun state_json :: "connection_state \<Rightarrow> json" where
  "state_json Disconnected = JStr ''disconnected''"
| "state_json Connecting = JStr ''connecting''"
| "state_json Handshaking = JStr ''handshaking''"
| "state_json Ready = JStr ''ready''"
| "state_json Degraded = JStr ''degraded''"
| "state_json Failed = JStr ''failed''"

definition device_json :: "device \<Rightarrow> json" where
  "device_json d =
     JObj [(''deviceId'', JStr (dv_device_id d)), (''displayName'', JStr (dv_display_name d)),
           (''appVersion'', JStr (dv_app_version d)), (''androidSdk'', JInt (int (dv_android_sdk d))),
           (''connectionState'', state_json (dv_connection_state d)),
           (''capabilities'', JArr (map capability_json (dv_capabilities d))),
           (''permissionStates'', JArr (map permission_state_json (dv_permission_states d)))]"

type_synonym registry = "device list"

definition device_not_connected_error :: "string \<Rightarrow> app_error" where
  "device_not_connected_error d =
     with_suggestion ''Pair the Android companion app with Core before invoking capabilities.''
       (new_error ''COMPANION_DEVICE_NOT_CONNECTED''
          (''Android companion device is not connected: '' @ d) ''companion.registry'' True)"

definition list_devices :: "registry \<Rightarrow> device list" where
  "list_devices r = r"

definition get_device :: "string \<Rightarrow> registry \<Rightarrow> app_error + device" where
  "get_device d r = ok_or (device_not_connected_error d) (find (\<lambda>x. dv_device_id x = d) r)"

fun upsert :: "device \<Rightarrow> registry \<Rightarrow> registry" where
  "upsert d [] = [d]"
| "upsert d (x # r) = (if dv_device_id x = dv_device_id d then d # r else x # upsert d r)"

definition remove_device :: "string \<Rightarrow> registry \<Rightarrow> registry" where
  "remove_device d r = filter (\<lambda>x. dv_device_id x \<noteq> d) r"

definition untouched_permission :: "capability \<Rightarrow> permission_state" where
  "untouched_permission c =
     \<lparr>ps_capability_id = cap_id c, ps_granted = False,
      ps_android_permissions = pr_android_permissions (cap_permission c),
      ps_missing_permissions = pr_android_permissions (cap_permission c),
      ps_special_grants = pr_special_permissions (cap_permission c),
      ps_missing_special_grants = pr_special_permissions (cap_permission c),
      ps_user_consent_required = pr_requires_user_consent (cap_permission c)\<rparr>"

definition sample_android_companion_device :: device where
  "sample_android_companion_device =
     \<lparr>dv_device_id = ''android-companion-sample'', dv_display_name = ''Android Companion Sample'',
      dv_app_version = ''0.1.0'', dv_android_sdk = 35, dv_connection_state = Ready,
      dv_capabilities = android_companion_capability_catalog,
      dv_permission_states = map untouched_permission android_companion_capability_catalog\<rparr>"

subsection \<open>The registry as a finite map\<close>

text \<open>
  The abstract view: a partial function from ids to devices. On registries with distinct ids,
  which every operation preserves, the four operations are lookup, update and removal there.
\<close>

definition registry_abs :: "registry \<Rightarrow> string \<rightharpoonup> device" where
  "registry_abs r d = find (\<lambda>x. dv_device_id x = d) r"

definition registry_ok :: "registry \<Rightarrow> bool" where
  "registry_ok r \<longleftrightarrow> distinct (map dv_device_id r)"

lemma registry_abs_Nil [simp]: "registry_abs [] = Map.empty"
  by (simp add: registry_abs_def fun_eq_iff)

lemma registry_abs_Cons [simp]:
  "registry_abs (x # r) = (registry_abs r)(dv_device_id x \<mapsto> x)"
  by (auto simp: registry_abs_def fun_eq_iff)

lemma upsert_abs: "registry_abs (upsert d r) = (registry_abs r)(dv_device_id d \<mapsto> d)"
  by (induction d r rule: upsert.induct) (auto simp: fun_upd_twist)

lemma remove_abs: "registry_abs (remove_device d r) = (registry_abs r)(d := None)"
  by (induction r) (auto simp: remove_device_def fun_eq_iff)

lemma registry_abs_mem: "registry_ok r \<Longrightarrow> registry_abs r d = Some x \<longleftrightarrow> x \<in> set r \<and> dv_device_id x = d"
  by (induction r) (auto simp: registry_ok_def rev_image_eqI)

lemma upsert_ids: "set (map dv_device_id (upsert d r)) = insert (dv_device_id d) (set (map dv_device_id r))"
  by (induction d r rule: upsert.induct) auto

lemma registry_ok_upsert: "registry_ok r \<Longrightarrow> registry_ok (upsert d r)"
proof (induction d r rule: upsert.induct)
  case (2 d x r)
  then show ?case using upsert_ids [of d r] by (auto simp: registry_ok_def)
qed (simp add: registry_ok_def)

lemma registry_ok_remove: "registry_ok r \<Longrightarrow> registry_ok (remove_device d r)"
  by (induction r) (auto simp: registry_ok_def remove_device_def)

text \<open>The device registry refines a finite map from device ids to devices: inserting
  replaces the entry of the same id or adds one, removing deletes it, lookup returns the stored
  device or the not-connected error, listing shows each mapped device exactly once, and the
  one-entry-per-id invariant is preserved.\<close>

theorem registry_refines_map:
  assumes "registry_ok r"
  shows "registry_abs (upsert d r) = (registry_abs r)(dv_device_id d \<mapsto> d) \<and> registry_ok (upsert d r) \<and>
         registry_abs (remove_device k r) = (registry_abs r)(k := None) \<and> registry_ok (remove_device k r) \<and>
         get_device k r = (case registry_abs r k of None \<Rightarrow> Inl (device_not_connected_error k) | Some x \<Rightarrow> Inr x) \<and>
         distinct (list_devices r) \<and> set (list_devices r) = ran (registry_abs r)"
proof -
  have "set r = ran (registry_abs r)"
    using registry_abs_mem [OF assms] by (auto simp: ran_def)
  moreover have "get_device k r = (case registry_abs r k of None \<Rightarrow> Inl (device_not_connected_error k) | Some x \<Rightarrow> Inr x)"
    by (simp add: get_device_def registry_abs_def ok_or_def)
  ultimately show ?thesis
    using assms registry_ok_upsert [OF assms, of d] registry_ok_remove [OF assms, of k]
    by (simp add: upsert_abs remove_abs list_devices_def registry_ok_def distinct_map)
qed

end
