(* ===== verification/Companion_Router.thy ===== *)
theory Companion_Router
  imports Companion_Registry
begin

text \<open>
  \<open>companion/router.rs\<close>: turning a command of the core into a command envelope for a companion.
  A router is a function on commands and on the state of the connections; the contract of the
  trait \<open>CompanionCommandRouter\<close> is the locale \<open>command_router\<close>.
\<close>

record dispatch_command =
  dc_request_id :: string
  dc_device_id :: string
  dc_capability_id :: string
  dc_operation :: string
  dc_args :: json

datatype command_status = Dispatched | Completed

record command_response =
  cp_request_id :: string
  cp_device_id :: string
  cp_capability_id :: string
  cp_operation :: string
  cp_status :: command_status
  cp_envelope :: "envelope option"
  cp_result :: json

type_synonym 'n router = "dispatch_command \<Rightarrow> 'n \<Rightarrow> (app_error + command_response) \<times> 'n"
type_synonym 'n transport = "string \<Rightarrow> envelope \<Rightarrow> 'n \<Rightarrow> (app_error + json) \<times> 'n"

definition build_command_request_envelope :: "dispatch_command \<Rightarrow> envelope" where
  "build_command_request_envelope c =
     \<lparr>ev_protocol = companion_protocol, ev_version = companion_protocol_version,
      ev_message_id = ''command-'' @ dc_request_id c, ev_trace_id = Some (dc_request_id c),
      ev_device_id = Some (dc_device_id c), ev_channel = Control, ev_kind = CommandRequest,
      ev_payload = command_request_json
        \<lparr>cr_request_id = dc_request_id c, cr_capability_id = dc_capability_id c,
         cr_operation = dc_operation c, cr_args = dc_args c\<rparr>\<rparr>"

definition command_reply :: "dispatch_command \<Rightarrow> command_status \<Rightarrow> json \<Rightarrow> command_response" where
  "command_reply c status result =
     \<lparr>cp_request_id = dc_request_id c, cp_device_id = dc_device_id c,
      cp_capability_id = dc_capability_id c, cp_operation = dc_operation c, cp_status = status,
      cp_envelope = Some (build_command_request_envelope c), cp_result = result\<rparr>"

definition transport_dispatch :: "'n transport \<Rightarrow> 'n router" where
  "transport_dispatch send c n =
     (case send (dc_device_id c) (build_command_request_envelope c) n of
        (Inl e, n') \<Rightarrow> (Inl e, n')
      | (Inr result, n') \<Rightarrow> (Inr (command_reply c Dispatched result), n'))"

definition not_connected_error :: "string \<Rightarrow> app_error" where
  "not_connected_error d =
     with_suggestion ''Complete companion pairing and QUIC hello/helloAck before invoking capabilities.''
       (new_error ''COMPANION_SESSION_NOT_CONNECTED''
          (''Android companion QUIC session is not connected for device '' @ d @ ''.'')
          ''companion.router'' True)"

definition disconnected_dispatch :: "'n router" where
  "disconnected_dispatch c n = (Inl (not_connected_error (dc_device_id c)), n)"

datatype dispatch_mode = DispatchOnly | CompleteImmediately

record memory_session =
  ms_device_id :: string
  ms_dispatch_mode :: dispatch_mode

definition memory_router :: "memory_session list \<Rightarrow> (string \<rightharpoonup> memory_session)" where
  "memory_router ss = foldl (\<lambda>m s. m(ms_device_id s \<mapsto> s)) Map.empty ss"

definition session_dispatch :: "dispatch_mode \<Rightarrow> dispatch_command \<Rightarrow> command_response" where
  "session_dispatch md c =
     (case md of
        DispatchOnly \<Rightarrow> command_reply c Dispatched
          (JObj [(''dispatched'', JBool True), (''transport'', JStr ''quic-control''),
                 (''messageId'', JStr (ev_message_id (build_command_request_envelope c)))])
      | CompleteImmediately \<Rightarrow> command_reply c Completed
          (JObj [(''dispatched'', JBool True), (''completed'', JBool True),
                 (''transport'', JStr ''in-memory-companion-session'')]))"

definition in_memory_dispatch :: "(string \<rightharpoonup> memory_session) router" where
  "in_memory_dispatch c ss =
     (case ss (dc_device_id c) of
        None \<Rightarrow> (Inl (not_connected_error (dc_device_id c)), ss)
      | Some s \<Rightarrow> (Inr (session_dispatch (ms_dispatch_mode s) c), ss))"

fun status_name :: "command_status \<Rightarrow> string" where
  "status_name Dispatched = ''dispatched''"
| "status_name Completed = ''completed''"

definition response_json :: "command_response \<Rightarrow> json" where
  "response_json r =
     JObj ([(''requestId'', JStr (cp_request_id r)), (''deviceId'', JStr (cp_device_id r)),
            (''capabilityId'', JStr (cp_capability_id r)), (''operation'', JStr (cp_operation r)),
            (''status'', JStr (status_name (cp_status r)))]
        @ (case cp_envelope r of None \<Rightarrow> [] | Some e \<Rightarrow> [(''envelope'', envelope_json e)])
        @ [(''result'', cp_result r)])"

subsection \<open>The contract of a router\<close>

text \<open>
  What a successful dispatch promises: it answers the command it was given, and the envelope it
  reports is a valid command request for that device that carries the command.
\<close>

definition answers :: "dispatch_command \<Rightarrow> command_response \<Rightarrow> bool" where
  "answers c r \<longleftrightarrow>
     cp_request_id r = dc_request_id c \<and> cp_device_id r = dc_device_id c \<and>
     cp_capability_id r = dc_capability_id c \<and> cp_operation r = dc_operation c \<and>
     cp_envelope r = Some (build_command_request_envelope c)"

locale command_router =
  fixes dispatch :: "'n router"
  assumes dispatch_answers: "dispatch c n = (Inr r, n') \<Longrightarrow> answers c r"
begin

lemma dispatched_envelope:
  assumes "dispatch c n = (Inr r, n')"
  obtains e where "cp_envelope r = Some e" "validate_quic_envelope e = Inr ()"
    "ev_kind e = CommandRequest" "ev_device_id e = Some (dc_device_id c)"
    "get_str ''operation'' (ev_payload e) = Some (dc_operation c)"
proof
  show "cp_envelope r = Some (build_command_request_envelope c)"
    using dispatch_answers [OF assms] by (simp add: answers_def)
qed (simp_all add: build_command_request_envelope_def command_request_json_def ok_iff get_str_def)

lemma response_fields:
  assumes "dispatch c n = (Inr r, n')"
  shows "get_str ''deviceId'' (response_json r) = Some (dc_device_id c)"
    and "get_str ''operation'' (response_json r) = Some (dc_operation c)"
  using dispatch_answers [OF assms] by (auto simp: answers_def response_json_def get_str_def)

end

lemma transport_answers: "transport_dispatch send c n = (Inr r, n') \<Longrightarrow> answers c r"
  by (auto simp: transport_dispatch_def answers_def command_reply_def split: prod.splits sum.splits)

lemma memory_answers: "in_memory_dispatch c ss = (Inr r, ss') \<Longrightarrow> answers c r"
  by (auto simp: in_memory_dispatch_def answers_def session_dispatch_def command_reply_def
      split: option.splits dispatch_mode.splits)

interpretation transport: command_router "transport_dispatch send" for send
  by unfold_locales (rule transport_answers)

interpretation disconnected: command_router disconnected_dispatch
  by unfold_locales (simp add: disconnected_dispatch_def)

interpretation in_memory: command_router in_memory_dispatch
  by unfold_locales (rule memory_answers)

lemma memory_router_last:
  "memory_router (ss @ [s]) (ms_device_id s) = Some s"
  by (simp add: memory_router_def)

end
