(* ===== verification/Platform_Assets.thy ===== *)
theory Platform_Assets
  imports Json
begin

text \<open>
  \<open>platform.rs\<close> and \<open>assets.rs\<close>: the supported host targets and the manifest of adb binaries.
  The operating system, the architecture and the path of the executable are arguments, and so is
  what the JSON library makes of a manifest text.
\<close>

record host_target =
  ht_os :: string
  ht_arch :: string
  ht_target_id :: string

definition normalize_os :: "string \<Rightarrow> app_error + string" where
  "normalize_os os =
     (let l = to_ascii_lowercase os in
      if l \<in> {''windows'', ''win32''} then Inr ''windows''
      else if l \<in> {''macos'', ''darwin'', ''osx''} then Inr ''macos''
      else if l = ''linux'' then Inr ''linux''
      else if l = ''android'' then Inr ''android''
      else Inl (new_error ''PLATFORM_OS_UNSUPPORTED''
             (''Unsupported operating system: '' @ l) ''platform.target'' False))"

definition normalize_arch :: "string \<Rightarrow> app_error + string" where
  "normalize_arch arch =
     (let l = to_ascii_lowercase arch in
      if l \<in> {''x86_64'', ''amd64''} then Inr ''x86_64''
      else if l \<in> {''aarch64'', ''arm64''} then Inr ''arm64''
      else Inl (new_error ''PLATFORM_ARCH_UNSUPPORTED''
             (''Unsupported CPU architecture: '' @ l) ''platform.target'' False))"

definition supported_targets :: "string list" where
  "supported_targets =
     [''windows-x86_64'', ''windows-arm64'', ''macos-x86_64'', ''macos-arm64'',
      ''linux-x86_64'', ''linux-arm64'', ''android-x86_64'', ''android-arm64'']"

definition target_from_parts :: "string \<Rightarrow> string \<Rightarrow> app_error + host_target" where
  "target_from_parts os arch =
     on_ok (normalize_os os) (\<lambda>o'.
     on_ok (normalize_arch arch) (\<lambda>a.
       let target_id = o' @ ''-'' @ a in
       if target_id \<in> set supported_targets
       then Inr \<lparr>ht_os = o', ht_arch = a, ht_target_id = target_id\<rparr>
       else Inl (with_suggestion
              ''Add the target to HostTarget and assets/adb/manifest.json before shipping.''
              (new_error ''PLATFORM_TARGET_UNSUPPORTED'' (''Unsupported host target: '' @ target_id)
                 ''platform.target'' False))))"

definition target_json :: "host_target \<Rightarrow> json" where
  "target_json t =
     JObj [(''os'', JStr (ht_os t)), (''arch'', JStr (ht_arch t)), (''targetId'', JStr (ht_target_id t))]"

subsection \<open>The manifest\<close>

datatype asset_source = OfficialPlatformTools | CustomGithubBuild

record adb_asset =
  aa_target_id :: string
  aa_path :: string
  aa_source :: asset_source
  aa_sha256 :: "string option"

record adb_manifest =
  am_schema_version :: nat
  am_adb_version :: string
  am_assets :: "adb_asset list"

fun source_json :: "asset_source \<Rightarrow> json" where
  "source_json OfficialPlatformTools = JStr ''official-platform-tools''"
| "source_json CustomGithubBuild = JStr ''custom-github-build''"

fun source_debug :: "asset_source \<Rightarrow> string" where
  "source_debug OfficialPlatformTools = ''OfficialPlatformTools''"
| "source_debug CustomGithubBuild = ''CustomGithubBuild''"

definition asset_json :: "adb_asset \<Rightarrow> json" where
  "asset_json a =
     JObj ([(''targetId'', JStr (aa_target_id a)), (''path'', JStr (aa_path a)),
            (''source'', source_json (aa_source a))]
        @ (case aa_sha256 a of None \<Rightarrow> [] | Some h \<Rightarrow> [(''sha256'', JStr h)]))"

definition adb_asset_display_name :: "adb_asset \<Rightarrow> string" where
  "adb_asset_display_name a = aa_path a @ '' ('' @ source_debug (aa_source a) @ '')''"

definition parse_manifest_str :: "(string \<Rightarrow> string + adb_manifest) \<Rightarrow> string \<Rightarrow> app_error + adb_manifest" where
  "parse_manifest_str parse content =
     on_ok (map_err (\<lambda>c. with_cause c (new_error ''ADB_MANIFEST_INVALID_JSON''
              ''ADB asset manifest is not valid JSON.'' ''adb.assets'' False)) (parse content))
       (\<lambda>m. if am_schema_version m \<noteq> 1
            then Inl (new_error ''ADB_MANIFEST_SCHEMA_UNSUPPORTED''
              (''Unsupported ADB manifest schema version: '' @ show_nat (am_schema_version m))
              ''adb.assets'' False)
            else Inr m)"

definition find_adb_asset :: "adb_manifest \<Rightarrow> host_target \<Rightarrow> app_error + adb_asset" where
  "find_adb_asset m t =
     ok_or (with_suggestion
              ''Build or download the target ADB binary and add it to assets/adb/manifest.json.''
              (new_error ''ADB_ASSET_NOT_FOUND''
                 (''No ADB asset is declared for target '' @ ht_target_id t) ''adb.assets'' False))
       (find (\<lambda>a. aa_target_id a = ht_target_id t) (am_assets m))"

text \<open>
  \<open>current_exe\<close> fails with a text or gives a path, whose parent may not exist; \<open>join\<close> is the
  platform's \<open>Path::join\<close>.
\<close>

definition resolve_asset_path ::
    "string + string option \<Rightarrow> (string \<Rightarrow> string \<Rightarrow> string) \<Rightarrow> adb_asset \<Rightarrow> app_error + string" where
  "resolve_asset_path exe join_path a =
     on_ok (map_err (\<lambda>c. with_cause c (new_error ''CORE_EXECUTABLE_PATH_UNAVAILABLE''
              ''Cannot resolve current executable path.'' ''adb.assets'' False)) exe)
       (\<lambda>parent. on_ok (ok_or (new_error ''CORE_EXECUTABLE_DIR_UNAVAILABLE''
              ''Cannot resolve current executable directory.'' ''adb.assets'' False) parent)
         (\<lambda>dir. Inr (join_path dir (aa_path a))))"

lemma find_adb_asset_Inr_iff [ok_iff]:
  "find_adb_asset m t = Inr a \<longleftrightarrow> find (\<lambda>a. aa_target_id a = ht_target_id t) (am_assets m) = Some a"
  by (simp add: find_adb_asset_def ok_iff)

lemma normalize_os_Inr_iff:
  "normalize_os os = Inr s \<longleftrightarrow>
     (let l = to_ascii_lowercase os in
      (s = ''windows'' \<and> l \<in> {''windows'', ''win32''}) \<or>
      (s = ''macos'' \<and> l \<in> {''macos'', ''darwin'', ''osx''}) \<or>
      (s = ''linux'' \<and> l = ''linux'') \<or> (s = ''android'' \<and> l = ''android''))"
  by (auto simp: normalize_os_def Let_def)

lemma normalize_arch_Inr_iff:
  "normalize_arch arch = Inr s \<longleftrightarrow>
     (let l = to_ascii_lowercase arch in
      (s = ''x86_64'' \<and> l \<in> {''x86_64'', ''amd64''}) \<or>
      (s = ''arm64'' \<and> l \<in> {''aarch64'', ''arm64''}))"
  by (auto simp: normalize_arch_def Let_def)

text \<open>Target detection is total over the documented targets: the normalised pairs are exactly
  the eight supported targets, detection is case-insensitive, and its result names the system and
  the architecture it is made of.\<close>

theorem target_detection:
  "((\<exists>t. target_from_parts os arch = Inr t) \<longleftrightarrow>
      is_ok (normalize_os os) \<and> is_ok (normalize_arch arch)) \<and>
   (\<forall>t. target_from_parts os arch = Inr t \<longrightarrow>
      ht_target_id t = ht_os t @ ''-'' @ ht_arch t \<and> ht_target_id t \<in> set supported_targets) \<and>
   target_from_parts (to_ascii_lowercase os) (to_ascii_lowercase arch) = target_from_parts os arch"
proof -
  have low: "to_ascii_lowercase (to_ascii_lowercase s) = to_ascii_lowercase s" for s
    by (auto simp: to_ascii_lowercase_def ascii_lower_def is_ascii_upper_def byte_def)
  have sup: "o' @ ''-'' @ a \<in> set supported_targets"
    if "normalize_os os = Inr o'" "normalize_arch arch = Inr a" for o' a
    using that unfolding normalize_os_Inr_iff normalize_arch_Inr_iff Let_def supported_targets_def
    by (elim disjE conjE) simp_all
  show ?thesis
  proof (intro conjI)
    show "(\<exists>t. target_from_parts os arch = Inr t) \<longleftrightarrow> is_ok (normalize_os os) \<and> is_ok (normalize_arch arch)"
      using sup by (cases "normalize_os os"; cases "normalize_arch arch") (simp_all add: target_from_parts_def Let_def)
    show "\<forall>t. target_from_parts os arch = Inr t \<longrightarrow>
        ht_target_id t = ht_os t @ ''-'' @ ht_arch t \<and> ht_target_id t \<in> set supported_targets"
      using sup by (cases "normalize_os os"; cases "normalize_arch arch") (auto simp: target_from_parts_def Let_def)
    show "target_from_parts (to_ascii_lowercase os) (to_ascii_lowercase arch) = target_from_parts os arch"
      by (simp add: target_from_parts_def normalize_os_def normalize_arch_def low)
  qed
qed

end
