(* ===== verification/Adb.thy ===== *)
theory Adb
  imports Platform_Assets
begin

text \<open>
  \<open>adb.rs\<close>: running adb, the arguments of the scrcpy server, and the manager of its processes.
  \<open>spawn\<close> is the operating system running a program to its end on the world state; what it
  answers to spawning, killing and waiting for a background process is an argument.
\<close>

record adb_output =
  ao_exit_code :: int
  ao_stdout :: string
  ao_stderr :: string

type_synonym 'w runner = "string \<Rightarrow> string list \<Rightarrow> 'w \<Rightarrow> (app_error + adb_output) \<times> 'w"

definition output_json :: "adb_output \<Rightarrow> json" where
  "output_json out =
     JObj [(''exitCode'', JInt (ao_exit_code out)), (''stdout'', JStr (ao_stdout out)),
           (''stderr'', JStr (ao_stderr out))]"

definition validate_adb_args :: "string list \<Rightarrow> app_error + unit" where
  "validate_adb_args args =
     (if list_ex (\<lambda>arg. list_ex (\<lambda>c. byte c = 0) arg) args
      then Inl (new_error ''ADB_ARGS_CONTAIN_NUL'' ''ADB arguments must not contain NUL bytes.''
             ''adb.runner'' False)
      else Inr ())"

text \<open>
  A finished process has an exit code, or none when a signal ended it, and the bytes of its two
  streams, which \<open>lossy\<close>, the library's \<open>from_utf8_lossy\<close>, turns into text.
\<close>

definition process_run ::
    "(string \<Rightarrow> string) \<Rightarrow>
     (string \<Rightarrow> string list \<Rightarrow> 'w \<Rightarrow> (string + int option \<times> string \<times> string) \<times> 'w) \<Rightarrow> 'w runner" where
  "process_run lossy spawn adb_binary args w =
     (case validate_adb_args args of
        Inl e \<Rightarrow> (Inl e, w)
      | Inr _ \<Rightarrow>
          (case spawn adb_binary args w of
             (Inl c, w') \<Rightarrow>
               (Inl (with_suggestion
                  ''Verify that the ADB asset exists, is executable, and matches the host target.''
                  (with_cause c (new_error ''ADB_PROCESS_SPAWN_FAILED''
                     (''Failed to start adb binary at '' @ adb_binary) ''adb.runner'' True))), w')
           | (Inr (code, out, err), w') \<Rightarrow>
               (Inr \<lparr>ao_exit_code = (case code of None \<Rightarrow> - 1 | Some k \<Rightarrow> k),
                     ao_stdout = lossy out, ao_stderr = lossy err\<rparr>, w')))"

subsection \<open>The scrcpy server\<close>

record scrcpy_config =
  sc_session :: string
  sc_device_id :: string
  sc_apk_path :: string
  sc_scid :: nat
  sc_max_size :: nat
  sc_video_bit_rate :: nat
  sc_max_fps :: nat

record scrcpy_process =
  sp_session_id :: string
  sp_process_id :: nat

definition apk_path_byte :: "char \<Rightarrow> bool" where
  "apk_path_byte c \<longleftrightarrow> is_ascii_alphanumeric c \<or> c \<in> set ''/._-+=~''"

definition validate_scrcpy_config :: "scrcpy_config \<Rightarrow> app_error + unit" where
  "validate_scrcpy_config k =
     (let valid_session = (sc_session k \<noteq> [] \<and> length (sc_session k) \<le> 64 \<and>
            list_all (\<lambda>c. is_ascii_alphanumeric c \<or> c = CHR ''-'') (sc_session k));
          valid_apk_path = (starts_with ''/data/app/'' (sc_apk_path k) \<and>
            ends_with ''.apk'' (sc_apk_path k) \<and> list_all apk_path_byte (sc_apk_path k))
      in if \<not> valid_session \<or> trim (sc_device_id k) = [] \<or> length (sc_device_id k) > 512 \<or>
            \<not> valid_apk_path \<or>
            \<not> (0x10000000 \<le> sc_scid k \<and> sc_scid k \<le> 0x7fffffff) \<or>
            \<not> (128 \<le> sc_max_size k \<and> sc_max_size k \<le> 4096) \<or>
            \<not> (500000 \<le> sc_video_bit_rate k \<and> sc_video_bit_rate k \<le> 32000000) \<or>
            \<not> (1 \<le> sc_max_fps k \<and> sc_max_fps k \<le> 60)
         then Inl (new_error ''SCRCPY_CONFIG_INVALID'' ''The scrcpy server configuration is invalid.''
                ''adb.scrcpy'' False)
         else Inr ())"

definition scrcpy_remote_args :: "scrcpy_config \<Rightarrow> string list" where
  "scrcpy_remote_args k =
     [''CLASSPATH='' @ sc_apk_path k, ''app_process'', ''/'', ''com.genymobile.scrcpy.Server'', ''4.0'',
      ''scid='' @ pad_left 8 (show_base 16 (sc_scid k)), ''log_level=info'', ''audio=true'',
      ''audio_codec=raw'', ''video=true'', ''control=true'', ''video_codec=h264'',
      ''video_codec_options=profile=1,level=2048'', ''max_size='' @ show_nat (sc_max_size k),
      ''video_bit_rate='' @ show_nat (sc_video_bit_rate k), ''max_fps='' @ show_nat (sc_max_fps k),
      ''tunnel_forward=true'', ''send_device_meta=false'', ''send_dummy_byte=true'',
      ''send_stream_meta=true'', ''send_frame_meta=true'']"

definition build_scrcpy_server_args :: "scrcpy_config \<Rightarrow> app_error + string list" where
  "build_scrcpy_server_args k =
     on_ok (validate_scrcpy_config k) (\<lambda>_.
       let args = [''-s'', sc_device_id k, ''shell''] @ scrcpy_remote_args k in
       on_ok (validate_adb_args args) (\<lambda>_. Inr args))"

subsection \<open>The process manager\<close>

text \<open>
  \<open>pm_running\<close> is the operating system's side: the processes the manager started that have not
  ended. A reply says whether the process was found to have ended, what killing it answered, and
  whether waiting for it saw its end.
\<close>

record process_manager =
  pm_children :: "string \<rightharpoonup> nat"
  pm_running :: "nat set"
  pm_poisoned :: bool

record child_reply =
  cr_has_exited :: bool
  cr_kill_error :: "string option"
  cr_wait_exits :: bool

definition kill_child :: "child_reply \<Rightarrow> nat \<Rightarrow> process_manager \<Rightarrow> process_manager" where
  "kill_child reply pid pm =
     (if cr_kill_error reply = None then pm\<lparr>pm_running := pm_running pm - {pid}\<rparr> else pm)"

definition wait_child :: "child_reply \<Rightarrow> nat \<Rightarrow> process_manager \<Rightarrow> process_manager" where
  "wait_child reply pid pm =
     (if cr_wait_exits reply then pm\<lparr>pm_running := pm_running pm - {pid}\<rparr> else pm)"

definition registry_failed :: app_error where
  "registry_failed =
     with_cause ''poisoned lock: another task failed inside''
       (new_error ''SCRCPY_PROCESS_REGISTRY_FAILED'' ''The scrcpy process registry is unavailable.''
          ''adb.scrcpy'' True)"

definition start_scrcpy ::
    "string + nat \<Rightarrow> child_reply \<Rightarrow> scrcpy_config \<Rightarrow> process_manager \<Rightarrow>
     (app_error + scrcpy_process) \<times> process_manager" where
  "start_scrcpy spawned reply k pm =
     (case build_scrcpy_server_args k of
        Inl e \<Rightarrow> (Inl e, pm)
      | Inr args \<Rightarrow>
          (case spawned of
             Inl c \<Rightarrow>
               (Inl (with_suggestion ''Verify the selected device and installed Companion APK.''
                  (with_cause c (new_error ''SCRCPY_PROCESS_SPAWN_FAILED''
                     ''Failed to start the scrcpy ADB process.'' ''adb.scrcpy'' True))), pm)
           | Inr pid \<Rightarrow>
               (let pm1 = pm\<lparr>pm_running := insert pid (pm_running pm)\<rparr> in
                if pm_poisoned pm then (Inl registry_failed, pm1)
                else
                  (let pm2 = pm1\<lparr>pm_children := (pm_children pm1)(sc_session k \<mapsto> pid)\<rparr> in
                   (Inr \<lparr>sp_session_id = sc_session k, sp_process_id = pid\<rparr>,
                    case pm_children pm (sc_session k) of
                      None \<Rightarrow> pm2
                    | Some previous \<Rightarrow> wait_child reply previous (kill_child reply previous pm2))))))"

definition stop_scrcpy ::
    "child_reply \<Rightarrow> string \<Rightarrow> process_manager \<Rightarrow> (app_error + bool) \<times> process_manager" where
  "stop_scrcpy reply session_id pm =
     (if pm_poisoned pm then (Inl registry_failed, pm)
      else
        (case pm_children pm session_id of
           None \<Rightarrow> (Inr False, pm)
         | Some pid \<Rightarrow>
             (let pm1 = pm\<lparr>pm_children := (pm_children pm)(session_id := None)\<rparr> in
              if cr_has_exited reply then (Inr True, wait_child reply pid pm1)
              else
                (case cr_kill_error reply of
                   Some c \<Rightarrow>
                     (Inl (with_cause c (new_error ''SCRCPY_PROCESS_STOP_FAILED''
                        ''Failed to stop the scrcpy ADB process.'' ''adb.scrcpy'' True)), pm1)
                 | None \<Rightarrow> (Inr True, wait_child reply pid (kill_child reply pid pm1))))))"

text \<open>\<open>Drop\<close> for the manager: every remaining child is killed and waited for.\<close>

definition drop_manager :: "(nat \<Rightarrow> child_reply) \<Rightarrow> process_manager \<Rightarrow> nat set" where
  "drop_manager reply pm =
     (if pm_poisoned pm then pm_running pm
      else pm_running pm -
        {pid \<in> ran (pm_children pm). cr_kill_error (reply pid) = None \<or> cr_wait_exits (reply pid)})"

subsection \<open>Facts\<close>

lemma validate_adb_args_Inr_iff [ok_iff]:
  "validate_adb_args args = Inr u \<longleftrightarrow> (\<forall>arg \<in> set args. \<forall>c \<in> set arg. byte c \<noteq> 0)"
  by (auto simp: validate_adb_args_def list_ex_iff)

lemma validate_scrcpy_config_Inr_iff [ok_iff]:
  "validate_scrcpy_config k = Inr u \<longleftrightarrow>
     sc_session k \<noteq> [] \<and> length (sc_session k) \<le> 64 \<and>
     list_all (\<lambda>c. is_ascii_alphanumeric c \<or> c = CHR ''-'') (sc_session k) \<and>
     trim (sc_device_id k) \<noteq> [] \<and> length (sc_device_id k) \<le> 512 \<and>
     starts_with ''/data/app/'' (sc_apk_path k) \<and> ends_with ''.apk'' (sc_apk_path k) \<and>
     list_all apk_path_byte (sc_apk_path k) \<and>
     0x10000000 \<le> sc_scid k \<and> sc_scid k \<le> 0x7fffffff \<and>
     128 \<le> sc_max_size k \<and> sc_max_size k \<le> 4096 \<and>
     500000 \<le> sc_video_bit_rate k \<and> sc_video_bit_rate k \<le> 32000000 \<and>
     1 \<le> sc_max_fps k \<and> sc_max_fps k \<le> 60"
  by (auto simp: validate_scrcpy_config_def Let_def)

lemma build_scrcpy_Inr_iff:
  "build_scrcpy_server_args k = Inr args \<longleftrightarrow>
     validate_scrcpy_config k = Inr () \<and> args = [''-s'', sc_device_id k, ''shell''] @ scrcpy_remote_args k \<and>
     validate_adb_args args = Inr ()"
  by (auto simp: build_scrcpy_server_args_def Let_def on_ok_Inr_iff)

text \<open>The bytes of a word the device's shell takes literally.\<close>

definition shell_literal :: "char \<Rightarrow> bool" where
  "shell_literal c \<longleftrightarrow> is_ascii_alphanumeric c \<or> c \<in> set ''/._-+=~,''"

lemma digit_char_alnum: "d < 16 \<Longrightarrow> is_ascii_alphanumeric (digit_char d)"
  by (auto simp: digit_char_def is_ascii_alphanumeric_def is_ascii_digit_def byte_def)

lemma show_base_alnum: "b \<le> 16 \<Longrightarrow> 2 \<le> b \<Longrightarrow> list_all is_ascii_alphanumeric (show_base b n)"
proof (induction n rule: less_induct)
  case (less n)
  have "n mod b < 16" by (rule less_le_trans [of _ b]) (use less.prems in auto)
  then show ?case
    using less by (cases "n < b") (auto simp: show_base.simps [of b n] digit_char_alnum)
qed

lemma shell_literal_alnum: "list_all is_ascii_alphanumeric s \<Longrightarrow> list_all shell_literal s"
  by (auto simp: list_all_iff shell_literal_def)

lemma shell_literal_number:
  "list_all shell_literal (show_nat n)" "list_all shell_literal (pad_left w (show_base 16 n))"
proof -
  show "list_all shell_literal (show_nat n)"
    unfolding show_nat_def by (intro shell_literal_alnum show_base_alnum) simp_all
  have "list_all is_ascii_alphanumeric (replicate m CHR ''0'')" for m
    by (simp add: list_all_iff is_ascii_alphanumeric_def is_ascii_digit_def byte_def)
  then show "list_all shell_literal (pad_left w (show_base 16 n))"
    unfolding pad_left_def by (intro shell_literal_alnum) (simp add: show_base_alnum)
qed

lemma scrcpy_words_literal:
  assumes "list_all apk_path_byte (sc_apk_path k)"
  shows "list_all (list_all shell_literal) (scrcpy_remote_args k)"
proof -
  have apk: "list_all shell_literal (sc_apk_path k)"
    using assms by (auto simp: list_all_iff apk_path_byte_def shell_literal_def)
  then show ?thesis
    using shell_literal_number
    by (simp add: scrcpy_remote_args_def shell_literal_def is_ascii_alphanumeric_def
        is_ascii_digit_def is_ascii_upper_def byte_def)
qed

text \<open>C29. The scrcpy server is started on one device with words the device's shell cannot
  reinterpret: the adb arguments are the selector for the configured device, \<open>shell\<close>, and words
  of letters, digits and a few punctuation bytes, none of which is a shell metacharacter or white
  space. The configuration is within its bounds: a session name of 1 to 64 letters, digits and
  dashes, a device id of at most 512 bytes that is not blank, an \<open>apk\<close> under \<open>/data/app/\<close> whose
  path has no byte the shell would act on, a connection id from 0x10000000 to 0x7fffffff, a size of
  128 to 4096, a bit rate of 500000 to 32000000 and 1 to 60 frames a second.\<close>

theorem scrcpy_args_confined:
  assumes "build_scrcpy_server_args k = Inr args"
  shows "\<exists>words. args = ''-s'' # sc_device_id k # ''shell'' # words \<and>
           list_all (list_all shell_literal) words \<and>
           (\<forall>arg \<in> set args. \<forall>c \<in> set arg. byte c \<noteq> 0) \<and>
           length (sc_session k) \<in> {1..64} \<and>
           (\<forall>c \<in> set (sc_session k). is_ascii_alphanumeric c \<or> c = CHR ''-'') \<and>
           trim (sc_device_id k) \<noteq> [] \<and> length (sc_device_id k) \<le> 512 \<and>
           starts_with ''/data/app/'' (sc_apk_path k) \<and> ends_with ''.apk'' (sc_apk_path k) \<and>
           list_all shell_literal (sc_apk_path k) \<and>
           sc_scid k \<in> {0x10000000..0x7fffffff} \<and> sc_max_size k \<in> {128..4096} \<and>
           sc_video_bit_rate k \<in> {500000..32000000} \<and> sc_max_fps k \<in> {1..60}"
proof -
  have v: "validate_scrcpy_config k = Inr ()" and args: "args = [''-s'', sc_device_id k, ''shell''] @ scrcpy_remote_args k"
    and bytes: "validate_adb_args args = Inr ()"
    using assms unfolding build_scrcpy_Inr_iff by blast+
  have apk: "list_all apk_path_byte (sc_apk_path k)" using v by (simp add: validate_scrcpy_config_Inr_iff)
  then have "list_all shell_literal (sc_apk_path k)"
    by (auto simp: list_all_iff apk_path_byte_def shell_literal_def)
  moreover have "length (sc_session k) \<in> {1..64}"
    using v by (cases "sc_session k") (simp_all add: validate_scrcpy_config_Inr_iff)
  ultimately show ?thesis
    using v bytes scrcpy_words_literal [OF apk]
    by (simp add: args validate_scrcpy_config_Inr_iff validate_adb_args_Inr_iff list_all_iff)
qed

subsection \<open>No process is lost\<close>

definition processes_ok :: "process_manager \<Rightarrow> bool" where
  "processes_ok pm \<longleftrightarrow>
     \<not> pm_poisoned pm \<and> inj_on (pm_children pm) (dom (pm_children pm)) \<and>
     pm_running pm \<subseteq> ran (pm_children pm)"

definition effective :: "child_reply \<Rightarrow> bool" where
  "effective reply \<longleftrightarrow> cr_kill_error reply = None \<and> cr_wait_exits reply"

lemma ran_upd_fresh:
  "inj_on m (dom m) \<Longrightarrow> m k = Some p \<Longrightarrow> ran (m(k := None)) = ran m - {p}"
  by (auto simp: ran_def inj_on_def dom_def) (metis option.inject)

lemma inj_on_upd_fresh:
  "inj_on m (dom m) \<Longrightarrow> pid \<notin> ran m \<Longrightarrow> inj_on (m(k \<mapsto> pid)) (dom (m(k \<mapsto> pid)))"
  by (auto simp: inj_on_def dom_def ran_def)

lemma start_tracked:
  assumes "processes_ok pm" and "effective reply" and "pid \<notin> ran (pm_children pm)"
  shows "processes_ok (snd (start_scrcpy (Inr pid) reply k pm)) \<and>
      (is_ok (fst (start_scrcpy (Inr pid) reply k pm)) \<longrightarrow>
            pm_children (snd (start_scrcpy (Inr pid) reply k pm)) (sc_session k) = Some pid \<and>
            pid \<in> pm_running (snd (start_scrcpy (Inr pid) reply k pm)) \<and>
            (\<forall>old. pm_children pm (sc_session k) = Some old \<longrightarrow>
               old \<notin> pm_running (snd (start_scrcpy (Inr pid) reply k pm))))"
proof -
  have ok: "\<not> pm_poisoned pm" "inj_on (pm_children pm) (dom (pm_children pm))"
    "pm_running pm \<subseteq> ran (pm_children pm)"
    using assms(1) by (simp_all add: processes_ok_def)
  show ?thesis
  proof (cases "build_scrcpy_server_args k")
    case (Inl e)
    then show ?thesis using assms(1) by (simp add: start_scrcpy_def)
  next
    case (Inr args)
    let ?m = "(pm_children pm)(sc_session k \<mapsto> pid)"
    have inj: "inj_on ?m (dom ?m)" using ok(2) assms(3) by (rule inj_on_upd_fresh)
    show ?thesis
    proof (cases "pm_children pm (sc_session k)")
      case None
      then show ?thesis
        using ok inj Inr by (auto simp: start_scrcpy_def Let_def processes_ok_def ran_map_upd)
    next
      case (Some old)
      have "old \<noteq> pid" using Some assms(3) by (auto simp: ran_def)
      moreover have "ran ?m = insert pid (ran (pm_children pm) - {old})"
        using ran_upd_fresh [OF ok(2) Some] by (simp add: ran_def) (auto split: if_splits)
      ultimately show ?thesis
        using ok inj Inr Some assms(2)
        by (auto simp: start_scrcpy_def Let_def processes_ok_def effective_def kill_child_def wait_child_def)
    qed
  qed
qed

lemma stop_tracked:
  assumes "processes_ok pm" and "effective reply"
  shows "processes_ok (snd (stop_scrcpy reply sid pm)) \<and>
      pm_children (snd (stop_scrcpy reply sid pm)) sid = None \<and>
      (\<forall>old. pm_children pm sid = Some old \<longrightarrow> old \<notin> pm_running (snd (stop_scrcpy reply sid pm)))"
proof -
  have ok: "\<not> pm_poisoned pm" "inj_on (pm_children pm) (dom (pm_children pm))"
    "pm_running pm \<subseteq> ran (pm_children pm)"
    using assms(1) by (simp_all add: processes_ok_def)
  show ?thesis
  proof (cases "pm_children pm sid")
    case None
    then show ?thesis using assms(1) ok by (simp add: stop_scrcpy_def)
  next
    case (Some old)
    have "inj_on ((pm_children pm)(sid := None)) (dom ((pm_children pm)(sid := None)))"
      using ok(2) by (auto simp: inj_on_def)
    then show ?thesis
      using ok Some assms(2) ran_upd_fresh [OF ok(2) Some]
      by (auto simp: stop_scrcpy_def Let_def processes_ok_def effective_def kill_child_def wait_child_def)
  qed
qed

text \<open>As long as killing and waiting work, no scrcpy process is lost: every running process the
  manager started belongs to a session, starting a session ends the process it had before, and
  stopping a session leaves no process of it running and no entry behind.\<close>

theorem scrcpy_processes_tracked:
  assumes "processes_ok pm" and "effective reply" and "pid \<notin> ran (pm_children pm)"
  shows "processes_ok (snd (start_scrcpy (Inr pid) reply k pm)) \<and>
         (is_ok (fst (start_scrcpy (Inr pid) reply k pm)) \<longrightarrow>
            pm_children (snd (start_scrcpy (Inr pid) reply k pm)) (sc_session k) = Some pid \<and>
            pid \<in> pm_running (snd (start_scrcpy (Inr pid) reply k pm)) \<and>
            (\<forall>old. pm_children pm (sc_session k) = Some old \<longrightarrow>
               old \<notin> pm_running (snd (start_scrcpy (Inr pid) reply k pm)))) \<and>
         processes_ok (snd (stop_scrcpy reply sid pm)) \<and>
         pm_children (snd (stop_scrcpy reply sid pm)) sid = None \<and>
         (\<forall>old. pm_children pm sid = Some old \<longrightarrow> old \<notin> pm_running (snd (stop_scrcpy reply sid pm)))"
  using start_tracked [OF assms] stop_tracked [OF assms(1,2)] by blast

text \<open>A stop that fails forgets the process: when killing the process of a session fails, the
  caller gets an error while the process keeps running, and the session's entry is already gone,
  so that stopping the session again reports that there is nothing to stop.\<close>

theorem failed_stop_forgets_process:
  assumes "\<not> pm_poisoned pm" and "pm_children pm sid = Some pid" and "pid \<in> pm_running pm"
    and "\<not> cr_has_exited reply" and "cr_kill_error reply = Some c"
  shows "\<exists>e pm'. stop_scrcpy reply sid pm = (Inl e, pm') \<and> pid \<in> pm_running pm' \<and>
           (\<forall>reply'. stop_scrcpy reply' sid pm' = (Inr False, pm'))"
  using assms by (simp add: stop_scrcpy_def Let_def)

end
