(* ===== verification/Keepalive.thy ===== *)
theory Keepalive
  imports Adb Transition
begin

text \<open>
  \<open>keepalive.rs\<close>: the supervisor that keeps the adb server alive. The handle and the thread share
  the status and a queue of control messages: the handle's \<open>configure\<close> and \<open>stop\<close> write them,
  the thread takes messages from the queue and, when its wait times out, runs a check. Seconds
  are \<open>u64\<close> values of the clock, the failure counter is a \<open>u32\<close>.
\<close>

definition keepalive_min_interval_secs :: nat where
  "keepalive_min_interval_secs = 5"

record keepalive_config =
  kc_enabled :: bool
  kc_interval_secs :: nat

definition default_keepalive_config :: keepalive_config where
  "default_keepalive_config = \<lparr>kc_enabled = True, kc_interval_secs = 30\<rparr>"

definition validate_keepalive :: "keepalive_config \<Rightarrow> app_error + unit" where
  "validate_keepalive c =
     (if kc_interval_secs c < keepalive_min_interval_secs
      then Inl (new_error ''ADB_KEEPALIVE_INTERVAL_INVALID''
        (''ADB keep-alive interval must be at least '' @ show_nat keepalive_min_interval_secs @ '' seconds.'')
        ''adb.keepalive'' False)
      else Inr ())"

record keepalive_status =
  ks_enabled :: bool
  ks_interval_secs :: nat
  ks_running :: bool
  ks_started_at :: "nat option"
  ks_last_check_at :: "nat option"
  ks_last_ok :: "bool option"
  ks_last_exit_code :: "int option"
  ks_consecutive_failures :: "32 word"
  ks_last_error :: "app_error option"

definition initial_status :: "nat \<Rightarrow> keepalive_config \<Rightarrow> keepalive_status" where
  "initial_status now c =
     \<lparr>ks_enabled = kc_enabled c, ks_interval_secs = kc_interval_secs c, ks_running = True,
      ks_started_at = Some now, ks_last_check_at = None, ks_last_ok = None,
      ks_last_exit_code = None, ks_consecutive_failures = 0, ks_last_error = None\<rparr>"

datatype keepalive_control = Configure keepalive_config | Stop

text \<open>\<open>ka_receiver\<close> says whether the thread still holds the receiving end of the channel.\<close>

record keepalive =
  ka_status :: keepalive_status
  ka_queue :: "keepalive_control list"
  ka_receiver :: bool

definition apply_configure :: "keepalive_config \<Rightarrow> keepalive_status \<Rightarrow> keepalive_status" where
  "apply_configure c s = s\<lparr>ks_enabled := kc_enabled c, ks_interval_secs := kc_interval_secs c\<rparr>"

definition start_server_failed :: "adb_output \<Rightarrow> app_error" where
  "start_server_failed out =
     with_cause (''stderr: '' @ trim (ao_stderr out))
       (new_error ''ADB_KEEPALIVE_START_SERVER_FAILED''
          (''adb start-server exited with code '' @ show_int (ao_exit_code out) @ ''.'')
          ''adb.keepalive'' True)"

definition apply_cycle :: "nat \<Rightarrow> app_error + adb_output \<Rightarrow> keepalive_status \<Rightarrow> keepalive_status" where
  "apply_cycle now result s0 =
     (let s = s0\<lparr>ks_last_check_at := Some now\<rparr> in
      case result of
        Inr out \<Rightarrow>
          (let s1 = s\<lparr>ks_last_exit_code := Some (ao_exit_code out)\<rparr> in
           if ao_exit_code out = 0
           then s1\<lparr>ks_last_ok := Some True, ks_consecutive_failures := 0, ks_last_error := None\<rparr>
           else s1\<lparr>ks_last_ok := Some False,
                   ks_consecutive_failures := ks_consecutive_failures s1 + 1,
                   ks_last_error := Some (start_server_failed out)\<rparr>)
      | Inl e \<Rightarrow>
          s\<lparr>ks_last_ok := Some False, ks_last_exit_code := None,
            ks_consecutive_failures := ks_consecutive_failures s + 1, ks_last_error := Some e\<rparr>)"

text \<open>\<open>target\<close> and \<open>resolve\<close> are the host target and the path of an asset on this host.\<close>

definition keepalive_check ::
    "app_error + host_target \<Rightarrow> (adb_asset \<Rightarrow> app_error + string) \<Rightarrow> adb_manifest \<Rightarrow> 'w runner \<Rightarrow> 'w \<Rightarrow>
     (app_error + adb_output) \<times> 'w" where
  "keepalive_check target resolve manifest runner w =
     (case on_ok target (\<lambda>t. on_ok (find_adb_asset manifest t) resolve) of
        Inl e \<Rightarrow> (Inl e, w)
      | Inr path \<Rightarrow> runner path [''start-server''] w)"

subsection \<open>The handle\<close>

definition spawn_keepalive :: "string option \<Rightarrow> nat \<Rightarrow> keepalive_config \<Rightarrow> app_error + keepalive" where
  "spawn_keepalive spawn_error now c =
     on_ok (validate_keepalive c) (\<lambda>_.
       case spawn_error of
         Some e \<Rightarrow> Inl (with_cause e (new_error ''ADB_KEEPALIVE_THREAD_SPAWN_FAILED''
                     ''Failed to spawn ADB keep-alive thread.'' ''adb.keepalive'' True))
       | None \<Rightarrow> Inr \<lparr>ka_status = initial_status now c, ka_queue = [], ka_receiver = True\<rparr>)"

definition keepalive_configure :: "keepalive_config \<Rightarrow> keepalive \<Rightarrow> (app_error + unit) \<times> keepalive" where
  "keepalive_configure c k =
     (case validate_keepalive c of
        Inl e \<Rightarrow> (Inl e, k)
      | Inr _ \<Rightarrow>
          (let k1 = k\<lparr>ka_status := apply_configure c (ka_status k)\<rparr> in
           if ka_receiver k
           then (Inr (), k1\<lparr>ka_queue := ka_queue k @ [Configure c]\<rparr>)
           else (Inl (new_error ''ADB_KEEPALIVE_THREAD_STOPPED''
                   ''ADB keep-alive thread has already stopped.'' ''adb.keepalive'' False), k1)))"

definition keepalive_stop :: "keepalive \<Rightarrow> keepalive" where
  "keepalive_stop k = (if ka_receiver k then k\<lparr>ka_queue := ka_queue k @ [Stop]\<rparr> else k)"

subsection \<open>The thread\<close>

definition thread_ends :: "keepalive \<Rightarrow> keepalive" where
  "thread_ends k =
     k\<lparr>ka_status := (ka_status k)\<lparr>ks_running := False\<rparr>, ka_queue := [], ka_receiver := False\<rparr>"

text \<open>
  One turn of the loop after its wait: a message if there is one, else, when the supervisor is
  enabled, the time-out with the result of a check. A disabled supervisor waits without end.
\<close>

definition keepalive_turn :: "nat \<Rightarrow> app_error + adb_output \<Rightarrow> keepalive \<Rightarrow> keepalive" where
  "keepalive_turn now result k =
     (if \<not> ka_receiver k then k
      else
        (case ka_queue k of
           Configure c # q \<Rightarrow> k\<lparr>ka_status := apply_configure c (ka_status k), ka_queue := q\<rparr>
         | Stop # q \<Rightarrow> thread_ends k
         | [] \<Rightarrow>
             if ks_enabled (ka_status k)
             then k\<lparr>ka_status := apply_cycle now result (ka_status k)\<rparr> else k))"

text \<open>
  \<open>keepalive_first\<close> is the check at the start of the thread, \<open>keepalive_gone\<close> the end of the
  thread once the handle is dropped and no message is left.
\<close>

inductive keepalive_step :: "keepalive \<Rightarrow> keepalive \<Rightarrow> bool" where
  keepalive_set: "keepalive_step k (snd (keepalive_configure c k))"
| keepalive_halt: "keepalive_step k (keepalive_stop k)"
| keepalive_loop: "keepalive_step k (keepalive_turn now result k)"
| keepalive_first: "keepalive_step k (k\<lparr>ka_status := apply_cycle now result (ka_status k)\<rparr>)"
| keepalive_gone: "ka_queue k = [] \<Longrightarrow> keepalive_step k (thread_ends k)"

inductive_cases keepalive_stepE: "keepalive_step k k'"

definition status_json :: "keepalive_status \<Rightarrow> (app_error \<Rightarrow> json) \<Rightarrow> json" where
  "status_json s err =
     JObj [(''enabled'', JBool (ks_enabled s)), (''intervalSecs'', JInt (int (ks_interval_secs s))),
           (''running'', JBool (ks_running s)),
           (''startedAt'', case ks_started_at s of None \<Rightarrow> JNull | Some t \<Rightarrow> JInt (int t)),
           (''lastCheckAt'', case ks_last_check_at s of None \<Rightarrow> JNull | Some t \<Rightarrow> JInt (int t)),
           (''lastOk'', case ks_last_ok s of None \<Rightarrow> JNull | Some b \<Rightarrow> JBool b),
           (''lastExitCode'', case ks_last_exit_code s of None \<Rightarrow> JNull | Some i \<Rightarrow> JInt i),
           (''consecutiveFailures'', JInt (uint (ks_consecutive_failures s))),
           (''lastError'', case ks_last_error s of None \<Rightarrow> JNull | Some e \<Rightarrow> err e)]"

subsection \<open>Facts\<close>

lemma validate_keepalive_Inr_iff [ok_iff]:
  "validate_keepalive c = Inr u \<longleftrightarrow> 5 \<le> kc_interval_secs c"
  by (simp add: validate_keepalive_def keepalive_min_interval_secs_def not_less)

lemma apply_cycle_frame [simp]:
  "ks_enabled (apply_cycle now r s) = ks_enabled s"
  "ks_interval_secs (apply_cycle now r s) = ks_interval_secs s"
  "ks_running (apply_cycle now r s) = ks_running s"
  by (simp_all add: apply_cycle_def Let_def split: sum.splits)

lemma apply_configure_sel [simp]:
  "ks_enabled (apply_configure c s) = kc_enabled c"
  "ks_interval_secs (apply_configure c s) = kc_interval_secs c"
  "ks_running (apply_configure c s) = ks_running s"
  "ks_consecutive_failures (apply_configure c s) = ks_consecutive_failures s"
  by (simp_all add: apply_configure_def)

text \<open>
  Every pending configuration is valid, the status has a valid interval and runs exactly while the
  thread does, and the last pending configuration is the one the status shows or will show.
\<close>

definition keepalive_ok :: "keepalive \<Rightarrow> bool" where
  "keepalive_ok k \<longleftrightarrow>
     5 \<le> ks_interval_secs (ka_status k) \<and>
     (\<forall>c. Configure c \<in> set (ka_queue k) \<longrightarrow> 5 \<le> kc_interval_secs c) \<and>
     (ks_running (ka_status k) \<longleftrightarrow> ka_receiver k) \<and> (\<not> ka_receiver k \<longrightarrow> ka_queue k = [])"

definition keepalive_started :: "keepalive \<Rightarrow> bool" where
  "keepalive_started k \<longleftrightarrow> (\<exists>now c. spawn_keepalive None now c = Inr k)"

lemma keepalive_ok_started: "keepalive_started k \<Longrightarrow> keepalive_ok k"
  by (auto simp: keepalive_started_def spawn_keepalive_def ok_iff keepalive_ok_def initial_status_def)

lemma keepalive_ok_configure: "keepalive_ok k \<Longrightarrow> keepalive_ok (snd (keepalive_configure c k))"
  by (auto simp: keepalive_configure_def keepalive_ok_def Let_def validate_keepalive_def
      keepalive_min_interval_secs_def split: sum.splits)

lemma keepalive_ok_stop: "keepalive_ok k \<Longrightarrow> keepalive_ok (keepalive_stop k)"
  by (auto simp: keepalive_stop_def keepalive_ok_def)

lemma keepalive_ok_ends: "keepalive_ok k \<Longrightarrow> keepalive_ok (thread_ends k)"
  by (simp add: thread_ends_def keepalive_ok_def)

lemma keepalive_ok_turn: "keepalive_ok k \<Longrightarrow> keepalive_ok (keepalive_turn now r k)"
  by (auto simp: keepalive_turn_def keepalive_ok_def thread_ends_def
      split: list.splits keepalive_control.splits)

lemma keepalive_ok_first: "keepalive_ok k \<Longrightarrow> keepalive_ok (k\<lparr>ka_status := apply_cycle now r (ka_status k)\<rparr>)"
  by (simp add: keepalive_ok_def)

interpretation keepalive: invariant_machine keepalive_started keepalive_step keepalive_ok
  by unfold_locales
    (auto intro: keepalive_ok_started keepalive_ok_configure keepalive_ok_stop keepalive_ok_ends
      keepalive_ok_turn keepalive_ok_first elim!: keepalive_stepE)

text \<open>In every state of the supervisor the interval is at least five seconds, the status says
  it runs exactly while the thread does, and a configuration is refused exactly when its interval
  is too short or the thread has ended.\<close>

theorem keepalive_reachable_ok:
  assumes "reachable keepalive_started keepalive_step k"
  shows "5 \<le> ks_interval_secs (ka_status k) \<and> (ks_running (ka_status k) \<longleftrightarrow> ka_receiver k) \<and>
         (is_ok (fst (keepalive_configure c k)) \<longleftrightarrow>
            5 \<le> kc_interval_secs c \<and> ks_running (ka_status k))"
  using keepalive.reach_inv [OF assms]
  by (auto simp: keepalive_ok_def keepalive_configure_def Let_def validate_keepalive_def
      keepalive_min_interval_secs_def)

text \<open>The configurations of a run of handle calls, and the thread working off its queue.\<close>

definition configure_all :: "keepalive_config list \<Rightarrow> keepalive \<Rightarrow> keepalive" where
  "configure_all cs k = foldl (\<lambda>k c. snd (keepalive_configure c k)) k cs"

definition drain :: "(nat \<times> (app_error + adb_output)) list \<Rightarrow> keepalive \<Rightarrow> keepalive" where
  "drain rs k = foldl (\<lambda>k r. keepalive_turn (fst r) (snd r) k) k rs"

lemma configure_all_queue:
  assumes "ka_receiver k" and "\<forall>c \<in> set cs. 5 \<le> kc_interval_secs c"
  shows "ka_receiver (configure_all cs k) \<and>
         ka_queue (configure_all cs k) = ka_queue k @ map Configure cs"
  using assms
proof (induction cs arbitrary: k)
  case Nil
  then show ?case by (simp add: configure_all_def)
next
  case (Cons c cs)
  let ?k = "snd (keepalive_configure c k)"
  have k: "ka_receiver ?k" "ka_queue ?k = ka_queue k @ [Configure c]"
    using Cons.prems by (simp_all add: keepalive_configure_def Let_def validate_keepalive_def
        keepalive_min_interval_secs_def)
  have "configure_all (c # cs) k = configure_all cs ?k" by (simp add: configure_all_def)
  then show ?case using Cons.IH [of ?k] k Cons.prems(2) by simp
qed

lemma drain_queue:
  assumes "ka_receiver k" and "ka_queue k = map Configure (cs @ [c])" and "length rs = length (cs @ [c])"
  shows "ka_queue (drain rs k) = [] \<and> ks_enabled (ka_status (drain rs k)) = kc_enabled c \<and>
         ks_interval_secs (ka_status (drain rs k)) = kc_interval_secs c"
  using assms
proof (induction cs arbitrary: k rs)
  case Nil
  then obtain r where "rs = [r]" by (cases rs) auto
  then show ?case using Nil by (simp add: drain_def keepalive_turn_def)
next
  case (Cons b cs)
  then obtain r rs' where rs: "rs = r # rs'" by (cases rs) auto
  let ?k = "keepalive_turn (fst r) (snd r) k"
  have k: "ka_receiver ?k" "ka_queue ?k = map Configure (cs @ [c])"
    using Cons.prems by (simp_all add: keepalive_turn_def)
  have "drain rs k = drain rs' ?k" by (simp add: drain_def rs)
  then show ?case using Cons.IH [of ?k rs'] k Cons.prems(3) rs by simp
qed

text \<open>The supervisor settles on the last configuration: however many valid configurations the
  handle sends while the thread has not yet looked at its queue, once the thread has taken them
  the status shows exactly the last one, although older ones were applied again on the way.\<close>

theorem keepalive_last_configuration_wins:
  assumes "ka_receiver k" and "ka_queue k = []"
    and "\<forall>c' \<in> set (cs @ [c]). 5 \<le> kc_interval_secs c'"
    and "length rs = length (cs @ [c])"
  shows "ka_queue (drain rs (configure_all (cs @ [c]) k)) = [] \<and>
         ks_enabled (ka_status (drain rs (configure_all (cs @ [c]) k))) = kc_enabled c \<and>
         ks_interval_secs (ka_status (drain rs (configure_all (cs @ [c]) k))) = kc_interval_secs c"
  using configure_all_queue [OF assms(1,3)] assms(2,4) by (intro drain_queue) simp_all

text \<open>The failures at the end of a list of check results.\<close>

definition check_ok :: "app_error + adb_output \<Rightarrow> bool" where
  "check_ok r = (case r of Inl e \<Rightarrow> False | Inr out \<Rightarrow> ao_exit_code out = 0)"

definition failure_streak :: "(app_error + adb_output) list \<Rightarrow> nat" where
  "failure_streak rs = length (takeWhile (\<lambda>r. \<not> check_ok r) (rev rs))"

definition run_checks :: "(app_error + adb_output) list \<Rightarrow> (nat \<Rightarrow> nat) \<Rightarrow> keepalive_status \<Rightarrow> keepalive_status" where
  "run_checks rs clock s = fst (foldl (\<lambda>(s, i) r. (apply_cycle (clock i) r s, Suc i)) (s, 0) rs)"

lemma run_checks_snoc:
  "run_checks (rs @ [r]) clock s = apply_cycle (clock (length rs)) r (run_checks rs clock s)"
proof -
  have "snd (foldl (\<lambda>(s, i) r. (apply_cycle (clock i) r s, Suc i)) (s, n) rs) = n + length rs" for s n
    by (induction rs arbitrary: s n) simp_all
  then show ?thesis by (simp add: run_checks_def case_prod_beta)
qed

text \<open>The failure counter: after any sequence of checks from a fresh status, it is the number of
  failures since the last success (modulo 2^32), the last outcome is reported as it was, and an
  error is shown exactly after a failure.\<close>

theorem keepalive_counts_failures:
  "ks_consecutive_failures (run_checks rs clock (initial_status now c)) = of_nat (failure_streak rs) \<and>
   ks_last_ok (run_checks rs clock (initial_status now c)) =
     (if rs = [] then None else Some (check_ok (last rs))) \<and>
   (ks_last_error (run_checks rs clock (initial_status now c)) = None \<longleftrightarrow> failure_streak rs = 0)"
proof (induction rs rule: rev_induct)
  case Nil
  then show ?case by (simp add: run_checks_def initial_status_def failure_streak_def)
next
  case (snoc r rs)
  then show ?case
    by (cases r) (simp_all add: run_checks_snoc apply_cycle_def Let_def check_ok_def failure_streak_def)
qed

text \<open>The thread works off what is in front of a stop message, runs no check on the way, and ends.\<close>

lemma drain_ended: "\<not> ka_receiver k \<Longrightarrow> drain rs k = k"
  by (induction rs) (simp_all add: drain_def keepalive_turn_def)

lemma drain_stop:
  assumes "ka_receiver k" and "Stop \<in> set (ka_queue k)" and "length (ka_queue k) \<le> length rs"
  shows "\<not> ka_receiver (drain rs k) \<and> ka_queue (drain rs k) = [] \<and> \<not> ks_running (ka_status (drain rs k)) \<and>
         ks_last_check_at (ka_status (drain rs k)) = ks_last_check_at (ka_status k)"
  using assms
proof (induction rs arbitrary: k)
  case (Cons r rs)
  then obtain msg q where q: "ka_queue k = msg # q" by (cases "ka_queue k") auto
  let ?k = "keepalive_turn (fst r) (snd r) k"
  have d: "drain (r # rs) k = drain rs ?k" by (simp add: drain_def)
  show ?case
  proof (cases msg)
    case (Configure c)
    then have "ka_receiver ?k" "Stop \<in> set (ka_queue ?k)" "length (ka_queue ?k) \<le> length rs"
      "ks_last_check_at (ka_status ?k) = ks_last_check_at (ka_status k)"
      using Cons.prems q by (simp_all add: keepalive_turn_def apply_configure_def)
    then show ?thesis using Cons.IH [of ?k] d by simp
  next
    case Stop
    then have "?k = thread_ends k" using Cons.prems(1) q by (simp add: keepalive_turn_def)
    then show ?thesis using d drain_ended [of ?k rs] by (simp add: thread_ends_def)
  qed
qed simp

text \<open>Stopping ends the supervisor: from every state it can be in, enabled or waiting without end, once
  \<open>stop\<close> has been called the thread ends after at most one turn per message in the queue, the stop
  included. It runs no further check, whatever the results would be, and its status says that it
  no longer runs.\<close>

theorem keepalive_stop_ends:
  assumes "reachable keepalive_started keepalive_step k" and "length (ka_queue k) < length rs"
  shows "\<not> ka_receiver (drain rs (keepalive_stop k)) \<and> ka_queue (drain rs (keepalive_stop k)) = [] \<and>
         \<not> ks_running (ka_status (drain rs (keepalive_stop k))) \<and>
         ks_last_check_at (ka_status (drain rs (keepalive_stop k))) = ks_last_check_at (ka_status k)"
proof (cases "ka_receiver k")
  case True
  then have "ka_receiver (keepalive_stop k)" "Stop \<in> set (ka_queue (keepalive_stop k))"
    "length (ka_queue (keepalive_stop k)) \<le> length rs" "ka_status (keepalive_stop k) = ka_status k"
    using assms(2) by (simp_all add: keepalive_stop_def)
  then show ?thesis using drain_stop [of "keepalive_stop k" rs] by simp
next
  case False
  moreover have "keepalive_ok k" using assms(1) by (rule keepalive.reach_inv)
  ultimately show ?thesis by (simp add: keepalive_stop_def drain_ended keepalive_ok_def)
qed

end
