(* ===== verification/Wireless.thy ===== *)
theory Wireless
  imports Adb
begin

text \<open>
  \<open>wireless.rs\<close>: pairing a phone for wireless debugging with a QR code. The random choices, the
  clocks and the QR encoder are arguments; adb is a \<open>runner\<close> on the state of the world.
\<close>

definition qr_pairing_ttl :: nat where "qr_pairing_ttl = 120"
definition qr_quiet_zone_modules :: nat where "qr_quiet_zone_modules = 4"

definition qr_random_alphabet :: string where
  "qr_random_alphabet = ''ABCDEFGHIJKLMNOPQRSTUVWXYZabcdefghijklmnopqrstuvwxyz0123456789''"

record pairing_qr =
  wq_session_id :: string
  wq_service_name :: string
  wq_qr_svg :: string
  wq_mime_type :: string
  wq_expires_at :: nat

record pairing_result =
  wr_paired :: bool
  wr_service_name :: string
  wr_endpoint :: string

record pending_pairing =
  pp_service_name :: string
  pp_password :: string
  pp_expires_at :: nat

record pairing_manager =
  wp_pending :: "string \<rightharpoonup> pending_pairing"
  wp_poisoned :: bool

definition wifi_error :: "string \<Rightarrow> string \<Rightarrow> app_error" where
  "wifi_error code msg = new_error code msg ''adb.wifi.qr'' True"

definition lock_pending :: "pairing_manager \<Rightarrow> app_error + unit" where
  "lock_pending wm =
     (if wp_poisoned wm
      then Inl (wifi_error ''ADB_QR_PAIRING_STATE_UNAVAILABLE'' ''The QR pairing state is unavailable.'')
      else Inr ())"

text \<open>\<open>pick i\<close> is the \<open>i\<close>-th random number; the index drawn from it is below the length of the alphabet.\<close>

definition random_ascii :: "(nat \<Rightarrow> nat) \<Rightarrow> nat \<Rightarrow> string" where
  "random_ascii pick len = map (\<lambda>i. qr_random_alphabet ! (pick i mod length qr_random_alphabet)) [0..<len]"

definition qr_module :: "nat \<Rightarrow> nat \<Rightarrow> string" where
  "qr_module width index =
     ''M'' @ show_nat (index mod width + qr_quiet_zone_modules) @ '' ''
        @ show_nat (index div width + qr_quiet_zone_modules) @ ''h1v1h-1z''"

definition quote :: string where "quote = [CHR 0x22]"

text \<open>The encoder fails with a text, or gives the width and the dark modules row by row.\<close>

definition render_qr_svg :: "(string \<Rightarrow> string + nat \<times> bool list) \<Rightarrow> string \<Rightarrow> app_error + string" where
  "render_qr_svg qr content =
     on_ok (map_err (\<lambda>c. with_cause c (wifi_error ''ADB_QR_GENERATION_FAILED''
              ''Core failed to encode the wireless ADB pairing QR code.'')) (qr content))
       (\<lambda>(width, modules).
          let canvas = show_nat (width + qr_quiet_zone_modules * 2);
              path = concat (map (\<lambda>(i, dark). if dark then qr_module width i else [])
                              (enumerate 0 modules))
          in Inr (''<svg xmlns='' @ quote @ ''http://www.w3.org/2000/svg'' @ quote @ '' viewBox='' @ quote
               @ ''0 0 '' @ canvas @ '' '' @ canvas @ quote @ '' shape-rendering='' @ quote @ ''crispEdges''
               @ quote @ ''><rect width='' @ quote @ ''100%'' @ quote @ '' height='' @ quote @ ''100%'' @ quote
               @ '' fill='' @ quote @ ''white'' @ quote @ ''/><path d='' @ quote @ path @ quote
               @ '' fill='' @ quote @ ''black'' @ quote @ ''/></svg>''))"

record qr_choices =
  qc_session_id :: string
  qc_service_pick :: "nat \<Rightarrow> nat"
  qc_password_pick :: "nat \<Rightarrow> nat"
  qc_unix_now :: nat
  qc_instant :: nat

definition wifi_payload :: "string \<Rightarrow> string \<Rightarrow> string" where
  "wifi_payload service password = ''WIFI:T:ADB;S:'' @ service @ '';P:'' @ password @ '';;''"

definition purge_pairings :: "nat \<Rightarrow> pairing_manager \<Rightarrow> pairing_manager" where
  "purge_pairings now wm = wm\<lparr>wp_pending := retain (\<lambda>_ p. pp_expires_at p > now) (wp_pending wm)\<rparr>"

definition create_qr ::
    "(string \<Rightarrow> string + nat \<times> bool list) \<Rightarrow> qr_choices \<Rightarrow> pairing_manager \<Rightarrow>
     (app_error + pairing_qr) \<times> pairing_manager" where
  "create_qr qr ch wm =
     (let service = ''studio-'' @ random_ascii (qc_service_pick ch) 10;
          password = random_ascii (qc_password_pick ch) 12
      in
      (case render_qr_svg qr (wifi_payload service password) of Inl e \<Rightarrow> (Inl e, wm) | Inr svg \<Rightarrow>
       (case lock_pending wm of Inl e \<Rightarrow> (Inl e, wm) | Inr _ \<Rightarrow>
        (let wm1 = purge_pairings (qc_instant ch) wm in
         (Inr \<lparr>wq_session_id = qc_session_id ch, wq_service_name = service, wq_qr_svg = svg,
               wq_mime_type = ''image/svg+xml'',
               wq_expires_at = min (qc_unix_now ch + qr_pairing_ttl) (2 ^ 64 - 1)\<rparr>,
          wm1\<lparr>wp_pending := (wp_pending wm1)(qc_session_id ch \<mapsto>
                \<lparr>pp_service_name = service, pp_password = password,
                 pp_expires_at = qc_instant ch + qr_pairing_ttl\<rparr>)\<rparr>)))))"

definition get_pending :: "nat \<Rightarrow> string \<Rightarrow> pairing_manager \<Rightarrow> (app_error + pending_pairing) \<times> pairing_manager" where
  "get_pending now session_id wm =
     (case lock_pending wm of Inl e \<Rightarrow> (Inl e, wm) | Inr _ \<Rightarrow>
      (let wm1 = purge_pairings now wm in
       (ok_or (wifi_error ''ADB_QR_PAIRING_SESSION_INVALID''
                 ''The QR pairing session is missing, expired, or cancelled.'')
          (wp_pending wm1 session_id), wm1)))"

definition cancel_pairing :: "string \<Rightarrow> pairing_manager \<Rightarrow> (app_error + unit) \<times> pairing_manager" where
  "cancel_pairing session_id wm =
     (case lock_pending wm of Inl e \<Rightarrow> (Inl e, wm) | Inr _ \<Rightarrow>
      (Inr (), wm\<lparr>wp_pending := (wp_pending wm)(session_id := None)\<rparr>))"

text \<open>\<open>find_map\<close> with the \<open>?\<close> of the closure: a line with fewer than three fields is skipped.\<close>

definition line_endpoint :: "string \<Rightarrow> string \<Rightarrow> string option" where
  "line_endpoint service_name line =
     (case split_whitespace line of
        name # service_type # endpoint # _ \<Rightarrow>
          if name = service_name \<and> service_type = ''_adb-tls-pairing._tcp'' then Some endpoint else None
      | _ \<Rightarrow> None)"

definition find_pairing_endpoint :: "string \<Rightarrow> string \<Rightarrow> string option" where
  "find_pairing_endpoint output service_name =
     (case List.map_filter (line_endpoint service_name) (lines output) of [] \<Rightarrow> None | e # _ \<Rightarrow> Some e)"

definition pairing_confirmed :: "adb_output \<Rightarrow> bool" where
  "pairing_confirmed out \<longleftrightarrow>
     ao_exit_code out = 0 \<and>
     starts_with ''successfully paired to '' (to_ascii_lowercase (trim_start (ao_stdout out)))"

definition pair_device ::
    "nat \<Rightarrow> string \<Rightarrow> 'w runner \<Rightarrow> string \<Rightarrow> pairing_manager \<Rightarrow> 'w \<Rightarrow>
     (app_error + pairing_result) \<times> pairing_manager \<times> 'w" where
  "pair_device now session_id runner adb_path wm w =
     (case get_pending now session_id wm of
        (Inl e, wm1) \<Rightarrow> (Inl e, wm1, w)
      | (Inr pairing, wm1) \<Rightarrow>
          (case runner adb_path [''mdns'', ''services''] w of
             (Inl e, w1) \<Rightarrow> (Inl e, wm1, w1)
           | (Inr discovery, w1) \<Rightarrow>
               if ao_exit_code discovery \<noteq> 0
               then (Inl (wifi_error ''ADB_QR_PAIRING_DISCOVERY_FAILED''
                      ''ADB could not query mDNS pairing services.''), wm1, w1)
               else
                 (case find_pairing_endpoint (ao_stdout discovery) (pp_service_name pairing) of
                    None \<Rightarrow>
                      (Inl (with_suggestion ''Keep the QR scanner open and retry this request shortly.''
                         (wifi_error ''ADB_QR_PAIRING_NOT_DISCOVERED''
                            ''The phone has not advertised the QR pairing service yet.'')), wm1, w1)
                  | Some endpoint \<Rightarrow>
                      (case runner adb_path [''pair'', endpoint, pp_password pairing] w1 of
                         (Inl e, w2) \<Rightarrow> (Inl e, wm1, w2)
                       | (Inr out, w2) \<Rightarrow>
                           if \<not> pairing_confirmed out
                           then (Inl (wifi_error ''ADB_QR_PAIRING_FAILED''
                                  ''ADB did not confirm QR-code pairing.''), wm1, w2)
                           else
                             (case cancel_pairing session_id wm1 of
                                (Inl e, wm2) \<Rightarrow> (Inl e, wm2, w2)
                              | (Inr _, wm2) \<Rightarrow>
                                  (Inr \<lparr>wr_paired = True, wr_service_name = pp_service_name pairing,
                                        wr_endpoint = endpoint\<rparr>, wm2, w2))))))"

definition qr_json :: "pairing_qr \<Rightarrow> json" where
  "qr_json q =
     JObj [(''sessionId'', JStr (wq_session_id q)), (''serviceName'', JStr (wq_service_name q)),
           (''qrSvg'', JStr (wq_qr_svg q)), (''mimeType'', JStr (wq_mime_type q)),
           (''expiresAt'', JInt (int (wq_expires_at q)))]"

definition pairing_result_json :: "pairing_result \<Rightarrow> json" where
  "pairing_result_json r =
     JObj [(''paired'', JBool (wr_paired r)), (''serviceName'', JStr (wr_service_name r)),
           (''endpoint'', JStr (wr_endpoint r))]"

subsection \<open>Facts\<close>

text \<open>A runner that writes down the argument lists it is called with.\<close>

definition logged_runner :: "'w runner \<Rightarrow> ('w \<times> string list list) runner" where
  "logged_runner runner path args st =
     (case st of (w, log) \<Rightarrow> (case runner path args w of (r, w') \<Rightarrow> (r, w', log @ [args])))"

lemma lock_pending_Inr_iff [ok_iff]: "lock_pending wm = Inr u \<longleftrightarrow> \<not> wp_poisoned wm"
  by (simp add: lock_pending_def)

lemma get_pending_Inr_iff:
  "get_pending now sid wm = (Inr p, wm') \<longleftrightarrow>
     \<not> wp_poisoned wm \<and> wp_pending wm sid = Some p \<and> now < pp_expires_at p \<and>
     wm' = purge_pairings now wm"
  by (auto simp: get_pending_def Let_def ok_iff purge_pairings_def)

lemma alphabet_alnum: "list_all is_ascii_alphanumeric qr_random_alphabet"
  by code_simp

lemma random_ascii_alnum: "list_all is_ascii_alphanumeric (random_ascii pick n)"
proof -
  have "is_ascii_alphanumeric (qr_random_alphabet ! (i mod length qr_random_alphabet))" for i
    using alphabet_alnum by (simp add: list_all_length qr_random_alphabet_def)
  then show ?thesis by (simp add: random_ascii_def list_all_iff)
qed

lemma length_random_ascii [simp]: "length (random_ascii pick n) = n"
  by (simp add: random_ascii_def)

text \<open>Creating a session: the name after \<open>studio-\<close> and the password are 10 and 12 letters or digits, so that
  no random choice breaks the fields of the QR text; the session can be used for two minutes,
  expired ones are gone, live ones stay.\<close>

theorem create_qr_effect:
  assumes "create_qr qr ch wm = (Inr q, wm')"
  shows "\<exists>name password. wq_service_name q = ''studio-'' @ name \<and> length name = 10 \<and> length password = 12 \<and>
           list_all is_ascii_alphanumeric name \<and> list_all is_ascii_alphanumeric password \<and>
           render_qr_svg qr (wifi_payload (wq_service_name q) password) = Inr (wq_qr_svg q) \<and>
           fst (get_pending now (wq_session_id q) wm') =
             (if now < qc_instant ch + 120
              then Inr \<lparr>pp_service_name = wq_service_name q, pp_password = password,
                        pp_expires_at = qc_instant ch + 120\<rparr>
              else Inl (wifi_error ''ADB_QR_PAIRING_SESSION_INVALID''
                     ''The QR pairing session is missing, expired, or cancelled.'')) \<and>
           (\<forall>sid p. sid \<noteq> wq_session_id q \<longrightarrow>
              (wp_pending wm' sid = Some p \<longleftrightarrow> wp_pending wm sid = Some p \<and> qc_instant ch < pp_expires_at p))"
proof -
  let ?name = "random_ascii (qc_service_pick ch) 10" and ?password = "random_ascii (qc_password_pick ch) 12"
  let ?p = "\<lparr>pp_service_name = ''studio-'' @ ?name, pp_password = ?password, pp_expires_at = qc_instant ch + 120\<rparr>"
  from assms have svg: "render_qr_svg qr (wifi_payload (''studio-'' @ ?name) ?password) = Inr (wq_qr_svg q)"
    and q: "wq_service_name q = ''studio-'' @ ?name" "wq_session_id q = qc_session_id ch"
    and np: "\<not> wp_poisoned wm"
    and wm': "wm' = purge_pairings (qc_instant ch) wm\<lparr>wp_pending :=
               (wp_pending (purge_pairings (qc_instant ch) wm))(qc_session_id ch \<mapsto> ?p)\<rparr>"
    by (auto simp: create_qr_def Let_def ok_iff qr_pairing_ttl_def split: sum.splits)
  have "fst (get_pending now (wq_session_id q) wm') =
      (if now < qc_instant ch + 120 then Inr ?p
       else Inl (wifi_error ''ADB_QR_PAIRING_SESSION_INVALID''
              ''The QR pairing session is missing, expired, or cancelled.''))"
    using np by (simp add: get_pending_def lock_pending_def wm' q purge_pairings_def Let_def ok_or_def retain_def)
  moreover have "wp_pending wm' sid = Some p \<longleftrightarrow> wp_pending wm sid = Some p \<and> qc_instant ch < pp_expires_at p"
    if "sid \<noteq> wq_session_id q" for sid p
    using that by (simp add: wm' q purge_pairings_def)
  ultimately show ?thesis
    using svg q(1) by (intro exI [of _ ?name] exI [of _ ?password]) (simp add: random_ascii_alnum)
qed

text \<open>Pairing talks to adb only for a live session, and then runs at most two commands: the
  service query and one \<open>pair\<close> with the address the phone advertised under this session's service
  name and this session's password. It reports success only if adb confirmed the pairing, which
  consumes the session; after any failure the session can be tried again until it expires.\<close>

theorem wireless_pairing_protocol:
  assumes "pair_device now sid (logged_runner runner) path wm (w, []) = (r, wm', w', log)"
  shows "(log \<noteq> [] \<longrightarrow> (\<exists>p. wp_pending wm sid = Some p \<and> now < pp_expires_at p \<and>
            (log = [[''mdns'', ''services'']] \<or>
             (\<exists>out endpoint. fst (runner path [''mdns'', ''services''] w) = Inr out \<and>
                find_pairing_endpoint (ao_stdout out) (pp_service_name p) = Some endpoint \<and>
                log = [[''mdns'', ''services''], [''pair'', endpoint, pp_password p]])))) \<and>
         (is_ok r \<longrightarrow> length log = 2 \<and> wp_pending wm' sid = None) \<and>
         (\<not> is_ok r \<longrightarrow> (\<forall>p. wp_pending wm sid = Some p \<longrightarrow> now < pp_expires_at p \<longrightarrow>
            wp_pending wm' sid = Some p))"
proof (cases "get_pending now sid wm")
  case (Pair g wm1)
  show ?thesis
  proof (cases g)
    case (Inl e)
    then have "wp_pending wm1 sid = Some p" if "wp_pending wm sid = Some p" "now < pp_expires_at p" for p
      using that Pair by (auto simp: get_pending_def lock_pending_def Let_def purge_pairings_def ok_or_def retain_None_iff
          split: if_splits option.splits)
    then show ?thesis using assms Pair Inl by (auto simp: pair_device_def)
  next
    case (Inr p)
    with Pair have p: "\<not> wp_poisoned wm" "wp_pending wm sid = Some p" "now < pp_expires_at p"
      "wm1 = purge_pairings now wm"
      by (simp_all add: get_pending_Inr_iff)
    then have wm1: "wp_pending wm1 sid = Some p" "\<not> wp_poisoned wm1"
      by (simp_all add: purge_pairings_def)
    obtain d w1 where d: "runner path [''mdns'', ''services''] w = (d, w1)" by (cases "runner path [''mdns'', ''services''] w")
    show ?thesis
    proof (cases "\<exists>out endpoint. d = Inr out \<and> ao_exit_code out = 0 \<and>
        find_pairing_endpoint (ao_stdout out) (pp_service_name p) = Some endpoint")
      case False
      then have "r \<in> range Inl \<and> wm' = wm1 \<and> log = [[''mdns'', ''services'']]"
        using assms Pair Inr d
        by (auto simp: pair_device_def logged_runner_def split: sum.splits if_splits option.splits)
      then show ?thesis using p wm1 by auto
    next
      case True
      then obtain out endpoint where out: "d = Inr out" "ao_exit_code out = 0"
        "find_pairing_endpoint (ao_stdout out) (pp_service_name p) = Some endpoint" by blast
      obtain q w2 where q: "runner path [''pair'', endpoint, pp_password p] w1 = (q, w2)"
        by (cases "runner path [''pair'', endpoint, pp_password p] w1")
      have "log = [[''mdns'', ''services''], [''pair'', endpoint, pp_password p]] \<and>
          (wm' = wm1 \<and> \<not> is_ok r \<or> wp_pending wm' sid = None \<and> is_ok r)"
        using assms Pair Inr d out q wm1(2)
        by (cases q) (auto simp: pair_device_def logged_runner_def cancel_pairing_def lock_pending_def
            split: if_splits)
      then show ?thesis using p wm1 d out by auto
    qed
  qed
qed

end
