(* ===== verification/Core_Service.thy ===== *)
theory Core_Service
  imports Remote_Service_Facts Companion_Router Keepalive Wireless
begin

text \<open>
  \<open>protocol.rs\<close>: the core service behind the stdio protocol and the remote service. The state of
  \<open>CoreService\<close> with the account manager it shares is a pair, as the remote service expects it of
  a core; \<open>core_ports\<close> are the fixed functions it is built from, \<open>core_env\<close> what one request
  sees of the outside, request \<open>i\<close> the environment \<open>co_envs i\<close>.
\<close>

record core_env =
  cv_auth :: auth_envs
  cv_exe :: "string + string option"
  cv_instant :: nat
  cv_qr :: qr_choices
  cv_spawned :: "string + nat"
  cv_child :: child_reply

record ('n, 'w) core =
  co_manifest :: adb_manifest
  co_registry :: registry
  co_router :: 'n
  co_connection_info :: "connection_info option"
  co_keepalive :: "keepalive option"
  co_wireless :: pairing_manager
  co_has_local_admin :: bool
  co_processes :: process_manager
  co_world :: 'w
  co_envs :: "nat \<Rightarrow> core_env"
  co_requests :: nat

record ('n, 'w) core_ports =
  pt_argon :: argon
  pt_serde :: serde_text
  pt_os :: string
  pt_arch :: string
  pt_join_path :: "string \<Rightarrow> string \<Rightarrow> string"
  pt_runner :: "'w runner"
  pt_router :: "'n router"
  pt_qr :: "string \<Rightarrow> string + nat \<times> bool list"

definition ipc_error :: "string \<Rightarrow> string \<Rightarrow> app_error" where
  "ipc_error code msg = new_error code msg ''ipc.protocol'' False"

definition parse_ipc_params :: "serde_text \<Rightarrow> string \<Rightarrow> (json \<Rightarrow> 'a option) \<Rightarrow> string \<Rightarrow> json \<Rightarrow> app_error + 'a" where
  "parse_ipc_params sm k d expected v = from_value (sm k) d (ipc_error ''IPC_PARAMS_INVALID'' expected) v"

definition require_non_empty :: "string \<Rightarrow> string \<Rightarrow> app_error + unit" where
  "require_non_empty v field =
     (if trim v = []
      then Inl (ipc_error ''IPC_PARAMS_INVALID'' (''Required IPC param is missing or empty: '' @ field))
      else Inr ())"

subsection \<open>Parameters\<close>

definition default_string :: "nat \<Rightarrow> string \<Rightarrow> json \<Rightarrow> string option" where
  "default_string i k v = defaulted [] de_string (struct_field i k v)"

definition default_uint :: "nat \<Rightarrow> nat \<Rightarrow> string \<Rightarrow> json \<Rightarrow> nat option" where
  "default_uint w i k v = defaulted 0 (de_uint w) (struct_field i k v)"

definition decode_adb_exec :: "json \<Rightarrow> string list option" where
  "decode_adb_exec = decode_struct 1 (\<lambda>v. defaulted [] (de_vec de_string) (struct_field 0 ''args'' v))"

definition decode_device_scoped :: "json \<Rightarrow> string option" where
  "decode_device_scoped = decode_struct 1 (default_string 0 ''deviceId'')"

record invoke_params =
  ip_device_id :: string
  ip_capability_id :: string
  ip_operation :: string
  ip_args :: json

definition decode_invoke :: "json \<Rightarrow> invoke_params option" where
  "decode_invoke = decode_struct 4 (\<lambda>v.
     map_option (\<lambda>(d, c, o', a).
         \<lparr>ip_device_id = d, ip_capability_id = c, ip_operation = o', ip_args = a\<rparr>)
       (both (default_string 0 ''deviceId'' v)
         (both (default_string 1 ''capabilityId'' v)
           (both (default_string 2 ''operation'' v)
             (defaulted (JObj []) Some (struct_field 3 ''args'' v))))))"

definition decode_keepalive_configure :: "json \<Rightarrow> (bool option \<times> nat option) option" where
  "decode_keepalive_configure = decode_struct 2 (\<lambda>v.
     both (defaulted None (de_option de_bool) (struct_field 0 ''enabled'' v))
       (defaulted None (de_option (de_uint 32)) (struct_field 1 ''intervalSecs'' v)))"

definition decode_scrcpy_start :: "json \<Rightarrow> scrcpy_config option" where
  "decode_scrcpy_start = decode_struct 7 (\<lambda>v.
     map_option (\<lambda>(s, d, p, i, m, b, f).
         \<lparr>sc_session = s, sc_device_id = d, sc_apk_path = p, sc_scid = i, sc_max_size = m,
          sc_video_bit_rate = b, sc_max_fps = f\<rparr>)
       (both (default_string 0 ''sessionId'' v) (both (default_string 1 ''deviceId'' v)
         (both (default_string 2 ''apkPath'' v) (both (default_uint 32 3 ''scid'' v)
           (both (default_uint 16 4 ''maxSize'' v)
             (both (default_uint 32 5 ''videoBitRate'' v) (default_uint 8 6 ''maxFps'' v))))))))"

definition decode_session_id :: "json \<Rightarrow> string option" where
  "decode_session_id = decode_struct 1 (default_string 0 ''sessionId'')"

subsection \<open>Hosts and adb\<close>

definition host_target :: "('n, 'w) core_ports \<Rightarrow> app_error + host_target" where
  "host_target P = target_from_parts (pt_os P) (pt_arch P)"

definition resolve_current_adb_path ::
    "('n, 'w) core_ports \<Rightarrow> core_env \<Rightarrow> ('n, 'w) core \<Rightarrow> app_error + string" where
  "resolve_current_adb_path P env co =
     on_ok (host_target P) (\<lambda>t.
     on_ok (find_adb_asset (co_manifest co) t) (\<lambda>asset.
       resolve_asset_path (cv_exe env) (pt_join_path P) asset))"

type_synonym ('n, 'w) handled = "(app_error + json) \<times> ('n, 'w) core"

definition handle_adb_exec ::
    "('n, 'w) core_ports \<Rightarrow> core_env \<Rightarrow> json \<Rightarrow> ('n, 'w) core \<Rightarrow> ('n, 'w) handled" where
  "handle_adb_exec P env params co =
     (case parse_ipc_params (pt_serde P) ''adb.exec'' decode_adb_exec
             ''adb.exec params must match { args: string[] }.'' params of
        Inl e \<Rightarrow> (Inl e, co)
      | Inr args \<Rightarrow>
          (case validate_adb_args args of
             Inl e \<Rightarrow> (Inl e, co)
           | Inr _ \<Rightarrow>
               (case resolve_current_adb_path P env co of
                  Inl e \<Rightarrow> (Inl e, co)
                | Inr path \<Rightarrow>
                    (case pt_runner P path args (co_world co) of
                       (r, w) \<Rightarrow> (map_ok output_json r, co\<lparr>co_world := w\<rparr>)))))"

definition process_json :: "scrcpy_process \<Rightarrow> json" where
  "process_json p =
     JObj [(''sessionId'', JStr (sp_session_id p)), (''processId'', JInt (int (sp_process_id p)))]"

definition handle_adb_scrcpy_start ::
    "('n, 'w) core_ports \<Rightarrow> core_env \<Rightarrow> json \<Rightarrow> ('n, 'w) core \<Rightarrow> ('n, 'w) handled" where
  "handle_adb_scrcpy_start P env params co =
     (case parse_ipc_params (pt_serde P) ''adb.scrcpy.start'' decode_scrcpy_start
             ''adb.scrcpy.start params are invalid.'' params of
        Inl e \<Rightarrow> (Inl e, co)
      | Inr k \<Rightarrow>
          (case resolve_current_adb_path P env co of
             Inl e \<Rightarrow> (Inl e, co)
           | Inr path \<Rightarrow>
               (case start_scrcpy (cv_spawned env) (cv_child env) k (co_processes co) of
                  (r, pm) \<Rightarrow> (map_ok process_json r, co\<lparr>co_processes := pm\<rparr>))))"

definition handle_adb_scrcpy_stop ::
    "('n, 'w) core_ports \<Rightarrow> core_env \<Rightarrow> json \<Rightarrow> ('n, 'w) core \<Rightarrow> ('n, 'w) handled" where
  "handle_adb_scrcpy_stop P env params co =
     (case parse_ipc_params (pt_serde P) ''adb.scrcpy.stop'' decode_session_id
             ''adb.scrcpy.stop params must match { sessionId: string }.'' params of
        Inl e \<Rightarrow> (Inl e, co)
      | Inr sid \<Rightarrow>
          if sid = []
          then (Inl (new_error ''SCRCPY_SESSION_INVALID'' ''The scrcpy session id is required.''
                 ''adb.scrcpy'' False), co)
          else (case stop_scrcpy (cv_child env) sid (co_processes co) of
                  (r, pm) \<Rightarrow>
                    (map_ok (\<lambda>stopped. JObj [(''stopped'', JBool stopped)]) r, co\<lparr>co_processes := pm\<rparr>)))"

subsection \<open>Keep-alive and wireless pairing\<close>

definition keepalive_not_started :: app_error where
  "keepalive_not_started =
     new_error ''ADB_KEEPALIVE_NOT_STARTED''
       ''ADB keep-alive supervisor is not running in this Core instance.'' ''adb.keepalive'' True"

definition handle_adb_keepalive_status :: "('n, 'w) core \<Rightarrow> ('n, 'w) handled" where
  "handle_adb_keepalive_status co =
     (case co_keepalive co of
        None \<Rightarrow> (Inl keepalive_not_started, co)
      | Some k \<Rightarrow> (Inr (status_json (ka_status k) app_error_json), co))"

definition handle_adb_keepalive_configure ::
    "('n, 'w) core_ports \<Rightarrow> json \<Rightarrow> ('n, 'w) core \<Rightarrow> ('n, 'w) handled" where
  "handle_adb_keepalive_configure P params co =
     (case parse_ipc_params (pt_serde P) ''adb.keepalive.configure'' decode_keepalive_configure
             ''adb.keepalive.configure params must match { enabled?: boolean, intervalSecs?: number }.''
             params of
        Inl e \<Rightarrow> (Inl e, co)
      | Inr (enabled, interval) \<Rightarrow>
          (case co_keepalive co of
             None \<Rightarrow> (Inl keepalive_not_started, co)
           | Some k \<Rightarrow>
               if enabled = None \<and> interval = None
               then (Inl (ipc_error ''IPC_PARAMS_INVALID''
                      ''adb.keepalive.configure requires at least one of enabled / intervalSecs.''), co)
               else
                 (let current = ka_status k;
                      merged = \<lparr>kc_enabled = (case enabled of None \<Rightarrow> ks_enabled current | Some b \<Rightarrow> b),
                                kc_interval_secs = (case interval of None \<Rightarrow> ks_interval_secs current
                                                    | Some i \<Rightarrow> i)\<rparr>
                  in case keepalive_configure merged k of (r, k') \<Rightarrow>
                       (map_ok (\<lambda>_. status_json (ka_status k') app_error_json) r,
                        co\<lparr>co_keepalive := Some k'\<rparr>))))"

definition handle_adb_wifi_qr_create ::
    "('n, 'w) core_ports \<Rightarrow> core_env \<Rightarrow> ('n, 'w) core \<Rightarrow> ('n, 'w) handled" where
  "handle_adb_wifi_qr_create P env co =
     (case create_qr (pt_qr P) (cv_qr env) (co_wireless co) of
        (r, wm) \<Rightarrow> (map_ok qr_json r, co\<lparr>co_wireless := wm\<rparr>))"

definition handle_adb_wifi_qr_pair ::
    "('n, 'w) core_ports \<Rightarrow> core_env \<Rightarrow> json \<Rightarrow> ('n, 'w) core \<Rightarrow> ('n, 'w) handled" where
  "handle_adb_wifi_qr_pair P env params co =
     (case parse_ipc_params (pt_serde P) ''adb.wifi.qr.pair'' decode_session_id
             ''adb.wifi.qr.pair params must match { sessionId: string }.'' params of
        Inl e \<Rightarrow> (Inl e, co)
      | Inr sid \<Rightarrow>
          (case require_non_empty sid ''sessionId'' of
             Inl e \<Rightarrow> (Inl e, co)
           | Inr _ \<Rightarrow>
               (case resolve_current_adb_path P env co of
                  Inl e \<Rightarrow> (Inl e, co)
                | Inr path \<Rightarrow>
                    (case pair_device (cv_instant env) sid (pt_runner P) path (co_wireless co) (co_world co) of
                       (r, wm, w) \<Rightarrow>
                         (map_ok pairing_result_json r, co\<lparr>co_wireless := wm, co_world := w\<rparr>)))))"

definition handle_adb_wifi_qr_cancel ::
    "('n, 'w) core_ports \<Rightarrow> json \<Rightarrow> ('n, 'w) core \<Rightarrow> ('n, 'w) handled" where
  "handle_adb_wifi_qr_cancel P params co =
     (case parse_ipc_params (pt_serde P) ''adb.wifi.qr.cancel'' decode_session_id
             ''adb.wifi.qr.cancel params must match { sessionId: string }.'' params of
        Inl e \<Rightarrow> (Inl e, co)
      | Inr sid \<Rightarrow>
          (case require_non_empty sid ''sessionId'' of
             Inl e \<Rightarrow> (Inl e, co)
           | Inr _ \<Rightarrow>
               (case cancel_pairing sid (co_wireless co) of
                  (r, wm) \<Rightarrow>
                    (map_ok (\<lambda>_. JObj [(''cancelled'', JBool True)]) r, co\<lparr>co_wireless := wm\<rparr>))))"

subsection \<open>Companion devices\<close>

definition connection_info_json :: "connection_info \<Rightarrow> json" where
  "connection_info_json i =
     JObj [(''listenAddress'', JStr (ci_listen_address i)), (''serverName'', JStr (ci_server_name i)),
           (''certificateDerBase64'', JStr (ci_certificate_der_base64 i)),
           (''certificateFingerprintSha256'', JStr (ci_certificate_fingerprint i))]"

definition handle_companion_connection_info :: "('n, 'w) core \<Rightarrow> app_error + json" where
  "handle_companion_connection_info co =
     (case co_connection_info co of
        Some i \<Rightarrow> Inr (connection_info_json i)
      | None \<Rightarrow>
          Inl (with_suggestion ''Set ADBCONTROL_COMPANION_LISTEN and restart Core.''
            (new_error ''COMPANION_QUIC_LISTENER_DISABLED''
               ''Core Companion QUIC listener is not configured.'' ''companion.connection'' True)))"

definition scoped_device ::
    "('n, 'w) core_ports \<Rightarrow> string \<Rightarrow> string \<Rightarrow> json \<Rightarrow> ('n, 'w) core \<Rightarrow> app_error + device" where
  "scoped_device P mth expected params co =
     on_ok (parse_ipc_params (pt_serde P) mth decode_device_scoped expected params) (\<lambda>d.
     on_ok (require_non_empty d ''deviceId'') (\<lambda>_.
       get_device d (co_registry co)))"

definition handle_device_get_capabilities ::
    "('n, 'w) core_ports \<Rightarrow> json \<Rightarrow> ('n, 'w) core \<Rightarrow> app_error + json" where
  "handle_device_get_capabilities P params co =
     map_ok (\<lambda>dv. JArr (map capability_json (dv_capabilities dv)))
       (scoped_device P ''device.getCapabilities''
          ''device.getCapabilities params must match { deviceId: string }.'' params co)"

definition handle_device_get_permission_state ::
    "('n, 'w) core_ports \<Rightarrow> json \<Rightarrow> ('n, 'w) core \<Rightarrow> app_error + json" where
  "handle_device_get_permission_state P params co =
     map_ok (\<lambda>dv. JArr (map permission_state_json (dv_permission_states dv)))
       (scoped_device P ''device.getPermissionState''
          ''device.getPermissionState params must match { deviceId: string }.'' params co)"

text \<open>The checks of \<open>device.invoke\<close>, in the order of the code, and the command they allow.\<close>

definition check_invoke ::
    "string \<Rightarrow> invoke_params \<Rightarrow> registry \<Rightarrow> app_error + dispatch_command" where
  "check_invoke request_id p reg =
     on_ok (require_non_empty (ip_device_id p) ''deviceId'') (\<lambda>_.
     on_ok (require_non_empty (ip_capability_id p) ''capabilityId'') (\<lambda>_.
     on_ok (require_non_empty (ip_operation p) ''operation'') (\<lambda>_.
     on_ok (if is_object (ip_args p) then Inr ()
            else Inl (ipc_error ''IPC_PARAMS_INVALID'' ''device.invoke args must be a JSON object.'')) (\<lambda>_.
     on_ok (get_device (ip_device_id p) reg) (\<lambda>dv.
     on_ok (ok_or (new_error ''COMPANION_CAPABILITY_NOT_FOUND''
                     (''Capability '' @ ip_capability_id p @ '' is not exposed by device '' @
                      ip_device_id p @ ''.'') ''companion.registry'' True)
              (find (\<lambda>c. cap_id c = ip_capability_id p) (dv_capabilities dv))) (\<lambda>c.
     on_ok (if ip_operation p \<in> set (cap_operations c) then Inr ()
            else Inl (new_error ''COMPANION_OPERATION_NOT_SUPPORTED''
                   (''Operation '' @ ip_operation p @ '' is not supported by capability '' @
                    ip_capability_id p @ ''.'') ''companion.registry'' True)) (\<lambda>_.
       Inr \<lparr>dc_request_id = request_id, dc_device_id = ip_device_id p,
            dc_capability_id = ip_capability_id p, dc_operation = ip_operation p,
            dc_args = ip_args p\<rparr>)))))))"

definition handle_device_invoke ::
    "('n, 'w) core_ports \<Rightarrow> string \<Rightarrow> json \<Rightarrow> ('n, 'w) core \<Rightarrow> ('n, 'w) handled" where
  "handle_device_invoke P request_id params co =
     (case parse_ipc_params (pt_serde P) ''device.invoke'' decode_invoke
             ''device.invoke params must match { deviceId, capabilityId, operation, args }.'' params of
        Inl e \<Rightarrow> (Inl e, co)
      | Inr p \<Rightarrow>
          (case check_invoke request_id p (co_registry co) of
             Inl e \<Rightarrow> (Inl e, co)
           | Inr command \<Rightarrow>
               (case pt_router P command (co_router co) of
                  (r, n) \<Rightarrow> (map_ok response_json r, co\<lparr>co_router := n\<rparr>))))"

subsection \<open>Dispatch\<close>

definition core_result ::
    "('n, 'w) core_ports \<Rightarrow> core_env \<Rightarrow> ipc_request \<Rightarrow> ('n, 'w) core \<Rightarrow> ('n, 'w) handled" where
  "core_result P env rq co =
     (let mth = rq_method rq; params = rq_params rq in
      if mth = ''core.getHostTarget'' then (map_ok target_json (host_target P), co)
      else if mth = ''adb.asset.current''
      then (map_ok asset_json (on_ok (host_target P) (find_adb_asset (co_manifest co))), co)
      else if mth = ''adb.exec'' then handle_adb_exec P env params co
      else if mth = ''adb.scrcpy.start'' then handle_adb_scrcpy_start P env params co
      else if mth = ''adb.scrcpy.stop'' then handle_adb_scrcpy_stop P env params co
      else if mth = ''adb.keepalive.status'' then handle_adb_keepalive_status co
      else if mth = ''adb.keepalive.configure'' then handle_adb_keepalive_configure P params co
      else if mth = ''adb.wifi.qr.create'' then handle_adb_wifi_qr_create P env co
      else if mth = ''adb.wifi.qr.pair'' then handle_adb_wifi_qr_pair P env params co
      else if mth = ''adb.wifi.qr.cancel'' then handle_adb_wifi_qr_cancel P params co
      else if mth = ''companion.protocol.info'' then (Inr quic_protocol_descriptor, co)
      else if mth = ''companion.connection.info'' then (handle_companion_connection_info co, co)
      else if mth = ''capability.list''
      then (Inr (JArr (map capability_json android_companion_capability_catalog)), co)
      else if mth = ''device.list''
      then (Inr (JArr (map device_json (list_devices (co_registry co)))), co)
      else if mth = ''device.getCapabilities'' then (handle_device_get_capabilities P params co, co)
      else if mth = ''device.getPermissionState'' then (handle_device_get_permission_state P params co, co)
      else if mth = ''device.invoke'' then handle_device_invoke P (rq_id rq) params co
      else (Inl (ipc_error ''IPC_METHOD_UNKNOWN'' (''Unknown IPC method: '' @ mth)), co))"

definition admin_not_configured :: app_error where
  "admin_not_configured =
     new_error ''REMOTE_ADMIN_NOT_CONFIGURED''
       ''The local remote-administration service is not configured.'' ''remote.auth'' True"

definition core_handle_request :: "('n, 'w) core_ports \<Rightarrow> ('n, 'w) core core_handler" where
  "core_handle_request P rq st =
     (case st of (m, co0) \<Rightarrow>
        let env = co_envs co0 (co_requests co0);
            co = co0\<lparr>co_requests := Suc (co_requests co0)\<rparr>
        in if local_method (rq_method rq)
           then (if co_has_local_admin co
                 then (case local_admin_handle (pt_argon P) (pt_serde P) (cv_auth env) rq m of
                         (resp, m') \<Rightarrow> (resp, m', co))
                 else (ipc_failure (Some (rq_id rq)) admin_not_configured, m, co))
           else (case core_result P env rq co of
                   (r, co') \<Rightarrow> (ipc_reply (rq_id rq) r, m, co')))"

text \<open>
  \<open>handle_json_line_result\<close>; the two events it records around a request are those of
  \<open>traced_json_line\<close> in \<open>Process_Run\<close>. \<open>parse\<close> is serde's reading of the line.
\<close>

definition handle_json_line_result ::
    "('n, 'w) core_ports \<Rightarrow> (string \<Rightarrow> string + ipc_request) \<Rightarrow> string \<Rightarrow> manager \<times> ('n, 'w) core \<Rightarrow>
     ipc_response \<times> manager \<times> ('n, 'w) core" where
  "handle_json_line_result P parse line st =
     (case parse line of
        Inl c \<Rightarrow>
          (ipc_failure None (with_cause c (ipc_error ''IPC_INVALID_JSON''
             ''IPC request must be a valid JSON object.'')), st)
      | Inr rq \<Rightarrow> core_handle_request P rq st)"

text \<open>The constructors; the registry may be given or taken from a session manager.\<close>

definition new_core ::
    "adb_manifest \<Rightarrow> registry \<Rightarrow> 'n \<Rightarrow> 'w \<Rightarrow> (nat \<Rightarrow> core_env) \<Rightarrow> ('n, 'w) core" where
  "new_core manifest reg router world envs =
     \<lparr>co_manifest = manifest, co_registry = reg, co_router = router, co_connection_info = None,
      co_keepalive = None, co_wireless = \<lparr>wp_pending = Map.empty, wp_poisoned = False\<rparr>,
      co_has_local_admin = False,
      co_processes = \<lparr>pm_children = Map.empty, pm_running = {}, pm_poisoned = False\<rparr>,
      co_world = world, co_envs = envs, co_requests = 0\<rparr>"

definition with_keepalive :: "keepalive \<Rightarrow> ('n, 'w) core \<Rightarrow> ('n, 'w) core" where
  "with_keepalive k co = co\<lparr>co_keepalive := Some k\<rparr>"

definition with_local_admin :: "('n, 'w) core \<Rightarrow> ('n, 'w) core" where
  "with_local_admin co = co\<lparr>co_has_local_admin := True\<rparr>"

definition with_companion_connection_info :: "connection_info \<Rightarrow> ('n, 'w) core \<Rightarrow> ('n, 'w) core" where
  "with_companion_connection_info i co = co\<lparr>co_connection_info := Some i\<rparr>"

end
