(* ===== verification/Core_Service_Facts.thy ===== *)
theory Core_Service_Facts
  imports Core_Service
begin

text \<open>
  Facts about the core service: it meets the contract the remote service has with a core, sends a
  companion only commands the device's registration allows, and runs adb only with arguments it
  has checked and a binary of the manifest.
\<close>

lemma local_admin_echo: "rs_id (fst (local_admin_handle A sm E rq m)) = Some (rq_id rq)"
  by (simp add: local_admin_handle_def case_prod_beta)

lemma core_echo: "rs_id (fst (core_handle_request P rq st)) = Some (rq_id rq)"
  by (simp add: core_handle_request_def Let_def case_prod_beta local_admin_echo)

lemma core_accounts_frame:
  "\<not> local_method (rq_method rq) \<Longrightarrow> fst (snd (core_handle_request P rq st)) = fst st"
  by (simp add: core_handle_request_def Let_def case_prod_beta)

lemma core_accounts_ok:
  "manager_ok (fst st) \<Longrightarrow> manager_ok (fst (snd (core_handle_request P rq st)))"
  by (simp add: core_handle_request_def Let_def case_prod_beta manager_ok_local_admin)

interpretation core_service: core_request_handler "core_handle_request P" for P
  by unfold_locales (auto simp: core_echo core_accounts_frame core_accounts_ok)

subsection \<open>Invoking a capability\<close>

lemma require_non_empty_Inr_iff [ok_iff]: "require_non_empty v f = Inr u \<longleftrightarrow> trim v \<noteq> []"
  by (simp add: require_non_empty_def)

lemma get_device_Inr_iff [ok_iff]: "get_device d r = Inr x \<longleftrightarrow> registry_abs r d = Some x"
  by (simp add: get_device_def registry_abs_def ok_iff)

lemma if_Inr_iff [ok_iff]: "(if b then Inr x else Inl e) = Inr y \<longleftrightarrow> b \<and> x = y"
  by simp

lemma check_invoke_Inr_iff:
  "check_invoke i p reg = Inr c \<longleftrightarrow>
     trim (ip_device_id p) \<noteq> [] \<and> trim (ip_capability_id p) \<noteq> [] \<and> trim (ip_operation p) \<noteq> [] \<and>
     is_object (ip_args p) \<and>
     (\<exists>dv cap. registry_abs reg (ip_device_id p) = Some dv \<and>
        find (\<lambda>c. cap_id c = ip_capability_id p) (dv_capabilities dv) = Some cap \<and>
        ip_operation p \<in> set (cap_operations cap)) \<and>
     c = \<lparr>dc_request_id = i, dc_device_id = ip_device_id p, dc_capability_id = ip_capability_id p,
          dc_operation = ip_operation p, dc_args = ip_args p\<rparr>"
  by (auto simp: check_invoke_def on_ok_Inr_iff ok_iff)

text \<open>A router that writes down the commands it is given.\<close>

definition logged_router :: "'n router \<Rightarrow> ('n \<times> dispatch_command list) router" where
  "logged_router router c st =
     (case st of (n, log) \<Rightarrow> (case router c n of (r, n') \<Rightarrow> (r, n', log @ [c])))"

text \<open>What a registration allows.\<close>

definition invocable :: "registry \<Rightarrow> dispatch_command \<Rightarrow> bool" where
  "invocable reg c \<longleftrightarrow>
     is_object (dc_args c) \<and>
     (\<exists>dv cap. registry_abs reg (dc_device_id c) = Some dv \<and> cap \<in> set (dv_capabilities dv) \<and>
        cap_id cap = dc_capability_id c \<and> dc_operation c \<in> set (cap_operations cap))"

lemma router_untouched:
  assumes "rq_method rq \<noteq> ''device.invoke''"
  shows "co_router (snd (core_result P env rq co)) = co_router co"
proof -
  have "co_router (snd (handle_adb_exec P env p co)) = co_router co"
    "co_router (snd (handle_adb_scrcpy_start P env p co)) = co_router co"
    "co_router (snd (handle_adb_scrcpy_stop P env p co)) = co_router co"
    "co_router (snd (handle_adb_keepalive_status co)) = co_router co"
    "co_router (snd (handle_adb_wifi_qr_create P env co)) = co_router co"
    "co_router (snd (handle_adb_wifi_qr_pair P env p co)) = co_router co"
    "co_router (snd (handle_adb_wifi_qr_cancel P p co)) = co_router co" for p
    by (auto simp: handle_adb_exec_def handle_adb_scrcpy_start_def handle_adb_scrcpy_stop_def
        handle_adb_keepalive_status_def handle_adb_wifi_qr_create_def handle_adb_wifi_qr_pair_def
        handle_adb_wifi_qr_cancel_def case_prod_beta split: sum.splits option.splits)
  moreover have "co_router (snd (handle_adb_keepalive_configure P p co)) = co_router co" for p
    by (auto simp: handle_adb_keepalive_configure_def Let_def case_prod_beta
        split: sum.splits option.splits)
  ultimately show ?thesis using assms by (simp add: core_result_def Let_def)
qed

lemma invoke_log:
  assumes "pt_router P = logged_router router"
  shows "snd (co_router (snd (handle_device_invoke P i params co))) = snd (co_router co) \<or>
    (\<exists>c. snd (co_router (snd (handle_device_invoke P i params co))) = snd (co_router co) @ [c] \<and>
       dc_request_id c = i \<and> invocable (co_registry co) c)"
proof (cases "parse_ipc_params (pt_serde P) ''device.invoke'' decode_invoke
    ''device.invoke params must match { deviceId, capabilityId, operation, args }.'' params")
  case (Inr p)
  show ?thesis
  proof (cases "check_invoke i p (co_registry co)")
    case (Inl e)
    then show ?thesis using Inr by (simp add: handle_device_invoke_def)
  next
    case ok: (Inr c)
    then have "invocable (co_registry co) c \<and> dc_request_id c = i"
      by (auto simp: check_invoke_Inr_iff invocable_def dest: find_SomeD)
    then show ?thesis
      using Inr ok assms by (auto simp: handle_device_invoke_def logged_router_def case_prod_beta)
  qed
qed (simp add: handle_device_invoke_def)

text \<open>The core sends a companion nothing the registration does not allow: one request leads to
  at most one command, only for the method \<open>device.invoke\<close>, carrying the request's id, to a
  registered device, for a capability this device exposes, an operation of that capability, and
  arguments that are an object.\<close>

theorem invoked_commands_registered:
  assumes "pt_router P = logged_router router"
    and "core_handle_request P rq (m, co) = (resp, m', co')"
  shows "snd (co_router co') = snd (co_router co) \<or>
         (\<exists>c. snd (co_router co') = snd (co_router co) @ [c] \<and> rq_method rq = ''device.invoke'' \<and>
            dc_request_id c = rq_id rq \<and> invocable (co_registry co) c)"
proof (cases "rq_method rq = ''device.invoke''")
  case True
  then have "\<not> local_method (rq_method rq)" by (simp add: local_method_def starts_with_def)
  then show ?thesis
    using assms(2) True
      invoke_log [OF assms(1), of "rq_id rq" "rq_params rq" "co\<lparr>co_requests := Suc (co_requests co)\<rparr>"]
    by (auto simp: core_handle_request_def Let_def case_prod_beta core_result_def)
next
  case False
  then show ?thesis
    using assms(2) router_untouched [OF False, of P _ "co\<lparr>co_requests := Suc (co_requests co)\<rparr>"]
    by (auto simp: core_handle_request_def Let_def case_prod_beta split: if_splits)
qed

end
