(* ===== verification/Companion_Session.thy ===== *)
theory Companion_Session
  imports Companion_Registry Ordered_Map
begin

text \<open>
  \<open>companion/session.rs\<close>: the handshake of a companion. A session is created by \<open>hello\<close> and
  becomes ready once it has both a capability list and a permission report. The sessions are a
  \<open>HashMap\<close>: an ordered map where they are looked up and changed, and \<open>iterate\<close> with a choice of
  the order where \<open>devices\<close> lists them.
\<close>

record companion_session =
  cs_device_id :: string
  cs_display_name :: string
  cs_app_version :: string
  cs_android_sdk :: nat
  cs_connection_state :: connection_state
  cs_capabilities :: "capability list"
  cs_permission_states :: "permission_state list"

type_synonym sessions = "(string, companion_session) btree_map"

definition to_device :: "companion_session \<Rightarrow> device" where
  "to_device s =
     \<lparr>dv_device_id = cs_device_id s, dv_display_name = cs_display_name s,
      dv_app_version = cs_app_version s, dv_android_sdk = cs_android_sdk s,
      dv_connection_state = cs_connection_state s, dv_capabilities = cs_capabilities s,
      dv_permission_states = cs_permission_states s\<rparr>"

record announced_capability =
  an_id :: string
  an_operations :: "string list"

record announced_permission =
  ap_capability_id :: string
  ap_granted :: bool
  ap_missing_permissions :: "string list"
  ap_missing_special_grants :: "string list"
  ap_user_consent_required :: bool

definition decode_announced_capability :: "json \<Rightarrow> announced_capability option" where
  "decode_announced_capability = decode_struct 2 (\<lambda>v.
     map_option (\<lambda>(i, ops). \<lparr>an_id = i, an_operations = ops\<rparr>)
       (both (required de_string (struct_field 0 ''id'' v))
         (defaulted [] (de_vec de_string) (struct_field 1 ''operations'' v))))"

text \<open>The consent field has an alias; an object with both names is a duplicate-field error.\<close>

definition consent_field :: "json \<Rightarrow> bool option" where
  "consent_field v =
     (case (struct_field 4 ''userConsentRequired'' v, json_get ''requiresUserConsent'' v) of
        (Some _, Some _) \<Rightarrow> None
      | (None, f) \<Rightarrow> defaulted False de_bool f
      | (f, None) \<Rightarrow> defaulted False de_bool f)"

definition decode_announced_permission :: "json \<Rightarrow> announced_permission option" where
  "decode_announced_permission = decode_struct 5 (\<lambda>v.
     map_option (\<lambda>(c, g, mp, ms, u).
         \<lparr>ap_capability_id = c, ap_granted = g, ap_missing_permissions = mp,
          ap_missing_special_grants = ms, ap_user_consent_required = u\<rparr>)
       (both (required de_string (struct_field 0 ''capabilityId'' v))
         (both (required de_bool (struct_field 1 ''granted'' v))
           (both (defaulted [] (de_vec de_string) (struct_field 2 ''missingPermissions'' v))
             (both (defaulted [] (de_vec de_string) (struct_field 3 ''missingSpecialGrants'' v))
               (consent_field v))))))"

definition session_error :: "string \<Rightarrow> string \<Rightarrow> bool \<Rightarrow> app_error" where
  "session_error code msg r = new_error code msg ''companion.session'' r"

definition require_device_id :: "envelope \<Rightarrow> app_error + string" where
  "require_device_id e =
     ok_or (session_error ''COMPANION_DEVICE_ID_MISSING''
              ''Companion envelope deviceId is required for session state messages.'' False)
       (case ev_device_id e of None \<Rightarrow> None | Some d \<Rightarrow> if trim d = [] then None else Some d)"

definition ack :: "string option \<Rightarrow> string \<Rightarrow> string \<Rightarrow> json \<Rightarrow> envelope" where
  "ack trace device_id source_message_id payload =
     \<lparr>ev_protocol = companion_protocol, ev_version = companion_protocol_version,
      ev_message_id = ''ack-'' @ source_message_id, ev_trace_id = trace,
      ev_device_id = Some device_id, ev_channel = Control, ev_kind = CommandResponse,
      ev_payload = payload\<rparr>"

definition parse_required_payload_field ::
    "serde_text \<Rightarrow> (json \<Rightarrow> 'a option) \<Rightarrow> json \<Rightarrow> string \<Rightarrow> string \<Rightarrow> string \<Rightarrow> app_error + 'a" where
  "parse_required_payload_field sm d payload field code msg =
     on_ok (ok_or (with_suggestion (''Missing required payload field: '' @ field @ ''.'')
                     (session_error code msg False))
             (json_get field payload))
       (from_value (sm field) d (session_error code msg False))"

definition get_session :: "string \<Rightarrow> sessions \<Rightarrow> app_error + companion_session" where
  "get_session d ss =
     ok_or (with_suggestion
              ''Complete companion hello/helloAck before synchronizing capability state.''
              (session_error ''COMPANION_SESSION_NOT_CONNECTED''
                 (''Android companion QUIC session is not connected for device '' @ d @ ''.'') True))
       (bt_get d ss)"

definition session_devices :: "nat list \<Rightarrow> sessions \<Rightarrow> device list" where
  "session_devices order ss = map (to_device \<circ> snd) (iterate order ss)"

definition new_session :: "hello \<Rightarrow> companion_session" where
  "new_session h =
     \<lparr>cs_device_id = h_device_id h, cs_display_name = h_device_name h,
      cs_app_version = h_app_version h, cs_android_sdk = h_android_sdk h,
      cs_connection_state = Handshaking, cs_capabilities = [], cs_permission_states = []\<rparr>"

definition hello_ack :: "string option \<Rightarrow> hello \<Rightarrow> envelope" where
  "hello_ack trace h =
     \<lparr>ev_protocol = companion_protocol, ev_version = companion_protocol_version,
      ev_message_id = ''hello-ack-'' @ h_device_id h, ev_trace_id = trace,
      ev_device_id = Some (h_device_id h), ev_channel = Control, ev_kind = HelloAck,
      ev_payload = JObj
        [(''accepted'', JBool True),
         (''selectedProtocolVersion'', JInt (int companion_protocol_version)),
         (''serverName'', JStr ''ADBControl Core''),
         (''nextRequiredMessages'', strings_json [''capabilityList'', ''permissionState''])]\<rparr>"

definition hello_mismatch :: "envelope \<Rightarrow> hello \<Rightarrow> bool" where
  "hello_mismatch e h =
     (case ev_device_id e of None \<Rightarrow> False | Some d \<Rightarrow> trim d \<noteq> [] \<and> d \<noteq> h_device_id h)"

definition handle_hello ::
    "serde_text \<Rightarrow> envelope \<Rightarrow> sessions \<Rightarrow> (app_error + envelope) \<times> sessions" where
  "handle_hello sm e ss =
     (case from_value (sm ''hello'') decode_hello
             (session_error ''COMPANION_HELLO_INVALID'' ''Companion hello payload is invalid.'' False)
             (ev_payload e) of
        Inl err \<Rightarrow> (Inl err, ss)
      | Inr h \<Rightarrow>
          if hello_mismatch e h
          then (Inl (session_error ''COMPANION_HELLO_DEVICE_ID_MISMATCH''
                 ''Companion hello envelope deviceId must match payload deviceId.'' False), ss)
          else if companion_protocol_version \<notin> set (h_supported_versions h)
          then (Inl (session_error ''COMPANION_PROTOCOL_VERSION_UNSUPPORTED''
                 (''Companion device '' @ h_device_id h @ '' does not support protocol version '' @
                  show_nat companion_protocol_version @ ''.'') False), ss)
          else (Inr (hello_ack (ev_trace_id e) h), bt_insert (h_device_id h) (new_session h) ss))"

text \<open>The loops over the announcements stop at the first error.\<close>

fun resolve_capabilities :: "announced_capability list \<Rightarrow> app_error + capability list" where
  "resolve_capabilities [] = Inr []"
| "resolve_capabilities (a # as) =
     on_ok (ok_or (session_error ''COMPANION_CAPABILITY_UNKNOWN''
                     (''Companion announced an unknown capability: '' @ an_id a @ ''.'') False)
              (catalog_entry (an_id a)))
       (\<lambda>c. if list_ex (\<lambda>operation. operation \<notin> set (cap_operations c)) (an_operations a)
            then Inl (session_error ''COMPANION_CAPABILITY_OPERATION_INVALID''
                   (''Companion capability '' @ an_id a @
                    '' announced an operation outside the Core catalog.'') False)
            else on_ok (resolve_capabilities as) (\<lambda>cs. Inr (c # cs)))"

definition reported_permission :: "capability \<Rightarrow> announced_permission \<Rightarrow> permission_state" where
  "reported_permission c a =
     \<lparr>ps_capability_id = ap_capability_id a, ps_granted = ap_granted a,
      ps_android_permissions = pr_android_permissions (cap_permission c),
      ps_missing_permissions = ap_missing_permissions a,
      ps_special_grants = filter (\<lambda>g. g \<notin> set (ap_missing_special_grants a))
        (pr_special_permissions (cap_permission c)),
      ps_missing_special_grants = ap_missing_special_grants a,
      ps_user_consent_required = ap_user_consent_required a\<rparr>"

fun resolve_permissions :: "announced_permission list \<Rightarrow> app_error + permission_state list" where
  "resolve_permissions [] = Inr []"
| "resolve_permissions (a # as) =
     on_ok (ok_or (session_error ''COMPANION_PERMISSION_CAPABILITY_UNKNOWN''
                     (''Companion reported permission state for an unknown capability: '' @
                      ap_capability_id a @ ''.'') False)
              (catalog_entry (ap_capability_id a)))
       (\<lambda>c. on_ok (resolve_permissions as) (\<lambda>ps. Inr (reported_permission c a # ps)))"

definition with_capabilities :: "capability list \<Rightarrow> companion_session \<Rightarrow> companion_session" where
  "with_capabilities cs s =
     (let s' = s\<lparr>cs_capabilities := cs\<rparr> in
      if cs_permission_states s' \<noteq> [] then s'\<lparr>cs_connection_state := Ready\<rparr> else s')"

definition with_permissions :: "permission_state list \<Rightarrow> companion_session \<Rightarrow> companion_session" where
  "with_permissions ps s =
     (let s' = s\<lparr>cs_permission_states := ps\<rparr> in
      if cs_capabilities s' \<noteq> [] then s'\<lparr>cs_connection_state := Ready\<rparr> else s')"

definition early_error :: "string \<Rightarrow> string \<Rightarrow> app_error" where
  "early_error what d =
     session_error ''COMPANION_SESSION_NOT_CONNECTED''
       (what @ '' arrived before hello for device '' @ d @ ''.'') True"

definition handle_capability_list ::
    "serde_text \<Rightarrow> envelope \<Rightarrow> sessions \<Rightarrow> (app_error + envelope) \<times> sessions" where
  "handle_capability_list sm e ss =
     (case require_device_id e of Inl err \<Rightarrow> (Inl err, ss) | Inr d \<Rightarrow>
      (case parse_required_payload_field sm (de_vec decode_announced_capability) (ev_payload e)
              ''capabilities'' ''COMPANION_CAPABILITY_SCHEMA_INVALID''
              ''Companion capabilityList payload is invalid.'' of Inl err \<Rightarrow> (Inl err, ss) | Inr as \<Rightarrow>
       (case resolve_capabilities as of Inl err \<Rightarrow> (Inl err, ss) | Inr cs \<Rightarrow>
        (case bt_get d ss of
           None \<Rightarrow> (Inl (early_error ''Capability list'' d), ss)
         | Some s \<Rightarrow>
             (Inr (ack (ev_trace_id e) d (ev_message_id e)
                (JObj [(''accepted'', JBool True),
                       (''registeredCapabilityCount'', JInt (int (length cs)))])),
              bt_insert d (with_capabilities cs s) ss)))))"

definition handle_permission_state ::
    "serde_text \<Rightarrow> envelope \<Rightarrow> sessions \<Rightarrow> (app_error + envelope) \<times> sessions" where
  "handle_permission_state sm e ss =
     (case require_device_id e of Inl err \<Rightarrow> (Inl err, ss) | Inr d \<Rightarrow>
      (case parse_required_payload_field sm (de_vec decode_announced_permission) (ev_payload e)
              ''states'' ''COMPANION_PERMISSION_STATE_INVALID''
              ''Companion permissionState payload is invalid.'' of Inl err \<Rightarrow> (Inl err, ss) | Inr as \<Rightarrow>
       (case resolve_permissions as of Inl err \<Rightarrow> (Inl err, ss) | Inr ps \<Rightarrow>
        (case bt_get d ss of
           None \<Rightarrow> (Inl (early_error ''Permission state'' d), ss)
         | Some s \<Rightarrow>
             (Inr (ack (ev_trace_id e) d (ev_message_id e)
                (JObj [(''accepted'', JBool True), (''updatedStateCount'', JInt (int (length ps)))])),
              bt_insert d (with_permissions ps s) ss)))))"

definition handle_heartbeat :: "envelope \<Rightarrow> sessions \<Rightarrow> app_error + envelope" where
  "handle_heartbeat e ss =
     on_ok (require_device_id e) (\<lambda>d.
     on_ok (get_session d ss) (\<lambda>s.
       Inr \<lparr>ev_protocol = companion_protocol, ev_version = companion_protocol_version,
            ev_message_id = ''heartbeat-ack-'' @ ev_message_id e, ev_trace_id = ev_trace_id e,
            ev_device_id = Some d, ev_channel = Control, ev_kind = Heartbeat,
            ev_payload = JObj [(''receivedMessageId'', JStr (ev_message_id e)),
              (''serverState'', state_json (cs_connection_state s))]\<rparr>))"

definition session_handle_envelope ::
    "serde_text \<Rightarrow> envelope \<Rightarrow> sessions \<Rightarrow> (app_error + envelope) \<times> sessions" where
  "session_handle_envelope sm e ss =
     (case validate_quic_envelope e of Inl err \<Rightarrow> (Inl err, ss) | Inr _ \<Rightarrow>
      (case ev_kind e of
         Hello \<Rightarrow> handle_hello sm e ss
       | CapabilityList \<Rightarrow> handle_capability_list sm e ss
       | PermissionState \<Rightarrow> handle_permission_state sm e ss
       | Heartbeat \<Rightarrow> (handle_heartbeat e ss, ss)
       | unsupported \<Rightarrow>
           (Inl (session_error ''COMPANION_SESSION_MESSAGE_UNSUPPORTED''
              (''Companion session manager does not accept message kind: '' @ kind_debug unsupported)
              False), ss)))"

end
