(* ===== verification/Companion_Session_Facts.thy ===== *)
theory Companion_Session_Facts
  imports Companion_Session
begin

text \<open>
  Facts about the companion sessions: what a successful message did, the well-formedness
  invariant, and that the catalog stays the authority for what a device may expose.
\<close>

lemma require_device_id_Inr_iff [ok_iff]:
  "require_device_id e = Inr d \<longleftrightarrow> ev_device_id e = Some d \<and> trim d \<noteq> []"
  by (auto simp: require_device_id_def ok_iff split: option.splits)

lemma get_session_Inr_iff [ok_iff]: "get_session d ss = Inr s \<longleftrightarrow> bt_get d ss = Some s"
  by (simp add: get_session_def ok_iff)

lemma catalog_entryD: "catalog_entry i = Some c \<Longrightarrow> c \<in> set android_companion_capability_catalog"
  "catalog_entry i = Some c \<Longrightarrow> cap_id c = i"
  using catalog_entry_Some by blast+

lemma resolve_capabilities_Inr:
  assumes "resolve_capabilities as = Inr cs"
  shows "map cap_id cs = map an_id as" and "set cs \<subseteq> set android_companion_capability_catalog"
    and "\<forall>a \<in> set as. \<exists>c \<in> set cs. cap_id c = an_id a \<and> set (an_operations a) \<subseteq> set (cap_operations c)"
proof -
  have "map cap_id cs = map an_id as \<and> set cs \<subseteq> set android_companion_capability_catalog \<and>
      (\<forall>a \<in> set as. \<exists>c \<in> set cs. cap_id c = an_id a \<and> set (an_operations a) \<subseteq> set (cap_operations c))"
    using assms
  proof (induction as arbitrary: cs)
    case Nil
    then show ?case by simp
  next
    case (Cons a as)
    then obtain c cs' where c: "catalog_entry (an_id a) = Some c"
      and ops: "\<not> list_ex (\<lambda>operation. operation \<notin> set (cap_operations c)) (an_operations a)"
      and cs': "resolve_capabilities as = Inr cs'" "cs = c # cs'"
      by (auto simp: ok_iff split: if_splits)
    from ops have "set (an_operations a) \<subseteq> set (cap_operations c)" by (auto simp: list_ex_iff)
    then show ?case using Cons.IH [OF cs'(1)] cs'(2) catalog_entryD [OF c] by auto
  qed
  then show "map cap_id cs = map an_id as" and "set cs \<subseteq> set android_companion_capability_catalog"
    and "\<forall>a \<in> set as. \<exists>c \<in> set cs. cap_id c = an_id a \<and> set (an_operations a) \<subseteq> set (cap_operations c)"
    by blast+
qed

text \<open>A permission report the core built: its requirements are the catalog's.\<close>

definition permission_ok :: "permission_state \<Rightarrow> bool" where
  "permission_ok p \<longleftrightarrow>
     (\<exists>c \<in> set android_companion_capability_catalog. cap_id c = ps_capability_id p \<and>
        ps_android_permissions p = pr_android_permissions (cap_permission c) \<and>
        set (ps_special_grants p) =
          set (pr_special_permissions (cap_permission c)) - set (ps_missing_special_grants p))"

lemma resolve_permissions_Inr:
  "resolve_permissions as = Inr ps \<Longrightarrow>
   map ps_capability_id ps = map ap_capability_id as \<and> list_all permission_ok ps"
proof (induction as arbitrary: ps)
  case Nil
  then show ?case by simp
next
  case (Cons a as)
  then obtain c ps' where c: "catalog_entry (ap_capability_id a) = Some c"
    and ps': "resolve_permissions as = Inr ps'" "ps = reported_permission c a # ps'"
    by (auto simp: ok_iff)
  have "permission_ok (reported_permission c a)"
    using catalog_entryD [OF c] by (auto simp: permission_ok_def reported_permission_def)
  then show ?case using Cons.IH [OF ps'(1)] ps'(2) by (simp add: reported_permission_def)
qed

subsection \<open>Invariant\<close>

definition session_ok :: "string \<Rightarrow> companion_session \<Rightarrow> bool" where
  "session_ok k s \<longleftrightarrow>
     cs_device_id s = k \<and> cs_connection_state s \<in> {Handshaking, Ready} \<and>
     set (cs_capabilities s) \<subseteq> set android_companion_capability_catalog \<and>
     list_all permission_ok (cs_permission_states s)"

definition sessions_ok :: "sessions \<Rightarrow> bool" where
  "sessions_ok ss \<longleftrightarrow> bt_ok ss \<and> (\<forall>k s. bt_get k ss = Some s \<longrightarrow> session_ok k s)"

lemma sessions_ok_put: "sessions_ok ss \<Longrightarrow> session_ok k s \<Longrightarrow> sessions_ok (bt_insert k s ss)"
  by (auto simp: sessions_ok_def bt_ok_insert)

lemma session_ok_with:
  "session_ok k s \<Longrightarrow> set cs \<subseteq> set android_companion_capability_catalog \<Longrightarrow> session_ok k (with_capabilities cs s)"
  "session_ok k s \<Longrightarrow> list_all permission_ok ps \<Longrightarrow> session_ok k (with_permissions ps s)"
  "session_ok (h_device_id h) (new_session h)"
  by (simp_all add: session_ok_def with_capabilities_def with_permissions_def new_session_def Let_def)

text \<open>What a successful message did.\<close>

lemma handle_hello_Inr_iff:
  "handle_hello sm e ss = (Inr r, ss') \<longleftrightarrow>
     (\<exists>h. decode_hello (ev_payload e) = Some h \<and> \<not> hello_mismatch e h \<and>
        companion_protocol_version \<in> set (h_supported_versions h) \<and>
        r = hello_ack (ev_trace_id e) h \<and> ss' = bt_insert (h_device_id h) (new_session h) ss)"
  by (auto simp: handle_hello_def ok_iff)

lemma handle_capability_list_Inr:
  assumes "handle_capability_list sm e ss = (Inr r, ss')"
  obtains d s as cs where "ev_device_id e = Some d" "bt_get d ss = Some s"
    "resolve_capabilities as = Inr cs" "ss' = bt_insert d (with_capabilities cs s) ss"
    "ev_device_id r = Some d" "ev_trace_id r = ev_trace_id e"
  using assms by (auto simp: handle_capability_list_def ok_iff ack_def)

lemma handle_permission_state_Inr:
  assumes "handle_permission_state sm e ss = (Inr r, ss')"
  obtains d s as ps where "ev_device_id e = Some d" "bt_get d ss = Some s"
    "resolve_permissions as = Inr ps" "ss' = bt_insert d (with_permissions ps s) ss"
    "ev_device_id r = Some d" "ev_trace_id r = ev_trace_id e"
  using assms by (auto simp: handle_permission_state_def ok_iff ack_def)

lemma handle_heartbeat_Inr:
  assumes "handle_heartbeat e ss = Inr r"
  obtains d s where "ev_device_id e = Some d" "bt_get d ss = Some s"
    "ev_device_id r = Some d" "ev_trace_id r = ev_trace_id e"
    "get_str ''serverState'' (ev_payload r) = as_str (state_json (cs_connection_state s))"
  using assms by (auto simp: handle_heartbeat_def ok_iff get_str_def)

lemma session_error_frame:
  assumes "session_handle_envelope sm e ss = (Inl err, ss')"
  shows "ss' = ss"
proof -
  have "handle_hello sm e ss = (Inl err, ss') \<Longrightarrow> ss' = ss"
    by (auto simp: handle_hello_def split: sum.splits if_splits)
  moreover have "handle_capability_list sm e ss = (Inl err, ss') \<Longrightarrow> ss' = ss"
    by (auto simp: handle_capability_list_def split: sum.splits option.splits)
  moreover have "handle_permission_state sm e ss = (Inl err, ss') \<Longrightarrow> ss' = ss"
    by (auto simp: handle_permission_state_def split: sum.splits option.splits)
  ultimately show ?thesis
    using assms by (auto simp: session_handle_envelope_def split: sum.splits message_kind.splits)
qed

text \<open>The session changes a message can make, and on which device.\<close>

lemma session_success_cases:
  assumes "session_handle_envelope sm e ss = (Inr r, ss')"
  obtains (hello) h where "ev_kind e = Hello" "ss' = bt_insert (h_device_id h) (new_session h) ss"
      "r = hello_ack (ev_trace_id e) h" "\<not> hello_mismatch e h"
  | (capabilities) d s as cs where "ev_kind e = CapabilityList" "ev_device_id e = Some d"
      "bt_get d ss = Some s" "resolve_capabilities as = Inr cs"
      "ss' = bt_insert d (with_capabilities cs s) ss" "ev_device_id r = Some d" "ev_trace_id r = ev_trace_id e"
  | (permissions) d s as ps where "ev_kind e = PermissionState" "ev_device_id e = Some d"
      "bt_get d ss = Some s" "resolve_permissions as = Inr ps"
      "ss' = bt_insert d (with_permissions ps s) ss" "ev_device_id r = Some d" "ev_trace_id r = ev_trace_id e"
  | (heartbeat) d s where "ev_kind e = Heartbeat" "ev_device_id e = Some d" "bt_get d ss = Some s"
      "ss' = ss" "ev_device_id r = Some d" "ev_trace_id r = ev_trace_id e"
proof (cases "ev_kind e")
  case Hello
  then have "handle_hello sm e ss = (Inr r, ss')"
    using assms by (auto simp: session_handle_envelope_def ok_iff)
  then show ?thesis using Hello hello by (auto simp: handle_hello_Inr_iff)
next
  case CapabilityList
  then have "handle_capability_list sm e ss = (Inr r, ss')"
    using assms by (auto simp: session_handle_envelope_def ok_iff)
  then show ?thesis using CapabilityList by (elim handle_capability_list_Inr) (rule capabilities)
next
  case PermissionState
  then have "handle_permission_state sm e ss = (Inr r, ss')"
    using assms by (auto simp: session_handle_envelope_def ok_iff)
  then show ?thesis using PermissionState by (elim handle_permission_state_Inr) (rule permissions)
next
  case Heartbeat
  then have "handle_heartbeat e ss = Inr r" "ss' = ss"
    using assms by (auto simp: session_handle_envelope_def ok_iff)
  then show ?thesis using Heartbeat by (elim handle_heartbeat_Inr) (rule heartbeat)
qed (use assms in \<open>auto simp: session_handle_envelope_def ok_iff\<close>)

lemma sessions_ok_step:
  assumes "sessions_ok ss"
  shows "sessions_ok (snd (session_handle_envelope sm e ss))"
proof (cases "session_handle_envelope sm e ss")
  case (Pair r ss')
  show ?thesis
  proof (cases r)
    case (Inl err)
    then show ?thesis using session_error_frame [of sm e ss err ss'] Pair assms by simp
  next
    case (Inr a)
    with Pair have "session_handle_envelope sm e ss = (Inr a, ss')" by simp
    then have "sessions_ok ss'"
    proof (cases rule: session_success_cases)
      case hello
      then show ?thesis using assms by (simp add: sessions_ok_put session_ok_with)
    next
      case (capabilities d s as cs)
      then show ?thesis
        using assms resolve_capabilities_Inr(2) [of as cs]
        by (auto simp: sessions_ok_def bt_ok_insert session_ok_with)
    next
      case (permissions d s as ps)
      then show ?thesis
        using assms resolve_permissions_Inr [of as ps]
        by (auto simp: sessions_ok_def bt_ok_insert session_ok_with)
    next
      case heartbeat
      then show ?thesis using assms by simp
    qed
    then show ?thesis using Pair by simp
  qed
qed

inductive session_step :: "sessions \<Rightarrow> sessions \<Rightarrow> bool" where
  receive: "session_step ss (snd (session_handle_envelope sm e ss))"

inductive_cases session_stepE: "session_step ss ss'"

lemma sessions_ok_empty: "sessions_ok []"
  by (simp add: sessions_ok_def bt_ok_def keys_def bt_get_def)

interpretation sessions: invariant_machine "\<lambda>ss. ss = []" session_step sessions_ok
  by unfold_locales (auto simp: sessions_ok_empty elim!: session_stepE intro: sessions_ok_step)

subsection \<open>Properties\<close>

text \<open>C15. The catalog is the authority: in every state the companions' messages can lead to, each
  session is stored under its own device id, is handshaking or ready, exposes only entries of
  the core's catalog, and reports permission requirements only as the catalog has them.\<close>

theorem reachable_sessions_ok:
  assumes "reachable (\<lambda>ss. ss = []) session_step ss" and "bt_get d ss = Some s"
  shows "cs_device_id s = d \<and> cs_connection_state s \<in> {Handshaking, Ready} \<and>
         (\<forall>c \<in> set (cs_capabilities s). catalog_entry (cap_id c) = Some c) \<and>
         (\<forall>p \<in> set (cs_permission_states s). \<exists>c. catalog_entry (ps_capability_id p) = Some c \<and>
            ps_android_permissions p = pr_android_permissions (cap_permission c) \<and>
            set (ps_special_grants p) =
              set (pr_special_permissions (cap_permission c)) - set (ps_missing_special_grants p))"
proof -
  have ok: "session_ok d s"
    using sessions.reach_inv [OF assms(1)] assms(2) by (simp add: sessions_ok_def)
  have mem: "catalog_entry (cap_id c) = Some c" if "c \<in> set android_companion_capability_catalog" for c
  proof -
    have "list_all (\<lambda>c. catalog_entry (cap_id c) = Some c) android_companion_capability_catalog"
      by code_simp
    then show ?thesis using that by (simp add: list_all_iff)
  qed
  show ?thesis
    using ok mem by (fastforce simp: session_ok_def list_all_iff permission_ok_def)
qed

text \<open>A message changes nothing when it is refused; when it is accepted, the reply carries its
  trace id and names one device, and only that device's session can differ afterwards. That
  session is new after a hello and otherwise existed before, and it turns ready only when a
  capability report meets earlier permission states or a permission report earlier
  capabilities.\<close>

theorem session_message_effect:
  assumes "session_handle_envelope sm e ss = (r, ss')"
  shows "(\<not> is_ok r \<longrightarrow> ss' = ss) \<and>
         (\<forall>a. r = Inr a \<longrightarrow>
            ev_trace_id a = ev_trace_id e \<and>
            (\<exists>d. ev_device_id a = Some d \<and>
               (\<forall>k. k \<noteq> d \<longrightarrow> bt_get k ss' = bt_get k ss) \<and>
               (ev_kind e \<noteq> Hello \<longrightarrow> ev_device_id e = Some d \<and> bt_get d ss \<noteq> None) \<and>
               (\<exists>s'. bt_get d ss' = Some s' \<and>
                  (ev_kind e = Hello \<longrightarrow> cs_connection_state s' = Handshaking \<and>
                      cs_capabilities s' = [] \<and> cs_permission_states s' = []) \<and>
                  (cs_connection_state s' = Ready \<longrightarrow>
                     (\<exists>s. bt_get d ss = Some s \<and> cs_connection_state s = Ready) \<or>
                     ev_kind e = CapabilityList \<and> cs_permission_states s' \<noteq> [] \<or>
                     ev_kind e = PermissionState \<and> cs_capabilities s' \<noteq> []))))"
proof (cases r)
  case (Inl err)
  then show ?thesis using session_error_frame assms by auto
next
  case (Inr a)
  with assms have "session_handle_envelope sm e ss = (Inr a, ss')" by simp
  then show ?thesis
  proof (cases rule: session_success_cases)
    case (hello h)
    then show ?thesis by (simp add: Inr new_session_def hello_ack_def)
  next
    case (capabilities d s as cs)
    then show ?thesis by (auto simp: Inr with_capabilities_def Let_def)
  next
    case (permissions d s as ps)
    then show ?thesis by (auto simp: Inr with_permissions_def Let_def)
  next
    case (heartbeat d s)
    then show ?thesis by (auto simp: Inr)
  qed
qed

lemma reachable_receive:
  "reachable (\<lambda>ss. ss = []) session_step ss \<Longrightarrow>
   reachable (\<lambda>ss. ss = []) session_step (snd (session_handle_envelope sm e ss))"
  by (erule reachable_step) (rule receive)

definition demo_envelope :: "message_kind \<Rightarrow> json \<Rightarrow> envelope" where
  "demo_envelope k payload =
     \<lparr>ev_protocol = companion_protocol, ev_version = 1, ev_message_id = ''m'', ev_trace_id = None,
      ev_device_id = Some ''d'', ev_channel = Control, ev_kind = k, ev_payload = payload\<rparr>"

definition demo_hello :: envelope where
  "demo_hello = demo_envelope Hello
     (JObj [(''appVersion'', JStr ''1''), (''deviceId'', JStr ''d''), (''deviceName'', JStr ''n''),
            (''androidSdk'', JInt 35), (''supportedProtocolVersions'', JArr [JInt 1])])"

definition demo_permissions :: envelope where
  "demo_permissions = demo_envelope PermissionState
     (JObj [(''states'', JArr [JObj [(''capabilityId'', JStr ''android.sms.read''),
                                     (''granted'', JBool False)]])])"

definition demo_no_capabilities :: envelope where
  "demo_no_capabilities = demo_envelope CapabilityList (JObj [(''capabilities'', JArr [])])"

definition demo_run :: "sessions" where
  "demo_run =
     (let sm = (\<lambda>_ _. []);
          s1 = snd (session_handle_envelope sm demo_hello []);
          s2 = snd (session_handle_envelope sm demo_permissions s1)
      in snd (session_handle_envelope sm demo_no_capabilities s2))"

text \<open>A device can become ready without exposing any capability: after a hello and a
  permission report, an empty capability list is accepted and completes the handshake.\<close>

theorem ready_without_capabilities:
  "\<exists>ss s. reachable (\<lambda>ss. ss = []) session_step ss \<and> bt_get ''d'' ss = Some s \<and>
     cs_connection_state s = Ready \<and> cs_capabilities s = []"
proof -
  have "map_option (\<lambda>s. (cs_connection_state s, cs_capabilities s)) (bt_get ''d'' demo_run) = Some (Ready, [])"
    by code_simp
  then obtain s where "bt_get ''d'' demo_run = Some s" "cs_connection_state s = Ready" "cs_capabilities s = []"
    by auto
  moreover have "reachable (\<lambda>ss. ss = []) session_step demo_run"
    unfolding demo_run_def Let_def by (intro reachable_receive reachable_start refl)
  ultimately show ?thesis by blast
qed

end
