(* ===== verification/Media_Store.thy ===== *)
theory Media_Store
  imports Companion_Protocol
begin

text \<open>
  \<open>companion/media_store.rs\<close>: media chunks as files, one directory per session below a root. The
  file system is the map from path segments to directories, a directory the list of its entries: a
  file with its bytes, a directory with none. The empty segment is the root itself, which an empty
  session id selects; every other directory is an entry of the root. The answers of the file system
  and the base64 decoder are arguments.
\<close>

type_synonym directory = "(string \<times> string) list"
type_synonym media_fs = "string \<rightharpoonup> directory"

text \<open>A failed write may leave an incomplete file behind.\<close>

datatype media_reply =
    Media_ok
  | Media_read_failed string
  | Media_entry_failed string
  | Media_dir_failed string
  | Media_write_failed string "string option"

record stored_chunk =
  sc_session_id :: string
  sc_chunk_index :: nat
  sc_path :: string
  sc_size_bytes :: nat

definition media_error :: "string \<Rightarrow> string \<Rightarrow> bool \<Rightarrow> app_error" where
  "media_error code msg r = new_error code msg ''companion.media_store'' r"

text \<open>A character is its leading byte and the continuation bytes after it.\<close>

definition safe_segment_char :: "char \<Rightarrow> char" where
  "safe_segment_char c =
     (if is_ascii_alphanumeric c \<or> c = CHR ''-'' \<or> c = CHR ''_'' then c else CHR ''_'')"

definition safe_path_segment :: "string \<Rightarrow> string" where
  "safe_path_segment v = map (\<lambda>ch. safe_segment_char (hd ch)) (utf8_chars v)"

definition path_join :: "string \<Rightarrow> string \<Rightarrow> string" where
  "path_join a b = (if a = [] \<or> ends_with ''/'' a then a @ b else a @ ''/'' @ b)"

definition required_string :: "json \<Rightarrow> string \<Rightarrow> app_error + string" where
  "required_string payload key =
     ok_or (media_error ''COMPANION_MEDIA_PAYLOAD_INVALID''
              (''Media streamChunk payload is missing string field '' @ key @ ''.'') False)
       (get_str key payload)"

definition next_chunk_index :: "media_reply \<Rightarrow> media_fs \<Rightarrow> string \<Rightarrow> app_error + nat" where
  "next_chunk_index reply fs session_id =
     (case fs (safe_path_segment session_id) of
        None \<Rightarrow> Inr 0
      | Some dir \<Rightarrow>
          (case reply of
             Media_read_failed c \<Rightarrow>
               Inl (with_cause c (media_error ''COMPANION_MEDIA_STORE_READ_FAILED''
                 ''Core failed to read media session directory.'' True))
           | Media_entry_failed c \<Rightarrow>
               Inl (with_cause c (media_error ''COMPANION_MEDIA_STORE_READ_FAILED''
                 ''Core failed to read media chunk entry.'' True))
           | _ \<Rightarrow> Inr (length (filter (\<lambda>f. starts_with ''chunk-'' (fst f)) dir))))"

definition chunk_file_name :: "nat \<Rightarrow> string" where
  "chunk_file_name i = ''chunk-'' @ pad_left 20 (show_nat i) @ ''.bin''"

fun write_file :: "string \<Rightarrow> string \<Rightarrow> directory \<Rightarrow> directory" where
  "write_file n b [] = [(n, b)]"
| "write_file n b ((m, c) # d) = (if m = n then (n, b) # d else (m, c) # write_file n b d)"

definition session_dir :: "media_fs \<Rightarrow> string \<Rightarrow> directory" where
  "session_dir fs session_id = (case fs (safe_path_segment session_id) of None \<Rightarrow> [] | Some d \<Rightarrow> d)"

text \<open>\<open>create_dir_all\<close>, which creates the root as well and lists the new directory there.\<close>

definition list_entry :: "string \<Rightarrow> directory \<Rightarrow> directory" where
  "list_entry n d = (if n \<in> set (map fst d) then d else d @ [(n, [])])"

definition make_session_dir :: "media_fs \<Rightarrow> string \<Rightarrow> media_fs" where
  "make_session_dir fs session_id =
     (let segment = safe_path_segment session_id;
          root = (case fs [] of None \<Rightarrow> [] | Some d \<Rightarrow> d)
      in if segment = [] then fs([] \<mapsto> root)
         else fs([] \<mapsto> list_entry segment root, segment \<mapsto> session_dir fs session_id))"

definition put_chunk :: "media_fs \<Rightarrow> string \<Rightarrow> string \<Rightarrow> string \<Rightarrow> media_fs" where
  "put_chunk fs session_id name bytes =
     (make_session_dir fs session_id)
       (safe_path_segment session_id \<mapsto> write_file name bytes (session_dir fs session_id))"

definition write_chunk ::
    "media_reply \<Rightarrow> string \<Rightarrow> string \<Rightarrow> nat \<Rightarrow> string \<Rightarrow> media_fs \<Rightarrow>
     (app_error + stored_chunk option) \<times> media_fs" where
  "write_chunk reply root session_id index bytes fs =
     (case reply of
        Media_dir_failed c \<Rightarrow>
          (Inl (with_cause c (media_error ''COMPANION_MEDIA_STORE_DIR_CREATE_FAILED''
             ''Core failed to create media session directory.'' True)), fs)
      | Media_write_failed c left \<Rightarrow>
          (Inl (with_cause c (media_error ''COMPANION_MEDIA_CHUNK_WRITE_FAILED''
             ''Core failed to write media chunk.'' True)),
           case left of
             None \<Rightarrow> make_session_dir fs session_id
           | Some part \<Rightarrow> put_chunk fs session_id (chunk_file_name index) part)
      | _ \<Rightarrow>
          (Inr (Some \<lparr>sc_session_id = session_id, sc_chunk_index = index,
                      sc_path = path_join (path_join root (safe_path_segment session_id))
                                  (chunk_file_name index),
                      sc_size_bytes = length bytes\<rparr>),
           put_chunk fs session_id (chunk_file_name index) bytes))"

definition store_envelope ::
    "(string \<Rightarrow> string + string) \<Rightarrow> media_reply \<Rightarrow> string \<Rightarrow> envelope \<Rightarrow> media_fs \<Rightarrow>
     (app_error + stored_chunk option) \<times> media_fs" where
  "store_envelope b64 reply root e fs =
     (if ev_kind e \<noteq> StreamChunk then (Inr None, fs)
      else
       (case required_string (ev_payload e) ''sessionId'' of Inl err \<Rightarrow> (Inl err, fs) | Inr session_id \<Rightarrow>
        (case required_string (ev_payload e) ''encoding'' of Inl err \<Rightarrow> (Inl err, fs) | Inr encoding \<Rightarrow>
         (if encoding \<noteq> ''base64''
          then (Inl (media_error ''COMPANION_MEDIA_ENCODING_UNSUPPORTED''
            ''Core media store only accepts base64 media chunks in JSON envelopes.'' False), fs)
          else
           (case required_string (ev_payload e) ''data'' of Inl err \<Rightarrow> (Inl err, fs) | Inr data \<Rightarrow>
            (case b64 data of
               Inl c \<Rightarrow> (Inl (with_cause c (media_error ''COMPANION_MEDIA_CHUNK_BASE64_INVALID''
                 ''Core failed to decode base64 media chunk.'' False)), fs)
             | Inr bytes \<Rightarrow>
                 (case next_chunk_index reply fs session_id of
                    Inl err \<Rightarrow> (Inl err, fs)
                  | Inr index \<Rightarrow> write_chunk reply root session_id index bytes fs)))))))"

subsection \<open>Paths\<close>

lemma segment_char_ok:
  "is_ascii_alphanumeric (safe_segment_char c) \<or> safe_segment_char c \<in> {CHR ''-'', CHR ''_''}"
  by (simp add: safe_segment_char_def)

lemma safe_segment_bytes:
  "c \<in> set (safe_path_segment v) \<Longrightarrow> is_ascii_alphanumeric c \<or> c \<in> {CHR ''-'', CHR ''_''}"
  using segment_char_ok by (auto simp: safe_path_segment_def)

lemma write_chunk_Some:
  assumes "write_chunk reply root sid index bytes fs = (Inr (Some ch), fs')"
  shows "ch = \<lparr>sc_session_id = sid, sc_chunk_index = index,
           sc_path = path_join (path_join root (safe_path_segment sid)) (chunk_file_name index),
           sc_size_bytes = length bytes\<rparr>"
    and "fs' = put_chunk fs sid (chunk_file_name index) bytes"
  using assms by (cases reply; simp add: write_chunk_def)+

lemma store_envelope_Some:
  assumes "store_envelope b64 reply root e fs = (Inr (Some ch), fs')"
  obtains sid data bytes index where "get_str ''data'' (ev_payload e) = Some data"
    "b64 data = Inr bytes" "next_chunk_index reply fs sid = Inr index"
    "write_chunk reply root sid index bytes fs = (Inr (Some ch), fs')"
  using assms by (auto simp: store_envelope_def ok_iff required_string_def split: if_splits)

text \<open>C27. A session id cannot escape the media root: whatever the companion sends, the directory
  is named by ASCII letters and digits, dashes and underscores only, hence no separator of any
  platform, no drive letter's colon and no dot, and a stored chunk's path is the root, that name and
  the chunk's file name. Nothing in a directory of another name changes (two session ids share a
  directory when their safe forms are the same); the root, which is the directory of the empty
  session id, gains at most the entry of the session's directory.\<close>

theorem media_path_confined:
  assumes "store_envelope b64 reply root e fs = (Inr (Some ch), fs')"
  shows "(\<forall>c \<in> set (safe_path_segment (sc_session_id ch)).
            (is_ascii_alphanumeric c \<or> c \<in> {CHR ''-'', CHR ''_''}) \<and>
            c \<noteq> CHR ''/'' \<and> c \<noteq> CHR ''.'' \<and> c \<noteq> CHR '':'' \<and> byte c \<noteq> 92) \<and>
         sc_path ch = path_join (path_join root (safe_path_segment (sc_session_id ch)))
                        (chunk_file_name (sc_chunk_index ch)) \<and>
         (\<forall>k. k \<noteq> safe_path_segment (sc_session_id ch) \<longrightarrow> k \<noteq> [] \<longrightarrow> fs' k = fs k) \<and>
         (safe_path_segment (sc_session_id ch) \<noteq> [] \<longrightarrow>
            fs' [] = Some (list_entry (safe_path_segment (sc_session_id ch))
                             (case fs [] of None \<Rightarrow> [] | Some d \<Rightarrow> d)))"
proof -
  have "(is_ascii_alphanumeric c \<or> c \<in> {CHR ''-'', CHR ''_''}) \<and>
      c \<noteq> CHR ''/'' \<and> c \<noteq> CHR ''.'' \<and> c \<noteq> CHR '':'' \<and> byte c \<noteq> 92"
    if "c \<in> set (safe_path_segment v)" for c v
    using safe_segment_bytes [OF that]
    by (auto simp: is_ascii_alphanumeric_def is_ascii_digit_def is_ascii_upper_def byte_def)
  moreover obtain sid bytes index where
    w: "write_chunk reply root sid index bytes fs = (Inr (Some ch), fs')"
    using assms by (rule store_envelope_Some)
  ultimately show ?thesis
    by (simp add: write_chunk_Some(1) [OF w] write_chunk_Some(2) [OF w] put_chunk_def make_session_dir_def
        Let_def)
qed

subsection \<open>Chunk numbers\<close>

text \<open>A directory that holds exactly the chunks 0 to n - 1, in any order, and other files.\<close>

definition holds_chunks :: "nat \<Rightarrow> directory \<Rightarrow> bool" where
  "holds_chunks n d \<longleftrightarrow>
     distinct (map fst d) \<and>
     filter (starts_with ''chunk-'') (map fst d) = map chunk_file_name [0..<n]"

lemma chunk_file_name_inj: "chunk_file_name i = chunk_file_name j \<longleftrightarrow> i = j"
  by (simp add: chunk_file_name_def pad_show_inj)

lemma chunk_file_name_starts: "starts_with ''chunk-'' (chunk_file_name i)"
  by (simp add: chunk_file_name_def starts_with_def)

lemma write_file_new: "n \<notin> set (map fst d) \<Longrightarrow> write_file n b d = d @ [(n, b)]"
  by (induction n b d rule: write_file.induct) auto

lemma holds_chunks_new:
  assumes "holds_chunks n d"
  shows "write_file (chunk_file_name n) b d = d @ [(chunk_file_name n, b)]"
    and "holds_chunks (Suc n) (d @ [(chunk_file_name n, b)])"
proof -
  have "chunk_file_name n \<notin> set (map fst d)"
  proof
    assume "chunk_file_name n \<in> set (map fst d)"
    then have "chunk_file_name n \<in> set (filter (starts_with ''chunk-'') (map fst d))"
      using chunk_file_name_starts by simp
    also have "\<dots> = chunk_file_name ` {0..<n}" using assms by (simp add: holds_chunks_def)
    finally show False using chunk_file_name_inj by auto
  qed
  then show "write_file (chunk_file_name n) b d = d @ [(chunk_file_name n, b)]"
    and "holds_chunks (Suc n) (d @ [(chunk_file_name n, b)])"
    using assms chunk_file_name_starts [of n]
    by (auto simp: write_file_new holds_chunks_def)
qed

text \<open>Chunks are numbered without gaps and never overwritten: if the session's directory holds
  the chunks 0 to n - 1, a stored chunk gets number n, its bytes are the decoded ones, every file
  that was there is still there with its content, and the directory then holds the chunks 0 to n.\<close>

theorem chunks_numbered:
  assumes "store_envelope b64 reply root e fs = (Inr (Some ch), fs')"
    and "holds_chunks n (session_dir fs (sc_session_id ch))"
  shows "sc_chunk_index ch = n \<and>
         (\<exists>data bytes. get_str ''data'' (ev_payload e) = Some data \<and> b64 data = Inr bytes \<and>
            sc_size_bytes ch = length bytes \<and>
            session_dir fs' (sc_session_id ch) =
              session_dir fs (sc_session_id ch) @ [(chunk_file_name n, bytes)]) \<and>
         holds_chunks (Suc n) (session_dir fs' (sc_session_id ch))"
proof -
  from assms(1) obtain sid data bytes index where
    data: "get_str ''data'' (ev_payload e) = Some data" "b64 data = Inr bytes"
    and index: "next_chunk_index reply fs sid = Inr index"
    and w: "write_chunk reply root sid index bytes fs = (Inr (Some ch), fs')"
    by (rule store_envelope_Some)
  have ch: "sc_session_id ch = sid" "sc_chunk_index ch = index" "sc_size_bytes ch = length bytes"
    and fs': "fs' = put_chunk fs sid (chunk_file_name index) bytes"
    using write_chunk_Some [OF w] by simp_all
  have "length (filter (\<lambda>f. starts_with ''chunk-'' (fst f)) (session_dir fs sid)) =
      length (filter (starts_with ''chunk-'') (map fst (session_dir fs sid)))"
    by (simp add: filter_map comp_def)
  also have "\<dots> = n" using assms(2) by (simp add: ch holds_chunks_def)
  finally have "index = n"
    using index by (auto simp: next_chunk_index_def session_dir_def split: option.splits media_reply.splits)
  moreover have "session_dir fs' sid = write_file (chunk_file_name index) bytes (session_dir fs sid)"
    by (simp add: fs' put_chunk_def session_dir_def)
  ultimately show ?thesis
    using holds_chunks_new [of n "session_dir fs sid" bytes] assms(2) data ch by simp
qed

end
