(* ===== verification/Companion_Trust.thy ===== *)
theory Companion_Trust
  imports App_Error Transition Ordered_Map
begin

text \<open>
  \<open>companion/trust.rs\<close>: pairing challenges and trusted devices. Times are \<open>u64\<close> milliseconds,
  whose addition wraps in a release build. The random numbers of a challenge and the answer of
  the file system are arguments; \<open>ulow\<close> is Unicode's lower-case mapping of a character outside
  ASCII, given by its bytes.
\<close>

subsection \<open>Data\<close>

definition trust_store_schema_version :: nat where
  "trust_store_schema_version = 1"

definition pairing_ttl_ms :: "64 word" where
  "pairing_ttl_ms = 5 * 60 * 1000"

definition trust_ttl_ms :: "64 word" where
  "trust_ttl_ms = 30 * 24 * 60 * 60 * 1000"

definition max_pairing_attempts :: nat where
  "max_pairing_attempts = 5"

record pairing_request =
  pq_device_id :: string
  pq_device_name :: string
  pq_fingerprint :: string

record challenge =
  ch_pairing_id :: string
  ch_device_id :: string
  ch_device_name :: string
  ch_fingerprint :: string
  ch_short_code :: string
  ch_created_at :: "64 word"
  ch_expires_at :: "64 word"
  ch_attempts_remaining :: nat

record trusted =
  td_device_id :: string
  td_device_name :: string
  td_fingerprint :: string
  td_trusted_at :: "64 word"
  td_expires_at :: "64 word"
  td_revoked_at :: "64 word option"

record trust_store =
  ts_pending :: "string \<rightharpoonup> challenge"
  ts_trusted :: "(string, trusted) btree_map"

record trust_file =
  tf_schema_version :: nat
  tf_trusted_devices :: "trusted list"

text \<open>What \<open>read_to_string\<close> and \<open>from_str\<close> make of the file.\<close>

datatype trust_disk =
    Trust_missing
  | Trust_unreadable string
  | Trust_unparsable string
  | Trust_parsed trust_file

datatype save_reply =
    Save_ok
  | Save_dir_failed string
  | Save_serialize_failed string
  | Save_write_failed string trust_disk

definition trust_error :: "string \<Rightarrow> string \<Rightarrow> bool \<Rightarrow> app_error" where
  "trust_error code msg r = new_error code msg ''companion.trust'' r"

subsection \<open>Validation\<close>

definition lower_fingerprint_char :: "(string \<Rightarrow> string) \<Rightarrow> string \<Rightarrow> string" where
  "lower_fingerprint_char ulow ch =
     (case ch of
        [c] \<Rightarrow> if byte c < 128
               then (if c = CHR '':'' \<or> is_ascii_whitespace c then [] else [ascii_lower c])
               else ulow ch
      | _ \<Rightarrow> ulow ch)"

definition normalize_fingerprint :: "(string \<Rightarrow> string) \<Rightarrow> string \<Rightarrow> string" where
  "normalize_fingerprint ulow fp = concat (map (lower_fingerprint_char ulow) (utf8_chars fp))"

definition validate_device_id :: "string \<Rightarrow> app_error + unit" where
  "validate_device_id d =
     (if trim d = []
      then Inl (trust_error ''COMPANION_PAIRING_DEVICE_ID_MISSING''
        ''Companion pairing requires a non-empty deviceId.'' False)
      else Inr ())"

definition validate_fingerprint :: "(string \<Rightarrow> string) \<Rightarrow> string \<Rightarrow> app_error + unit" where
  "validate_fingerprint ulow fp =
     (let normalized = normalize_fingerprint ulow fp in
      if length normalized \<noteq> 64 \<or> \<not> list_all is_ascii_hexdigit normalized
      then Inl (trust_error ''COMPANION_CERT_FINGERPRINT_INVALID''
        ''Companion certificate fingerprint must be a SHA-256 hex string.'' False)
      else Inr ())"

subsection \<open>The file\<close>

text \<open>\<open>order\<close> is the order in which the hash map of trusted devices happens to be iterated.\<close>

definition empty_store :: trust_store where
  "empty_store = \<lparr>ts_pending = Map.empty, ts_trusted = []\<rparr>"

fun load_devices ::
    "(string \<Rightarrow> string) \<Rightarrow> trusted list \<Rightarrow> trust_store \<Rightarrow> app_error + trust_store" where
  "load_devices ulow [] st = Inr st"
| "load_devices ulow (d # ds) st =
     on_ok (validate_device_id (td_device_id d)) (\<lambda>_.
     on_ok (validate_fingerprint ulow (td_fingerprint d)) (\<lambda>_.
       load_devices ulow ds
         (st\<lparr>ts_trusted := bt_insert (td_device_id d) d (ts_trusted st)\<rparr>)))"

definition load_trusted_devices_from_file ::
    "(string \<Rightarrow> string) \<Rightarrow> trust_disk \<Rightarrow> app_error + trust_store" where
  "load_trusted_devices_from_file ulow disk =
     (case disk of
        Trust_missing \<Rightarrow> Inr empty_store
      | Trust_unreadable c \<Rightarrow>
          Inl (with_cause c (trust_error ''COMPANION_TRUST_STORE_READ_FAILED''
            ''Core failed to read companion trust store file.'' True))
      | Trust_unparsable c \<Rightarrow>
          Inl (with_cause c (trust_error ''COMPANION_TRUST_STORE_PARSE_FAILED''
            ''Core failed to parse companion trust store JSON.'' False))
      | Trust_parsed f \<Rightarrow>
          if tf_schema_version f \<noteq> trust_store_schema_version
          then Inl (with_suggestion
            (''Expected schemaVersion '' @ show_nat trust_store_schema_version @ '', got '' @
             show_nat (tf_schema_version f) @ ''.'')
            (trust_error ''COMPANION_TRUST_STORE_SCHEMA_UNSUPPORTED''
              ''Companion trust store schema version is not supported.'' False))
          else load_devices ulow (tf_trusted_devices f) empty_store)"

definition save_trusted_devices_to_file ::
    "save_reply \<Rightarrow> nat list \<Rightarrow> trust_store \<Rightarrow> trust_disk \<Rightarrow> (app_error + unit) \<times> trust_disk" where
  "save_trusted_devices_to_file reply order st disk =
     (case reply of
        Save_ok \<Rightarrow>
          (Inr (), Trust_parsed \<lparr>tf_schema_version = trust_store_schema_version,
                                 tf_trusted_devices = map snd (iterate order (ts_trusted st))\<rparr>)
      | Save_dir_failed c \<Rightarrow>
          (Inl (with_cause c (trust_error ''COMPANION_TRUST_STORE_DIR_CREATE_FAILED''
            ''Core failed to create companion trust store directory.'' True)), disk)
      | Save_serialize_failed c \<Rightarrow>
          (Inl (with_cause c (trust_error ''COMPANION_TRUST_STORE_SERIALIZE_FAILED''
            ''Core failed to serialize companion trust store JSON.'' False)), disk)
      | Save_write_failed c left \<Rightarrow>
          (Inl (with_cause c (trust_error ''COMPANION_TRUST_STORE_WRITE_FAILED''
            ''Core failed to write companion trust store file.'' True)), left))"

subsection \<open>Pairing and trust\<close>

text \<open>The arguments \<open>rid\<close> and \<open>rcode\<close> are the random numbers: a \<open>u64\<close>, and one below 1000000.\<close>

definition new_challenge ::
    "(string \<Rightarrow> string) \<Rightarrow> 64 word \<Rightarrow> nat \<Rightarrow> pairing_request \<Rightarrow> 64 word \<Rightarrow> challenge" where
  "new_challenge ulow rid rcode rq now =
     \<lparr>ch_pairing_id = ''pair-'' @ pad_left 16 (show_base 16 (unat rid)),
      ch_device_id = pq_device_id rq, ch_device_name = pq_device_name rq,
      ch_fingerprint = normalize_fingerprint ulow (pq_fingerprint rq),
      ch_short_code = pad_left 6 (show_nat rcode), ch_created_at = now,
      ch_expires_at = now + pairing_ttl_ms, ch_attempts_remaining = max_pairing_attempts\<rparr>"

definition begin_pairing ::
    "(string \<Rightarrow> string) \<Rightarrow> 64 word \<Rightarrow> nat \<Rightarrow> pairing_request \<Rightarrow> 64 word \<Rightarrow> trust_store \<Rightarrow>
     (app_error + challenge) \<times> trust_store" where
  "begin_pairing ulow rid rcode rq now st =
     (case validate_device_id (pq_device_id rq) of Inl e \<Rightarrow> (Inl e, st) | Inr _ \<Rightarrow>
      (case validate_fingerprint ulow (pq_fingerprint rq) of Inl e \<Rightarrow> (Inl e, st) | Inr _ \<Rightarrow>
       (let c = new_challenge ulow rid rcode rq now in
        (Inr c, st\<lparr>ts_pending := (ts_pending st)(ch_pairing_id c \<mapsto> c)\<rparr>))))"

definition pairing_not_found :: app_error where
  "pairing_not_found =
     trust_error ''COMPANION_PAIRING_NOT_FOUND''
       ''Companion pairing challenge does not exist or has already been consumed.'' True"

definition pairing_expired :: app_error where
  "pairing_expired =
     trust_error ''COMPANION_PAIRING_EXPIRED'' ''Companion pairing challenge has expired.'' True"

definition code_mismatch :: "nat \<Rightarrow> app_error" where
  "code_mismatch remaining =
     with_suggestion (''Pairing attempts remaining: '' @ show_nat remaining)
       (trust_error ''COMPANION_PAIRING_CODE_MISMATCH''
          ''Companion pairing short code does not match.'' True)"

definition trusted_from :: "challenge \<Rightarrow> 64 word \<Rightarrow> trusted" where
  "trusted_from c now =
     \<lparr>td_device_id = ch_device_id c, td_device_name = ch_device_name c,
      td_fingerprint = ch_fingerprint c, td_trusted_at = now,
      td_expires_at = now + trust_ttl_ms, td_revoked_at = None\<rparr>"

definition confirm_pairing ::
    "string \<Rightarrow> string \<Rightarrow> 64 word \<Rightarrow> trust_store \<Rightarrow> (app_error + trusted) \<times> trust_store" where
  "confirm_pairing pairing_id short_code now st =
     (case ts_pending st pairing_id of
        None \<Rightarrow> (Inl pairing_not_found, st)
      | Some c \<Rightarrow>
          if now > ch_expires_at c
          then (Inl pairing_expired, st\<lparr>ts_pending := (ts_pending st)(pairing_id := None)\<rparr>)
          else if ch_short_code c \<noteq> short_code
          then (let remaining = ch_attempts_remaining c - 1 in
                (Inl (code_mismatch remaining),
                 st\<lparr>ts_pending := (ts_pending st)(pairing_id :=
                   (if remaining = 0 then None
                    else Some (c\<lparr>ch_attempts_remaining := remaining\<rparr>)))\<rparr>))
          else (Inr (trusted_from c now),
                st\<lparr>ts_pending := (ts_pending st)(pairing_id := None),
                   ts_trusted := bt_insert (ch_device_id c) (trusted_from c now) (ts_trusted st)\<rparr>))"

definition is_trusted :: "(string \<Rightarrow> string) \<Rightarrow> string \<Rightarrow> string \<Rightarrow> 64 word \<Rightarrow> trust_store \<Rightarrow> bool" where
  "is_trusted ulow device_id fp now st =
     (case bt_get device_id (ts_trusted st) of
        None \<Rightarrow> False
      | Some d \<Rightarrow>
          td_revoked_at d = None \<and> now \<le> td_expires_at d \<and>
          td_fingerprint d = normalize_fingerprint ulow fp)"

definition device_not_found :: app_error where
  "device_not_found =
     trust_error ''COMPANION_TRUST_DEVICE_NOT_FOUND''
       ''Trusted companion device does not exist.'' True"

definition revoke_device ::
    "string \<Rightarrow> 64 word \<Rightarrow> trust_store \<Rightarrow> (app_error + trusted) \<times> trust_store" where
  "revoke_device device_id now st =
     (case bt_get device_id (ts_trusted st) of
        None \<Rightarrow> (Inl device_not_found, st)
      | Some d \<Rightarrow>
          (Inr (d\<lparr>td_revoked_at := Some now\<rparr>),
           st\<lparr>ts_trusted := bt_insert device_id (d\<lparr>td_revoked_at := Some now\<rparr>) (ts_trusted st)\<rparr>))"

end
