(* ===== verification/Companion_Trust_Facts.thy ===== *)
theory Companion_Trust_Facts
  imports Companion_Trust
begin

text \<open>
  Facts about pairing and trust: fingerprints, the bound on guesses, what a confirmation and a
  revocation grant and withdraw, and the file.
\<close>

subsection \<open>Fingerprints\<close>

lemma validate_device_id_Inr_iff [ok_iff]: "validate_device_id d = Inr u \<longleftrightarrow> trim d \<noteq> []"
  by (simp add: validate_device_id_def)

lemma validate_fingerprint_Inr_iff [ok_iff]:
  "validate_fingerprint ulow fp = Inr u \<longleftrightarrow>
     length (normalize_fingerprint ulow fp) = 64 \<and>
     list_all is_ascii_hexdigit (normalize_fingerprint ulow fp)"
  by (simp add: validate_fingerprint_def Let_def)

lemma hexdigit_ascii: "is_ascii_hexdigit c \<Longrightarrow> byte c < 128"
  by (auto simp: is_ascii_hexdigit_def is_ascii_digit_def)

lemma hexdigit_kept: "is_ascii_hexdigit c \<Longrightarrow> \<not> (c = CHR '':'' \<or> is_ascii_whitespace c)"
  by (auto simp: is_ascii_hexdigit_def is_ascii_digit_def is_ascii_whitespace_def byte_def)

lemma byte_char_of: "n < 256 \<Longrightarrow> byte (char_of n) = n"
  by (simp add: byte_def)

lemma hexdigit_lower: "is_ascii_hexdigit c \<Longrightarrow> is_ascii_hexdigit (ascii_lower c)"
  by (auto simp: ascii_lower_def is_ascii_upper_def is_ascii_hexdigit_def is_ascii_digit_def byte_char_of)

lemma normalize_ascii:
  "list_all (\<lambda>c. byte c < 128) fp \<Longrightarrow>
   normalize_fingerprint ulow fp =
     map ascii_lower (filter (\<lambda>c. \<not> (c = CHR '':'' \<or> is_ascii_whitespace c)) fp)"
proof -
  have "list_all (\<lambda>c. byte c < 128) xs \<Longrightarrow>
      concat (map (lower_fingerprint_char ulow) (map (\<lambda>c. [c]) xs)) =
        map ascii_lower (filter (\<lambda>c. \<not> (c = CHR '':'' \<or> is_ascii_whitespace c)) xs)" for xs
    by (induction xs) (simp_all add: lower_fingerprint_char_def)
  then show "list_all (\<lambda>c. byte c < 128) fp \<Longrightarrow> ?thesis"
    by (simp add: normalize_fingerprint_def utf8_chars_ascii)
qed

lemma normalize_hex:
  assumes "list_all is_ascii_hexdigit fp"
  shows "normalize_fingerprint ulow fp = map ascii_lower fp"
proof -
  have "list_all (\<lambda>c. byte c < 128) fp"
    using assms by (rule list.pred_mono_strong) (rule hexdigit_ascii)
  moreover have "filter (\<lambda>c. \<not> (c = CHR '':'' \<or> is_ascii_whitespace c)) fp = fp"
    using assms by (intro filter_True) (auto simp: list_all_iff dest: hexdigit_kept)
  ultimately show ?thesis by (simp only: normalize_ascii)
qed

lemma validate_normalized:
  assumes "validate_fingerprint ulow fp = Inr ()"
  shows "validate_fingerprint ulow (normalize_fingerprint ulow fp) = Inr ()"
  using assms by (auto simp: validate_fingerprint_Inr_iff normalize_hex list_all_iff hexdigit_lower)

subsection \<open>Results\<close>

lemma begin_pairing_Inr_iff:
  "begin_pairing ulow rid rcode rq now st = (Inr c, st') \<longleftrightarrow>
     trim (pq_device_id rq) \<noteq> [] \<and> validate_fingerprint ulow (pq_fingerprint rq) = Inr () \<and>
     c = new_challenge ulow rid rcode rq now \<and>
     st' = st\<lparr>ts_pending := (ts_pending st)(ch_pairing_id c \<mapsto> c)\<rparr>"
  by (auto simp: begin_pairing_def Let_def ok_iff)

lemma confirm_pairing_Inr_iff:
  "confirm_pairing i code now st = (Inr d, st') \<longleftrightarrow>
     (\<exists>c. ts_pending st i = Some c \<and> now \<le> ch_expires_at c \<and> ch_short_code c = code \<and>
        d = trusted_from c now \<and>
        st' = st\<lparr>ts_pending := (ts_pending st)(i := None),
                 ts_trusted := bt_insert (ch_device_id c) d (ts_trusted st)\<rparr>)"
  by (auto simp: confirm_pairing_def Let_def ok_iff)

lemma revoke_device_Inr_iff:
  "revoke_device i now st = (Inr d', st') \<longleftrightarrow>
     (\<exists>d. bt_get i (ts_trusted st) = Some d \<and> d' = d\<lparr>td_revoked_at := Some now\<rparr> \<and>
        st' = st\<lparr>ts_trusted := bt_insert i d' (ts_trusted st)\<rparr>)"
  by (auto simp: revoke_device_def ok_iff)

subsection \<open>Invariant\<close>

definition challenge_ok :: "(string \<Rightarrow> string) \<Rightarrow> string \<Rightarrow> challenge \<Rightarrow> bool" where
  "challenge_ok ulow i c \<longleftrightarrow>
     ch_pairing_id c = i \<and> 1 \<le> ch_attempts_remaining c \<and>
     ch_attempts_remaining c \<le> max_pairing_attempts \<and>
     trim (ch_device_id c) \<noteq> [] \<and> validate_fingerprint ulow (ch_fingerprint c) = Inr ()"

definition trusted_ok :: "(string \<Rightarrow> string) \<Rightarrow> string \<Rightarrow> trusted \<Rightarrow> bool" where
  "trusted_ok ulow i d \<longleftrightarrow>
     td_device_id d = i \<and> trim i \<noteq> [] \<and> validate_fingerprint ulow (td_fingerprint d) = Inr ()"

definition store_ok :: "(string \<Rightarrow> string) \<Rightarrow> trust_store \<Rightarrow> bool" where
  "store_ok ulow st \<longleftrightarrow>
     (\<forall>i c. ts_pending st i = Some c \<longrightarrow> challenge_ok ulow i c) \<and>
     bt_ok (ts_trusted st) \<and>
     (\<forall>i d. bt_get i (ts_trusted st) = Some d \<longrightarrow> trusted_ok ulow i d)"

lemma store_ok_empty: "store_ok ulow empty_store"
  by (simp add: store_ok_def empty_store_def bt_ok_def keys_def bt_get_def)

lemma store_ok_begin:
  assumes "store_ok ulow st"
  shows "store_ok ulow (snd (begin_pairing ulow rid rcode rq now st))"
proof -
  have "challenge_ok ulow (ch_pairing_id (new_challenge ulow rid rcode rq now)) (new_challenge ulow rid rcode rq now)"
    if "trim (pq_device_id rq) \<noteq> []" "validate_fingerprint ulow (pq_fingerprint rq) = Inr ()"
    using that validate_normalized by (simp add: challenge_ok_def new_challenge_def max_pairing_attempts_def)
  then show ?thesis
    using assms by (auto simp: begin_pairing_def Let_def store_ok_def ok_iff validate_device_id_def
        split: sum.splits)
qed

lemma store_ok_confirm:
  assumes "store_ok ulow st"
  shows "store_ok ulow (snd (confirm_pairing i code now st))"
proof (cases "ts_pending st i")
  case None
  then show ?thesis using assms by (simp add: confirm_pairing_def)
next
  case (Some c)
  then have c: "challenge_ok ulow i c" using assms by (simp add: store_ok_def)
  then have t: "trusted_ok ulow (ch_device_id c) (trusted_from c now)"
    by (simp add: challenge_ok_def trusted_ok_def trusted_from_def)
  have "ch_attempts_remaining c - 1 \<noteq> 0 \<Longrightarrow>
      challenge_ok ulow i (c\<lparr>ch_attempts_remaining := ch_attempts_remaining c - 1\<rparr>)"
    using c by (auto simp: challenge_ok_def)
  then show ?thesis
    using assms t Some
    by (auto simp: confirm_pairing_def Let_def store_ok_def bt_ok_insert)
qed

lemma store_ok_revoke: "store_ok ulow st \<Longrightarrow> store_ok ulow (snd (revoke_device i now st))"
  by (auto simp: revoke_device_def store_ok_def bt_ok_insert trusted_ok_def split: option.splits)

inductive trust_step :: "(string \<Rightarrow> string) \<Rightarrow> trust_store \<Rightarrow> trust_store \<Rightarrow> bool" for ulow where
  trust_begin: "trust_step ulow st (snd (begin_pairing ulow rid rcode rq now st))"
| trust_confirm: "trust_step ulow st (snd (confirm_pairing i code now st))"
| trust_revoke: "trust_step ulow st (snd (revoke_device i now st))"

inductive_cases trust_stepE: "trust_step ulow st st'"

lemma load_devices_ok:
  "load_devices ulow ds st = Inr st' \<Longrightarrow> store_ok ulow st \<Longrightarrow> store_ok ulow st'"
proof (induction ds arbitrary: st)
  case Nil
  then show ?case by simp
next
  case (Cons d ds)
  then have "store_ok ulow (st\<lparr>ts_trusted := bt_insert (td_device_id d) d (ts_trusted st)\<rparr>)"
    by (auto simp: ok_iff store_ok_def bt_ok_insert trusted_ok_def)
  with Cons show ?case by (auto simp: ok_iff)
qed

definition trust_start :: "(string \<Rightarrow> string) \<Rightarrow> trust_store \<Rightarrow> bool" where
  "trust_start ulow st \<longleftrightarrow> (\<exists>disk. load_trusted_devices_from_file ulow disk = Inr st)"

lemma trust_start_ok:
  assumes "trust_start ulow st"
  shows "store_ok ulow st"
proof -
  obtain disk where "load_trusted_devices_from_file ulow disk = Inr st"
    using assms by (auto simp: trust_start_def)
  then show ?thesis
    using load_devices_ok store_ok_empty
    by (cases disk) (auto simp: load_trusted_devices_from_file_def split: if_splits)
qed

interpretation trust: invariant_machine "trust_start ulow" "trust_step ulow" "store_ok ulow" for ulow
  by unfold_locales
    (auto intro: trust_start_ok store_ok_begin store_ok_confirm store_ok_revoke elim!: trust_stepE)

subsection \<open>Properties\<close>

text \<open>A sequence of confirmations of one pairing, each with its code and its time.\<close>

definition guesses :: "string \<Rightarrow> (string \<times> 64 word) list \<Rightarrow> trust_store \<Rightarrow> trust_store" where
  "guesses i gs st = foldl (\<lambda>s g. snd (confirm_pairing i (fst g) (snd g) s)) st gs"

lemma guesses_wrong:
  assumes "ts_pending st i = Some c" and "1 \<le> ch_attempts_remaining c"
    and "\<forall>g \<in> set gs. fst g \<noteq> ch_short_code c \<and> snd g \<le> ch_expires_at c"
  shows "ts_pending (guesses i gs st) i =
           (if length gs < ch_attempts_remaining c
            then Some (c\<lparr>ch_attempts_remaining := ch_attempts_remaining c - length gs\<rparr>) else None)
         \<and> ts_trusted (guesses i gs st) = ts_trusted st"
  using assms
proof (induction gs arbitrary: c st)
  case Nil
  then show ?case by (simp add: guesses_def)
next
  case (Cons g gs)
  let ?st = "snd (confirm_pairing i (fst g) (snd g) st)"
  have step: "?st = st\<lparr>ts_pending := (ts_pending st)(i :=
       (if ch_attempts_remaining c - 1 = 0 then None
        else Some (c\<lparr>ch_attempts_remaining := ch_attempts_remaining c - 1\<rparr>)))\<rparr>"
  proof -
    have "ch_short_code c \<noteq> fst g" "\<not> ch_expires_at c < snd g" using Cons.prems(3) by auto
    then show ?thesis by (simp add: confirm_pairing_def Let_def Cons.prems(1))
  qed
  have g: "guesses i (g # gs) st = guesses i gs ?st" by (simp add: guesses_def)
  show ?case
  proof (cases "ch_attempts_remaining c = 1")
    case True
    then have none: "ts_pending ?st i = None" by (simp add: step)
    have "ts_pending s i = None \<Longrightarrow> guesses i gs s = s" for s
      by (induction gs) (simp_all add: guesses_def confirm_pairing_def)
    then have "guesses i gs ?st = ?st" using none by blast
    then show ?thesis using True by (simp add: g step)
  next
    case False
    let ?c = "c\<lparr>ch_attempts_remaining := ch_attempts_remaining c - 1\<rparr>"
    have "ts_pending ?st i = Some ?c" using False Cons.prems by (simp add: step)
    from Cons.IH [OF this] False Cons.prems show ?thesis by (auto simp: g step)
  qed
qed

text \<open>C18. Guessing a pairing code is bounded: in every reachable store a pending challenge
  has at least one and at most five attempts left, and after that many wrong codes it is gone,
  so that even the right code is refused and no device has become trusted on the way.\<close>

theorem pairing_guesses_bounded:
  assumes "reachable (trust_start ulow) (trust_step ulow) st" and "ts_pending st i = Some c"
    and "\<forall>g \<in> set gs. fst g \<noteq> ch_short_code c \<and> snd g \<le> ch_expires_at c"
    and "length gs = max_pairing_attempts"
  shows "1 \<le> ch_attempts_remaining c \<and> ch_attempts_remaining c \<le> max_pairing_attempts \<and>
         ts_trusted (guesses i gs st) = ts_trusted st \<and>
         confirm_pairing i (ch_short_code c) now (guesses i gs st) =
           (Inl pairing_not_found, guesses i gs st)"
proof -
  have c: "challenge_ok ulow i c"
    using trust.reach_inv [OF assms(1)] assms(2) by (simp add: store_ok_def)
  then show ?thesis
    using guesses_wrong [OF assms(2) _ assms(3)] assms(4)
    by (simp add: challenge_ok_def confirm_pairing_def)
qed

text \<open>A confirmation grants trust to exactly what was paired: afterwards the device is trusted
  for a fingerprint iff that fingerprint normalises to the challenge's, until the trust period
  ends; every other device is trusted exactly as before; and the challenge is consumed.\<close>

theorem confirm_grants_trust:
  assumes "confirm_pairing i code now st = (Inr d, st')"
  shows "\<exists>c. ts_pending st i = Some c \<and> code = ch_short_code c \<and> now \<le> ch_expires_at c \<and>
           ts_pending st' i = None \<and>
           (\<forall>fp t. is_trusted ulow (ch_device_id c) fp t st' \<longleftrightarrow>
              t \<le> now + trust_ttl_ms \<and> normalize_fingerprint ulow fp = ch_fingerprint c) \<and>
           (\<forall>k fp t. k \<noteq> ch_device_id c \<longrightarrow> is_trusted ulow k fp t st' = is_trusted ulow k fp t st)"
  using assms by (auto simp: confirm_pairing_Inr_iff is_trusted_def trusted_from_def)

text \<open>A revoked device is trusted for no fingerprint at no time; the other devices keep their
  trust, and only pairing the device again restores it.\<close>

theorem revocation_is_final:
  assumes "revoke_device k now st = (Inr d, st')"
  shows "(\<forall>fp t. \<not> is_trusted ulow k fp t st') \<and>
         (\<forall>j fp t. j \<noteq> k \<longrightarrow> is_trusted ulow j fp t st' = is_trusted ulow j fp t st) \<and>
         (\<forall>st''. trust_step ulow st' st'' \<longrightarrow> (\<exists>fp t. is_trusted ulow k fp t st'') \<longrightarrow>
            (\<exists>i c t. ts_pending st' i = Some c \<and> ch_device_id c = k \<and>
               st'' = snd (confirm_pairing i (ch_short_code c) t st')))"
proof -
  obtain d0 where d0: "bt_get k (ts_trusted st') = Some d0" "td_revoked_at d0 \<noteq> None"
    using assms by (auto simp: revoke_device_Inr_iff)
  then have no: "\<not> is_trusted ulow k fp t s" if "bt_get k (ts_trusted s) = Some d0" for fp t s
    using that by (auto simp: is_trusted_def)
  have "\<exists>i c t. ts_pending st' i = Some c \<and> ch_device_id c = k \<and>
      st'' = snd (confirm_pairing i (ch_short_code c) t st')"
    if step: "trust_step ulow st' st''" and tr: "is_trusted ulow k fp t st''" for st'' fp t
    using step
  proof (cases rule: trust_step.cases)
    case (trust_begin rid rcode rq now')
    have "ts_trusted (snd (begin_pairing ulow rid rcode rq now' st')) = ts_trusted st'"
      by (simp add: begin_pairing_def Let_def split: sum.splits)
    then show ?thesis using trust_begin tr no [of st'' fp t] d0 by simp
  next
    case (trust_revoke i now')
    have "\<not> is_trusted ulow k fp t (snd (revoke_device i now' st'))"
      using d0 by (auto simp: revoke_device_def is_trusted_def split: option.splits)
    then show ?thesis using trust_revoke tr by simp
  next
    case (trust_confirm i code now')
    show ?thesis
    proof (cases "\<exists>c. ts_pending st' i = Some c \<and> code = ch_short_code c \<and> ch_device_id c = k")
      case True
      then show ?thesis using trust_confirm by blast
    next
      case False
      then have "bt_get k (ts_trusted st'') = Some d0"
        using d0 trust_confirm by (auto simp: confirm_pairing_def Let_def split: option.splits)
      then show ?thesis using tr no by blast
    qed
  qed
  then show ?thesis
    using no d0 assms by (auto simp: revoke_device_Inr_iff is_trusted_def)
qed

lemma load_devices_rebuild:
  assumes "bt_ok as" and "distinct (map td_device_id ds)"
    and "\<forall>d \<in> set ds. trusted_ok ulow (td_device_id d) d"
  shows "\<exists>m. load_devices ulow ds \<lparr>ts_pending = p, ts_trusted = as\<rparr> =
             Inr \<lparr>ts_pending = p, ts_trusted = m\<rparr> \<and> bt_ok m \<and>
           (\<forall>k. bt_get k m = (case map_of (map (\<lambda>d. (td_device_id d, d)) ds) k of
              None \<Rightarrow> bt_get k as | Some d \<Rightarrow> Some d))"
  using assms
proof (induction ds arbitrary: as)
  case (Cons d ds)
  let ?as = "bt_insert (td_device_id d) d as"
  have v: "validate_device_id (td_device_id d) = Inr ()" "validate_fingerprint ulow (td_fingerprint d) = Inr ()"
    using Cons.prems(3) by (auto simp: trusted_ok_def validate_device_id_def)
  have "map_of (map (\<lambda>d. (td_device_id d, d)) ds) (td_device_id d) = None"
    using Cons.prems(2) by (simp add: map_of_eq_None_iff image_image)
  then show ?case
    using Cons.IH [OF bt_ok_insert [OF Cons.prems(1)], of "td_device_id d" d] Cons.prems v
    by (fastforce split: option.splits)
qed simp

text \<open>C26. Saving and loading: the trusted devices of every reachable store, revocations included,
  are exactly what loading the saved file yields, in whatever order the hash map was written out,
  and no pending pairing survives.\<close>

theorem trust_file_roundtrip:
  assumes "reachable (trust_start ulow) (trust_step ulow) st"
  shows "save_trusted_devices_to_file Save_ok order st disk = (Inr (), saved) \<longrightarrow>
           load_trusted_devices_from_file ulow saved =
             Inr \<lparr>ts_pending = Map.empty, ts_trusted = ts_trusted st\<rparr>"
proof -
  let ?m = "ts_trusted st" and ?ds = "map snd (iterate order (ts_trusted st))"
  have ok: "store_ok ulow st" using trust.reach_inv [OF assms] .
  then have sorted: "bt_ok ?m" by (simp add: store_ok_def)
  have entry: "trusted_ok ulow k d" if "(k, d) \<in> set ?m" for k d
    using ok that bt_ok_distinct [of ?m] by (auto simp: store_ok_def bt_get_def)
  then have pairs: "map (\<lambda>d. (td_device_id d, d)) ?ds = iterate order ?m"
    by (auto simp: trusted_ok_def intro!: map_idI)
  have distinct: "distinct (map fst ?m)" "distinct (map fst (iterate order ?m))"
    using bt_ok_distinct [OF sorted] by simp_all
  have ids: "map td_device_id ?ds = map fst (iterate order ?m)"
    using arg_cong [OF pairs, of "map fst"] by (simp add: comp_def)
  have good: "\<forall>d \<in> set ?ds. trusted_ok ulow (td_device_id d) d"
    using entry by (auto simp: trusted_ok_def)
  have "distinct (map td_device_id ?ds)" using distinct(2) by (simp only: ids)
  moreover have "bt_ok ([] :: (string, trusted) btree_map)" by (simp add: bt_ok_def keys_def)
  ultimately obtain m where
    "load_devices ulow ?ds \<lparr>ts_pending = Map.empty, ts_trusted = []\<rparr> = Inr \<lparr>ts_pending = Map.empty, ts_trusted = m\<rparr>"
    and m: "bt_ok m" and get: "\<forall>k. bt_get k m =
      (case map_of (iterate order ?m) k of None \<Rightarrow> bt_get k [] | Some d \<Rightarrow> Some d)"
    using load_devices_rebuild [OF _ _ good, of "[]" Map.empty] unfolding pairs by blast
  then have load: "load_devices ulow ?ds empty_store = Inr \<lparr>ts_pending = Map.empty, ts_trusted = m\<rparr>"
    by (simp only: empty_store_def)
  have "bt_get k m = map_of (iterate order ?m) k" for k
    using get by (simp add: bt_get_def split: option.splits)
  moreover have "map_of (iterate order ?m) = map_of ?m"
    using map_of_inject_set [OF distinct(2,1)] by simp
  ultimately have "m = ?m" using m sorted by (intro bt_eqI) (simp_all add: bt_get_def)
  with load show ?thesis
    by (auto simp: save_trusted_devices_to_file_def load_trusted_devices_from_file_def)
qed

text \<open>Loading accepts a fingerprint that can never be trusted: validation normalises the
  stored fingerprint but the store keeps it as written, so a device saved with a colon, white
  space or an upper-case letter in its fingerprint loads without an error and is then refused,
  even for this very fingerprint.\<close>

theorem loaded_unnormalized_never_trusted:
  assumes "trim (td_device_id d) \<noteq> []" and "validate_fingerprint ulow (td_fingerprint d) = Inr ()"
    and "list_all (\<lambda>c. byte c < 128) (td_fingerprint d)"
    and "c \<in> set (td_fingerprint d)" and "c = CHR '':'' \<or> is_ascii_whitespace c \<or> is_ascii_upper c"
  shows "\<exists>st. load_trusted_devices_from_file ulow
             (Trust_parsed \<lparr>tf_schema_version = 1, tf_trusted_devices = [d]\<rparr>) = Inr st \<and>
           (\<forall>now. \<not> is_trusted ulow (td_device_id d) (td_fingerprint d) now st)"
proof -
  let ?n = "map ascii_lower (filter (\<lambda>c. \<not> (c = CHR '':'' \<or> is_ascii_whitespace c)) (td_fingerprint d))"
  have n: "normalize_fingerprint ulow (td_fingerprint d) = ?n" using assms(3) by (rule normalize_ascii)
  have low: "\<not> (is_ascii_upper (ascii_lower x))" for x
    by (auto simp: ascii_lower_def is_ascii_upper_def byte_char_of)
  have kept: "\<not> (ascii_lower x = CHR '':'' \<or> is_ascii_whitespace (ascii_lower x))"
    if "\<not> (x = CHR '':'' \<or> is_ascii_whitespace x)" for x
  proof (cases "is_ascii_upper x")
    case True
    then have b: "97 \<le> byte (ascii_lower x)" by (simp add: ascii_lower_def is_ascii_upper_def byte_char_of)
    moreover have "byte CHR '':'' = 58" by (simp add: byte_def)
    ultimately have "ascii_lower x \<noteq> CHR '':''" by auto
    then show ?thesis using b by (auto simp: is_ascii_whitespace_def)
  qed (use that in \<open>simp add: ascii_lower_def\<close>)
  have "td_fingerprint d \<noteq> ?n"
  proof
    assume "td_fingerprint d = ?n"
    then have "c \<in> set ?n" using assms(4) by simp
    then obtain x where "c = ascii_lower x" "\<not> (x = CHR '':'' \<or> is_ascii_whitespace x)" by auto
    then show False using low [of x] kept [of x] assms(5) by auto
  qed
  then show ?thesis
    using assms(1,2)
    by (simp add: load_trusted_devices_from_file_def trust_store_schema_version_def ok_iff
        validate_device_id_def is_trusted_def n [simplified] empty_store_def bt_get_def)
qed

end
