(* ===== verification/Companion_Ingress.thy ===== *)
theory Companion_Ingress
  imports Companion_Session_Facts Media_Store Companion_Trust_Facts
begin

text \<open>
  \<open>companion/ingress.rs\<close>, \<open>companion/trusted_ingress.rs\<close> and \<open>companion/listener.rs\<close>: the
  entrance for messages of a companion. It sends session messages to the session manager,
  stores media chunks, acknowledges terminal responses, and answers every failure with an error
  envelope. The trusted variant first checks the sender's trust. \<open>parse\<close> is what
  \<open>serde_json::from_slice\<close> makes of the bytes.
\<close>

record ingress =
  ig_sessions :: sessions
  ig_media_root :: "string option"
  ig_media_chunk_count :: nat
  ig_fs :: media_fs

definition new_ingress :: "sessions \<Rightarrow> string option \<Rightarrow> media_fs \<Rightarrow> ingress" where
  "new_ingress ss root fs =
     \<lparr>ig_sessions = ss, ig_media_root = root, ig_media_chunk_count = 0, ig_fs = fs\<rparr>"

definition ingress_error :: "string \<Rightarrow> string \<Rightarrow> app_error" where
  "ingress_error code msg = new_error code msg ''companion.ingress'' False"

definition ack_envelope :: "envelope \<Rightarrow> json \<Rightarrow> envelope" where
  "ack_envelope e payload =
     \<lparr>ev_protocol = companion_protocol, ev_version = companion_protocol_version,
      ev_message_id = ''ingress-ack-'' @ ev_message_id e, ev_trace_id = ev_trace_id e,
      ev_device_id = ev_device_id e, ev_channel = Control, ev_kind = CommandResponse,
      ev_payload = payload\<rparr>"

definition error_payload :: "app_error \<Rightarrow> json" where
  "error_payload err =
     JObj [(''errorCode'', JStr (error_code err)), (''message'', JStr (message err)),
           (''module'', JStr (err_module err)), (''recoverable'', JBool (recoverable err)),
           (''suggestion'', case suggestion err of None \<Rightarrow> JNull | Some s \<Rightarrow> JStr s)]"

definition error_envelope ::
    "string option \<Rightarrow> string option \<Rightarrow> string option \<Rightarrow> app_error \<Rightarrow> envelope" where
  "error_envelope trace device source err =
     \<lparr>ev_protocol = companion_protocol, ev_version = companion_protocol_version,
      ev_message_id = (case source of None \<Rightarrow> ''ingress-error'' | Some m \<Rightarrow> ''ingress-error-'' @ m),
      ev_trace_id = trace, ev_device_id = device, ev_channel = Control, ev_kind = ErrorMessage,
      ev_payload = error_payload err\<rparr>"

definition stored_fields :: "stored_chunk \<Rightarrow> json \<Rightarrow> json" where
  "stored_fields ch payload =
     json_put ''storedPath'' (JStr (sc_path ch))
       (json_put ''storedSizeBytes'' (JInt (int (sc_size_bytes ch)))
         (json_put ''storedChunkIndex'' (JInt (int (sc_chunk_index ch)))
           (json_put ''storedSessionId'' (JStr (sc_session_id ch))
             (json_put ''stored'' (JBool True) payload))))"

definition media_payload :: "message_kind \<Rightarrow> nat \<Rightarrow> stored_chunk option \<Rightarrow> json" where
  "media_payload kind count stored =
     (let payload = JObj [(''accepted'', JBool True), (''media'', JBool True),
                          (''receivedKind'', JStr (kind_name kind)),
                          (''receivedChunkCount'', JInt (int count))]
      in case stored of None \<Rightarrow> payload | Some ch \<Rightarrow> stored_fields ch payload)"

definition handle_media_envelope ::
    "(string \<Rightarrow> string + string) \<Rightarrow> media_reply \<Rightarrow> envelope \<Rightarrow> ingress \<Rightarrow>
     (app_error + envelope) \<times> ingress" where
  "handle_media_envelope b64 reply e ig =
     (if ev_channel e \<noteq> Media
      then (Inl (ingress_error ''COMPANION_MEDIA_CHANNEL_INVALID''
             ''Media stream messages must use the media channel.''), ig)
      else if ev_kind e = StreamChunk
      then (let ig1 = ig\<lparr>ig_media_chunk_count := ig_media_chunk_count ig + 1\<rparr> in
            case (case ig_media_root ig of
                    None \<Rightarrow> (Inr None, ig_fs ig)
                  | Some root \<Rightarrow> store_envelope b64 reply root e (ig_fs ig)) of
              (r, fs) \<Rightarrow>
                (map_sum id
                   (\<lambda>ch. ack_envelope e (media_payload (ev_kind e) (ig_media_chunk_count ig1) ch)) r,
                 ig1\<lparr>ig_fs := fs\<rparr>))
      else (Inr (ack_envelope e (media_payload (ev_kind e) (ig_media_chunk_count ig) None)), ig))"

definition ack_terminal_response :: "envelope \<Rightarrow> envelope" where
  "ack_terminal_response e =
     ack_envelope e (JObj [(''accepted'', JBool True), (''terminalResponse'', JBool True),
                           (''receivedKind'', JStr (kind_name (ev_kind e)))])"

definition wrong_direction :: app_error where
  "wrong_direction =
     ingress_error ''COMPANION_INGRESS_MESSAGE_UNSUPPORTED''
       ''Core ingress received a message kind that is only valid in the opposite direction.''"

definition to_sessions ::
    "serde_text \<Rightarrow> envelope \<Rightarrow> ingress \<Rightarrow> (app_error + envelope) \<times> ingress" where
  "to_sessions sm e ig =
     (case session_handle_envelope sm e (ig_sessions ig) of (r, ss) \<Rightarrow> (r, ig\<lparr>ig_sessions := ss\<rparr>))"

definition dispatch_envelope ::
    "serde_text \<Rightarrow> (string \<Rightarrow> string + string) \<Rightarrow> media_reply \<Rightarrow> envelope \<Rightarrow> ingress \<Rightarrow>
     (app_error + envelope) \<times> ingress" where
  "dispatch_envelope sm b64 reply e ig =
     (case validate_quic_envelope e of
        Inl err \<Rightarrow> (Inl err, ig)
      | Inr _ \<Rightarrow>
          (case ev_kind e of
             Hello \<Rightarrow> to_sessions sm e ig
           | CapabilityList \<Rightarrow> to_sessions sm e ig
           | PermissionState \<Rightarrow> to_sessions sm e ig
           | Heartbeat \<Rightarrow> to_sessions sm e ig
           | StreamOpen \<Rightarrow> handle_media_envelope b64 reply e ig
           | StreamChunk \<Rightarrow> handle_media_envelope b64 reply e ig
           | StreamClose \<Rightarrow> handle_media_envelope b64 reply e ig
           | CommandResponse \<Rightarrow> (Inr (ack_terminal_response e), ig)
           | ErrorMessage \<Rightarrow> (Inr (ack_terminal_response e), ig)
           | HelloAck \<Rightarrow> (Inl wrong_direction, ig)
           | CommandRequest \<Rightarrow> (Inl wrong_direction, ig)))"

text \<open>The \<open>Result\<close> of \<open>handle_envelope\<close> is always \<open>Ok\<close>.\<close>

definition ingress_handle_envelope ::
    "serde_text \<Rightarrow> (string \<Rightarrow> string + string) \<Rightarrow> media_reply \<Rightarrow> envelope \<Rightarrow> ingress \<Rightarrow>
     (app_error + envelope) \<times> ingress" where
  "ingress_handle_envelope sm b64 reply e ig =
     (case dispatch_envelope sm b64 reply e ig of
        (Inr a, ig') \<Rightarrow> (Inr a, ig')
      | (Inl err, ig') \<Rightarrow>
          (Inr (error_envelope (ev_trace_id e) (ev_device_id e) (Some (ev_message_id e)) err), ig'))"

definition ingress_handle_bytes ::
    "serde_text \<Rightarrow> (string \<Rightarrow> string + string) \<Rightarrow> media_reply \<Rightarrow> (string \<Rightarrow> string + envelope) \<Rightarrow>
     string \<Rightarrow> ingress \<Rightarrow> envelope \<times> ingress" where
  "ingress_handle_bytes sm b64 reply parse bytes ig =
     (case parse bytes of
        Inl c \<Rightarrow>
          (error_envelope None None None
             (with_cause c (ingress_error ''COMPANION_INGRESS_INVALID_JSON''
                ''Companion ingress received invalid JSON envelope.'')), ig)
      | Inr e \<Rightarrow>
          (case ingress_handle_envelope sm b64 reply e ig of
             (Inr a, ig') \<Rightarrow> (a, ig')
           | (Inl err, ig') \<Rightarrow> (error_envelope None None None err, ig')))"

text \<open>Both operations of the listener hand the bytes to the ingress.\<close>

definition accept_control_bytes where "accept_control_bytes = ingress_handle_bytes"
definition accept_media_bytes where "accept_media_bytes = ingress_handle_bytes"

subsection \<open>The trusted ingress\<close>

record trusted_ingress =
  ti_ingress :: ingress
  ti_trust_store :: trust_store
  ti_now :: "64 word"

definition trusted_error :: "string \<Rightarrow> string \<Rightarrow> bool \<Rightarrow> app_error" where
  "trusted_error code msg r = new_error code msg ''companion.trusted_ingress'' r"

definition enforce_trust ::
    "(string \<Rightarrow> string) \<Rightarrow> envelope \<Rightarrow> trusted_ingress \<Rightarrow> app_error + unit" where
  "enforce_trust ulow e ti =
     (if ev_kind e = Hello then Inr ()
      else
        on_ok (ok_or (trusted_error ''COMPANION_TRUST_DEVICE_ID_MISSING''
                 ''Trusted companion messages require deviceId after hello.'' False) (ev_device_id e))
          (\<lambda>device_id.
        on_ok (ok_or (trusted_error ''COMPANION_TRUST_FINGERPRINT_MISSING''
                 ''Trusted companion messages require certificateFingerprintSha256 in payload.'' False)
                (get_str ''certificateFingerprintSha256'' (ev_payload e)))
          (\<lambda>fingerprint.
             if is_trusted ulow device_id fingerprint (ti_now ti) (ti_trust_store ti) then Inr ()
             else Inl (trusted_error ''COMPANION_DEVICE_NOT_TRUSTED''
               ''Companion device is not trusted for this certificate fingerprint.'' True))))"

definition trusted_handle_envelope ::
    "(string \<Rightarrow> string) \<Rightarrow> serde_text \<Rightarrow> (string \<Rightarrow> string + string) \<Rightarrow> media_reply \<Rightarrow> envelope \<Rightarrow>
     trusted_ingress \<Rightarrow> (app_error + envelope) \<times> trusted_ingress" where
  "trusted_handle_envelope ulow sm b64 reply e ti =
     (case enforce_trust ulow e ti of
        Inl err \<Rightarrow> (Inl err, ti)
      | Inr _ \<Rightarrow>
          (case ingress_handle_envelope sm b64 reply e (ti_ingress ti) of
             (r, ig) \<Rightarrow> (r, ti\<lparr>ti_ingress := ig\<rparr>)))"

definition trusted_error_envelope :: "app_error \<Rightarrow> envelope" where
  "trusted_error_envelope err =
     \<lparr>ev_protocol = companion_protocol, ev_version = companion_protocol_version,
      ev_message_id = ''trusted-ingress-error'', ev_trace_id = None, ev_device_id = None,
      ev_channel = Control, ev_kind = ErrorMessage, ev_payload = error_payload err\<rparr>"

definition trusted_handle_bytes ::
    "(string \<Rightarrow> string) \<Rightarrow> serde_text \<Rightarrow> (string \<Rightarrow> string + string) \<Rightarrow> media_reply \<Rightarrow>
     (string \<Rightarrow> string + envelope) \<Rightarrow> string \<Rightarrow> trusted_ingress \<Rightarrow> envelope \<times> trusted_ingress" where
  "trusted_handle_bytes ulow sm b64 reply parse bytes ti =
     (case parse bytes of
        Inr e \<Rightarrow>
          (case trusted_handle_envelope ulow sm b64 reply e ti of
             (Inr a, ti') \<Rightarrow> (a, ti')
           | (Inl err, ti') \<Rightarrow> (trusted_error_envelope err, ti'))
      | Inl _ \<Rightarrow>
          (case ingress_handle_bytes sm b64 reply parse bytes (ti_ingress ti) of
             (a, ig) \<Rightarrow> (a, ti\<lparr>ti_ingress := ig\<rparr>)))"

subsection \<open>Facts\<close>

lemma to_sessions_frame [simp]:
  "ig_fs (snd (to_sessions sm e ig)) = ig_fs ig"
  "ig_media_root (snd (to_sessions sm e ig)) = ig_media_root ig"
  "ig_media_chunk_count (snd (to_sessions sm e ig)) = ig_media_chunk_count ig"
  "ig_sessions (snd (to_sessions sm e ig)) = snd (session_handle_envelope sm e (ig_sessions ig))"
  "fst (to_sessions sm e ig) = fst (session_handle_envelope sm e (ig_sessions ig))"
  by (simp_all add: to_sessions_def case_prod_beta)

lemma media_frame [simp]:
  "ig_sessions (snd (handle_media_envelope b64 reply e ig)) = ig_sessions ig"
  "ig_media_root (snd (handle_media_envelope b64 reply e ig)) = ig_media_root ig"
  by (simp_all add: handle_media_envelope_def Let_def case_prod_beta)

text \<open>Whatever the ingress does to the sessions, the session manager did it.\<close>

lemma dispatch_sessions:
  "ig_sessions (snd (dispatch_envelope sm b64 reply e ig)) = ig_sessions ig \<or>
   ig_sessions (snd (dispatch_envelope sm b64 reply e ig)) =
     snd (session_handle_envelope sm e (ig_sessions ig))"
  by (auto simp: dispatch_envelope_def split: sum.splits message_kind.splits)

lemma ingress_snd:
  "snd (ingress_handle_envelope sm b64 reply e ig) = snd (dispatch_envelope sm b64 reply e ig)"
  by (simp add: ingress_handle_envelope_def case_prod_beta split: sum.splits)

lemma ingress_sessions_ok:
  "sessions_ok (ig_sessions ig) \<Longrightarrow>
   sessions_ok (ig_sessions (snd (ingress_handle_envelope sm b64 reply e ig)))"
  using dispatch_sessions [of sm b64 reply e ig] sessions_ok_step by (auto simp: ingress_snd)

lemma enforce_trust_Inr_iff [ok_iff]:
  "enforce_trust ulow e ti = Inr u \<longleftrightarrow>
     ev_kind e = Hello \<or>
     (\<exists>d fp. ev_device_id e = Some d \<and>
        get_str ''certificateFingerprintSha256'' (ev_payload e) = Some fp \<and>
        is_trusted ulow d fp (ti_now ti) (ti_trust_store ti))"
  by (auto simp: enforce_trust_def ok_iff split: if_splits)

lemma session_reply_ok:
  assumes "session_handle_envelope sm e ss = (Inr r, ss')"
  shows "validate_quic_envelope r = Inr () \<and> ev_channel r = Control \<and> ev_trace_id r = ev_trace_id e"
  using assms
  by (auto simp: session_handle_envelope_def handle_hello_Inr_iff handle_capability_list_def
      handle_permission_state_def handle_heartbeat_def ok_iff ack_def hello_ack_def
      split: message_kind.splits)

lemma media_reply_ok:
  assumes "fst (handle_media_envelope b64 reply e ig) = Inr r"
  shows "validate_quic_envelope r = Inr () \<and> ev_channel r = Control \<and> ev_trace_id r = ev_trace_id e"
  using assms
  by (auto simp: handle_media_envelope_def Let_def case_prod_beta ack_envelope_def ok_iff
      map_sum_def split: if_splits sum.splits)

lemma dispatch_reply_ok:
  assumes "fst (dispatch_envelope sm b64 reply e ig) = Inr r"
  shows "validate_quic_envelope r = Inr () \<and> ev_channel r = Control \<and> ev_trace_id r = ev_trace_id e"
proof -
  have sess: "fst (to_sessions sm e ig) = Inr r \<Longrightarrow> ?thesis"
    using session_reply_ok [of sm e "ig_sessions ig" r] by (simp add: prod_eq_iff)
  have done_: "ack_terminal_response e = r \<Longrightarrow> ?thesis"
    by (auto simp: ack_terminal_response_def ack_envelope_def ok_iff)
  show ?thesis
    using assms sess done_ media_reply_ok [of b64 reply e ig r]
    by (simp add: dispatch_envelope_def split: sum.splits message_kind.splits)
qed

lemma dispatch_error_sessions:
  assumes "fst (dispatch_envelope sm b64 reply e ig) = Inl err"
  shows "ig_sessions (snd (dispatch_envelope sm b64 reply e ig)) = ig_sessions ig"
proof -
  have "fst (to_sessions sm e ig) = Inl err \<Longrightarrow> ig_sessions (snd (to_sessions sm e ig)) = ig_sessions ig"
    using session_error_frame [of sm e "ig_sessions ig" err] by (simp add: prod_eq_iff)
  then show ?thesis
    using assms by (simp add: dispatch_envelope_def split: sum.splits message_kind.splits)
qed

text \<open>The ingress never fails: every message gets exactly one reply in the companion protocol,
  on the control channel, with the message's trace id; a refused message gets an error envelope
  that names the message, and changes no session.\<close>

theorem ingress_total:
  assumes "ingress_handle_envelope sm b64 reply e ig = (r, ig')"
  shows "\<exists>a. r = Inr a \<and> validate_quic_envelope a = Inr () \<and> ev_channel a = Control \<and>
           ev_trace_id a = ev_trace_id e \<and>
           (\<forall>err. fst (dispatch_envelope sm b64 reply e ig) = Inl err \<longrightarrow>
              ev_kind a = ErrorMessage \<and> ev_message_id a = ''ingress-error-'' @ ev_message_id e \<and>
              get_str ''errorCode'' (ev_payload a) = Some (error_code err) \<and>
              ig_sessions ig' = ig_sessions ig)"
proof (cases "fst (dispatch_envelope sm b64 reply e ig)")
  case (Inl err)
  then show ?thesis
    using assms dispatch_error_sessions [OF Inl]
    by (cases "dispatch_envelope sm b64 reply e ig")
      (auto simp: ingress_handle_envelope_def error_envelope_def ok_iff error_payload_def get_str_def)
next
  case (Inr a)
  then show ?thesis
    using assms dispatch_reply_ok [OF Inr]
    by (cases "dispatch_envelope sm b64 reply e ig") (auto simp: ingress_handle_envelope_def)
qed

text \<open>The trusted ingress lets nothing but a hello pass unless the message names a device and a
  fingerprint for which the trust store vouches at the ingress's time; every other message is
  refused and changes neither the sessions nor the stored media; and the trust store itself
  changes in no case.\<close>

theorem trusted_ingress_guard:
  assumes "trusted_handle_envelope ulow sm b64 reply e ti = (r, ti')"
  shows "ti_trust_store ti' = ti_trust_store ti \<and>
         (ti_ingress ti' \<noteq> ti_ingress ti \<or> is_ok r \<longrightarrow>
            ev_kind e = Hello \<or>
            (\<exists>d fp. ev_device_id e = Some d \<and>
               get_str ''certificateFingerprintSha256'' (ev_payload e) = Some fp \<and>
               is_trusted ulow d fp (ti_now ti) (ti_trust_store ti)))"
proof (cases "enforce_trust ulow e ti")
  case (Inl err)
  then show ?thesis using assms by (auto simp: trusted_handle_envelope_def)
next
  case (Inr u)
  then have "ti_trust_store ti' = ti_trust_store ti"
    using assms by (auto simp: trusted_handle_envelope_def split: prod.splits)
  then show ?thesis using Inr by (simp add: enforce_trust_Inr_iff)
qed

end
