(* ===== verification/System.thy ===== *)
theory System
  imports Core_Service_Facts Companion_Ingress
begin

text \<open>
  The remote service and the core together: what a request of an ordinary user can make the core
  do, carried through the service's dispatch to the programs the core runs and the commands it
  sends, and the runs of the whole process, in which remote requests and requests of the local
  management interface interleave.
\<close>

subsection \<open>Requests of an ordinary user\<close>

text \<open>
  A property of the core's state that every request permitted to a session keeps, the remote
  service keeps for that session, whatever it is asked.
\<close>

locale user_invariant =
  fixes core :: "'c core_handler"
    and s :: authenticated_session
    and Q :: "'c \<Rightarrow> bool"
  assumes permitted_inv: "user_permitted s rq \<Longrightarrow> Q c \<Longrightarrow> Q (snd (snd (core rq (m, c))))"
begin

lemma call_inv:
  "user_permitted s rq \<Longrightarrow> Q (sv_core st) \<Longrightarrow> Q (sv_core (snd (call_core core rq st)))"
  using permitted_inv [of rq "sv_core st" "sv_accounts st"]
  by (simp add: call_core_def case_prod_beta)

lemma probe_inv: "Q (sv_core st) \<Longrightarrow> Q (sv_core (snd (current_adb_device_ids core st)))"
  using call_inv [of probe_request st]
  by (simp add: current_adb_device_ids_def case_prod_beta user_permitted_def)

lemma resolve_inv:
  "Q (sv_core st) \<Longrightarrow> Q (sv_core (snd (resolve_request_device_alias core s' rr st)))"
  using probe_inv [of st]
  by (auto simp: resolve_request_device_alias_def case_prod_beta split: option.splits)

lemma forward_inv:
  assumes "as_role s \<noteq> Admin" and "Q (sv_core st)"
  shows "Q (sv_core (snd (forward_core_request core s rr st)))"
proof -
  obtain rr' st' where r: "resolve_request_device_alias core s rr st = (rr', st')"
    by (cases "resolve_request_device_alias core s rr st")
  then have st': "Q (sv_core st')" using resolve_inv [OF assms(2), of s rr] by simp
  show ?thesis
  proof (cases "authorize_user_core_request (rr_method rr') (rr_params rr') s")
    case (Inl e)
    then show ?thesis using r assms(1) st' by (simp add: forward_core_request_def)
  next
    case (Inr u)
    let ?rq = "\<lparr>rq_id = rr_id rr', rq_method = rr_method rr', rq_params = rr_params rr'\<rparr>"
    have "user_permitted s ?rq" using Inr by (intro authorize_Inr_permitted) simp
    then have q: "Q (sv_core (snd (call_core core ?rq st')))" using st' by (rule call_inv)
    then have "Q (sv_core (snd (current_adb_device_ids core (snd (call_core core ?rq st')))))"
      by (rule probe_inv)
    with q show ?thesis
      using r assms(1) Inr
      by (auto simp: forward_core_request_def case_prod_beta split: option.splits)
  qed
qed

lemma dispatch_inv:
  assumes "as_role s \<noteq> Admin" and "Q (sv_core st)"
  shows "Q (sv_core (snd (remote_dispatch A sm core E rr t s st)))"
proof -
  have "sv_core (snd (remote_change_password A sm E p s st)) = sv_core st"
    "sv_core (snd (report_diagnostics sm p s st)) = sv_core st"
    "sv_core (snd (admin_list_users s st)) = sv_core st"
    "sv_core (snd (admin_create_user A sm E p s st)) = sv_core st"
    "sv_core (snd (admin_delete_user sm E p s st)) = sv_core st"
    "sv_core (snd (admin_reset_password A sm E p s st)) = sv_core st"
    "sv_core (snd (admin_assign_device core sm E p s st)) = sv_core st" for p
    using assms(1)
    by (auto simp: remote_change_password_def report_diagnostics_def admin_list_users_def
        admin_create_user_def admin_delete_user_def admin_reset_password_def
        admin_assign_device_def require_admin_def case_prod_beta split: sum.splits)
  with assms(2) forward_inv [OF assms, of rr] show ?thesis
    by (simp add: remote_dispatch_def Let_def reply_with_def case_prod_beta)
qed

lemma request_inv:
  assumes "as_role s \<noteq> Admin" and "Q (sv_core st)" and "rr_method rr \<noteq> ''auth.login''"
    and "rr_session_token rr = Some t" and "fst (authenticate (E 0) t (sv_accounts st)) = Inr s"
  shows "Q (sv_core (snd (remote_handle_request A sm core E rr st)))"
  using assms(3)
proof (cases rule: remote_handle_cases [where A = A and sm = sm and core = core and E = E and st = st])
  case (refused e st')
  then show ?thesis using assms(2) by auto
next
  case (session t' s')
  then have "s' = s" "t' = t" using assms(4,5) by simp_all
  then show ?thesis
    using session dispatch_inv [OF assms(1), of "snd (on_accounts (authenticate (E 0) t) st)"]
      assms(2) by simp
qed

end

subsection \<open>The programs it runs and the commands it sends\<close>

text \<open>
  \<open>recording P\<close> is the core's ports with a runner and a router that write down what they are
  given. \<open>confined_adb s\<close> are the adb commands an ordinary user's request may lead to, \<open>confined\<close>
  the states of the core it may leave, \<open>co0\<close> being the state before.
\<close>

definition recording ::
    "'w runner \<Rightarrow> 'n router \<Rightarrow>
     ('n \<times> dispatch_command list, 'w \<times> string list list) core_ports \<Rightarrow>
     ('n \<times> dispatch_command list, 'w \<times> string list list) core_ports" where
  "recording runner router P =
     P\<lparr>pt_runner := logged_runner runner, pt_router := logged_router router\<rparr>"

definition confined_adb :: "authenticated_session \<Rightarrow> string list \<Rightarrow> bool" where
  "confined_adb s args \<longleftrightarrow>
     args = [''devices'', ''-l''] \<or>
     (\<exists>d command rest. args = ''-s'' # d # command # rest \<and> session_can_access_device s d \<and>
        is_device_scoped_adb_command command)"

definition confined_command :: "authenticated_session \<Rightarrow> registry \<Rightarrow> dispatch_command \<Rightarrow> bool" where
  "confined_command s reg c \<longleftrightarrow> session_can_access_device s (dc_device_id c) \<and> invocable reg c"

definition confined ::
    "authenticated_session \<Rightarrow>
     ('n \<times> dispatch_command list, 'w \<times> string list list) core \<Rightarrow>
     ('n \<times> dispatch_command list, 'w \<times> string list list) core \<Rightarrow> bool" where
  "confined s co0 co \<longleftrightarrow>
     (\<exists>runs. snd (co_world co) = snd (co_world co0) @ runs \<and> list_all (confined_adb s) runs) \<and>
     (\<exists>sent. snd (co_router co) = snd (co_router co0) @ sent \<and>
        list_all (confined_command s (co_registry co0)) sent) \<and>
     co_registry co = co_registry co0 \<and> co_processes co = co_processes co0 \<and>
     co_wireless co = co_wireless co0 \<and> co_keepalive co = co_keepalive co0"

lemma confined_refl: "confined s co co"
  by (simp add: confined_def)

lemma confined_trans: "confined s a b \<Longrightarrow> confined s b c \<Longrightarrow> confined s a c"
  by (fastforce simp: confined_def)

lemma confined_same:
  "co_world co = co_world co0 \<Longrightarrow> co_router co = co_router co0 \<Longrightarrow>
   co_registry co = co_registry co0 \<Longrightarrow> co_processes co = co_processes co0 \<Longrightarrow>
   co_wireless co = co_wireless co0 \<Longrightarrow> co_keepalive co = co_keepalive co0 \<Longrightarrow> confined s co0 co"
  by (simp add: confined_def)

text \<open>The methods that leave everything but the counter of requests alone.\<close>

lemma read_only_result:
  assumes "rq_method rq \<in> set user_read_only_methods \<or>
    rq_method rq \<in> {''device.getCapabilities'', ''device.getPermissionState''}"
  shows "snd (core_result P env rq co) = co"
  using assms
  unfolding user_read_only_methods_def list.set Un_iff insert_iff empty_iff
  by (elim disjE) (simp_all add: core_result_def Let_def)

lemma decode_adb_exec_selector:
  assumes "json_get ''args'' p = Some (JArr (JStr a # JStr b # JStr c # rest))"
    and "decode_adb_exec p = Some args"
  shows "\<exists>words. args = a # b # c # words"
proof -
  obtain m where m: "p = JObj m" using json_get_Some_object [OF assms(1)] by (auto simp: is_object_iff)
  then have "those (map as_str (JStr a # JStr b # JStr c # rest)) = Some args"
    using assms by (simp add: decode_adb_exec_def decode_struct_def defaulted_def)
  then show ?thesis by (auto split: option.splits)
qed

lemma decode_probe: "decode_adb_exec (rq_params probe_request) = Some [''devices'', ''-l'']"
  by (simp add: decode_adb_exec_def decode_struct_def defaulted_def probe_request_def strings_json_def)

lemma exec_confined:
  assumes "pt_runner P = logged_runner runner"
    and "\<And>args. decode_adb_exec p = Some args \<Longrightarrow> confined_adb s args"
  shows "confined s co (snd (handle_adb_exec P env p co))"
proof (cases "parse_ipc_params (pt_serde P) ''adb.exec'' decode_adb_exec
    ''adb.exec params must match { args: string[] }.'' p")
  case (Inr args)
  then have c: "confined_adb s args"
    using assms(2) by (simp add: parse_ipc_params_def from_value_Inr_iff)
  show ?thesis
  proof (cases "validate_adb_args args")
    case (Inl e)
    then show ?thesis using Inr by (simp add: handle_adb_exec_def confined_refl)
  next
    case ok: (Inr u)
    show ?thesis
    proof (cases "resolve_current_adb_path P env co")
      case (Inl e)
      then show ?thesis using Inr ok by (simp add: handle_adb_exec_def confined_refl)
    next
      case path: (Inr path)
      then show ?thesis
        using Inr ok c assms(1)
        by (simp add: handle_adb_exec_def logged_runner_def case_prod_beta confined_def)
    qed
  qed
qed (simp add: handle_adb_exec_def confined_refl)

lemma invoke_confined:
  assumes "pt_router P = logged_router router"
    and "\<And>q. decode_invoke p = Some q \<Longrightarrow> session_can_access_device s (ip_device_id q)"
  shows "confined s co (snd (handle_device_invoke P i p co))"
proof (cases "parse_ipc_params (pt_serde P) ''device.invoke'' decode_invoke
    ''device.invoke params must match { deviceId, capabilityId, operation, args }.'' p")
  case (Inr q)
  then have acc: "session_can_access_device s (ip_device_id q)"
    using assms(2) by (simp add: parse_ipc_params_def from_value_Inr_iff)
  show ?thesis
  proof (cases "check_invoke i q (co_registry co)")
    case (Inl e)
    then show ?thesis using Inr by (simp add: handle_device_invoke_def confined_refl)
  next
    case ok: (Inr c)
    then have "confined_command s (co_registry co) c"
      using acc by (auto simp: check_invoke_Inr_iff invocable_def confined_command_def dest: find_SomeD)
    then show ?thesis
      using Inr ok assms(1)
      by (auto simp: handle_device_invoke_def logged_router_def confined_def case_prod_beta)
  qed
qed (simp add: handle_device_invoke_def confined_refl)

lemma decode_invoke_device:
  assumes "get_str ''deviceId'' p = Some d" and "decode_invoke p = Some q"
  shows "ip_device_id q = d"
proof -
  obtain m where "p = JObj m" using get_str_Some_object [OF assms(1)] by (auto simp: is_object_iff)
  then show ?thesis
    using assms by (auto simp: get_str_Some_iff decode_invoke_def decode_struct_def ok_iff default_string_def)
qed

lemma permitted_not_local:
  assumes "user_permitted s rq"
  shows "\<not> local_method (rq_method rq)"
proof -
  have "rq_method rq \<in> set user_read_only_methods \<or> rq_method rq \<in> set user_device_methods \<or>
      rq_method rq = ''adb.exec''"
    using assms by (auto simp: user_permitted_def probe_request_def)
  then show ?thesis
    unfolding user_read_only_methods_def user_device_methods_def list.set Un_iff insert_iff empty_iff
    by (elim disjE) (simp_all add: local_method_def starts_with_def)
qed

lemma permitted_result_confined:
  assumes "user_permitted s rq"
    and P: "pt_runner P = logged_runner runner" "pt_router P = logged_router router"
  shows "confined s co (snd (core_result P env rq co))"
proof -
  consider (reads) "rq_method rq \<in> set user_read_only_methods \<or>
      rq_method rq \<in> {''device.getCapabilities'', ''device.getPermissionState''}"
    | (invoke) d where "rq_method rq = ''device.invoke''"
        "get_str ''deviceId'' (rq_params rq) = Some d" "session_can_access_device s d"
    | (probe) "rq = probe_request"
    | (exec) d command rest where "rq_method rq = ''adb.exec''"
        "json_get ''args'' (rq_params rq) = Some (JArr (JStr ''-s'' # JStr d # JStr command # rest))"
        "session_can_access_device s d" "is_device_scoped_adb_command command"
    using assms(1) unfolding user_permitted_def user_device_methods_def by fastforce
  then show ?thesis
  proof cases
    case reads
    then show ?thesis by (simp add: read_only_result confined_refl)
  next
    case invoke
    then have "confined s co (snd (handle_device_invoke P (rq_id rq) (rq_params rq) co))"
      by (intro invoke_confined [OF P(2)]) (simp add: decode_invoke_device)
    then show ?thesis by (simp add: core_result_def Let_def invoke(1))
  next
    case probe
    have "confined s co (snd (handle_adb_exec P env (rq_params probe_request) co))"
      by (rule exec_confined [OF P(1)]) (simp add: decode_probe confined_adb_def)
    then show ?thesis by (simp add: core_result_def Let_def probe) (simp add: probe_request_def)
  next
    case exec
    have "confined s co (snd (handle_adb_exec P env (rq_params rq) co))"
    proof (rule exec_confined [OF P(1)])
      fix args assume "decode_adb_exec (rq_params rq) = Some args"
      from decode_adb_exec_selector [OF exec(2) this] show "confined_adb s args"
        using exec(3,4) by (auto simp: confined_adb_def)
    qed
    then show ?thesis by (simp add: core_result_def Let_def exec(1))
  qed
qed

lemma permitted_confined:
  assumes "user_permitted s rq"
    and P: "pt_runner P = logged_runner runner" "pt_router P = logged_router router"
  shows "confined s co (snd (snd (core_handle_request P rq (m, co))))"
proof -
  let ?co = "co\<lparr>co_requests := Suc (co_requests co)\<rparr>"
  have "confined s co ?co" by (rule confined_same) simp_all
  moreover have "confined s ?co (snd (core_result P (co_envs co (co_requests co)) rq ?co))"
    by (rule permitted_result_confined [OF assms])
  ultimately have "confined s co (snd (core_result P (co_envs co (co_requests co)) rq ?co))"
    by (rule confined_trans)
  then show ?thesis
    using permitted_not_local [OF assms(1)]
    by (simp add: core_handle_request_def Let_def case_prod_beta)
qed

interpretation user_core: user_invariant "core_handle_request (recording runner router P)" s "confined s co0"
  for runner router P s co0
proof
  fix rq m c
  assume "user_permitted s rq" "confined s co0 c"
  moreover have "pt_runner (recording runner router P) = logged_runner runner"
    "pt_router (recording runner router P) = logged_router router"
    by (simp_all add: recording_def)
  ultimately show "confined s co0 (snd (snd (core_handle_request (recording runner router P) rq (m, c))))"
    using permitted_confined confined_trans by metis
qed

subsection \<open>Runs of the process\<close>

text \<open>
  The process starts by opening the account database and then serves remote requests and requests
  of the host's stdio interface in any order, with whatever they carry and whatever the outside
  answers.
\<close>

definition system_start ::
    "('n, 'w) core_ports \<Rightarrow> ('n, 'w) core service \<Rightarrow> bool" where
  "system_start P st \<longleftrightarrow> opens (pt_argon P) (sv_accounts st) \<and> sv_log st = []"

inductive system_step ::
    "('n, 'w) core_ports \<Rightarrow> ('n, 'w) core service \<Rightarrow> ('n, 'w) core service \<Rightarrow> bool"
  for P :: "('n, 'w) core_ports" where
  remote_request_step:
    "system_step P st
       (snd (remote_handle_json_bytes (pt_argon P) (pt_serde P) (core_handle_request P) E parse bytes st))"
| stdio_request_step:
    "handle_json_line_result P parse line (sv_accounts st, sv_core st) = (resp, m, co) \<Longrightarrow>
     system_step P st (st\<lparr>sv_accounts := m, sv_core := co\<rparr>)"

inductive_cases system_stepE: "system_step P st st'"

lemma json_line_accounts:
  assumes "manager_ok m"
  shows "manager_ok (fst (snd (handle_json_line_result P parse line (m, co))))"
  using assms core_accounts_ok [of "(m, co)" P]
  by (auto simp: handle_json_line_result_def split: sum.splits)

interpretation process: invariant_machine "system_start P" "system_step P" "\<lambda>st. manager_ok (sv_accounts st)"
  for P
proof
  show "manager_ok (sv_accounts st)" if "system_start P st" for st
    using that opens_ok by (auto simp: system_start_def)
  show "manager_ok (sv_accounts st')" if "manager_ok (sv_accounts st)" "system_step P st st'" for st st'
    using that(2)
  proof (cases rule: system_step.cases)
    case (remote_request_step E parse bytes)
    then show ?thesis
      using core_service.remote_accounts_ok [OF that(1)] that(1)
      by (simp add: remote_handle_json_bytes_def split: sum.splits)
  next
    case (stdio_request_step parse line resp m co)
    then show ?thesis
      using json_line_accounts [OF that(1), of P parse line "sv_core st"] by simp
  qed
qed

end
