(* ===== verification/Concrete_Runs.thy ===== *)
theory Concrete_Runs
  imports System
begin

text \<open>
  Concrete parameters and states on which the properties are applied: a stand-in for the hash
  library that satisfies the law assumed of it, an account manager with one ordinary user, a core
  with one registered device, and the state of the remote service over them.
\<close>

subsection \<open>Accounts\<close>

definition plain_argon :: argon where
  "plain_argon =
     \<lparr>salt_encode = Inr, argon_hash = (\<lambda>pw salt. Inr (''plain:'' @ pw)), phc_parse = Inr,
      argon_verify = (\<lambda>pw h. h = ''plain:'' @ pw)\<rparr>"

lemma plain_argon_law:
  "argon_hash plain_argon pw salt = Inr h \<Longrightarrow>
   \<exists>d. phc_parse plain_argon h = Inr d \<and> argon_verify plain_argon pw d"
  by (simp add: plain_argon_def)

definition env_at :: "nat \<Rightarrow> string \<Rightarrow> auth_env" where
  "env_at now token = \<lparr>env_now = now, env_token = token, env_salt = ''salt'', env_disk = Disk_ok\<rparr>"

definition fresh_manager :: manager where
  "fresh_manager = opened 3600 (initial_database ''plain:admin'')
     (Parsed (initial_database ''plain:admin''))"

definition bob_created :: manager where
  "bob_created = snd (create_user plain_argon (env_at 0 []) ''bob'' ''password'' fresh_manager)"

definition bob_assigned :: manager where
  "bob_assigned = snd (set_device_access (env_at 0 []) ''bob'' ''phone'' True bob_created)"

definition bob_signed_in :: manager where
  "bob_signed_in = snd (login plain_argon (env_at 10 ''t1'') ''bob'' ''password'' bob_assigned)"

lemma fresh_manager_opens: "opens plain_argon fresh_manager"
proof -
  have "fst (load_or_initialize_with_session_ttl plain_argon (env_at 0 []) 3600 No_file) = Inr fresh_manager"
    by (simp add: load_or_initialize_with_session_ttl_def hash_password_def plain_argon_def
        persist_database_def env_at_def fresh_manager_def default_admin_password_def)
  then show ?thesis unfolding opens_def by blast
qed

lemma reachable_fresh: "reachable (opens plain_argon) (auth_step plain_argon) fresh_manager"
  by (rule reachable_start) (rule fresh_manager_opens)

lemma reachable_bob_created: "reachable (opens plain_argon) (auth_step plain_argon) bob_created"
  unfolding bob_created_def by (rule reachable_step [OF reachable_fresh step_create])

lemma reachable_bob_assigned: "reachable (opens plain_argon) (auth_step plain_argon) bob_assigned"
  unfolding bob_assigned_def by (rule reachable_step [OF reachable_bob_created step_assign])

lemma reachable_bob: "reachable (opens plain_argon) (auth_step plain_argon) bob_signed_in"
  unfolding bob_signed_in_def by (rule reachable_step [OF reachable_bob_assigned step_login])

lemmas run_managers_ok =
  auth.reach_inv [OF reachable_fresh] auth.reach_inv [OF reachable_bob_created]
  auth.reach_inv [OF reachable_bob_assigned] auth.reach_inv [OF reachable_bob]

lemma bob_session:
  "fst (authenticate (env_at 20 []) ''t1'' bob_signed_in) =
     Inr \<lparr>as_token = ''t1'', as_username = ''bob'', as_role = User, as_devices = [''phone''],
          as_password_change_required = False\<rparr>"
  by code_simp

lemma bob_login:
  "login plain_argon (env_at 10 ''t1'') ''bob'' ''password'' bob_assigned =
     (Inr \<lparr>as_token = ''t1'', as_username = ''bob'', as_role = User, as_devices = [''phone''],
           as_password_change_required = False\<rparr>, bob_signed_in)"
  by (rule prod_eqI) (code_simp, simp add: bob_signed_in_def)

text \<open>The administrator after the first local login and the change of the initial password.\<close>

definition admin_changed :: manager where
  "admin_changed =
     snd (change_own_password plain_argon (env_at 10 []) ''admin'' ''admin'' ''long-password'' bob_signed_in)"

definition admin_signed_in :: manager where
  "admin_signed_in = snd (login plain_argon (env_at 10 ''a1'') ''admin'' ''long-password'' admin_changed)"

lemma reachable_admin: "reachable (opens plain_argon) (auth_step plain_argon) admin_signed_in"
  unfolding admin_signed_in_def admin_changed_def
  by (rule reachable_step [OF reachable_step [OF reachable_bob step_change] step_login])

lemma admin_session:
  "fst (authenticate (env_at 20 []) ''a1'' admin_signed_in) =
     Inr \<lparr>as_token = ''a1'', as_username = ''admin'', as_role = Admin, as_devices = [],
          as_password_change_required = False\<rparr>"
  by code_simp

subsection \<open>The core and the service\<close>

definition linux_manifest :: adb_manifest where
  "linux_manifest =
     \<lparr>am_schema_version = 1, am_adb_version = ''35'',
      am_assets = [\<lparr>aa_target_id = ''linux-x86_64'', aa_path = ''adb/linux-x86_64/adb'',
        aa_source = OfficialPlatformTools, aa_sha256 = None\<rparr>]\<rparr>"

definition phone_device :: device where
  "phone_device =
     \<lparr>dv_device_id = ''phone'', dv_display_name = ''Phone'', dv_app_version = ''1'', dv_android_sdk = 35,
      dv_connection_state = Ready, dv_capabilities = [cap_input_ime], dv_permission_states = []\<rparr>"

text \<open>adb answers every command with the same list of devices; it keeps no state.\<close>

definition listing_runner :: "unit runner" where
  "listing_runner path args w =
     (Inr \<lparr>ao_exit_code = 0, ao_stdout = ''phone device product:x'', ao_stderr = []\<rparr>, w)"

definition run_ports ::
    "((string \<rightharpoonup> memory_session) \<times> dispatch_command list, unit \<times> string list list) core_ports" where
  "run_ports =
     \<lparr>pt_argon = plain_argon, pt_serde = (\<lambda>k v. ''invalid''), pt_os = ''linux'', pt_arch = ''x86_64'',
      pt_join_path = (\<lambda>a b. a @ ''/'' @ b), pt_runner = logged_runner listing_runner,
      pt_router = logged_router in_memory_dispatch, pt_qr = (\<lambda>t. Inr (1, [True]))\<rparr>"

definition run_env :: core_env where
  "run_env =
     \<lparr>cv_auth = (\<lambda>i. env_at 20 []), cv_exe = Inr (Some ''/opt/core''), cv_instant = 20,
      cv_qr = \<lparr>qc_session_id = ''q1'', qc_service_pick = (\<lambda>i. i), qc_password_pick = (\<lambda>i. i + 2), qc_unix_now = 20,
        qc_instant = 20\<rparr>, cv_spawned = Inr 77,
      cv_child = \<lparr>cr_has_exited = False, cr_kill_error = None, cr_wait_exits = True\<rparr>\<rparr>"

definition run_core ::
    "((string \<rightharpoonup> memory_session) \<times> dispatch_command list, unit \<times> string list list) core" where
  "run_core =
     with_local_admin (new_core linux_manifest [phone_device]
       (memory_router [\<lparr>ms_device_id = ''phone'', ms_dispatch_mode = CompleteImmediately\<rparr>], [])
       ((), []) (\<lambda>i. run_env))"

definition service_over :: "manager \<Rightarrow>
    ((string \<rightharpoonup> memory_session) \<times> dispatch_command list, unit \<times> string list list) core service" where
  "service_over m = \<lparr>sv_accounts = m, sv_core = run_core, sv_log = []\<rparr>"

definition ask :: "string \<Rightarrow> string \<Rightarrow> json \<Rightarrow> remote_request" where
  "ask token mth params =
     \<lparr>rr_id = ''r1'', rr_session_token = Some token, rr_method = mth, rr_params = params\<rparr>"

definition shell_request :: remote_request where
  "shell_request = ask ''t1'' ''adb.exec'' (JObj [(''args'', strings_json [''-s'', ''phone'', ''shell'', ''ls''])])"

definition change_request :: remote_request where
  "change_request = ask ''t1'' ''auth.changePassword''
     (JObj [(''currentPassword'', JStr ''password''), (''newPassword'', JStr ''another-password'')])"

definition run_serve ::
    "remote_request \<Rightarrow> manager \<Rightarrow> remote_response \<times>
     ((string \<rightharpoonup> memory_session) \<times> dispatch_command list, unit \<times> string list list) core service" where
  "run_serve rr m =
     remote_handle_request plain_argon (pt_serde run_ports) (core_handle_request run_ports)
       (\<lambda>i. env_at 20 []) rr (service_over m)"

lemma shell_request_runs:
  "snd (co_world (sv_core (snd (run_serve shell_request bob_signed_in)))) =
     [[''devices'', ''-l''], [''-s'', ''phone'', ''shell'', ''ls'']]"
  by code_simp

lemma run_ports_sel [simp]:
  "pt_runner run_ports = logged_runner listing_runner"
  "pt_router run_ports = logged_router in_memory_dispatch"
  "pt_argon run_ports = plain_argon"
  by (simp_all add: run_ports_def)

lemma service_over_sel [simp]:
  "sv_accounts (service_over m) = m" "sv_core (service_over m) = run_core" "sv_log (service_over m) = []"
  by (simp_all add: service_over_def)

lemma run_core_world: "snd (co_world run_core) = []"
  by (simp add: run_core_def with_local_admin_def new_core_def)

end
