(* ===== verification/Remote_Witnesses.thy ===== *)
theory Remote_Witnesses
  imports Concrete_Runs
begin

text \<open>
  The properties of the account manager, the local management interface and the remote service,
  each applied to a concrete state in which its hypotheses hold.
\<close>

subsection \<open>Accounts\<close>

theorem reachable_accounts_ok_witness:
  "reachable (opens plain_argon) (auth_step plain_argon) bob_signed_in \<and>
   (\<exists>a. bt_get default_admin_username (users bob_signed_in) = Some a \<and> sa_role a = Admin \<and> sa_built_in a)"
  using reachable_accounts_ok [OF reachable_bob] reachable_bob by blast

theorem login_authenticate_witness:
  "(\<exists>s. as_username s = ''bob'' \<and> fst (authenticate (env_at 3609 []) ''t1'' bob_signed_in) = Inr s) \<and>
   fst (authenticate (env_at 3610 []) ''t1'' bob_signed_in) = Inl session_missing"
proof -
  have "env_now (env_at 10 ''t1'') + mg_session_ttl bob_assigned = 3610" by code_simp
  with login_authenticate [OF bob_login, of "env_at 3609 []"]
    login_authenticate [OF bob_login, of "env_at 3610 []"]
  show ?thesis by (simp add: env_at_def)
qed

definition bob_changed :: manager where
  "bob_changed =
     snd (change_own_password plain_argon (env_at 20 []) ''bob'' ''password'' ''another-password'' bob_signed_in)"

lemma bob_change:
  "change_own_password plain_argon (env_at 20 []) ''bob'' ''password'' ''another-password'' bob_signed_in =
     (Inr (), bob_changed)"
  by (rule prod_eqI) (code_simp, simp add: bob_changed_def)

theorem credential_change_revokes_witness:
  "is_ok (fst (authenticate (env_at 20 []) ''t1'' bob_signed_in)) \<and>
   \<not> is_ok (fst (authenticate (env_at 20 []) ''t1'' bob_changed)) \<and>
   delete_user (env_at 20 []) ''admin'' bob_changed = (Inl builtin_immutable, bob_changed)"
proof -
  have "(fst (authenticate (env_at 20 []) ''t1'' bob_changed) = Inr s \<longleftrightarrow>
      fst (authenticate (env_at 20 []) ''t1'' bob_signed_in) = Inr s \<and> as_username s \<noteq> ''bob'') \<and>
    delete_user (env_at 20 []) default_admin_username bob_changed = (Inl builtin_immutable, bob_changed)" for s
    using bob_change by (intro credential_change_revokes [OF run_managers_ok(4)]) blast
  then show ?thesis using bob_session by (auto simp: is_ok_iff default_admin_username_def)
qed

theorem change_password_then_login_witness:
  "(\<exists>s m. login plain_argon (env_at 30 ''t2'') ''bob'' ''another-password'' bob_changed = (Inr s, m) \<and>
      \<not> as_password_change_required s) \<and>
   \<not> is_ok (fst (login plain_argon (env_at 30 ''t2'') ''bob'' ''password'' bob_changed))"
proof -
  have c: "(\<exists>s m. login plain_argon (env_at 30 ''t2'') ''bob'' ''another-password'' bob_changed = (Inr s, m) \<and>
          \<not> as_password_change_required s) \<and>
       (\<forall>k. k \<noteq> ''bob'' \<longrightarrow> bt_get k (users bob_changed) = bt_get k (users bob_signed_in)) \<and>
       (\<exists>h. hash_password plain_argon (env_at 20 []) ''another-password'' = Inr h \<and>
          (\<forall>r. is_ok (fst (login plain_argon (env_at 30 ''t2'') ''bob'' r bob_changed)) \<longrightarrow>
             verify_password plain_argon r h = Inr ()))"
    by (rule change_password_then_login [OF _ bob_change]) (rule plain_argon_law)
  then obtain h where h: "hash_password plain_argon (env_at 20 []) ''another-password'' = Inr h"
    "\<And>r. is_ok (fst (login plain_argon (env_at 30 ''t2'') ''bob'' r bob_changed)) \<Longrightarrow>
       verify_password plain_argon r h = Inr ()" by blast
  have "h = ''plain:another-password''"
    using h(1) by (simp add: hash_password_def plain_argon_def)
  then have "verify_password plain_argon ''password'' h \<noteq> Inr ()"
    by (simp add: verify_password_def plain_argon_def)
  with c h(2) show ?thesis by blast
qed

theorem mutation_survives_restart_witness:
  "load_or_initialize_with_session_ttl plain_argon (env_at 40 []) 3600 (mg_file bob_changed) =
     (Inr (opened 3600 (mg_database bob_changed) (mg_file bob_changed)), mg_file bob_changed)"
proof (rule mutation_survives_restart [OF run_managers_ok(4)])
  show "create_user plain_argon (env_at 20 []) ''bob'' ''password'' bob_signed_in = (Inr undefined, bob_changed) \<or>
      delete_user (env_at 20 []) ''bob'' bob_signed_in = (Inr (), bob_changed) \<or>
      change_own_password plain_argon (env_at 20 []) ''bob'' ''password'' ''another-password'' bob_signed_in = (Inr (), bob_changed) \<or>
      reset_password plain_argon (env_at 20 []) ''bob'' ''another-password'' bob_signed_in = (Inr (), bob_changed) \<or>
      set_device_access (env_at 20 []) ''bob'' [] True bob_signed_in = (Inr undefined, bob_changed)"
    using bob_change by blast
qed

theorem create_user_write_failure_witness:
  "fst (create_user plain_argon (env_at 0 []\<lparr>env_disk := Open_failed ''full''\<rparr>) ''carol'' ''password'' bob_signed_in) =
     Inl (storage_error ''REMOTE_AUTH_WRITE_FAILED'' ''full'') \<and>
   is_ok (fst (login plain_argon (env_at 1 ''t3'') ''carol'' ''password''
     (snd (create_user plain_argon (env_at 0 []\<lparr>env_disk := Open_failed ''full''\<rparr>) ''carol'' ''password'' bob_signed_in))))"
proof -
  have h: "validate_username ''carol'' = Inr ()" "validate_new_password ''password'' = Inr ()"
    "\<not> mg_poisoned bob_signed_in" "bt_get ''carol'' (users bob_signed_in) = None"
    by code_simp+
  have k: "hash_password plain_argon (env_at 0 []\<lparr>env_disk := Open_failed ''full''\<rparr>) ''password'' = Inr ''plain:password''"
    by code_simp
  have d: "env_disk (env_at 0 []\<lparr>env_disk := Open_failed ''full''\<rparr>) = Open_failed ''full''" by simp
  have "fst (create_user plain_argon (env_at 0 []\<lparr>env_disk := Open_failed ''full''\<rparr>) ''carol'' ''password'' bob_signed_in) =
       Inl (storage_error ''REMOTE_AUTH_WRITE_FAILED'' ''full'') \<and>
     is_ok (fst (login plain_argon (env_at 1 ''t3'') ''carol'' ''password''
       (snd (create_user plain_argon (env_at 0 []\<lparr>env_disk := Open_failed ''full''\<rparr>) ''carol'' ''password'' bob_signed_in)))) \<and>
     mg_file (snd (create_user plain_argon (env_at 0 []\<lparr>env_disk := Open_failed ''full''\<rparr>) ''carol'' ''password'' bob_signed_in)) =
       mg_file bob_signed_in"
    by (rule create_user_write_failure [OF _ h k d]) (rule plain_argon_law)
  then show ?thesis by blast
qed

theorem set_device_access_effect_witness:
  "\<exists>u. bt_get ''bob'' (users bob_assigned) = Some u \<and> set (sa_devices u) = {''phone''}"
proof -
  have a: "set_device_access (env_at 0 []) ''bob'' ''phone'' True bob_created =
      (Inr \<lparr>ra_username = ''bob'', ra_role = User, ra_devices = [''phone''], ra_built_in = False,
            ra_password_change_required = False\<rparr>, bob_assigned)"
    by (rule prod_eqI) (code_simp, simp add: bob_assigned_def)
  have "sa_devices u = []" if "bt_get ''bob'' (users bob_created) = Some u" for u
  proof -
    have "map_option sa_devices (bt_get ''bob'' (users bob_created)) = Some []" by code_simp
    then show ?thesis using that by simp
  qed
  with set_device_access_effect [OF a run_managers_ok(2)] show ?thesis by fastforce
qed

subsection \<open>The local management interface\<close>

definition manage :: "string \<Rightarrow> (string \<times> json) list \<Rightarrow> ipc_request" where
  "manage mth params = \<lparr>rq_id = ''m1'', rq_method = mth, rq_params = JObj params\<rparr>"

definition run_local :: "ipc_request \<Rightarrow> ipc_response \<times> manager" where
  "run_local rq = local_admin_handle plain_argon (\<lambda>k v. ''invalid'') (\<lambda>i. env_at 20 []) rq admin_signed_in"

lemma admin_ok: "manager_ok admin_signed_in"
  by (rule auth.reach_inv [OF reachable_admin])

theorem local_management_authority_witness:
  "rs_ok (fst (run_local (manage ''remote.admin.users.list'' [(''sessionToken'', JStr ''a1'')]))) \<and>
   (\<exists>r. mg_sessions admin_signed_in ''a1'' = Some r \<and> sr_username r = ''admin'')"
proof -
  let ?rq = "manage ''remote.admin.users.list'' [(''sessionToken'', JStr ''a1'')]"
  have ok: "rs_ok (fst (run_local ?rq))" by code_simp
  have "rs_ok (fst (local_admin_handle plain_argon (\<lambda>k v. ''invalid'') (\<lambda>i. env_at 20 []) ?rq admin_signed_in)) \<and>
      rq_method ?rq \<notin> {''remote.internal.session.inspect'', ''remote.admin.login''}"
    using ok by (simp add: run_local_def manage_def)
  from local_management_authority [OF admin_ok disjI1 [OF this]] ok
  show ?thesis
    by (simp add: manage_def decode_one_def decode_struct_def string_field_def required_def
        default_admin_username_def) blast
qed

theorem local_management_keeps_admin_witness:
  "bt_get ''bob'' (users (snd (run_local (manage ''remote.admin.users.delete''
       [(''sessionToken'', JStr ''a1''), (''username'', JStr ''bob'')])))) = None \<and>
   bt_get ''admin'' (users (snd (run_local (manage ''remote.admin.users.delete''
       [(''sessionToken'', JStr ''a1''), (''username'', JStr ''bob'')])))) =
     bt_get ''admin'' (users admin_signed_in)"
proof -
  let ?rq = "manage ''remote.admin.users.delete'' [(''sessionToken'', JStr ''a1''), (''username'', JStr ''bob'')]"
  have "bt_get ''bob'' (users (snd (run_local ?rq))) = None" by code_simp
  moreover have "rq_method ?rq \<noteq> ''remote.admin.changePassword''" by (simp add: manage_def)
  ultimately show ?thesis
    using local_management_keeps_admin [OF admin_ok, of ?rq plain_argon "\<lambda>k v. ''invalid''" "\<lambda>i. env_at 20 []"]
    by (simp add: run_local_def default_admin_username_def)
qed

theorem inspect_session_effect_witness:
  "\<exists>r u. mg_sessions bob_signed_in ''t1'' = Some r \<and> sr_username r = ''bob'' \<and>
     bt_get ''bob'' (users bob_signed_in) = Some u \<and> sa_role u = User \<and>
     rs_result (fst (local_admin_handle plain_argon (\<lambda>k v. ''invalid'') (\<lambda>i. env_at 20 [])
       (manage ''remote.internal.session.inspect'' [(''remoteSessionToken'', JStr ''t1'')]) bob_signed_in)) =
     Some (JObj [(''username'', JStr ''bob''), (''role'', JStr ''user''),
       (''devices'', strings_json [''phone'']), (''passwordChangeRequired'', JBool False)])"
proof -
  let ?rq = "manage ''remote.internal.session.inspect'' [(''remoteSessionToken'', JStr ''t1'')]"
  have v: "rs_result (fst (local_admin_handle plain_argon (\<lambda>k v. ''invalid'') (\<lambda>i. env_at 20 []) ?rq bob_signed_in)) =
     Some (JObj [(''username'', JStr ''bob''), (''role'', JStr ''user''),
       (''devices'', strings_json [''phone'']), (''passwordChangeRequired'', JBool False)])"
    by code_simp
  have m: "rq_method ?rq = ''remote.internal.session.inspect''" by (simp add: manage_def)
  have t: "decode_one ''remoteSessionToken'' (rq_params ?rq) = Some ''t1''" by code_simp
  from inspect_session_effect [OF m run_managers_ok(4), of plain_argon "\<lambda>k v. ''invalid''" "\<lambda>i. env_at 20 []"] v
  show ?thesis by (fastforce simp: t)
qed

subsection \<open>The remote service\<close>

definition bob_view :: authenticated_session where
  "bob_view =
     \<lparr>as_token = ''t1'', as_username = ''bob'', as_role = User, as_devices = [''phone''],
      as_password_change_required = False\<rparr>"

theorem remote_complete_mediation_witness:
  "\<lparr>rq_id = ''r1'', rq_method = ''adb.exec'', rq_params = rr_params shell_request\<rparr>
     \<in> set (core_log (snd (remote_handle_request plain_argon (\<lambda>k v. ''invalid'')
          (logged (core_handle_request run_ports)) (\<lambda>i. env_at 20 []) shell_request
          \<lparr>sv_accounts = bob_signed_in, sv_core = (run_core, []), sv_log = []\<rparr>))) \<and>
   user_permitted bob_view
     \<lparr>rq_id = ''r1'', rq_method = ''adb.exec'', rq_params = rr_params shell_request\<rparr>"
proof -
  let ?st = "\<lparr>sv_accounts = bob_signed_in, sv_core = (run_core, []), sv_log = []\<rparr>"
  have l: "core_log (snd (remote_handle_request plain_argon (\<lambda>k v. ''invalid'')
      (logged (core_handle_request run_ports)) (\<lambda>i. env_at 20 []) shell_request ?st)) =
      [probe_request, \<lparr>rq_id = ''r1'', rq_method = ''adb.exec'', rq_params = rr_params shell_request\<rparr>]"
    by code_simp
  then have m: "\<lparr>rq_id = ''r1'', rq_method = ''adb.exec'', rq_params = rr_params shell_request\<rparr>
     \<in> set (core_log (snd (remote_handle_request plain_argon (\<lambda>k v. ''invalid'')
          (logged (core_handle_request run_ports)) (\<lambda>i. env_at 20 []) shell_request ?st)))" by simp
  have "core_log ?st = []" by (simp add: core_log_def)
  from remote_complete_mediation [OF m this] m show ?thesis
    using bob_session by (auto simp: shell_request_def ask_def bob_view_def)
qed

theorem reconciled_directory_witness:
  "list_ex (known_as ''phone'') (reconcile_remote_device_list [] bob_view [''tablet'']) \<and>
   (\<exists>d. get_str ''deviceId'' (hd (reconcile_remote_device_list [] bob_view [''tablet''])) = Some d \<and>
      session_can_access_device bob_view d)"
proof -
  have "reconcile_remote_device_list [] bob_view [''tablet''] \<noteq> []" by code_simp
  then show ?thesis
    using reconciled_directory [of "[]" bob_view "[''tablet'']"] by (simp add: bob_view_def)
qed

text \<open>A core that knows the phone under the name mDNS gave it after a collision.\<close>

definition alias_core :: "unit core_handler" where
  "alias_core rq st =
     (ipc_success (rq_id rq) (output_json \<lparr>ao_exit_code = 0,
        ao_stdout = ''adb-1 (2)._adb-tls-connect._tcp device'', ao_stderr = []\<rparr>), st)"

definition alias_view :: authenticated_session where
  "alias_view = bob_view\<lparr>as_devices := [''adb-1._adb-tls-connect._tcp'']\<rparr>"

definition alias_request :: remote_request where
  "alias_request = ask ''t1'' ''device.invoke'' (JObj [(''deviceId'', JStr ''adb-1._adb-tls-connect._tcp'')])"

theorem alias_resolution_sound_witness:
  "rr_params (fst (resolve_request_device_alias alias_core alias_view alias_request
       \<lparr>sv_accounts = bob_signed_in, sv_core = (), sv_log = []\<rparr>)) =
     JObj [(''deviceId'', JStr ''adb-1 (2)._adb-tls-connect._tcp'')] \<and>
   same_remote_device_identity ''adb-1._adb-tls-connect._tcp'' ''adb-1 (2)._adb-tls-connect._tcp''"
proof -
  let ?st = "\<lparr>sv_accounts = bob_signed_in, sv_core = (), sv_log = []\<rparr>"
  let ?r = "resolve_request_device_alias alias_core alias_view alias_request ?st"
  have p: "rr_params (fst ?r) = JObj [(''deviceId'', JStr ''adb-1 (2)._adb-tls-connect._tcp'')]"
    by code_simp
  then have "fst ?r \<noteq> alias_request" by (auto simp: alias_request_def ask_def)
  with alias_resolution_sound [of alias_core alias_view alias_request ?st "fst ?r" "snd ?r"]
  obtain d cur where "requested_device (rr_method alias_request) (rr_params alias_request) = Some d"
    "requested_device (rr_method alias_request) (rr_params (fst ?r)) = Some cur"
    "same_remote_device_identity d cur" by auto
  then show ?thesis
    using p by (simp add: alias_request_def ask_def requested_device_def user_device_methods_def
        get_str_def)
qed

definition login_request :: remote_request where
  "login_request = \<lparr>rr_id = ''r1'', rr_session_token = None, rr_method = ''auth.login'',
     rr_params = JObj [(''username'', JStr ''bob''), (''password'', JStr ''password'')]\<rparr>"

theorem remote_login_never_admin_witness:
  "rp_ok (fst (run_serve login_request bob_assigned)) \<and>
   (\<exists>v. rp_result (fst (run_serve login_request bob_assigned)) = Some v \<and> get_str ''role'' v = Some ''user'')"
proof -
  have ok: "rp_ok (fst (run_serve login_request bob_assigned))"
    "rp_result (fst (run_serve login_request bob_assigned)) \<noteq> None"
    by code_simp+
  have "rr_method login_request = ''auth.login''" by (simp add: login_request_def)
  from remote_login_never_admin [OF this, of "service_over bob_assigned" plain_argon "pt_serde run_ports"
      "core_handle_request run_ports" "\<lambda>i. env_at 20 []" "fst (run_serve login_request bob_assigned)"
      "snd (run_serve login_request bob_assigned)"] ok run_managers_ok(3)
  show ?thesis by (auto simp: run_serve_def)
qed

end
