(* ===== verification/Account_Directory.thy ===== *)
theory Account_Directory
  imports Remote_Auth_Facts
begin

text \<open>
  The contract of the account manager (\<open>remote/auth.rs\<close>) without its data structures: a directory
  of accounts under their names with a set of devices each, a table of sessions, and seven kinds of
  event. \<open>directory_of\<close> abstracts a manager; every operation of the manager, successful or not,
  is one enabled event of the directory or none.
\<close>

subsection \<open>The directory and its events\<close>

record entry =
  en_hash :: string
  en_devices :: "string set"
  en_must_change :: bool

record directory =
  dir_accounts :: "string \<rightharpoonup> entry"
  dir_sessions :: "string \<rightharpoonup> session_record"

datatype account_event =
    Sign_in string string nat
  | Expire nat
  | Sign_out string
  | Enroll string string
  | Erase string
  | Rekey string string bool
  | Assign string string bool

definition without :: "string \<Rightarrow> (string \<rightharpoonup> session_record) \<Rightarrow> (string \<rightharpoonup> session_record)" where
  "without n ss = retain (\<lambda>_ s. sr_username s \<noteq> n) ss"

definition on_entry :: "string \<Rightarrow> (entry \<Rightarrow> entry) \<Rightarrow> (string \<rightharpoonup> entry) \<Rightarrow> (string \<rightharpoonup> entry)" where
  "on_entry n f as = (case as n of None \<Rightarrow> as | Some e \<Rightarrow> as(n \<mapsto> f e))"

fun dir_apply :: "account_event \<Rightarrow> directory \<Rightarrow> directory" where
  "dir_apply (Sign_in t n ends) D =
     D\<lparr>dir_sessions := (dir_sessions D)(t \<mapsto> \<lparr>sr_username = n, sr_expires_at = ends\<rparr>)\<rparr>"
| "dir_apply (Expire now) D =
     D\<lparr>dir_sessions := retain (\<lambda>_ s. sr_expires_at s > now) (dir_sessions D)\<rparr>"
| "dir_apply (Sign_out t) D = D\<lparr>dir_sessions := (dir_sessions D)(t := None)\<rparr>"
| "dir_apply (Enroll n h) D =
     D\<lparr>dir_accounts := (dir_accounts D)(n \<mapsto> \<lparr>en_hash = h, en_devices = {}, en_must_change = False\<rparr>)\<rparr>"
| "dir_apply (Erase n) D =
     \<lparr>dir_accounts = (dir_accounts D)(n := None), dir_sessions = without n (dir_sessions D)\<rparr>"
| "dir_apply (Rekey n h must) D =
     \<lparr>dir_accounts = on_entry n (\<lambda>e. e\<lparr>en_hash := h, en_must_change := must\<rparr>) (dir_accounts D),
      dir_sessions = without n (dir_sessions D)\<rparr>"
| "dir_apply (Assign n d assigned) D =
     D\<lparr>dir_accounts := on_entry n
         (\<lambda>e. e\<lparr>en_devices := (if assigned then insert d (en_devices e) else en_devices e - {d})\<rparr>)
         (dir_accounts D)\<rparr>"

text \<open>\<open>hashed A p h\<close>: the library made \<open>h\<close> from the password \<open>p\<close> with some salt.\<close>

definition hashed :: "argon \<Rightarrow> string \<Rightarrow> string \<Rightarrow> bool" where
  "hashed A p h \<longleftrightarrow> (\<exists>env. hash_password A env p = Inr h)"

fun dir_enabled :: "argon \<Rightarrow> account_event \<Rightarrow> directory \<Rightarrow> bool" where
  "dir_enabled A (Sign_in t n ends) D \<longleftrightarrow>
     (\<exists>e p. dir_accounts D n = Some e \<and> verify_password A p (en_hash e) = Inr ())"
| "dir_enabled A (Expire now) D \<longleftrightarrow> True"
| "dir_enabled A (Sign_out t) D \<longleftrightarrow> True"
| "dir_enabled A (Enroll n h) D \<longleftrightarrow>
     dir_accounts D n = None \<and> validate_username n = Inr () \<and>
     (\<exists>p. validate_new_password p = Inr () \<and> hashed A p h)"
| "dir_enabled A (Erase n) D \<longleftrightarrow> n \<in> dom (dir_accounts D) \<and> n \<noteq> default_admin_username"
| "dir_enabled A (Rekey n h must) D \<longleftrightarrow>
     (\<exists>e. dir_accounts D n = Some e \<and>
        (\<exists>q. validate_new_password q = Inr () \<and> hashed A q h) \<and>
        (must \<or> (\<exists>p. verify_password A p (en_hash e) = Inr ())))"
| "dir_enabled A (Assign n d assigned) D \<longleftrightarrow> n \<in> dom (dir_accounts D) \<and> trim d \<noteq> []"

inductive dir_step :: "argon \<Rightarrow> directory \<Rightarrow> directory \<Rightarrow> bool" for A :: argon where
  dir_event: "dir_enabled A ev D \<Longrightarrow> dir_step A D (dir_apply ev D)"

inductive_cases dir_stepE: "dir_step A D D'"

subsection \<open>The abstraction\<close>

definition entry_of :: "stored_account \<Rightarrow> entry" where
  "entry_of u = \<lparr>en_hash = sa_password_hash u, en_devices = set (sa_devices u),
                 en_must_change = sa_password_change_required u\<rparr>"

definition accounts_of :: "account_database \<Rightarrow> string \<rightharpoonup> entry" where
  "accounts_of db n = map_option entry_of (bt_get n (db_users db))"

definition directory_of :: "manager \<Rightarrow> directory" where
  "directory_of m = \<lparr>dir_accounts = accounts_of (mg_database m), dir_sessions = mg_sessions m\<rparr>"

text \<open>What the directory answers to a token.\<close>

definition dir_owner :: "directory \<Rightarrow> nat \<Rightarrow> string \<Rightarrow> (string \<times> entry) option" where
  "dir_owner D now t =
     (case dir_sessions D t of
        None \<Rightarrow> None
      | Some s \<Rightarrow>
          if sr_expires_at s \<le> now then None
          else map_option (Pair (sr_username s)) (dir_accounts D (sr_username s)))"

subsection \<open>How the manager's state functions read through the abstraction\<close>

lemma directory_of_sel [simp]:
  "dir_accounts (directory_of m) n = map_option entry_of (bt_get n (users m))"
  "dir_sessions (directory_of m) = mg_sessions m"
  by (simp_all add: directory_of_def accounts_of_def)

lemma directory_eqI:
  fixes D :: directory
  assumes "\<And>n. dir_accounts D n = dir_accounts D' n" and "\<And>t. dir_sessions D t = dir_sessions D' t"
  shows "D = D'"
  by (rule directory.equality) (use assms in auto)

lemma directory_of_persist [simp]: "directory_of (snd (persist_locked env m)) = directory_of m"
  by (simp add: directory_of_def)

lemma directory_of_persistD: "persist_locked env m = (r, m') \<Longrightarrow> directory_of m' = directory_of m"
  by (metis directory_of_persist snd_conv)

lemma directory_of_purge [simp]:
  "directory_of (purge_expired now m) = dir_apply (Expire now) (directory_of m)"
  by (simp add: directory_of_def purge_expired_def)

lemma drop_sessions_without [simp]: "mg_sessions (drop_sessions_of n m) = without n (mg_sessions m)"
  by (simp add: drop_sessions_of_def without_def)

lemma directory_of_put:
  "directory_of (set_users (bt_insert n u (users m)) m) =
     (directory_of m)\<lparr>dir_accounts := (dir_accounts (directory_of m))(n \<mapsto> entry_of u)\<rparr>"
  by (rule directory_eqI) simp_all

lemma directory_of_enroll:
  "directory_of (set_users (bt_insert n (new_user n h) (users m)) m) =
     dir_apply (Enroll n h) (directory_of m)"
  by (simp add: directory_of_put entry_of_def new_user_def)

lemma directory_of_erase:
  "directory_of (drop_sessions_of n (set_users (bt_remove n (users m)) m)) =
     dir_apply (Erase n) (directory_of m)"
  by (rule directory_eqI) simp_all

lemma directory_of_rekey:
  assumes "bt_get n (users m) = Some u"
  shows "directory_of (drop_sessions_of n (set_users (bt_insert n
           (u\<lparr>sa_password_hash := h, sa_password_change_required := b\<rparr>) (users m)) m)) =
         dir_apply (Rekey n h b) (directory_of m)"
  by (rule directory_eqI) (simp_all add: assms on_entry_def entry_of_def)

lemma directory_of_assign:
  assumes "bt_get n (users m) = Some u"
  shows "directory_of (set_users (bt_insert n (assign_devices b d u) (users m)) m) =
         dir_apply (Assign n d b) (directory_of m)"
  by (rule directory_eqI) (simp_all add: assms on_entry_def entry_of_def assign_devices_def)

subsection \<open>Every operation is an enabled event or none\<close>

definition simulated :: "argon \<Rightarrow> manager \<Rightarrow> manager \<Rightarrow> bool" where
  "simulated A m m' \<longleftrightarrow>
     directory_of m' = directory_of m \<or> dir_step A (directory_of m) (directory_of m')"

lemma simulated_stay [simp]: "simulated A m m"
  by (simp add: simulated_def)

lemma simulatedI:
  "directory_of m' = dir_apply ev (directory_of m) \<Longrightarrow> dir_enabled A ev (directory_of m) \<Longrightarrow> simulated A m m'"
  by (simp add: simulated_def dir_event)

lemma simulated_persist [simp]: "simulated A m (snd (persist_locked env m')) \<longleftrightarrow> simulated A m m'"
  by (simp add: simulated_def)

lemma simulated_persistD: "persist_locked env m'' = (r, m') \<Longrightarrow> simulated A m m'' \<Longrightarrow> simulated A m m'"
  by (simp add: simulated_def directory_of_persistD)

lemma hashedI: "hash_password A env p = Inr h \<Longrightarrow> hashed A p h"
  by (auto simp: hashed_def)

lemma simulated_login: "simulated A m (snd (login A env n p m))"
proof (cases "login A env n p m")
  case (Pair r m')
  show ?thesis
  proof (cases r)
    case (Inl e)
    with Pair have "m' = m" by (auto simp: login_def split: sum.splits option.splits)
    with Pair show ?thesis by simp
  next
    case (Inr s)
    with Pair obtain u where u: "bt_get n (users m) = Some u"
      "verify_password A p (sa_password_hash u) = Inr ()"
      and m': "m' = m\<lparr>mg_sessions := (mg_sessions m)(env_token env \<mapsto>
               \<lparr>sr_username = n, sr_expires_at = env_now env + mg_session_ttl m\<rparr>)\<rparr>"
      by (auto simp: login_Inr_iff)
    have "directory_of m' =
        dir_apply (Sign_in (env_token env) n (env_now env + mg_session_ttl m)) (directory_of m)"
      by (simp add: m' directory_of_def)
    from simulatedI [OF this, of A] show ?thesis using u Pair by (auto simp: entry_of_def)
  qed
qed

lemma simulated_authenticate: "simulated A m (snd (authenticate env t m))"
  by (auto simp: authenticate_state intro: simulatedI [of _ "Expire (env_now env)"])

lemma simulated_logout: "simulated A m (snd (logout t m))"
  by (auto simp: logout_def lock_state_def directory_of_def intro!: simulatedI [of _ "Sign_out t"])

lemma simulated_create: "simulated A m (snd (create_user A env n p m))"
  by (auto simp: create_user_def split: sum.splits option.splits prod.splits
      elim!: simulated_persistD intro!: simulatedI [OF directory_of_enroll] hashedI
      simp del: validate_username_Inr_iff validate_new_password_Inr_iff)

lemma simulated_delete: "simulated A m (snd (delete_user env n m))"
  by (auto simp: delete_user_def split: sum.splits option.splits
      intro!: simulatedI [OF directory_of_erase])

lemma simulated_rekey:
  assumes "bt_get n (users m) = Some u" and "validate_new_password q = Inr ()"
    and "hash_password A env q = Inr h" and "b \<or> verify_password A p (sa_password_hash u) = Inr ()"
  shows "simulated A m (drop_sessions_of n (set_users (bt_insert n
           (u\<lparr>sa_password_hash := h, sa_password_change_required := b\<rparr>) (users m)) m))"
proof (rule simulatedI [OF directory_of_rekey [OF assms(1)]])
  show "dir_enabled A (Rekey n h b) (directory_of m)"
    using assms hashedI [OF assms(3)] by (auto simp: entry_of_def)
qed

lemma simulated_change: "simulated A m (snd (change_own_password A env n p q m))"
  by (auto simp: change_own_password_def split: sum.splits option.splits intro: simulated_rekey)

lemma simulated_reset: "simulated A m (snd (reset_password A env n q m))"
  by (auto simp: reset_password_def split: sum.splits option.splits intro: simulated_rekey)

lemma simulated_assign: "simulated A m (snd (set_device_access env n d b m))"
  by (auto simp: set_device_access_def split: sum.splits option.splits prod.splits
      elim!: simulated_persistD intro!: simulatedI [OF directory_of_assign])

lemmas simulated_ops =
  simulated_login simulated_authenticate simulated_logout simulated_create
  simulated_delete simulated_change simulated_reset simulated_assign

lemma auth_step_simulated: "auth_step A m m' \<Longrightarrow> simulated A m m'"
  by (auto elim!: auth_stepE intro: simulated_ops)

lemma authenticate_owner:
  assumes "\<not> mg_poisoned m" and "\<And>k u. bt_get k (users m) = Some u \<Longrightarrow> sa_username u = k"
  shows "map_option (\<lambda>s. (as_username s, set (as_devices s), as_password_change_required s))
           (case fst (authenticate env t m) of Inl e \<Rightarrow> None | Inr s \<Rightarrow> Some s) =
         map_option (\<lambda>(n, e). (n, en_devices e, en_must_change e))
           (dir_owner (directory_of m) (env_now env) t)"
  using assms
  by (auto simp: authenticate_def lock_state_def Let_def dir_owner_def session_from_user_def
      entry_of_def purge_expired_def retain_def split: option.splits)

text \<open>A start of the core opens a directory with the administrator and without sessions.\<close>

definition dir_start :: "directory \<Rightarrow> bool" where
  "dir_start D \<longleftrightarrow> default_admin_username \<in> dom (dir_accounts D) \<and> dir_sessions D = Map.empty"

lemma load_sessions:
  "fst (load_or_initialize_with_session_ttl A env ttl fl) = Inr m \<Longrightarrow> mg_sessions m = Map.empty"
  by (cases fl) (auto simp: load_or_initialize_with_session_ttl_def opened_def split: sum.splits prod.splits)

lemma opens_sessions: "opens A m \<Longrightarrow> mg_sessions m = Map.empty"
  unfolding opens_def by (blast intro: load_sessions)

lemma opens_dir_start:
  assumes "opens A m"
  shows "dir_start (directory_of m)"
  using manager_okD(2) [OF opens_ok [OF assms]] opens_sessions [OF assms]
  by (auto simp: dir_start_def)

interpretation accounts: simulation "opens A" "auth_step A" manager_ok dir_start "dir_step A" directory_of for A
  by unfold_locales (use auth_step_simulated opens_dir_start in \<open>auto simp: simulated_def\<close>)

text \<open>C7. The account manager refines an abstract directory of accounts and sessions. In every
  state reachable from a start of the core (a fresh directory, or a file whose database is well
  formed) its abstraction is reachable in the directory; each operation, whether it succeeds, is
  refused or fails to write the file, is one enabled event of the directory (a sign-in with a
  password the library accepts, an expiry, a sign-out, an enrolment of a valid new name under the
  hash of a valid password, an erasure of an account other than the administrator with its
  sessions, a re-keying that drops the account's sessions, an assignment of one device) or leaves
  the directory as it is; and a token is accepted exactly when the directory knows an unexpired
  session of an existing account for it, with that account's name, devices and flag.\<close>

theorem manager_refines_directory:
  assumes "reachable (opens A) (auth_step A) m"
  shows "reachable dir_start (dir_step A) (directory_of m) \<and>
         (auth_step A m m' \<longrightarrow>
            directory_of m' = directory_of m \<or> dir_step A (directory_of m) (directory_of m')) \<and>
         (\<not> mg_poisoned m \<longrightarrow>
            map_option (\<lambda>s. (as_username s, set (as_devices s), as_password_change_required s))
              (case fst (authenticate env t m) of Inl e \<Rightarrow> None | Inr s \<Rightarrow> Some s) =
            map_option (\<lambda>(n, e). (n, en_devices e, en_must_change e))
              (dir_owner (directory_of m) (env_now env) t))"
proof (intro conjI impI)
  have ok: "manager_ok m" by (rule auth.reach_inv [OF assms])
  show "reachable dir_start (dir_step A) (directory_of m)" by (rule accounts.reach_abs [OF assms])
  show "directory_of m' = directory_of m \<or> dir_step A (directory_of m) (directory_of m')"
    if "auth_step A m m'" using accounts.step_abs [OF ok that] .
  show "map_option (\<lambda>s. (as_username s, set (as_devices s), as_password_change_required s))
              (case fst (authenticate env t m) of Inl e \<Rightarrow> None | Inr s \<Rightarrow> Some s) =
            map_option (\<lambda>(n, e). (n, en_devices e, en_must_change e))
              (dir_owner (directory_of m) (env_now env) t)" if "\<not> mg_poisoned m"
    using that manager_okD(3) [OF ok] by (intro authenticate_owner) (auto simp: account_ok_def)
qed

end
