(* ===== verification/Account_Lifetimes.thy ===== *)
theory Account_Lifetimes
  imports Account_Directory
begin

text \<open>
  The account database over the whole life of an installation (\<open>remote/auth.rs\<close>): starts of
  the core, operations, crashes and torn writes in any order, from an empty data directory.
  What every account ever stored looks like is proved on the abstract directory and carried
  over to the manager and to the file it starts from.
\<close>

subsection \<open>Every entry was made by the code\<close>

text \<open>
  An entry has a permitted name, no blank device id, and a hash of a password of permitted length,
  except the administrator before the first change of the initial password.
\<close>

definition entry_made :: "argon \<Rightarrow> string \<Rightarrow> entry \<Rightarrow> bool" where
  "entry_made A n e \<longleftrightarrow>
     validate_username n = Inr () \<and>
     (\<forall>d \<in> en_devices e. trim d \<noteq> []) \<and>
     ((\<exists>p. validate_new_password p = Inr () \<and> hashed A p (en_hash e)) \<or>
      (n = default_admin_username \<and> hashed A default_admin_password (en_hash e) \<and> en_must_change e))"

definition all_made :: "argon \<Rightarrow> (string \<rightharpoonup> entry) \<Rightarrow> bool" where
  "all_made A as \<longleftrightarrow>
     default_admin_username \<in> dom as \<and> (\<forall>n e. as n = Some e \<longrightarrow> entry_made A n e)"

lemma all_made_event:
  assumes "all_made A (dir_accounts D)" and "dir_enabled A ev D"
  shows "all_made A (dir_accounts (dir_apply ev D))"
  using assms
  by (cases ev) (auto simp: all_made_def entry_made_def on_entry_def
      simp del: validate_username_Inr_iff validate_new_password_Inr_iff split: option.splits if_splits)

lemma all_made_step: "all_made A (dir_accounts D) \<Longrightarrow> dir_step A D D' \<Longrightarrow> all_made A (dir_accounts D')"
  by (auto elim!: dir_stepE intro: all_made_event)

definition directory_made :: "argon \<Rightarrow> directory \<Rightarrow> bool" where
  "directory_made A D \<longleftrightarrow> all_made A (dir_accounts D)"

interpretation made: invariant_machine
  "\<lambda>D. dir_start D \<and> directory_made A D" "dir_step A" "directory_made A" for A
  by unfold_locales (auto simp: directory_made_def intro: all_made_step)

subsection \<open>Lives of an installation\<close>

text \<open>
  \<open>mg_file\<close> is what the next start reads. A write that fails leaves the file as it was, writes
  it completely, or leaves a truncated text, which is not JSON (\<open>torn\<close>). \<open>broken f\<close>: the next
  start cannot read the file.
\<close>

datatype life = Stopped account_file | Running manager

definition broken :: "account_file \<Rightarrow> bool" where
  "broken f \<longleftrightarrow> (case f of Unreadable c \<Rightarrow> True | Unparsable c \<Rightarrow> True | No_file \<Rightarrow> False | Parsed db \<Rightarrow> False)"

definition left_behind :: "account_file \<Rightarrow> account_database \<Rightarrow> account_file \<Rightarrow> bool" where
  "left_behind before db after \<longleftrightarrow> after = before \<or> after = Parsed db \<or> broken after"

inductive life_step :: "argon \<Rightarrow> life \<Rightarrow> life \<Rightarrow> bool" for A :: argon where
  life_start: "load_or_initialize_with_session_ttl A env ttl f = (Inr m, f') \<Longrightarrow>
     life_step A (Stopped f) (Running m)"
| life_refused: "load_or_initialize_with_session_ttl A env ttl f = (Inl e, f') \<Longrightarrow>
     f' = f \<or> broken f' \<or>
       (\<exists>h. hash_password A env default_admin_password = Inr h \<and> f' = Parsed (initial_database h)) \<Longrightarrow>
     life_step A (Stopped f) (Stopped f')"
| life_operation: "auth_step A m m' \<Longrightarrow> left_behind (mg_file m) (mg_database m') (mg_file m') \<Longrightarrow>
     life_step A (Running m) (Running m')"
| life_panic: "life_step A (Running m) (Running (m\<lparr>mg_poisoned := True\<rparr>))"
| life_stop: "life_step A (Running m) (Stopped (mg_file m))"
| life_wipe: "life_step A (Stopped f) (Stopped No_file)"

inductive_cases life_stepE: "life_step A s s'"

subsection \<open>The invariant of a life\<close>

definition file_made :: "argon \<Rightarrow> account_file \<Rightarrow> bool" where
  "file_made A f \<longleftrightarrow> (\<forall>db. f = Parsed db \<longrightarrow> database_ok db \<and> all_made A (accounts_of db))"

fun life_ok :: "argon \<Rightarrow> life \<Rightarrow> bool" where
  "life_ok A (Stopped f) \<longleftrightarrow> file_made A f"
| "life_ok A (Running m) \<longleftrightarrow>
     manager_ok m \<and> directory_made A (directory_of m) \<and> file_made A (mg_file m)"

lemma directory_made_of: "directory_made A (directory_of m) \<longleftrightarrow> all_made A (accounts_of (mg_database m))"
  by (simp add: directory_made_def directory_of_def)

lemma file_made_simps [simp]:
  "file_made A No_file"
  "broken f \<Longrightarrow> file_made A f"
  "file_made A (Parsed db) \<longleftrightarrow> database_ok db \<and> all_made A (accounts_of db)"
  by (auto simp: file_made_def broken_def split: account_file.splits)

lemma default_name_valid [simp]: "validate_username default_admin_username = Inr ()"
  by code_simp

lemma initial_made:
  assumes "hash_password A env default_admin_password = Inr h"
  shows "all_made A (accounts_of (initial_database h))"
  using hashedI [OF assms]
  by (auto simp: all_made_def entry_made_def accounts_of_def initial_database_def bt_get_def
      initial_admin_def entry_of_def split: if_splits simp del: validate_username_Inr_iff)

lemma load_made:
  assumes "load_or_initialize_with_session_ttl A env ttl f = (Inr m, f')" and "file_made A f"
  shows "life_ok A (Running m)"
proof (cases f)
  case No_file
  with assms(1) obtain h where h: "hash_password A env default_admin_password = Inr h"
    and m: "m = opened ttl (initial_database h) (Parsed (initial_database h))"
    by (auto simp: load_or_initialize_with_session_ttl_def persist_database_def
        split: sum.splits prod.splits disk_reply.splits)
  show ?thesis
    using initial_made [OF h] initial_database_ok opened_ok [OF initial_database_ok]
    by (simp add: m directory_made_of) (simp add: opened_def)
next
  case (Parsed db)
  with assms(1) have m: "m = opened ttl db (Parsed db)"
    by (auto simp: load_or_initialize_with_session_ttl_def split: sum.splits)
  show ?thesis
    using assms(2) Parsed opened_ok by (simp add: m directory_made_of) (simp add: opened_def)
qed (use assms(1) in \<open>simp_all add: load_or_initialize_with_session_ttl_def\<close>)

lemma simulated_made:
  "simulated A m m' \<Longrightarrow> directory_made A (directory_of m) \<Longrightarrow> directory_made A (directory_of m')"
  by (auto simp: simulated_def intro: made.step_inv)

lemma life_ok_operation:
  assumes "auth_step A m m'" and "left_behind (mg_file m) (mg_database m') (mg_file m')"
    and "life_ok A (Running m)"
  shows "life_ok A (Running m')"
proof -
  have ok: "manager_ok m'" using assms(1,3) by (auto intro: auth.step_inv)
  have made: "directory_made A (directory_of m')"
    using auth_step_simulated [OF assms(1)] assms(3) by (auto intro: simulated_made)
  have "file_made A (mg_file m')"
    using assms(2,3) ok made by (auto simp: left_behind_def manager_ok_def directory_made_of)
  with ok made show ?thesis by simp
qed

lemma life_ok_step: "life_ok A s \<Longrightarrow> life_step A s s' \<Longrightarrow> life_ok A s'"
proof (erule life_stepE, goal_cases)
  case (1 env ttl f m f')
  then show ?case using load_made by auto
next
  case (3 m m')
  then show ?case using life_ok_operation by blast
next
  case (4 m)
  then show ?case by (simp add: directory_made_of) (simp add: manager_ok_def)
qed (auto simp: initial_made initial_database_ok)

interpretation lives: invariant_machine "\<lambda>s. s = Stopped No_file" "life_step A" "life_ok A" for A
  by unfold_locales (auto intro: life_ok_step)

text \<open>C6. Over the whole life of an installation that began with an empty data directory (starts,
  operations that succeed, are refused or fail to write, panics, stops, crashes that tear the file,
  removal of the file, in any order): the running manager always has its built-in
  administrator, no other administrator, only accounts with permitted names stored under their
  own name, only non-blank device ids, and only hashes the library made from a password of 8 to
  1024 bytes, the one exception being the administrator with the initial password, who is then
  marked as having to change it; every session belongs to an account; and a file that parses is
  always accepted by the next start with exactly its accounts. Assumed of the file system: a failed
  write leaves the old text, the new text or one that does not parse.\<close>

theorem accounts_made_over_lifetimes:
  assumes "reachable (\<lambda>s. s = Stopped No_file) (life_step A) s"
  shows "(\<forall>m. s = Running m \<longrightarrow>
            (\<exists>a. bt_get default_admin_username (users m) = Some a \<and> sa_role a = Admin) \<and>
            (\<forall>k u. bt_get k (users m) = Some u \<longrightarrow>
               sa_username u = k \<and> (sa_role u = Admin \<longleftrightarrow> k = default_admin_username) \<and>
               validate_username k = Inr () \<and> (\<forall>d \<in> set (sa_devices u). trim d \<noteq> []) \<and>
               ((\<exists>p. validate_new_password p = Inr () \<and> hashed A p (sa_password_hash u)) \<or>
                (k = default_admin_username \<and> hashed A default_admin_password (sa_password_hash u) \<and>
                 sa_password_change_required u))) \<and>
            (\<forall>t r. mg_sessions m t = Some r \<longrightarrow> (\<exists>u. bt_get (sr_username r) (users m) = Some u))) \<and>
         (\<forall>db. s = Stopped (Parsed db) \<longrightarrow>
            load_or_initialize_with_session_ttl A env ttl (Parsed db) =
              (Inr (opened ttl db (Parsed db)), Parsed db))"
proof (rule conjI; intro allI impI)
  fix m assume "s = Running m"
  with lives.reach_inv [OF assms] have ok: "manager_ok m" and made: "all_made A (accounts_of (mg_database m))"
    by (auto simp: directory_made_of)
  have "sa_username u = k \<and> (sa_role u = Admin \<longleftrightarrow> k = default_admin_username) \<and>
      entry_made A k (entry_of u)" if "bt_get k (users m) = Some u" for k u
    using made manager_okD(3) [OF ok that] that
    by (auto simp: all_made_def accounts_of_def account_ok_def)
  with manager_okD(2,4) [OF ok]
  show "(\<exists>a. bt_get default_admin_username (users m) = Some a \<and> sa_role a = Admin) \<and>
      (\<forall>k u. bt_get k (users m) = Some u \<longrightarrow>
         sa_username u = k \<and> (sa_role u = Admin \<longleftrightarrow> k = default_admin_username) \<and>
         validate_username k = Inr () \<and> (\<forall>d \<in> set (sa_devices u). trim d \<noteq> []) \<and>
         ((\<exists>p. validate_new_password p = Inr () \<and> hashed A p (sa_password_hash u)) \<or>
          (k = default_admin_username \<and> hashed A default_admin_password (sa_password_hash u) \<and>
           sa_password_change_required u))) \<and>
      (\<forall>t r. mg_sessions m t = Some r \<longrightarrow> (\<exists>u. bt_get (sr_username r) (users m) = Some u))"
    by (fastforce simp: entry_made_def entry_of_def simp del: validate_username_Inr_iff validate_new_password_Inr_iff)
next
  fix db assume "s = Stopped (Parsed db)"
  with lives.reach_inv [OF assms] have db: "database_ok db" by auto
  then have "validate_database db = Inr ()"
    by (auto simp: database_ok_def account_ok_def ok_iff)
  then show "load_or_initialize_with_session_ttl A env ttl (Parsed db) =
      (Inr (opened ttl db (Parsed db)), Parsed db)"
    by (simp add: load_or_initialize_with_session_ttl_def)
qed

end
