(* ===== verification/Account_Witnesses.thy ===== *)
theory Account_Witnesses
  imports Concrete_Runs Account_Lifetimes
begin

text \<open>
  The refinement of the account manager and its life across restarts, applied to the concrete
  installation with one ordinary user.
\<close>

theorem manager_refines_directory_witness:
  "reachable dir_start (dir_step plain_argon) (directory_of bob_signed_in) \<and>
   (\<exists>e. dir_owner (directory_of bob_signed_in) 20 ''t1'' = Some (''bob'', e) \<and> en_devices e = {''phone''})"
proof -
  have np: "\<not> mg_poisoned bob_signed_in" by code_simp
  have now: "env_now (env_at 20 []) = 20" by (simp add: env_at_def)
  have "map_option (\<lambda>s. (as_username s, set (as_devices s), as_password_change_required s))
          (case fst (authenticate (env_at 20 []) ''t1'' bob_signed_in) of Inl e \<Rightarrow> None | Inr s \<Rightarrow> Some s) =
        map_option (\<lambda>(n, e). (n, en_devices e, en_must_change e))
          (dir_owner (directory_of bob_signed_in) (env_now (env_at 20 [])) ''t1'')"
    using manager_refines_directory [OF reachable_bob] np by blast
  with now have "\<exists>e. dir_owner (directory_of bob_signed_in) 20 ''t1'' = Some (''bob'', e) \<and> en_devices e = {''phone''}"
    by (cases "dir_owner (directory_of bob_signed_in) 20 ''t1''") (auto simp: bob_session)
  moreover have "reachable dir_start (dir_step plain_argon) (directory_of bob_signed_in)"
    using manager_refines_directory [OF reachable_bob] by blast
  ultimately show ?thesis by blast
qed

abbreviation plain_lives :: "life \<Rightarrow> bool" where
  "plain_lives \<equiv> reachable (\<lambda>s. s = Stopped No_file) (life_step plain_argon)"

lemmas lives_on = reachable_step [where start = "\<lambda>s. s = Stopped No_file" and step = "life_step plain_argon"]

lemma fresh_lives: "plain_lives (Running fresh_manager)"
proof (rule lives_on)
  show "plain_lives (Stopped No_file)" by (rule reachable_start) simp
  have "load_or_initialize_with_session_ttl plain_argon (env_at 0 []) 3600 No_file =
      (Inr fresh_manager, mg_file fresh_manager)"
    by (simp add: load_or_initialize_with_session_ttl_def hash_password_def plain_argon_def
        persist_database_def env_at_def fresh_manager_def default_admin_password_def opened_def)
  then show "life_step plain_argon (Stopped No_file) (Running fresh_manager)" by (rule life_start)
qed

lemma lives_operation:
  assumes "plain_lives (Running m)" and "auth_step plain_argon m m'" and "mg_file m' = Parsed (mg_database m')"
  shows "plain_lives (Running m')"
  by (rule lives_on [OF assms(1) life_operation [OF assms(2)]]) (simp add: left_behind_def assms(3))

lemma bob_files:
  "mg_file bob_created = Parsed (mg_database bob_created)"
  "mg_file bob_assigned = Parsed (mg_database bob_assigned)"
  "mg_file bob_signed_in = Parsed (mg_database bob_signed_in)"
  by code_simp+

lemma bob_lives: "plain_lives (Running bob_signed_in)"
proof -
  have "plain_lives (Running bob_created)"
    by (rule lives_operation [OF fresh_lives _ bob_files(1)]) (simp add: bob_created_def step_create)
  then have "plain_lives (Running bob_assigned)"
    by (rule lives_operation [OF _ _ bob_files(2)]) (simp add: bob_assigned_def step_assign)
  then show ?thesis
    by (rule lives_operation [OF _ _ bob_files(3)]) (simp add: bob_signed_in_def step_login)
qed

lemma bob_stops: "plain_lives (Stopped (Parsed (mg_database bob_signed_in)))"
  using lives_on [OF bob_lives life_stop] by (simp add: bob_files)

theorem accounts_made_over_lifetimes_witness:
  "(\<exists>u. bt_get ''bob'' (users bob_signed_in) = Some u \<and> sa_username u = ''bob'' \<and> sa_role u \<noteq> Admin) \<and>
   fst (load_or_initialize plain_argon (env_at 40 []) (Parsed (mg_database bob_signed_in))) =
     Inr (opened default_session_ttl (mg_database bob_signed_in) (Parsed (mg_database bob_signed_in)))"
proof -
  have "bt_get ''bob'' (users bob_signed_in) \<noteq> None" by code_simp
  then obtain u where u: "bt_get ''bob'' (users bob_signed_in) = Some u" by blast
  moreover have "''bob'' \<noteq> default_admin_username" by (simp add: default_admin_username_def)
  moreover have "sa_username u = ''bob'' \<and> (sa_role u = Admin \<longleftrightarrow> ''bob'' = default_admin_username)"
    using accounts_made_over_lifetimes [OF bob_lives] u by blast
  moreover note accounts_made_over_lifetimes [OF bob_stops, of "env_at 40 []" default_session_ttl]
  ultimately show ?thesis by (simp add: load_or_initialize_def)
qed

end
