(* ===== verification/Core_Witnesses.thy ===== *)
theory Core_Witnesses
  imports Concrete_Runs
begin

text \<open>
  The properties of the core service and of the parts that run adb, each applied to a concrete
  state in which its hypotheses hold.
\<close>

subsection \<open>Diagnostics and commands\<close>

definition forged_report :: json where
  "forged_report = JObj [(''sessionId'', JStr ''s-1''),
     (''events'', JArr [JObj [(''phase'', JStr ''a{b}''), (''module'', JStr ''net''), (''ok'', JBool True)]])]"

definition report_result :: "(app_error + json) \<times> unit service" where
  "report_result = report_diagnostics (\<lambda>k v. ''invalid'') forged_report
     \<lparr>as_token = ''t1'', as_username = ''bob'', as_role = User, as_devices = [],
      as_password_change_required = False\<rparr>
     \<lparr>sv_accounts = fresh_manager, sv_core = (), sv_log = []\<rparr>"

theorem diagnostics_bounded_and_safe_witness:
  "is_ok (fst report_result) \<and> length (sv_log (snd report_result)) = 1 \<and>
   get_str ''phase'' (hd (sv_log (snd report_result))) = Some ''unknown'' \<and>
   list_all safe_byte ''unknown''"
proof -
  have p: "is_ok (fst report_result)" "length (sv_log (snd report_result)) = 1"
    "get_str ''phase'' (hd (sv_log (snd report_result))) = Some ''unknown''"
    by code_simp+
  obtain r st' where run: "report_result = (r, st')" by (cases report_result)
  obtain ls where log: "sv_log st' = sv_log \<lparr>sv_accounts = fresh_manager, sv_core = (), sv_log = []\<rparr> @ ls"
    and safe: "\<forall>l \<in> set ls. \<forall>k v. k \<noteq> ''actor'' \<longrightarrow> get_str k l = Some v \<longrightarrow>
        list_all safe_byte v \<and> length v \<le> 200"
    using diagnostics_bounded_and_safe [OF run [unfolded report_result_def]]
    by (elim exE conjE) (rule that; assumption)
  then have ls: "\<forall>l \<in> set (sv_log (snd report_result)). \<forall>k v. k \<noteq> ''actor'' \<longrightarrow>
      get_str k l = Some v \<longrightarrow> list_all safe_byte v \<and> length v \<le> 200"
    by (simp add: run)
  moreover have "hd (sv_log (snd report_result)) \<in> set (sv_log (snd report_result))"
    using p(2) by (intro hd_in_set) auto
  moreover have "''phase'' \<noteq> ''actor''" by simp
  ultimately have "list_all safe_byte ''unknown''"
    using p(3) by (intro ls [THEN bspec, THEN spec, THEN spec, THEN mp, THEN mp, THEN conjunct1])
  with p show ?thesis by simp
qed

definition invoke_request :: ipc_request where
  "invoke_request = \<lparr>rq_id = ''c1'', rq_method = ''device.invoke'',
     rq_params = JObj [(''deviceId'', JStr ''phone''), (''capabilityId'', JStr ''android.input.ime''),
       (''operation'', JStr ''input.text''), (''args'', JObj [])]\<rparr>"

theorem invoked_commands_registered_witness:
  "\<exists>c. snd (co_router (snd (snd (core_handle_request run_ports invoke_request (fresh_manager, run_core))))) = [c] \<and>
     dc_request_id c = ''c1'' \<and> invocable [phone_device] c"
proof -
  let ?r = "core_handle_request run_ports invoke_request (fresh_manager, run_core)"
  have one: "length (snd (co_router (snd (snd ?r)))) = 1" by code_simp
  have start: "snd (co_router run_core) = []" "co_registry run_core = [phone_device]"
    by (simp_all add: run_core_def with_local_admin_def new_core_def)
  have "?r = (fst ?r, fst (snd ?r), snd (snd ?r))" by simp
  from invoked_commands_registered [OF run_ports_sel(2) this] start one
  show ?thesis by (elim disjE exE conjE) (auto simp: invoke_request_def)
qed

subsection \<open>scrcpy\<close>

definition mirror_config :: scrcpy_config where
  "mirror_config =
     \<lparr>sc_session = ''s1'', sc_device_id = ''phone'', sc_apk_path = ''/data/app/x/base.apk'',
      sc_scid = 0x10000001, sc_max_size = 1920, sc_video_bit_rate = 8000000, sc_max_fps = 60\<rparr>"

lemma mirror_config_valid: "validate_scrcpy_config mirror_config = Inr ()"
proof -
  have "trim ''phone'' \<noteq> []" by code_simp
  then show ?thesis
    by (simp add: validate_scrcpy_config_Inr_iff mirror_config_def is_ascii_alphanumeric_def
        is_ascii_digit_def is_ascii_upper_def byte_def starts_with_def ends_with_def apk_path_byte_def)
qed

lemma shell_literal_words:
  assumes "list_all (list_all shell_literal) ws"
  shows "validate_adb_args ws = Inr ()"
proof -
  have "byte c \<noteq> 0" if "shell_literal c" for c
    using that by (auto simp: shell_literal_def is_ascii_alphanumeric_def is_ascii_digit_def is_ascii_upper_def byte_def)
  with assms show ?thesis unfolding validate_adb_args_Inr_iff list_all_iff by blast
qed

lemma mirror_args_ok: "is_ok (build_scrcpy_server_args mirror_config)"
proof -
  have "list_all (list_all shell_literal) (scrcpy_remote_args mirror_config)"
    using mirror_config_valid by (intro scrcpy_words_literal) (simp only: validate_scrcpy_config_Inr_iff)
  moreover have "list_all (list_all shell_literal) [''-s'', sc_device_id mirror_config, ''shell'']"
    by (simp add: mirror_config_def shell_literal_def is_ascii_alphanumeric_def is_ascii_digit_def
        is_ascii_upper_def byte_def)
  ultimately have "validate_adb_args ([''-s'', sc_device_id mirror_config, ''shell''] @
      scrcpy_remote_args mirror_config) = Inr ()"
    by (intro shell_literal_words) (simp only: list_all_append)
  then show ?thesis unfolding is_ok_iff build_scrcpy_Inr_iff using mirror_config_valid by blast
qed

theorem scrcpy_args_confined_witness:
  "\<exists>words. build_scrcpy_server_args mirror_config = Inr (''-s'' # ''phone'' # ''shell'' # words) \<and>
     list_all (list_all shell_literal) words"
proof -
  obtain args where a: "build_scrcpy_server_args mirror_config = Inr args"
    using mirror_args_ok unfolding is_ok_iff by (elim exE)
  from scrcpy_args_confined [OF a] obtain words where
    "args = ''-s'' # sc_device_id mirror_config # ''shell'' # words" "list_all (list_all shell_literal) words"
    by (elim exE conjE) (rule that; assumption)
  moreover have "sc_device_id mirror_config = ''phone''" by (simp add: mirror_config_def)
  ultimately show ?thesis using a by simp
qed

definition one_process :: process_manager where
  "one_process = \<lparr>pm_children = [''s1'' \<mapsto> 41], pm_running = {41}, pm_poisoned = False\<rparr>"

definition killed :: child_reply where
  "killed = \<lparr>cr_has_exited = False, cr_kill_error = None, cr_wait_exits = True\<rparr>"

theorem scrcpy_processes_tracked_witness:
  "pm_children (snd (start_scrcpy (Inr 42) killed mirror_config one_process)) ''s1'' = Some 42 \<and>
   41 \<notin> pm_running (snd (start_scrcpy (Inr 42) killed mirror_config one_process)) \<and>
   41 \<notin> pm_running (snd (stop_scrcpy killed ''s1'' one_process))"
proof -
  have ok: "processes_ok one_process"
    by (auto simp: processes_ok_def one_process_def inj_on_def split: if_splits)
  have eff: "effective killed" by (simp add: effective_def killed_def)
  have new: "42 \<notin> ran (pm_children one_process)" by (simp add: one_process_def)
  have "is_ok (fst (start_scrcpy (Inr 42) killed mirror_config one_process))"
    using mirror_args_ok
    by (cases "build_scrcpy_server_args mirror_config") (simp_all add: start_scrcpy_def Let_def one_process_def)
  with scrcpy_processes_tracked [OF ok eff new, of mirror_config "''s1''"] show ?thesis
    by (auto simp: one_process_def mirror_config_def)
qed

theorem failed_stop_forgets_process_witness:
  "\<exists>e pm'. stop_scrcpy \<lparr>cr_has_exited = False, cr_kill_error = Some ''denied'', cr_wait_exits = False\<rparr>
       ''s1'' one_process = (Inl e, pm') \<and> 41 \<in> pm_running pm' \<and>
     stop_scrcpy killed ''s1'' pm' = (Inr False, pm')"
  using failed_stop_forgets_process [of one_process "''s1''" 41
      "\<lparr>cr_has_exited = False, cr_kill_error = Some ''denied'', cr_wait_exits = False\<rparr>" "''denied''"]
  by (fastforce simp: one_process_def)

subsection \<open>Keep-alive and pairing\<close>

definition idle_keepalive :: keepalive where
  "idle_keepalive =
     \<lparr>ka_status = initial_status 0 default_keepalive_config, ka_queue = [], ka_receiver = True\<rparr>"

theorem keepalive_last_configuration_wins_witness:
  "ks_interval_secs (ka_status (drain (replicate 2 (1, Inr \<lparr>ao_exit_code = 0, ao_stdout = [], ao_stderr = []\<rparr>))
     (configure_all [\<lparr>kc_enabled = False, kc_interval_secs = 10\<rparr>, \<lparr>kc_enabled = True, kc_interval_secs = 60\<rparr>]
        idle_keepalive))) = 60"
  using keepalive_last_configuration_wins [of idle_keepalive "[\<lparr>kc_enabled = False, kc_interval_secs = 10\<rparr>]"
      "\<lparr>kc_enabled = True, kc_interval_secs = 60\<rparr>"
      "replicate 2 (1, Inr \<lparr>ao_exit_code = 0, ao_stdout = [], ao_stderr = []\<rparr>)"]
  by (simp add: idle_keepalive_def)

definition pairing_runner :: "unit runner" where
  "pairing_runner path args w =
     (Inr \<lparr>ao_exit_code = 0,
           ao_stdout = (if args = [''mdns'', ''services'']
                        then ''studio-AB _adb-tls-pairing._tcp 10.0.0.2:4444''
                        else ''Successfully paired to 10.0.0.2:4444''), ao_stderr = []\<rparr>, w)"

definition one_pairing :: pairing_manager where
  "one_pairing = \<lparr>wp_pending = [''q1'' \<mapsto> \<lparr>pp_service_name = ''studio-AB'', pp_password = ''pw'',
     pp_expires_at = 120\<rparr>], wp_poisoned = False\<rparr>"

definition pairing_run :: "(app_error + pairing_result) \<times> pairing_manager \<times> unit \<times> string list list" where
  "pairing_run = pair_device 20 ''q1'' (logged_runner pairing_runner) ''/opt/adb'' one_pairing ((), [])"

theorem wireless_pairing_protocol_witness:
  "is_ok (fst pairing_run) \<and> wp_pending (fst (snd pairing_run)) ''q1'' = None \<and>
   length (snd (snd (snd pairing_run))) = 2"
proof -
  obtain r wm log where run: "pairing_run = (r, wm, (), log)" by (cases pairing_run) auto
  then have "pair_device 20 ''q1'' (logged_runner pairing_runner) ''/opt/adb'' one_pairing ((), []) =
      (r, wm, (), log)"
    by (simp add: pairing_run_def)
  note protocol = wireless_pairing_protocol [OF this]
  have "is_ok (fst pairing_run)" by code_simp
  then have "is_ok r" by (simp only: run fst_conv)
  with protocol have "length log = 2 \<and> wp_pending wm ''q1'' = None" by blast
  with \<open>is_ok r\<close> show ?thesis by (simp only: run fst_conv snd_conv)
qed

end
