(* ===== verification/Companion_Witnesses.thy ===== *)
theory Companion_Witnesses
  imports Companion_Ingress Companion_Router
begin

text \<open>
  The properties of the companion side, each applied to a concrete state in which its hypotheses
  hold.
\<close>

subsection \<open>Envelopes, registry and sessions\<close>

theorem envelope_roundtrip_witness:
  "decode_envelope (envelope_json demo_hello) = Some demo_hello"
  by (rule envelope_roundtrip) (simp add: demo_hello_def demo_envelope_def)

theorem registry_refines_map_witness:
  "registry_abs (upsert (sample_android_companion_device\<lparr>dv_display_name := ''Renamed''\<rparr>)
       [sample_android_companion_device]) ''android-companion-sample'' =
     Some (sample_android_companion_device\<lparr>dv_display_name := ''Renamed''\<rparr>) \<and>
   registry_abs (remove_device ''android-companion-sample'' [sample_android_companion_device]) = Map.empty"
proof -
  have "registry_ok [sample_android_companion_device]" by (simp add: registry_ok_def)
  from registry_refines_map [OF this] show ?thesis
    by (simp add: registry_abs_def sample_android_companion_device_def fun_eq_iff)
qed

definition plain_text :: serde_text where
  "plain_text k v = []"

definition demo_capabilities :: envelope where
  "demo_capabilities = demo_envelope CapabilityList
     (JObj [(''capabilities'', JArr [JObj [(''id'', JStr ''android.sms.read'')]])])"

definition greeted :: sessions where
  "greeted = snd (session_handle_envelope plain_text demo_hello [])"

definition reported :: sessions where
  "reported = snd (session_handle_envelope plain_text demo_capabilities greeted)"

lemma reachable_reported: "reachable (\<lambda>ss. ss = []) session_step reported"
proof -
  have "reachable (\<lambda>ss. ss = []) session_step []" by (rule reachable_start) (rule refl)
  then have "reachable (\<lambda>ss. ss = []) session_step greeted"
    unfolding greeted_def by (rule reachable_step) (rule receive)
  then show ?thesis unfolding reported_def by (rule reachable_step) (rule receive)
qed

theorem reachable_sessions_ok_witness:
  "\<exists>s. bt_get ''d'' reported = Some s \<and> cs_device_id s = ''d'' \<and>
     (\<exists>c \<in> set (cs_capabilities s). catalog_entry (cap_id c) = Some c)"
proof -
  have "map_option (\<lambda>s. length (cs_capabilities s)) (bt_get ''d'' reported) = Some 1" by code_simp
  then obtain s where s: "bt_get ''d'' reported = Some s" "length (cs_capabilities s) = 1" by auto
  then have "hd (cs_capabilities s) \<in> set (cs_capabilities s)" by (intro hd_in_set) auto
  with reachable_sessions_ok [OF reachable_reported s(1)] s show ?thesis by blast
qed

theorem session_message_effect_witness:
  "is_ok (fst (session_handle_envelope plain_text demo_capabilities greeted)) \<and>
   \<not> is_ok (fst (session_handle_envelope plain_text demo_capabilities [])) \<and>
   snd (session_handle_envelope plain_text demo_capabilities []) = [] \<and>
   (\<exists>s. bt_get ''d'' reported = Some s)"
proof -
  have ok: "is_ok (fst (session_handle_envelope plain_text demo_capabilities greeted))"
    "\<not> is_ok (fst (session_handle_envelope plain_text demo_capabilities []))"
    by code_simp+
  then obtain a where a: "fst (session_handle_envelope plain_text demo_capabilities greeted) = Inr a"
    by (auto simp only: is_ok_iff)
  have d: "map_sum (\<lambda>_. ()) ev_device_id (fst (session_handle_envelope plain_text demo_capabilities greeted)) =
      Inr (Some ''d'')" by code_simp
  obtain r where r: "session_handle_envelope plain_text demo_capabilities greeted = (r, reported)"
    by (cases "session_handle_envelope plain_text demo_capabilities greeted") (simp add: reported_def)
  have e: "session_handle_envelope plain_text demo_capabilities [] =
      (fst (session_handle_envelope plain_text demo_capabilities []),
       snd (session_handle_envelope plain_text demo_capabilities []))" by simp
  from session_message_effect [OF e] session_message_effect [OF r] ok a d r show ?thesis by auto
qed

subsection \<open>Trust\<close>

definition upper_free :: "string \<Rightarrow> string" where
  "upper_free ch = ch"

definition phone_pairing :: pairing_request where
  "phone_pairing =
     \<lparr>pq_device_id = ''phone'', pq_device_name = ''Phone'', pq_fingerprint = replicate 64 CHR ''a''\<rparr>"

definition phone_challenge :: challenge where
  "phone_challenge = new_challenge upper_free 0 7 phone_pairing 1"

definition paired_store :: trust_store where
  "paired_store = snd (begin_pairing upper_free 0 7 phone_pairing 1 empty_store)"

definition trusting_store :: trust_store where
  "trusting_store = snd (confirm_pairing (ch_pairing_id phone_challenge) (ch_short_code phone_challenge) 2 paired_store)"

lemma phone_pairing_valid:
  "validate_device_id (pq_device_id phone_pairing) = Inr ()"
  "validate_fingerprint upper_free (pq_fingerprint phone_pairing) = Inr ()"
  by code_simp+

lemma paired_store_eq:
  "paired_store = \<lparr>ts_pending = [ch_pairing_id phone_challenge \<mapsto> phone_challenge], ts_trusted = []\<rparr>"
  by (simp add: paired_store_def begin_pairing_def phone_pairing_valid phone_challenge_def Let_def empty_store_def)

lemma phone_challenge_sel [simp]:
  "ch_device_id phone_challenge = ''phone''" "ch_expires_at phone_challenge = 1 + pairing_ttl_ms"
  by (simp_all add: phone_challenge_def new_challenge_def phone_pairing_def)

lemma confirm_phone:
  "confirm_pairing (ch_pairing_id phone_challenge) (ch_short_code phone_challenge) 2 paired_store =
     (Inr (trusted_from phone_challenge 2), trusting_store)"
  by (rule prod_eqI)
    (simp_all add: trusting_store_def, simp add: confirm_pairing_def paired_store_eq pairing_ttl_ms_def)

lemma reachable_paired: "reachable (trust_start upper_free) (trust_step upper_free) paired_store"
proof -
  have "trust_start upper_free empty_store"
    unfolding trust_start_def by (rule exI [of _ Trust_missing]) (simp add: load_trusted_devices_from_file_def)
  then have "reachable (trust_start upper_free) (trust_step upper_free) empty_store"
    by (rule reachable_start)
  then show ?thesis unfolding paired_store_def by (rule reachable_step) (rule trust_begin)
qed

lemma reachable_trusting: "reachable (trust_start upper_free) (trust_step upper_free) trusting_store"
  unfolding trusting_store_def by (rule reachable_step [OF reachable_paired trust_confirm])

theorem pairing_guesses_bounded_witness:
  "confirm_pairing (ch_pairing_id phone_challenge) (ch_short_code phone_challenge) 3
     (guesses (ch_pairing_id phone_challenge) (replicate 5 (''x'', 2)) paired_store) =
   (Inl pairing_not_found, guesses (ch_pairing_id phone_challenge) (replicate 5 (''x'', 2)) paired_store)"
proof -
  have "length (ch_short_code phone_challenge) = 6" by code_simp
  then have "\<forall>g \<in> set (replicate 5 (''x'', 2)). fst g \<noteq> ch_short_code phone_challenge \<and> snd g \<le> ch_expires_at phone_challenge"
    by (cases "ch_short_code phone_challenge") (auto simp: pairing_ttl_ms_def)
  moreover have "ts_pending paired_store (ch_pairing_id phone_challenge) = Some phone_challenge"
    by (simp add: paired_store_eq)
  ultimately show ?thesis
    using pairing_guesses_bounded [OF reachable_paired, of "ch_pairing_id phone_challenge" phone_challenge
        "replicate 5 (''x'', 2)" 3]
    by (simp add: max_pairing_attempts_def)
qed

theorem confirm_grants_trust_witness:
  "is_trusted upper_free ''phone'' (replicate 64 CHR ''a'') 100 trusting_store \<and>
   \<not> is_trusted upper_free ''phone'' (replicate 64 CHR ''b'') 100 trusting_store"
proof -
  have fp: "normalize_fingerprint upper_free (replicate 64 CHR ''a'') = ch_fingerprint phone_challenge"
    "normalize_fingerprint upper_free (replicate 64 CHR ''b'') \<noteq> ch_fingerprint phone_challenge"
    by code_simp+
  have "ts_pending paired_store (ch_pairing_id phone_challenge) = Some phone_challenge"
    by (simp add: paired_store_eq)
  with confirm_grants_trust [OF confirm_phone, of upper_free] fp show ?thesis
    by (auto simp: trust_ttl_ms_def)
qed

theorem revocation_is_final_witness:
  "is_trusted upper_free ''phone'' (replicate 64 CHR ''a'') 100 trusting_store \<and>
   \<not> is_trusted upper_free ''phone'' (replicate 64 CHR ''a'') 100
       (snd (revoke_device ''phone'' 50 trusting_store))"
proof -
  have t: "is_trusted upper_free ''phone'' (replicate 64 CHR ''a'') 100 trusting_store"
  proof -
    have "normalize_fingerprint upper_free (replicate 64 CHR ''a'') = ch_fingerprint phone_challenge"
      by code_simp
    then show ?thesis
      using confirm_phone
      by (simp add: is_trusted_def trusting_store_def confirm_pairing_def paired_store_eq
          pairing_ttl_ms_def trusted_from_def trust_ttl_ms_def bt_get_def)
  qed
  then obtain d where "fst (revoke_device ''phone'' 50 trusting_store) = Inr d"
    by (auto simp: is_trusted_def revoke_device_def split: option.splits)
  then have "revoke_device ''phone'' 50 trusting_store = (Inr d, snd (revoke_device ''phone'' 50 trusting_store))"
    by (simp add: prod_eq_iff)
  from revocation_is_final [OF this, of upper_free] t show ?thesis by blast
qed

theorem trust_file_roundtrip_witness:
  "load_trusted_devices_from_file upper_free
     (snd (save_trusted_devices_to_file Save_ok [] trusting_store Trust_missing)) =
   Inr \<lparr>ts_pending = Map.empty, ts_trusted = ts_trusted trusting_store\<rparr>"
  using trust_file_roundtrip [OF reachable_trusting, of "[]" Trust_missing
      "snd (save_trusted_devices_to_file Save_ok [] trusting_store Trust_missing)"]
  by (simp add: save_trusted_devices_to_file_def)

definition hand_written :: trusted where
  "hand_written =
     \<lparr>td_device_id = ''phone'', td_device_name = ''Phone'', td_fingerprint = replicate 64 CHR ''A'',
      td_trusted_at = 1, td_expires_at = 1000, td_revoked_at = None\<rparr>"

theorem loaded_unnormalized_never_trusted_witness:
  "\<exists>st. load_trusted_devices_from_file upper_free
        (Trust_parsed \<lparr>tf_schema_version = 1, tf_trusted_devices = [hand_written]\<rparr>) = Inr st \<and>
     \<not> is_trusted upper_free ''phone'' (replicate 64 CHR ''A'') 500 st"
proof -
  have h: "trim (td_device_id hand_written) \<noteq> []"
    "validate_fingerprint upper_free (td_fingerprint hand_written) = Inr ()"
    "list_all (\<lambda>c. byte c < 128) (td_fingerprint hand_written)"
    by code_simp+
  have "CHR ''A'' \<in> set (td_fingerprint hand_written)" by (simp add: hand_written_def)
  moreover have "CHR ''A'' = CHR '':'' \<or> is_ascii_whitespace CHR ''A'' \<or> is_ascii_upper CHR ''A''" by code_simp
  ultimately show ?thesis
    using loaded_unnormalized_never_trusted [OF h] by (auto simp: hand_written_def)
qed

subsection \<open>Media and the ingress\<close>

definition chunk_envelope :: envelope where
  "chunk_envelope =
     \<lparr>ev_protocol = companion_protocol, ev_version = 1, ev_message_id = ''m1'', ev_trace_id = None,
      ev_device_id = Some ''phone'', ev_channel = Media, ev_kind = StreamChunk,
      ev_payload = JObj [(''sessionId'', JStr ''../etc''), (''encoding'', JStr ''base64''),
                         (''data'', JStr ''QQ'')]\<rparr>"

definition any_base64 :: "string \<Rightarrow> string + string" where
  "any_base64 data = Inr data"

definition stored_media :: "(app_error + stored_chunk option) \<times> media_fs" where
  "stored_media = store_envelope any_base64 Media_ok ''/media'' chunk_envelope Map.empty"

lemma stored_media_ok: "\<exists>ch fs. stored_media = (Inr (Some ch), fs) \<and> sc_session_id ch = ''../etc''"
  by (simp add: stored_media_def store_envelope_def chunk_envelope_def required_string_def get_str_def
      any_base64_def next_chunk_index_def write_chunk_def)

theorem media_path_confined_witness:
  "\<exists>ch fs. stored_media = (Inr (Some ch), fs) \<and> safe_path_segment (sc_session_id ch) = ''___etc'' \<and>
     sc_path ch = path_join (path_join ''/media'' ''___etc'') (chunk_file_name (sc_chunk_index ch))"
proof -
  obtain ch fs where c: "stored_media = (Inr (Some ch), fs)" "sc_session_id ch = ''../etc''"
    using stored_media_ok by blast
  have "safe_path_segment ''../etc'' = ''___etc''" by code_simp
  moreover have "sc_path ch = path_join (path_join ''/media'' (safe_path_segment (sc_session_id ch)))
      (chunk_file_name (sc_chunk_index ch))"
    using media_path_confined [OF c(1) [unfolded stored_media_def]] by (elim conjE)
  ultimately show ?thesis using c by (intro exI conjI) simp_all
qed

theorem chunks_numbered_witness:
  "\<exists>ch fs. stored_media = (Inr (Some ch), fs) \<and> sc_chunk_index ch = 0 \<and>
     session_dir fs (sc_session_id ch) = [(chunk_file_name 0, ''QQ'')]"
proof -
  obtain ch fs where c: "stored_media = (Inr (Some ch), fs)" using stored_media_ok by blast
  have h: "holds_chunks 0 (session_dir Map.empty (sc_session_id ch))"
    by (simp add: holds_chunks_def session_dir_def)
  from chunks_numbered [OF c [unfolded stored_media_def] h] c show ?thesis
    by (auto simp: chunk_envelope_def get_str_def any_base64_def session_dir_def)
qed

definition fresh_ingress :: ingress where
  "fresh_ingress = new_ingress [] None Map.empty"

theorem ingress_total_witness:
  "\<not> is_ok (fst (dispatch_envelope plain_text any_base64 Media_ok demo_capabilities fresh_ingress)) \<and>
   (\<exists>a. fst (ingress_handle_envelope plain_text any_base64 Media_ok demo_capabilities fresh_ingress) = Inr a \<and>
      ev_kind a = ErrorMessage \<and> ev_message_id a = ''ingress-error-m'')"
proof -
  let ?d = "dispatch_envelope plain_text any_base64 Media_ok demo_capabilities fresh_ingress"
  have "\<not> is_ok (fst ?d)" by code_simp
  moreover from this obtain err where "fst ?d = Inl err" by (cases "fst ?d") auto
  moreover have "ev_message_id demo_capabilities = ''m''" by (simp add: demo_capabilities_def demo_envelope_def)
  ultimately show ?thesis
    using ingress_total [of plain_text any_base64 Media_ok demo_capabilities fresh_ingress
        "fst (ingress_handle_envelope plain_text any_base64 Media_ok demo_capabilities fresh_ingress)"
        "snd (ingress_handle_envelope plain_text any_base64 Media_ok demo_capabilities fresh_ingress)"]
    by auto
qed

definition guarded :: trusted_ingress where
  "guarded = \<lparr>ti_ingress = fresh_ingress, ti_trust_store = trusting_store, ti_now = 100\<rparr>"

definition trusted_chunk :: envelope where
  "trusted_chunk = chunk_envelope\<lparr>ev_payload :=
     JObj [(''certificateFingerprintSha256'', JStr (replicate 64 CHR ''a''))]\<rparr>"

theorem trusted_ingress_guard_witness:
  "is_ok (fst (trusted_handle_envelope upper_free plain_text any_base64 Media_ok trusted_chunk guarded)) \<and>
   is_trusted upper_free ''phone'' (replicate 64 CHR ''a'') 100 trusting_store"
proof -
  let ?r = "trusted_handle_envelope upper_free plain_text any_base64 Media_ok trusted_chunk guarded"
  have "is_ok (fst ?r)" by code_simp
  moreover have "ev_kind trusted_chunk \<noteq> Hello" by (simp add: trusted_chunk_def chunk_envelope_def)
  ultimately show ?thesis
    using trusted_ingress_guard [of upper_free plain_text any_base64 Media_ok trusted_chunk guarded "fst ?r" "snd ?r"]
    by (auto simp: trusted_chunk_def chunk_envelope_def get_str_def guarded_def)
qed

end
