(* ===== verification/Companion_Wire.thy ===== *)
theory Companion_Wire
  imports App_Error "HOL-Library.Word"
begin

text \<open>
  The framing of the companion's control stream (\<open>read_control_frame\<close>, \<open>write_control_frame\<close>, the
  preface check and the writer task of \<open>companion/quinn_transport.rs\<close>): five bytes of preface, then
  frames of a 32-bit length and as many bytes.

  A receiving stream is the list of bytes the peer delivers before the stream ends. A sending
  stream is a state with two operations, so that a write can fail. How 32 bits are laid out in four
  bytes is the library's: the record \<open>u32_format\<close> is an argument, \<open>u32_format_ok\<close> is what the code
  relies on, and \<open>network_order\<close> is the big-endian layout that the wire protocol documents.
\<close>

record u32_format =
  u32_put :: "32 word \<Rightarrow> string"
  u32_get :: "string \<Rightarrow> 32 word"

definition u32_format_ok :: "u32_format \<Rightarrow> bool" where
  "u32_format_ok F \<longleftrightarrow> (\<forall>w. length (u32_put F w) = 4 \<and> u32_get F (u32_put F w) = w)"

record 'w sink =
  sink_write :: "string \<Rightarrow> 'w \<Rightarrow> (string + unit) \<times> 'w"
  sink_flush :: "'w \<Rightarrow> (string + unit) \<times> 'w"

definition wire_magic :: string where
  "wire_magic = ''ACQ1''"

definition stream_control :: char where
  "stream_control = CHR 0x01"

definition max_control_message_bytes :: nat where
  "max_control_message_bytes = 4 * 1024 * 1024"

definition quinn_error :: "string \<Rightarrow> string \<Rightarrow> bool \<Rightarrow> app_error" where
  "quinn_error code msg r = new_error code msg ''companion.quinn'' r"

subsection \<open>Reading\<close>

definition read_exact :: "nat \<Rightarrow> string \<Rightarrow> (string \<times> string) option" where
  "read_exact n bs = (if n \<le> length bs then Some (take n bs, drop n bs) else None)"

definition read_u32 :: "u32_format \<Rightarrow> string \<Rightarrow> (32 word \<times> string) option" where
  "read_u32 F bs = map_option (\<lambda>(b, rest). (u32_get F b, rest)) (read_exact 4 bs)"

definition control_closed :: "string \<Rightarrow> app_error" where
  "control_closed c = with_cause c (quinn_error ''COMPANION_QUIC_CONTROL_CLOSED''
     ''Companion QUIC control stream was closed.'' True)"

definition frame_length_invalid :: app_error where
  "frame_length_invalid = quinn_error ''COMPANION_QUIC_FRAME_LENGTH_INVALID''
     ''Companion QUIC control frame length is outside the allowed range.'' False"

definition frame_read_failed :: "string \<Rightarrow> app_error" where
  "frame_read_failed c = with_cause c (quinn_error ''COMPANION_QUIC_FRAME_READ_FAILED''
     ''Core failed to read a complete Companion QUIC control frame.'' True)"

text \<open>\<open>c\<close> is the text of the stream's error where a read meets the end of the stream.\<close>

definition read_control_frame ::
    "u32_format \<Rightarrow> string \<Rightarrow> string \<Rightarrow> app_error + (string \<times> string)" where
  "read_control_frame F c bs =
     (case read_u32 F bs of
        None \<Rightarrow> Inl (control_closed c)
      | Some (w, rest) \<Rightarrow>
          (let length' = unat w in
           if length' = 0 \<or> length' > max_control_message_bytes then Inl frame_length_invalid
           else (case read_exact length' rest of
                   None \<Rightarrow> Inl (frame_read_failed c)
                 | Some (bytes, rest') \<Rightarrow> Inr (bytes, rest'))))"

definition read_preface :: "string \<Rightarrow> string \<Rightarrow> app_error + string" where
  "read_preface c bs =
     (case read_exact 5 bs of
        None \<Rightarrow> Inl (with_cause c (quinn_error ''COMPANION_QUIC_PREFACE_READ_FAILED''
          ''Core could not read the Companion QUIC stream preface.'' True))
      | Some (preface, rest) \<Rightarrow>
          if take 4 preface \<noteq> wire_magic \<or> preface ! 4 \<noteq> stream_control
          then Inl (quinn_error ''COMPANION_QUIC_PREFACE_INVALID''
            ''Companion QUIC control stream preface is invalid.'' False)
          else Inr rest)"

text \<open>A frame that is read has used up at least five bytes, so the reading loop ends.\<close>

lemma read_exact_Some_iff [ok_iff]:
  "read_exact n bs = Some (b, rest) \<longleftrightarrow> bs = b @ rest \<and> length b = n"
  by (auto simp: read_exact_def)

lemma read_u32_Some_iff [ok_iff]:
  "read_u32 F bs = Some (w, rest) \<longleftrightarrow> (\<exists>b. bs = b @ rest \<and> length b = 4 \<and> w = u32_get F b)"
  by (auto simp: read_u32_def ok_iff)

lemma read_control_frame_consumes:
  "read_control_frame F c bs = Inr (b, rest) \<Longrightarrow> length rest < length bs"
  by (auto simp: read_control_frame_def Let_def ok_iff split: option.splits if_splits)

text \<open>
  The frames the control loop takes from a stream, one after the other, and the error that ends
  the loop.
\<close>

function read_frames :: "u32_format \<Rightarrow> string \<Rightarrow> string \<Rightarrow> string list \<times> app_error" where
  "read_frames F c bs =
     (case read_control_frame F c bs of
        Inl e \<Rightarrow> ([], e)
      | Inr (b, rest) \<Rightarrow> map_prod ((#) b) id (read_frames F c rest))"
  by pat_completeness auto
termination
  by (relation "measure (\<lambda>(F, c, bs). length bs)") (auto dest: read_control_frame_consumes)

declare read_frames.simps [simp del]

subsection \<open>Writing\<close>

definition frame_length_refused :: app_error where
  "frame_length_refused = quinn_error ''COMPANION_QUIC_FRAME_LENGTH_INVALID''
     ''Core refused to write an invalid Companion QUIC frame length.'' False"

definition write_control_frame ::
    "u32_format \<Rightarrow> 'w sink \<Rightarrow> string \<Rightarrow> 'w \<Rightarrow> (app_error + unit) \<times> 'w" where
  "write_control_frame F K bytes w =
     (if bytes = [] \<or> length bytes > max_control_message_bytes then (Inl frame_length_refused, w)
      else (case sink_write K (u32_put F (of_nat (length bytes))) w of
              (Inl c, w1) \<Rightarrow> (Inl (with_cause c (quinn_error ''COMPANION_QUIC_FRAME_WRITE_FAILED''
                 ''Core failed to write the Companion QUIC frame length.'' True)), w1)
            | (Inr _, w1) \<Rightarrow>
                (case sink_write K bytes w1 of
                   (Inl c, w2) \<Rightarrow> (Inl (with_cause c (quinn_error ''COMPANION_QUIC_FRAME_WRITE_FAILED''
                     ''Core failed to write the Companion QUIC frame payload.'' True)), w2)
                 | (Inr _, w2) \<Rightarrow>
                     (case sink_flush K w2 of
                        (Inl c, w3) \<Rightarrow> (Inl (with_cause c (quinn_error ''COMPANION_QUIC_FRAME_FLUSH_FAILED''
                          ''Core failed to flush the Companion QUIC control frame.'' True)), w3)
                      | (Inr _, w3) \<Rightarrow> (Inr (), w3)))))"

text \<open>The writer task: it ends with the first frame it cannot write.\<close>

fun write_frames ::
    "u32_format \<Rightarrow> 'w sink \<Rightarrow> string list \<Rightarrow> 'w \<Rightarrow> (app_error + unit) \<times> 'w" where
  "write_frames F K [] w = (Inr (), w)"
| "write_frames F K (b # bs) w =
     (case write_control_frame F K b w of
        (Inl e, w') \<Rightarrow> (Inl e, w')
      | (Inr _, w') \<Rightarrow> write_frames F K bs w')"

subsection \<open>Facts about the framing\<close>

text \<open>The bytes of one frame and of a list of messages, as the specification has them.\<close>

definition framed :: "u32_format \<Rightarrow> string \<Rightarrow> string" where
  "framed F b = u32_put F (of_nat (length b)) @ b"

definition sendable :: "string \<Rightarrow> bool" where
  "sendable b \<longleftrightarrow> b \<noteq> [] \<and> length b \<le> max_control_message_bytes"

definition byte_sink :: "string sink" where
  "byte_sink = \<lparr>sink_write = (\<lambda>b w. (Inr (), w @ b)), sink_flush = (\<lambda>w. (Inr (), w))\<rparr>"

lemma unat_frame_length: "length b \<le> max_control_message_bytes \<Longrightarrow> unat (of_nat (length b) :: 32 word) = length b"
  by (simp add: max_control_message_bytes_def unat_of_nat)

lemma write_frame_bytes:
  "write_control_frame F byte_sink b w =
     (if sendable b then (Inr (), w @ framed F b) else (Inl frame_length_refused, w))"
  by (auto simp: write_control_frame_def byte_sink_def framed_def sendable_def)

lemma write_frames_bytes:
  "list_all sendable bs \<Longrightarrow> write_frames F byte_sink bs w = (Inr (), w @ concat (map (framed F) bs))"
  by (induction bs arbitrary: w) (auto simp: write_frame_bytes)

locale wire_format =
  fixes F :: u32_format
  assumes format_ok: "u32_format_ok F"
begin

lemma length_put [simp]: "length (u32_put F w) = 4"
  using format_ok by (simp add: u32_format_ok_def)

lemma get_put [simp]: "u32_get F (u32_put F w) = w"
  using format_ok by (simp add: u32_format_ok_def)

lemma read_u32_put [simp]: "read_u32 F (u32_put F w @ rest) = Some (w, rest)"
  by (auto simp: ok_iff intro!: exI [where x = "u32_put F w"])

lemma length_framed [simp]: "length (framed F b) = 4 + length b"
  by (simp add: framed_def)

lemma read_framed:
  "sendable b \<Longrightarrow> read_control_frame F c (framed F b @ rest) = Inr (b, rest)"
  by (simp add: read_control_frame_def framed_def sendable_def unat_frame_length read_exact_def Let_def)

lemma read_frames_framed [simp]:
  "sendable b \<Longrightarrow> read_frames F c (framed F b @ rest) = map_prod ((#) b) id (read_frames F c rest)"
  by (subst read_frames.simps) (simp add: read_framed)

lemma read_frames_concat:
  "list_all sendable bs \<Longrightarrow>
   read_frames F c (concat (map (framed F) bs) @ rest) = map_prod ((@) bs) id (read_frames F c rest)"
  by (induction bs) (auto simp: prod_eq_iff)

lemma read_frames_Nil [simp]: "read_frames F c [] = ([], control_closed c)"
  by (subst read_frames.simps) (simp add: read_control_frame_def read_u32_def read_exact_def)

lemma read_frame_cut:
  assumes "sendable b" and "k < length (framed F b)"
  shows "read_control_frame F c (take k (framed F b)) =
           Inl (if k < 4 then control_closed c else frame_read_failed c)"
proof (cases "k < 4")
  case True
  then show ?thesis
    using assms by (simp add: read_control_frame_def read_u32_def read_exact_def)
next
  case False
  then have "take k (framed F b) = u32_put F (of_nat (length b)) @ take (k - 4) b"
    by (simp add: framed_def)
  then show ?thesis
    using False assms
    by (simp add: read_control_frame_def sendable_def unat_frame_length read_exact_def Let_def)
qed

text \<open>A stream cut anywhere yields the messages that arrived whole, and the cut as the error.\<close>

lemma read_frames_cut:
  assumes "list_all sendable bs"
  shows "\<exists>n. fst (read_frames F c (take k (concat (map (framed F) bs)))) = take n bs \<and>
           snd (read_frames F c (take k (concat (map (framed F) bs)))) \<in> {control_closed c, frame_read_failed c}"
  using assms
proof (induction bs arbitrary: k)
  case Nil
  then show ?case by simp
next
  case (Cons b bs)
  show ?case
  proof (cases "k < length (framed F b)")
    case True
    then have "take k (concat (map (framed F) (b # bs))) = take k (framed F b)" by simp
    moreover have "read_frames F c (take k (framed F b)) =
        ([], if k < 4 then control_closed c else frame_read_failed c)"
      using read_frame_cut [OF _ True] Cons.prems by (subst read_frames.simps) simp
    ultimately have "read_frames F c (take k (concat (map (framed F) (b # bs)))) =
        ([], if k < 4 then control_closed c else frame_read_failed c)" by (simp only:)
    then show ?thesis by (intro exI [where x = 0]) (simp del: concat.simps list.map)
  next
    case False
    then have "take k (concat (map (framed F) (b # bs))) =
        framed F b @ take (k - length (framed F b)) (concat (map (framed F) bs))" by simp
    then have eq: "read_frames F c (take k (concat (map (framed F) (b # bs)))) = map_prod ((#) b) id
        (read_frames F c (take (k - length (framed F b)) (concat (map (framed F) bs))))"
      using read_frames_framed [of b c] Cons.prems by simp
    obtain n where "fst (read_frames F c (take (k - length (framed F b)) (concat (map (framed F) bs)))) = take n bs"
      and "snd (read_frames F c (take (k - length (framed F b)) (concat (map (framed F) bs)))) \<in>
             {control_closed c, frame_read_failed c}"
      using Cons.IH [of "k - length (framed F b)"] Cons.prems by auto
    then show ?thesis unfolding eq by (intro exI [where x = "Suc n"]) simp
  qed
qed

end

subsection \<open>The documented layout\<close>

definition u32_be_bytes :: "32 word \<Rightarrow> string" where
  "u32_be_bytes w = map (\<lambda>k. char_of (unat w div 256 ^ k)) [3, 2, 1, 0]"

definition u32_be_value :: "string \<Rightarrow> 32 word" where
  "u32_be_value b = of_nat (foldl (\<lambda>n c. 256 * n + of_char c) 0 b)"

definition network_order :: u32_format where
  "network_order = \<lparr>u32_put = u32_be_bytes, u32_get = u32_be_value\<rparr>"

lemma base_256:
  fixes n :: nat
  shows "256 * (256 * (256 * (n div 256 ^ 3) + n div 256 ^ 2 mod 256) + n div 256 mod 256) + n mod 256 = n"
proof -
  have b: "256 * (n div 256 ^ 3) + n div 256 ^ 2 mod 256 = n div 256 ^ 2"
    by (metis div_mult2_eq mult_div_mod_eq power_Suc2 numeral_2_eq_2 numeral_3_eq_3)
  have c: "256 * (n div 256 ^ 2) + n div 256 mod 256 = n div 256"
    by (metis div_mult2_eq mult_div_mod_eq power2_eq_square)
  show ?thesis unfolding b c by simp
qed

lemma be_digits:
  fixes n :: nat
  assumes "n < 4294967296"
  shows "foldl (\<lambda>n c. 256 * n + of_char c) 0 (map (\<lambda>k. char_of (n div 256 ^ k)) [3, 2, 1, 0]) = n"
proof -
  have "n div 256 ^ 3 < 256" using assms by (simp add: less_mult_imp_div_less)
  then show ?thesis using base_256 [of n] by (simp add: of_char_of)
qed

lemma network_order_ok: "u32_format_ok network_order"
proof -
  have "u32_be_value (u32_be_bytes w) = w" for w
    using be_digits [of "unat w"] unsigned_less [of w, where 'a = nat]
    by (simp add: u32_be_value_def u32_be_bytes_def del: list.map foldl_Cons)
  then show ?thesis by (simp add: u32_format_ok_def network_order_def u32_be_bytes_def)
qed

interpretation network: wire_format network_order
  by unfold_locales (rule network_order_ok)

text \<open>C32. A broken connection loses messages but never tears or invents one: if the writer has sent any list of
  messages of allowed length and the stream is cut after any number of bytes, the reader gets the
  first so many of these messages, whole and in order, and then an error that says the stream ended.\<close>

theorem cut_stream_keeps_messages_whole:
  assumes "u32_format_ok F" and "list_all sendable bs"
  shows "\<exists>n. fst (read_frames F c (take k (snd (write_frames F byte_sink bs [])))) = take n bs \<and>
           snd (read_frames F c (take k (snd (write_frames F byte_sink bs [])))) \<in>
             {control_closed c, frame_read_failed c}"
  using wire_format.read_frames_cut [OF wire_format.intro [OF assms(1)] assms(2), of c k]
  by (simp add: write_frames_bytes [OF assms(2)])

end
