(* ===== verification/Remote_Transport.thy ===== *)
theory Remote_Transport
  imports Core_Service_Facts Companion_Wire
begin

text \<open>
  The remote-control endpoint of \<open>remote/quinn_transport.rs\<close>: one request per bidirectional
  stream, read to its end within a limit, answered by the service and written back. A stream that
  arrives is the bytes the peer sends before it finishes the stream, or the text of the stream's
  error; how \<open>read_to_end\<close> words a stream that is too long is the library's.
\<close>

definition default_max_request_bytes :: nat where
  "default_max_request_bytes = 1024 * 1024"

definition remote_quic_error :: "string \<Rightarrow> string \<Rightarrow> string \<Rightarrow> app_error" where
  "remote_quic_error code msg c = with_cause c (new_error code msg ''remote.quic'' True)"

definition read_to_end :: "string \<Rightarrow> nat \<Rightarrow> string + string \<Rightarrow> string + string" where
  "read_to_end too_long limit arrival =
     on_ok arrival (\<lambda>bytes. if length bytes > limit then Inl too_long else Inr bytes)"

text \<open>\<open>to_vec\<close> encodes a response; the fixed text is what \<open>handle_json_bytes\<close> sends when it cannot.\<close>

definition encode_failed_text :: string where
  "encode_failed_text = ''{\"id\":null,\"ok\":false,\"error\":{\"errorCode\":\"REMOTE_PROTOCOL_ENCODE_FAILED\",\"message\":\"Failed to encode remote response.\",\"module\":\"remote.protocol\",\"recoverable\":false}}''"

definition encode_remote_response :: "(remote_response \<Rightarrow> string option) \<Rightarrow> remote_response \<Rightarrow> string" where
  "encode_remote_response to_vec r = (case to_vec r of None \<Rightarrow> encode_failed_text | Some b \<Rightarrow> b)"

record 'o send_stream =
  ss_sink :: "'o sink"
  ss_finish :: "'o \<Rightarrow> (string + unit) \<times> 'o"

definition handle_stream ::
    "argon \<Rightarrow> serde_text \<Rightarrow> 'c core_handler \<Rightarrow> auth_envs \<Rightarrow> (string \<Rightarrow> string + remote_request) \<Rightarrow>
     (remote_response \<Rightarrow> string option) \<Rightarrow> string \<Rightarrow> nat \<Rightarrow> string + string \<Rightarrow> 'o send_stream \<Rightarrow>
     'c service \<Rightarrow> 'o \<Rightarrow> (app_error + unit) \<times> 'c service \<times> 'o" where
  "handle_stream A sm core E parse to_vec too_long limit arrival S st w =
     (case read_to_end too_long limit arrival of
        Inl c \<Rightarrow>
          (Inl (remote_quic_error ''REMOTE_QUIC_REQUEST_READ_FAILED''
             ''Failed to read the encrypted remote-control request stream.'' c), st, w)
      | Inr bytes \<Rightarrow>
          (case remote_handle_json_bytes A sm core E parse bytes st of
             (response, st') \<Rightarrow>
               (case sink_write (ss_sink S) (encode_remote_response to_vec response) w of
                  (Inl c, w1) \<Rightarrow>
                    (Inl (remote_quic_error ''REMOTE_QUIC_RESPONSE_WRITE_FAILED''
                       ''Failed to write the encrypted remote-control response stream.'' c), st', w1)
                | (Inr _, w1) \<Rightarrow>
                    (case ss_finish S w1 of
                       (Inl c, w2) \<Rightarrow>
                         (Inl (remote_quic_error ''REMOTE_QUIC_RESPONSE_FINISH_FAILED''
                            ''Failed to finish the encrypted remote-control response stream.'' c), st', w2)
                     | (Inr _, w2) \<Rightarrow> (Inr (), st', w2)))))"

text \<open>
  A connection: every stream that is accepted is handled, whatever became of the others, until the
  connection fails. The list holds the arrivals in the order in which the service takes them, with
  the environment of each; each stream has an output of its own.
\<close>

record remote_endpoint =
  re_max_request_bytes :: nat

definition bound_endpoint :: remote_endpoint where
  "bound_endpoint = \<lparr>re_max_request_bytes = default_max_request_bytes\<rparr>"

definition with_max_request_bytes :: "nat \<Rightarrow> remote_endpoint \<Rightarrow> remote_endpoint" where
  "with_max_request_bytes n ep = ep\<lparr>re_max_request_bytes := n\<rparr>"

fun handle_connection ::
    "argon \<Rightarrow> serde_text \<Rightarrow> 'c core_handler \<Rightarrow> (string \<Rightarrow> string + remote_request) \<Rightarrow>
     (remote_response \<Rightarrow> string option) \<Rightarrow> string \<Rightarrow> remote_endpoint \<Rightarrow> string send_stream \<Rightarrow>
     (auth_envs \<times> (string + string)) list \<Rightarrow> 'c service \<Rightarrow> string list \<times> 'c service" where
  "handle_connection A sm core parse to_vec too_long ep S [] st = ([], st)"
| "handle_connection A sm core parse to_vec too_long ep S ((E, arrival) # as) st =
     (case handle_stream A sm core E parse to_vec too_long (re_max_request_bytes ep) arrival S st [] of
        (r, st1, out) \<Rightarrow>
          (case handle_connection A sm core parse to_vec too_long ep S as st1 of
             (outs, st2) \<Rightarrow> (out # outs, st2)))"

text \<open>What binding the endpoint and starting its thread report.\<close>

datatype endpoint_start =
    Thread_failed string
  | Runtime_failed string
  | Bind_failed string
  | Address_failed string
  | Ended_early string
  | Listening string

definition remote_spawn :: "endpoint_start \<Rightarrow> app_error + string" where
  "remote_spawn r =
     (case r of
        Thread_failed c \<Rightarrow> Inl (remote_quic_error ''REMOTE_QUIC_THREAD_START_FAILED''
          ''Failed to start the remote-control QUIC thread.'' c)
      | Runtime_failed c \<Rightarrow> Inl (remote_quic_error ''REMOTE_QUIC_RUNTIME_START_FAILED''
          ''Failed to start the remote-control QUIC runtime.'' c)
      | Bind_failed c \<Rightarrow> Inl (remote_quic_error ''REMOTE_QUIC_BIND_FAILED''
          ''Core failed to bind the encrypted remote-control QUIC endpoint.'' c)
      | Address_failed c \<Rightarrow> Inl (remote_quic_error ''REMOTE_QUIC_LOCAL_ADDR_FAILED''
          ''Core failed to read the remote-control QUIC endpoint address.'' c)
      | Ended_early c \<Rightarrow> Inl (remote_quic_error ''REMOTE_QUIC_STARTUP_CHANNEL_CLOSED''
          ''Remote-control QUIC startup ended before reporting its status.'' c)
      | Listening a \<Rightarrow> Inr a)"

subsection \<open>Facts\<close>

definition byte_stream :: "string send_stream" where
  "byte_stream = \<lparr>ss_sink = byte_sink, ss_finish = (\<lambda>w. (Inr (), w))\<rparr>"

text \<open>A request over QUIC is handled within its limit or not at all: a stream that fails or is longer than
  the limit changes nothing in the service and nothing is written; any other stream is answered
  with exactly one response, the service's answer to its bytes, under the request's own id, or
  without an id when the bytes are no request, which changes nothing either.\<close>

theorem remote_stream_all_or_nothing:
  assumes "handle_stream A sm (core_handle_request P) E parse to_vec too_long limit arrival byte_stream st [] = (r, st', out)"
  shows "(case arrival of
            Inl c \<Rightarrow> \<not> is_ok r \<and> st' = st \<and> out = []
          | Inr bytes \<Rightarrow>
              if length bytes > limit then \<not> is_ok r \<and> st' = st \<and> out = []
              else r = Inr () \<and>
                   (\<exists>response. out = encode_remote_response to_vec response \<and>
                      (case parse bytes of
                         Inl c \<Rightarrow> rp_id response = None \<and> \<not> rp_ok response \<and> st' = st
                       | Inr rr \<Rightarrow> rp_id response = Some (rr_id rr) \<and>
                           remote_handle_request A sm (core_handle_request P) E rr st = (response, st'))))"
proof (cases arrival)
  case (Inl c)
  then show ?thesis using assms by (auto simp: handle_stream_def read_to_end_def)
next
  case (Inr bytes)
  show ?thesis
  proof (cases "length bytes > limit")
    case True
    then show ?thesis using assms Inr by (auto simp: handle_stream_def read_to_end_def)
  next
    case False
    moreover have "remote_handle_request A sm (core_handle_request P) E rr st = (response, st'') \<Longrightarrow>
        rp_id response = Some (rr_id rr)" for rr response st''
      using core_service.remote_echo [of A sm P E rr st] by simp
    ultimately show ?thesis
      using assms Inr
      by (auto simp: handle_stream_def read_to_end_def byte_stream_def byte_sink_def
          remote_handle_json_bytes_def remote_failure_def split: prod.splits sum.splits)
  qed
qed

text \<open>A stream that is refused leaves no trace: the others get the answers they would get without it.\<close>

definition acceptable :: "remote_endpoint \<Rightarrow> string + string \<Rightarrow> bool" where
  "acceptable ep arrival \<longleftrightarrow>
     (case arrival of Inl _ \<Rightarrow> False | Inr bytes \<Rightarrow> length bytes \<le> re_max_request_bytes ep)"

lemma refused_stream:
  "\<not> acceptable ep arrival \<Longrightarrow>
   \<exists>e. handle_stream A sm core E parse to_vec too_long (re_max_request_bytes ep) arrival S st w = (Inl e, st, w)"
  by (auto simp: acceptable_def handle_stream_def read_to_end_def split: sum.splits)

lemma refused_streams_left_out:
  "snd (handle_connection A sm core parse to_vec too_long ep S as st) =
     snd (handle_connection A sm core parse to_vec too_long ep S (filter (acceptable ep \<circ> snd) as) st) \<and>
   map snd (filter (acceptable ep \<circ> snd \<circ> fst) (zip as (fst (handle_connection A sm core parse to_vec too_long ep S as st)))) =
     fst (handle_connection A sm core parse to_vec too_long ep S (filter (acceptable ep \<circ> snd) as) st)"
proof (induction as arbitrary: st)
  case (Cons a as)
  obtain E arrival where a: "a = (E, arrival)" by (cases a)
  show ?case
  proof (cases "acceptable ep arrival")
    case True
    obtain r st1 out where "handle_stream A sm core E parse to_vec too_long (re_max_request_bytes ep) arrival S st [] =
        (r, st1, out)" by (metis prod.exhaust)
    then show ?thesis using True a Cons.IH [of st1] by (simp add: case_prod_beta)
  next
    case False
    obtain e where "handle_stream A sm core E parse to_vec too_long (re_max_request_bytes ep) arrival S st [] =
        (Inl e, st, [])"
      using refused_stream [OF False, of A sm core E parse to_vec too_long S st "[]"] by blast
    then show ?thesis using False a Cons.IH [of st] by (simp add: case_prod_beta)
  qed
qed simp

end
