(* ===== verification/Companion_Transport.thy ===== *)
theory Companion_Transport
  imports Companion_Wire Companion_Ingress Companion_Router
begin

text \<open>
  The live transport of \<open>companion/quinn_transport.rs\<close>: the state the connections share, what an
  envelope from a companion does to it, sending a command and waiting for its response, and the
  control loop of a connection.

  The state behind the locks is the record \<open>live\<close>. The registry is the one the core reads. A
  \<open>HashMap\<close> is an ordered map; \<open>tp_order\<close> is the order in which the sessions of the ingress happen to
  be listed, which may differ at every envelope. An unbounded
  channel to a connection's writer is a number that names an \<open>outbox\<close>, the one-place channel on which a
  command waits for its response is a number that names an entry of \<open>lv_delivered\<close>. An operation
  takes its locks one after the other. The connections run in one thread and an envelope is handled
  without a suspension point, so what a connection does is one step; sending a command is two steps
  here, before and after the wait, and is taken apart further in \<open>Companion_Commands\<close>.
\<close>

record session_handle =
  sh_connection_id :: "64 word"
  sh_outgoing :: nat

record outbox =
  ob_messages :: "string list"
  ob_open :: bool

record live =
  lv_registry :: registry
  lv_ingress :: ingress
  lv_sessions :: "(string, session_handle) btree_map"
  lv_pending :: "(string, nat) btree_map"
  lv_outboxes :: "nat \<Rightarrow> outbox"
  lv_delivered :: "nat \<rightharpoonup> envelope"

record transport_ports =
  tp_serde :: serde_text
  tp_base64 :: "string \<Rightarrow> string + string"
  tp_media :: media_reply
  tp_to_vec :: "envelope \<Rightarrow> string + string"
  tp_order :: "nat list"

definition new_live :: "registry \<Rightarrow> live" where
  "new_live reg =
     \<lparr>lv_registry = reg, lv_ingress = new_ingress [] None Map.empty, lv_sessions = [],
      lv_pending = [], lv_outboxes = (\<lambda>_. \<lparr>ob_messages = [], ob_open = True\<rparr>),
      lv_delivered = Map.empty\<rparr>"

definition transport_registry :: "live \<Rightarrow> registry" where
  "transport_registry st = lv_registry st"

text \<open>\<open>outgoing.send\<close> fails exactly when the writer task has ended and dropped the receiver.\<close>

definition outgoing_send :: "nat \<Rightarrow> string \<Rightarrow> live \<Rightarrow> live option" where
  "outgoing_send ch bytes st =
     (let ob = lv_outboxes st ch in
      if ob_open ob
      then Some (st\<lparr>lv_outboxes := (lv_outboxes st)(ch := ob\<lparr>ob_messages := ob_messages ob @ [bytes]\<rparr>)\<rparr>)
      else None)"

subsection \<open>An envelope from a companion\<close>

definition response_request_id :: "envelope \<Rightarrow> string" where
  "response_request_id e =
     (case get_str ''requestId'' (ev_payload e) of
        Some r \<Rightarrow> r
      | None \<Rightarrow> (case ev_trace_id e of Some t \<Rightarrow> t | None \<Rightarrow> []))"

definition deliver_response :: "envelope \<Rightarrow> live \<Rightarrow> live" where
  "deliver_response e st =
     (let rid = response_request_id e in
      case bt_get rid (lv_pending st) of
        None \<Rightarrow> st
      | Some waiter \<Rightarrow>
          st\<lparr>lv_pending := bt_remove rid (lv_pending st),
             lv_delivered := (lv_delivered st)(waiter \<mapsto> e)\<rparr>)"

definition live_ingress ::
    "transport_ports \<Rightarrow> envelope \<Rightarrow> live \<Rightarrow> (app_error + envelope) \<times> ingress" where
  "live_ingress P e st =
     ingress_handle_envelope (tp_serde P) (tp_base64 P) (tp_media P) e (lv_ingress st)"

definition upsert_all :: "device list \<Rightarrow> registry \<Rightarrow> registry" where
  "upsert_all ds reg = foldl (\<lambda>r d. upsert d r) reg ds"

definition register_session :: "64 word \<Rightarrow> nat \<Rightarrow> envelope \<Rightarrow> live \<Rightarrow> live" where
  "register_session cid ch e st =
     (case ev_device_id e of
        None \<Rightarrow> st
      | Some d \<Rightarrow>
          if ev_kind e = Hello
          then st\<lparr>lv_sessions :=
                 bt_insert d \<lparr>sh_connection_id = cid, sh_outgoing = ch\<rparr> (lv_sessions st)\<rparr>
          else st)"

definition accept_envelope ::
    "transport_ports \<Rightarrow> 64 word \<Rightarrow> nat \<Rightarrow> envelope \<Rightarrow> live \<Rightarrow> (app_error + string option) \<times> live" where
  "accept_envelope P cid ch e st =
     (case validate_quic_envelope e of
        Inl err \<Rightarrow> (Inl err, st)
      | Inr _ \<Rightarrow>
          if ev_kind e = CommandResponse \<or> ev_kind e = ErrorMessage
          then (Inr None, deliver_response e st)
          else
            (case live_ingress P e st of
               (Inl err, ig) \<Rightarrow> (Inl err, st\<lparr>lv_ingress := ig\<rparr>)
             | (Inr response, ig) \<Rightarrow>
                 (let st1 = register_session cid ch e
                        (st\<lparr>lv_ingress := ig,
                            lv_registry := upsert_all (session_devices (tp_order P) (ig_sessions ig)) (lv_registry st)\<rparr>)
                  in if ev_kind e = Heartbeat then (Inr (ev_device_id e), st1)
                     else
                       (case tp_to_vec P response of
                          Inl c \<Rightarrow>
                            (Inl (with_cause c (quinn_error ''COMPANION_QUIC_RESPONSE_SERIALIZE_FAILED''
                               ''Core failed to serialize a Companion QUIC response.'' True)), st1)
                        | Inr encoded \<Rightarrow>
                            (case outgoing_send ch encoded st1 of
                               None \<Rightarrow> (Inl (quinn_error ''COMPANION_QUIC_CONTROL_CLOSED''
                                 ''Companion QUIC control stream closed before Core could reply.'' True), st1)
                             | Some st2 \<Rightarrow> (Inr (ev_device_id e), st2))))))"

subsection \<open>The end of a connection\<close>

definition disconnect :: "64 word \<Rightarrow> string option \<Rightarrow> live \<Rightarrow> live" where
  "disconnect cid dev st =
     (case dev of
        None \<Rightarrow> st
      | Some d \<Rightarrow>
          (case bt_get d (lv_sessions st) of
             None \<Rightarrow> st
           | Some h \<Rightarrow>
               if sh_connection_id h = cid
               then st\<lparr>lv_sessions := bt_remove d (lv_sessions st),
                       lv_registry := remove_device d (lv_registry st)\<rparr>
               else st))"

definition connection_devices :: "64 word \<Rightarrow> live \<Rightarrow> string list" where
  "connection_devices cid st =
     map fst (filter (\<lambda>(d, h). sh_connection_id h = cid) (lv_sessions st))"

definition disconnect_connection :: "64 word \<Rightarrow> live \<Rightarrow> live" where
  "disconnect_connection cid st =
     foldl (\<lambda>s d. disconnect cid (Some d) s) st (connection_devices cid st)"

subsection \<open>A command to a companion\<close>

definition transport_not_connected :: "string \<Rightarrow> app_error" where
  "transport_not_connected d = quinn_error ''COMPANION_SESSION_NOT_CONNECTED''
     (''Android companion QUIC session is not connected for device '' @ d @ ''.'') True"

definition command_request_id :: "envelope \<Rightarrow> string" where
  "command_request_id e =
     (case get_str ''requestId'' (ev_payload e) of Some r \<Rightarrow> r | None \<Rightarrow> ev_message_id e)"

text \<open>Up to the wait. \<open>waiter\<close> names the fresh channel on which this command waits.\<close>

definition start_command ::
    "transport_ports \<Rightarrow> nat \<Rightarrow> string \<Rightarrow> envelope \<Rightarrow> live \<Rightarrow> (app_error + string) \<times> live" where
  "start_command P waiter d e st =
     (case bt_get d (lv_sessions st) of
        None \<Rightarrow> (Inl (transport_not_connected d), st)
      | Some h \<Rightarrow>
          (case tp_to_vec P e of
             Inl c \<Rightarrow> (Inl (with_cause c (quinn_error ''COMPANION_COMMAND_SERIALIZE_FAILED''
               ''Core failed to serialize the Companion command envelope.'' False)), st)
           | Inr bytes \<Rightarrow>
               (let rid = command_request_id e;
                    st1 = st\<lparr>lv_pending := bt_insert rid waiter (lv_pending st)\<rparr>
                in case outgoing_send (sh_outgoing h) bytes st1 of
                     None \<Rightarrow>
                       (Inl (quinn_error ''COMPANION_COMMAND_SEND_FAILED''
                          ''Companion QUIC control stream closed before the command was sent.'' True),
                        st1\<lparr>lv_pending := bt_remove rid (lv_pending st1)\<rparr>)
                   | Some st2 \<Rightarrow> (Inr rid, st2))))"

definition command_failure :: "json \<Rightarrow> app_error" where
  "command_failure payload =
     (let detail = (case json_get ''error'' payload of Some x \<Rightarrow> x | None \<Rightarrow> payload)
      in new_error
           (case get_str ''errorCode'' detail of Some c \<Rightarrow> c | None \<Rightarrow> ''COMPANION_COMMAND_FAILED'')
           (case get_str ''message'' detail of Some m \<Rightarrow> m | None \<Rightarrow> ''Android companion command failed.'')
           (case get_str ''module'' detail of Some m \<Rightarrow> m | None \<Rightarrow> ''companion.command'')
           (case Option.bind (json_get ''recoverable'' detail) as_bool of Some b \<Rightarrow> b | None \<Rightarrow> True))"

definition command_result :: "envelope \<Rightarrow> app_error + json" where
  "command_result e =
     (if ev_kind e = ErrorMessage \<or> Option.bind (json_get ''ok'' (ev_payload e)) as_bool = Some False
      then Inl (command_failure (ev_payload e)) else Inr (ev_payload e))"

text \<open>
  After the wait: the response that came, or the end of the wait, whose error text is \<open>c\<close>. The
  wait ends without a response after 15 seconds, or when another command took the entry.
\<close>

definition finish_command ::
    "nat \<Rightarrow> string \<Rightarrow> string \<Rightarrow> live \<Rightarrow> (app_error + json) \<times> live" where
  "finish_command waiter rid c st =
     (case lv_delivered st waiter of
        Some e \<Rightarrow> (command_result e, st)
      | None \<Rightarrow>
          (Inl (with_cause c (quinn_error ''COMPANION_COMMAND_TIMEOUT''
             ''Companion did not return a QUIC command response within 15 seconds.'' True)),
           st\<lparr>lv_pending := bt_remove rid (lv_pending st)\<rparr>))"

text \<open>\<open>others\<close> is what the other threads do to the shared state while the command waits.\<close>

definition send_command_envelope ::
    "transport_ports \<Rightarrow> nat \<Rightarrow> (live \<Rightarrow> live) \<Rightarrow> string \<Rightarrow> live transport" where
  "send_command_envelope P waiter others c d e st =
     (case start_command P waiter d e st of
        (Inl err, st1) \<Rightarrow> (Inl err, st1)
      | (Inr rid, st1) \<Rightarrow> finish_command waiter rid c (others st1))"

end
