(* ===== verification/Quic_Identity.thy ===== *)
theory Quic_Identity
  imports App_Error Companion_Protocol
begin

text \<open>
  The certificate and key of a QUIC endpoint (\<open>companion/quic_identity.rs\<close>): generated once, kept in
  two files, loaded again at the next start. The file system is a map from paths to contents;
  what goes wrong with an operation is an argument. The certificate generator, the hash of a
  certificate, \<open>Path::parent\<close> and rustls are parameters.
\<close>

type_synonym files = "string \<rightharpoonup> string"

record identity =
  qi_cert_der :: string
  qi_private_key_der :: string
  qi_fingerprint :: string

record identity_ports =
  ip_fingerprint :: "string \<Rightarrow> string"
  ip_generate :: "string list \<Rightarrow> string + string \<times> string"

text \<open>
  The replies of the file system: the error of a read, of creating a directory, and of a write
  with what it leaves in the file.
\<close>

record write_reply =
  wr_dir :: "string option"
  wr_write :: "(string \<times> string option) option"

record identity_io =
  io_read_cert :: "string option"
  io_read_key :: "string option"
  io_write_cert :: write_reply
  io_write_key :: write_reply

definition identity_error :: "string \<Rightarrow> string \<Rightarrow> bool \<Rightarrow> string \<Rightarrow> app_error" where
  "identity_error code msg r c = with_cause c (new_error code msg ''companion.quic_identity'' r)"

definition from_der :: "identity_ports \<Rightarrow> string \<Rightarrow> string \<Rightarrow> identity" where
  "from_der I cert key =
     \<lparr>qi_cert_der = cert, qi_private_key_der = key, qi_fingerprint = ip_fingerprint I cert\<rparr>"

definition generate_self_signed :: "identity_ports \<Rightarrow> string list \<Rightarrow> app_error + identity" where
  "generate_self_signed I names =
     (case ip_generate I names of
        Inl c \<Rightarrow> Inl (identity_error ''COMPANION_QUIC_CERT_GENERATE_FAILED''
          ''Core failed to generate self-signed QUIC certificate.'' False c)
      | Inr (cert, key) \<Rightarrow> Inr (from_der I cert key))"

text \<open>A file that is not there is one of the read errors; its wording is the library's.\<close>

definition read_file :: "string option \<Rightarrow> string \<Rightarrow> files \<Rightarrow> string + string" where
  "read_file reply path fs =
     (case reply of
        Some c \<Rightarrow> Inl c
      | None \<Rightarrow> (case fs path of None \<Rightarrow> Inl ''not found'' | Some b \<Rightarrow> Inr b))"

definition load_from_files ::
    "identity_ports \<Rightarrow> identity_io \<Rightarrow> string \<Rightarrow> string \<Rightarrow> files \<Rightarrow> app_error + identity" where
  "load_from_files I io cert_path key_path fs =
     on_ok (map_err (identity_error ''COMPANION_QUIC_CERT_READ_FAILED''
              ''Core failed to read QUIC certificate file.'' True)
            (read_file (io_read_cert io) cert_path fs)) (\<lambda>cert.
     on_ok (map_err (identity_error ''COMPANION_QUIC_KEY_READ_FAILED''
              ''Core failed to read QUIC private key file.'' True)
            (read_file (io_read_key io) key_path fs)) (\<lambda>key.
       Inr (from_der I cert key)))"

definition write_identity_file ::
    "write_reply \<Rightarrow> string \<Rightarrow> string \<Rightarrow> string \<Rightarrow> files \<Rightarrow> (app_error + unit) \<times> files" where
  "write_identity_file reply path bytes code fs =
     (case wr_dir reply of
        Some c \<Rightarrow> (Inl (identity_error ''COMPANION_QUIC_IDENTITY_DIR_CREATE_FAILED''
          ''Core failed to create QUIC identity directory.'' True c), fs)
      | None \<Rightarrow>
          (case wr_write reply of
             Some (c, left) \<Rightarrow>
               (Inl (identity_error code ''Core failed to write QUIC identity file.'' True c), fs(path := left))
           | None \<Rightarrow> (Inr (), fs(path \<mapsto> bytes))))"

definition save_to_files ::
    "identity_io \<Rightarrow> string \<Rightarrow> string \<Rightarrow> identity \<Rightarrow> files \<Rightarrow> (app_error + unit) \<times> files" where
  "save_to_files io cert_path key_path i fs =
     (case write_identity_file (io_write_cert io) cert_path (qi_cert_der i)
             ''COMPANION_QUIC_CERT_WRITE_FAILED'' fs of
        (Inl e, fs1) \<Rightarrow> (Inl e, fs1)
      | (Inr _, fs1) \<Rightarrow> write_identity_file (io_write_key io) key_path (qi_private_key_der i)
             ''COMPANION_QUIC_KEY_WRITE_FAILED'' fs1)"

definition load_or_generate ::
    "identity_ports \<Rightarrow> identity_io \<Rightarrow> string \<Rightarrow> string \<Rightarrow> string list \<Rightarrow> files \<Rightarrow>
     (app_error + identity) \<times> files" where
  "load_or_generate I io cert_path key_path names fs =
     (if fs cert_path \<noteq> None \<and> fs key_path \<noteq> None
      then (load_from_files I io cert_path key_path fs, fs)
      else
        (case generate_self_signed I names of
           Inl e \<Rightarrow> (Inl e, fs)
         | Inr i \<Rightarrow>
             (case save_to_files io cert_path key_path i fs of
                (Inl e, fs1) \<Rightarrow> (Inl e, fs1)
              | (Inr _, fs1) \<Rightarrow> (Inr i, fs1))))"

text \<open>The two server configurations; \<open>build\<close> is rustls' reading of certificate and key.\<close>

record tls_config =
  tc_cert :: string
  tc_key :: string
  tc_alpn :: "string list"

definition server_config_failed :: "string \<Rightarrow> app_error" where
  "server_config_failed c = identity_error ''COMPANION_QUIC_SERVER_CONFIG_FAILED''
     ''Core failed to build Quinn ServerConfig from identity.'' False c"

definition server_config :: "(string \<Rightarrow> string \<Rightarrow> string option) \<Rightarrow> identity \<Rightarrow> app_error + tls_config" where
  "server_config build i =
     (case build (qi_cert_der i) (qi_private_key_der i) of
        Some c \<Rightarrow> Inl (server_config_failed c)
      | None \<Rightarrow> Inr \<lparr>tc_cert = qi_cert_der i, tc_key = qi_private_key_der i, tc_alpn = []\<rparr>)"

definition companion_server_config ::
    "(string \<Rightarrow> string \<Rightarrow> string option) \<Rightarrow> string option \<Rightarrow> identity \<Rightarrow> app_error + tls_config" where
  "companion_server_config build crypto i =
     (case build (qi_cert_der i) (qi_private_key_der i) of
        Some c \<Rightarrow> Inl (server_config_failed c)
      | None \<Rightarrow>
          (case crypto of
             Some c \<Rightarrow> Inl (identity_error ''COMPANION_QUIC_SERVER_CONFIG_FAILED''
               ''Core failed to enable the Companion QUIC ALPN.'' False c)
           | None \<Rightarrow> Inr \<lparr>tc_cert = qi_cert_der i, tc_key = qi_private_key_der i,
                          tc_alpn = [companion_alpn]\<rparr>))"

subsection \<open>Facts\<close>

lemma write_identity_Inr:
  "write_identity_file reply path bytes code fs = (Inr u, fs') \<Longrightarrow> fs' = fs(path \<mapsto> bytes)"
  by (auto simp: write_identity_file_def split: option.splits)

lemma load_or_generate_saved:
  assumes "load_or_generate I io cert_path key_path names fs = (Inr i, fs')" and "cert_path \<noteq> key_path"
  shows "fs' cert_path = Some (qi_cert_der i) \<and> fs' key_path = Some (qi_private_key_der i) \<and>
         i = from_der I (qi_cert_der i) (qi_private_key_der i)"
proof (cases "fs cert_path \<noteq> None \<and> fs key_path \<noteq> None")
  case True
  then show ?thesis
    using assms(1)
    by (auto simp: load_or_generate_def load_from_files_def read_file_def from_der_def ok_iff split: option.splits)
next
  case False
  then obtain j where j: "generate_self_signed I names = Inr j"
    and s: "save_to_files io cert_path key_path j fs = (Inr (), fs')" and "i = j"
    using assms(1) by (auto simp: load_or_generate_def split: sum.splits prod.splits)
  have "fs' = fs(cert_path \<mapsto> qi_cert_der j, key_path \<mapsto> qi_private_key_der j)"
    using s by (auto simp: save_to_files_def dest!: write_identity_Inr split: sum.splits prod.splits)
  moreover have "j = from_der I (qi_cert_der j) (qi_private_key_der j)"
    using j by (auto simp: generate_self_signed_def from_der_def split: sum.splits)
  ultimately show ?thesis using \<open>i = j\<close> assms(2) by simp
qed

text \<open>C19. The identity is stable: once a start has obtained an identity, generated or loaded, every later
  start that can read the two files gets the very same certificate, key and fingerprint, whatever
  names it asks for and whatever the generator would return, and changes neither file. So paired
  devices that pinned the certificate stay valid.\<close>

theorem identity_stable:
  assumes "load_or_generate I io cert_path key_path names fs = (Inr i, fs')"
    and "cert_path \<noteq> key_path"
    and "ip_fingerprint I' = ip_fingerprint I" and "io_read_cert io' = None" and "io_read_key io' = None"
  shows "load_or_generate I' io' cert_path key_path names' fs' = (Inr i, fs')"
proof -
  from load_or_generate_saved [OF assms(1,2)] have f: "fs' cert_path = Some (qi_cert_der i)"
    "fs' key_path = Some (qi_private_key_der i)" and i: "i = from_der I (qi_cert_der i) (qi_private_key_der i)"
    by auto
  have "from_der I' (qi_cert_der i) (qi_private_key_der i) = i"
    using i assms(3) by (simp add: from_der_def)
  then show ?thesis
    using f assms(4,5) by (simp add: load_or_generate_def load_from_files_def read_file_def)
qed

end
