(* ===== verification/Startup.thy ===== *)
theory Startup
  imports Remote_Transport Companion_Transport Quic_Identity
begin

text \<open>
  The start of the process (\<open>main.rs\<close>): the data directory, the account database, the two optional
  QUIC endpoints and the core service put together. What the environment, the file system and the
  network answer is the record \<open>start_io\<close>. After a successful start the process serves its
  standard input until it ends.
\<close>

record start_io =
  sio_env :: "string \<Rightarrow> string option"
  sio_join :: "string \<Rightarrow> string \<Rightarrow> string"
  sio_manifest :: "app_error + adb_manifest"
  sio_keepalive_error :: "string option"
  sio_now :: nat
  sio_auth_env :: auth_env
  sio_account_file :: "string \<Rightarrow> account_file"
  sio_parse_address :: "string \<Rightarrow> string + string \<times> string"
  sio_identity :: identity_ports
  sio_companion_files :: identity_io
  sio_remote_files :: identity_io
  sio_build :: "string \<Rightarrow> string \<Rightarrow> string option"
  sio_crypto :: "string option"
  sio_companion_endpoint :: endpoint_start
  sio_remote_endpoint :: endpoint_start
  sio_base64 :: "string \<Rightarrow> string"

definition remote_data_dir :: "start_io \<Rightarrow> string" where
  "remote_data_dir io =
     (case sio_env io ''ADBCONTROL_REMOTE_DATA_DIR'' of
        Some d \<Rightarrow> d
      | None \<Rightarrow>
          (case sio_env io ''LOCALAPPDATA'' of
             Some root \<Rightarrow> sio_join io (sio_join io root ''ADBControl'') ''remote''
           | None \<Rightarrow> sio_join io ''.adbcontrol'' ''remote''))"

text \<open>An address is configured when its variable is set to more than white space.\<close>

definition configured :: "start_io \<Rightarrow> string \<Rightarrow> string option" where
  "configured io name =
     (case sio_env io name of Some v \<Rightarrow> if trim v = [] then None else Some v | None \<Rightarrow> None)"

definition companion_spawn :: "endpoint_start \<Rightarrow> app_error + string" where
  "companion_spawn r =
     (case r of
        Thread_failed c \<Rightarrow> Inl (with_cause c (quinn_error ''COMPANION_QUIC_THREAD_START_FAILED''
          ''Core failed to start the Companion QUIC thread.'' False))
      | Runtime_failed c \<Rightarrow> Inl (with_cause c (quinn_error ''COMPANION_QUIC_RUNTIME_FAILED''
          ''Core failed to create the Companion QUIC runtime.'' False))
      | Bind_failed c \<Rightarrow> Inl (with_cause c (quinn_error ''COMPANION_QUIC_BIND_FAILED''
          ''Core failed to bind the Companion QUIC listener.'' True))
      | Address_failed c \<Rightarrow> Inl (with_cause c (quinn_error ''COMPANION_QUIC_LOCAL_ADDR_FAILED''
          ''Core failed to read the Companion QUIC listener address.'' True))
      | Ended_early c \<Rightarrow> Inl (with_cause c (quinn_error ''COMPANION_QUIC_STARTUP_CHANNEL_FAILED''
          ''Core did not report Companion QUIC startup status.'' False))
      | Listening a \<Rightarrow> Inr a)"

definition companion_server_name :: string where
  "companion_server_name = ''adbcontrol-core''"

definition start_companion_control ::
    "start_io \<Rightarrow> string \<Rightarrow> files \<Rightarrow> (app_error + connection_info option) \<times> files" where
  "start_companion_control io data_dir fs =
     (case configured io ''ADBCONTROL_COMPANION_LISTEN'' of
        None \<Rightarrow> (Inr None, fs)
      | Some listen_value \<Rightarrow>
          (case sio_parse_address io listen_value of
             Inl c \<Rightarrow> (Inl (with_cause c (new_error ''COMPANION_QUIC_LISTEN_ADDRESS_INVALID''
               ''ADBCONTROL_COMPANION_LISTEN must be an IP socket address such as 0.0.0.0:45922.''
               ''companion.startup'' False)), fs)
           | Inr (addr, ip) \<Rightarrow>
               (case load_or_generate (sio_identity io) (sio_companion_files io)
                       (sio_join io data_dir ''companion.cert.der'')
                       (sio_join io data_dir ''companion.key.der'')
                       [companion_server_name, ''localhost''] fs of
                  (Inl e, fs1) \<Rightarrow> (Inl e, fs1)
                | (Inr i, fs1) \<Rightarrow>
                    (on_ok (companion_server_config (sio_build io) (sio_crypto io) i) (\<lambda>_.
                     on_ok (companion_spawn (sio_companion_endpoint io)) (\<lambda>actual_addr.
                       Inr (Some \<lparr>ci_listen_address = actual_addr,
                                  ci_server_name = companion_server_name,
                                  ci_certificate_der_base64 = sio_base64 io (qi_cert_der i),
                                  ci_certificate_fingerprint = qi_fingerprint i\<rparr>))), fs1))))"

definition start_remote_control ::
    "start_io \<Rightarrow> string \<Rightarrow> files \<Rightarrow> (app_error + string option) \<times> files" where
  "start_remote_control io data_dir fs =
     (case configured io ''ADBCONTROL_REMOTE_LISTEN'' of
        None \<Rightarrow> (Inr None, fs)
      | Some listen_value \<Rightarrow>
          (case sio_parse_address io listen_value of
             Inl c \<Rightarrow> (Inl (with_cause c (new_error ''REMOTE_QUIC_LISTEN_ADDRESS_INVALID''
               ''ADBCONTROL_REMOTE_LISTEN must be an IP socket address such as 0.0.0.0:45921.''
               ''remote.startup'' False)), fs)
           | Inr (addr, ip) \<Rightarrow>
               (case load_or_generate (sio_identity io) (sio_remote_files io)
                       (sio_join io data_dir ''remote.cert.der'') (sio_join io data_dir ''remote.key.der'')
                       [''localhost'', ip] fs of
                  (Inl e, fs1) \<Rightarrow> (Inl e, fs1)
                | (Inr i, fs1) \<Rightarrow>
                    (on_ok (server_config (sio_build io) i) (\<lambda>_.
                     on_ok (remote_spawn (sio_remote_endpoint io)) (\<lambda>actual_addr.
                       Inr (Some actual_addr))), fs1))))"

text \<open>The process as it enters its stdio loop.\<close>

record 'w started =
  sd_core :: "(live, 'w) core"
  sd_accounts :: manager
  sd_remote_address :: "string option"

definition assemble_core ::
    "adb_manifest \<Rightarrow> keepalive option \<Rightarrow> connection_info option \<Rightarrow> 'w \<Rightarrow> (nat \<Rightarrow> core_env) \<Rightarrow>
     (live, 'w) core" where
  "assemble_core manifest ka info world envs =
     (let co = with_local_admin (new_core manifest [] (new_live []) world envs);
          co1 = (case info of None \<Rightarrow> co | Some i \<Rightarrow> with_companion_connection_info i co)
      in case ka of None \<Rightarrow> co1 | Some k \<Rightarrow> with_keepalive k co1)"

definition main_start ::
    "argon \<Rightarrow> start_io \<Rightarrow> 'w \<Rightarrow> (nat \<Rightarrow> core_env) \<Rightarrow> files \<Rightarrow> (app_error + 'w started) \<times> files" where
  "main_start A io world envs fs =
     (case sio_manifest io of
        Inl e \<Rightarrow> (Inl e, fs)
      | Inr manifest \<Rightarrow>
          (let ka = (case spawn_keepalive (sio_keepalive_error io) (sio_now io) default_keepalive_config of
                       Inl _ \<Rightarrow> None | Inr k \<Rightarrow> Some k);
               dir = remote_data_dir io
           in case fst (load_or_initialize A (sio_auth_env io)
                          (sio_account_file io (sio_join io dir ''accounts.json''))) of
                Inl e \<Rightarrow> (Inl e, fs)
              | Inr accounts \<Rightarrow>
                  (case start_companion_control io dir fs of
                     (Inl e, fs1) \<Rightarrow> (Inl e, fs1)
                   | (Inr info, fs1) \<Rightarrow>
                       (case start_remote_control io dir fs1 of
                          (Inl e, fs2) \<Rightarrow> (Inl e, fs2)
                        | (Inr address, fs2) \<Rightarrow>
                            (Inr \<lparr>sd_core = assemble_core manifest ka info world envs,
                                  sd_accounts = accounts, sd_remote_address = address\<rparr>, fs2)))))"

subsection \<open>Facts\<close>

lemma assemble_core_fields [simp]:
  "co_connection_info (assemble_core manifest ka info world envs) = info"
  "co_has_local_admin (assemble_core manifest ka info world envs)"
  "co_registry (assemble_core manifest ka info world envs) = []"
  "co_router (assemble_core manifest ka info world envs) = new_live []"
  "co_keepalive (assemble_core manifest ka info world envs) = ka"
  by (simp_all add: assemble_core_def Let_def with_local_admin_def with_companion_connection_info_def
      with_keepalive_def new_core_def split: option.splits)

lemma companion_started:
  assumes "start_companion_control io dir fs = (Inr info, fs')"
  shows "info = None \<and> configured io ''ADBCONTROL_COMPANION_LISTEN'' = None \<and> fs' = fs \<or>
         (\<exists>v a i. configured io ''ADBCONTROL_COMPANION_LISTEN'' = Some v \<and>
            load_or_generate (sio_identity io) (sio_companion_files io) (sio_join io dir ''companion.cert.der'')
              (sio_join io dir ''companion.key.der'') [companion_server_name, ''localhost''] fs = (Inr i, fs') \<and>
            info = Some \<lparr>ci_listen_address = a, ci_server_name = companion_server_name,
                          ci_certificate_der_base64 = sio_base64 io (qi_cert_der i),
                          ci_certificate_fingerprint = qi_fingerprint i\<rparr>)"
  using assms
  by (auto simp: start_companion_control_def ok_iff split: option.splits sum.splits prod.splits)

lemma remote_started:
  assumes "start_remote_control io dir fs = (Inr address, fs')"
  shows "address = None \<and> configured io ''ADBCONTROL_REMOTE_LISTEN'' = None \<and> fs' = fs \<or>
         address \<noteq> None \<and> configured io ''ADBCONTROL_REMOTE_LISTEN'' \<noteq> None"
  using assms
  by (auto simp: start_remote_control_def ok_iff split: option.splits sum.splits prod.splits)

text \<open>A start opens only what is configured: after a successful start the companion endpoint listens iff
  its variable is set to more than white space, and likewise the remote endpoint; with neither
  variable set no file is written; the account database is the one of the data directory, the
  local management interface is on, and no device is registered.\<close>

theorem startup_opens_only_configured:
  assumes "main_start A io world envs fs = (Inr sd, fs')"
  shows "(co_connection_info (sd_core sd) \<noteq> None \<longleftrightarrow> configured io ''ADBCONTROL_COMPANION_LISTEN'' \<noteq> None) \<and>
         (sd_remote_address sd \<noteq> None \<longleftrightarrow> configured io ''ADBCONTROL_REMOTE_LISTEN'' \<noteq> None) \<and>
         (configured io ''ADBCONTROL_COMPANION_LISTEN'' = None \<and> configured io ''ADBCONTROL_REMOTE_LISTEN'' = None \<longrightarrow>
            fs' = fs) \<and>
         fst (load_or_initialize A (sio_auth_env io)
                (sio_account_file io (sio_join io (remote_data_dir io) ''accounts.json''))) = Inr (sd_accounts sd) \<and>
         co_has_local_admin (sd_core sd) \<and> co_registry (sd_core sd) = []"
proof -
  obtain manifest ka info fs1 where
    accounts: "fst (load_or_initialize A (sio_auth_env io)
        (sio_account_file io (sio_join io (remote_data_dir io) ''accounts.json''))) = Inr (sd_accounts sd)"
    and c: "start_companion_control io (remote_data_dir io) fs = (Inr info, fs1)"
    and r: "start_remote_control io (remote_data_dir io) fs1 = (Inr (sd_remote_address sd), fs')"
    and core: "sd_core sd = assemble_core manifest ka info world envs"
    using assms by (auto simp: main_start_def Let_def split: sum.splits prod.splits)
  show ?thesis
    using companion_started [OF c] remote_started [OF r] by (auto simp: accounts core)
qed

end
