(* ===== verification/Companion_Connections.thy ===== *)
theory Companion_Connections
  imports Companion_Transport
begin

text \<open>
  The connections of \<open>companion/quinn_transport.rs\<close>: one turn of the control loop of
  \<open>handle_control_stream\<close>, what happens when the loop has ended, and the runs of the listener, in
  which connections are accepted, their frames arrive, heartbeats are due, writers fail, connections
  wait for their writers and are cleaned up, and host threads start and finish commands in any order.
\<close>

record connection =
  cn_id :: "64 word"
  cn_channel :: nat
  cn_device :: "string option"
  cn_input :: string

subsection \<open>One turn of the control loop\<close>

definition heartbeat_envelope :: "64 word \<Rightarrow> string \<Rightarrow> nat \<Rightarrow> envelope" where
  "heartbeat_envelope cid target ts =
     \<lparr>ev_protocol = companion_protocol, ev_version = companion_protocol_version,
      ev_message_id = ''core-heartbeat-'' @ show_nat ts,
      ev_trace_id = Some (''heartbeat-'' @ show_nat (unat cid)), ev_device_id = Some target,
      ev_channel = Control, ev_kind = Heartbeat,
      ev_payload = JObj [(''timestampUnixMs'', JInt (int ts))]\<rparr>"

definition send_heartbeat ::
    "transport_ports \<Rightarrow> 64 word \<Rightarrow> nat \<Rightarrow> string \<Rightarrow> nat \<Rightarrow> live \<Rightarrow> (app_error + unit) \<times> live" where
  "send_heartbeat P cid ch target ts st =
     (case tp_to_vec P (heartbeat_envelope cid target ts) of
        Inl c \<Rightarrow> (Inl (with_cause c (quinn_error ''COMPANION_QUIC_HEARTBEAT_SERIALIZE_FAILED''
          ''Core failed to serialize a Companion heartbeat.'' True)), st)
      | Inr encoded \<Rightarrow>
          (case outgoing_send ch encoded st of
             None \<Rightarrow> (Inl (quinn_error ''COMPANION_QUIC_CONTROL_CLOSED''
               ''Companion QUIC control stream closed before heartbeat delivery.'' True), st)
           | Some st' \<Rightarrow> (Inr (), st')))"

text \<open>
  What ends the \<open>select!\<close> of a turn: the next frame, or the heartbeat timer at a time stamp. The
  timer drops the read in progress, and with it the \<open>taken\<close> bytes of an incomplete frame the read
  had already got from the stream.
\<close>

datatype turn = Frame | Tick nat nat

definition interrupts :: "u32_format \<Rightarrow> turn \<Rightarrow> connection \<Rightarrow> bool" where
  "interrupts F t cn =
     (case t of
        Frame \<Rightarrow> True
      | Tick ts taken \<Rightarrow>
          (case read_control_frame F [] (take taken (cn_input cn)) of
             Inl e \<Rightarrow> e \<noteq> frame_length_invalid
           | Inr _ \<Rightarrow> False))"

definition envelope_invalid :: "string \<Rightarrow> app_error" where
  "envelope_invalid c = with_cause c (quinn_error ''COMPANION_QUIC_ENVELOPE_INVALID''
     ''Companion QUIC control frame is not a valid envelope.'' False)"

text \<open>
  The turn yields either the result the loop ends with or the connection it goes on with.
  \<open>parse\<close> is \<open>serde_json::from_slice\<close>, \<open>c\<close> the text of the stream's error.
\<close>

definition control_turn ::
    "transport_ports \<Rightarrow> u32_format \<Rightarrow> (string \<Rightarrow> string + envelope) \<Rightarrow> string \<Rightarrow> turn \<Rightarrow> connection \<Rightarrow>
     live \<Rightarrow> ((app_error + unit) + connection) \<times> live" where
  "control_turn P F parse c t cn st =
     (case t of
        Frame \<Rightarrow>
          (case read_control_frame F c (cn_input cn) of
             Inl err \<Rightarrow>
               (Inl (if error_code err = ''COMPANION_QUIC_CONTROL_CLOSED'' then Inr () else Inl err), st)
           | Inr (bytes, rest) \<Rightarrow>
               (case parse bytes of
                  Inl pc \<Rightarrow> (Inl (Inl (envelope_invalid pc)), st)
                | Inr e \<Rightarrow>
                    (case accept_envelope P (cn_id cn) (cn_channel cn) e st of
                       (Inl err, st') \<Rightarrow> (Inl (Inl err), st')
                     | (Inr dev, st') \<Rightarrow>
                         (Inr (cn\<lparr>cn_input := rest,
                                  cn_device := (case dev of None \<Rightarrow> cn_device cn | Some d \<Rightarrow> Some d)\<rparr>),
                          st'))))
      | Tick ts taken \<Rightarrow>
          (case cn_device cn of
             None \<Rightarrow> (Inr cn, st)
           | Some target \<Rightarrow>
               (case send_heartbeat P (cn_id cn) (cn_channel cn) target ts st of
                  (Inl err, st') \<Rightarrow> (Inl (Inl err), st')
                | (Inr _, st') \<Rightarrow> (Inr (cn\<lparr>cn_input := drop taken (cn_input cn)\<rparr>), st'))))"

subsection \<open>The runs of the listener\<close>

text \<open>
  How a connection ends depends on how its loop ended. An error leaves \<open>handle_control_stream\<close> at
  once and \<open>handle_connection\<close> cleans up. When the companion closed the stream, the device the
  connection served last is disconnected, the loop's own sender is dropped and \<open>writer.await\<close>
  follows: the connection is \<open>draining\<close> until its writer task has ended, and only then does
  \<open>handle_connection\<close> clean up. The writer ends when a write fails, or when it has written everything
  and no sender of its channel is left: no session has one, and no command has one (a command keeps
  its copy of the session until it returns; \<open>qs_clones\<close> has the copies of the commands in
  \<open>qs_waiting\<close>).
\<close>

record quic_server =
  qs_live :: live
  qs_running :: "connection list"
  qs_draining :: "connection list"
  qs_next_id :: "64 word"
  qs_next_channel :: nat
  qs_waiting :: "(nat \<times> string) list"
  qs_clones :: "(nat \<times> nat) list"
  qs_next_waiter :: nat

definition server_start :: "quic_server \<Rightarrow> bool" where
  "server_start q \<longleftrightarrow>
     q = \<lparr>qs_live = new_live [], qs_running = [], qs_draining = [], qs_next_id = 1,
          qs_next_channel = 0, qs_waiting = [], qs_clones = [], qs_next_waiter = 0\<rparr>"

definition has_sender :: "quic_server \<Rightarrow> nat \<Rightarrow> bool" where
  "has_sender q ch \<longleftrightarrow>
     (\<exists>(d, h) \<in> set (lv_sessions (qs_live q)). sh_outgoing h = ch) \<or>
     (\<exists>(w, ch') \<in> set (qs_clones q). ch' = ch)"

definition writer_done :: "quic_server \<Rightarrow> nat \<Rightarrow> bool" where
  "writer_done q ch \<longleftrightarrow> \<not> ob_open (lv_outboxes (qs_live q) ch) \<or> \<not> has_sender q ch"

definition remove_at :: "nat \<Rightarrow> 'a list \<Rightarrow> 'a list" where
  "remove_at i xs = take i xs @ drop (Suc i) xs"

inductive server_step ::
    "transport_ports \<Rightarrow> u32_format \<Rightarrow> (string \<Rightarrow> string + envelope) \<Rightarrow> quic_server \<Rightarrow> quic_server \<Rightarrow> bool"
  for P F parse where
  handshake_failed: "server_step P F parse q (q\<lparr>qs_next_id := qs_next_id q + 1\<rparr>)"
| preface_refused:
    "read_preface c bs = Inl err \<Longrightarrow>
     server_step P F parse q
       (q\<lparr>qs_live := disconnect_connection (qs_next_id q) (qs_live q), qs_next_id := qs_next_id q + 1\<rparr>)"
| accepted:
    "read_preface c bs = Inr rest \<Longrightarrow>
     server_step P F parse q
       (q\<lparr>qs_running := \<lparr>cn_id = qs_next_id q, cn_channel = qs_next_channel q, cn_device = None,
                        cn_input = rest\<rparr> # qs_running q,
          qs_next_id := qs_next_id q + 1, qs_next_channel := Suc (qs_next_channel q)\<rparr>)"
| turned:
    "i < length (qs_running q) \<Longrightarrow> interrupts F t (qs_running q ! i) \<Longrightarrow>
     control_turn (P\<lparr>tp_order := order\<rparr>) F parse c t (qs_running q ! i) (qs_live q) = (Inr cn', st') \<Longrightarrow>
     server_step P F parse q (q\<lparr>qs_live := st', qs_running := (qs_running q)[i := cn']\<rparr>)"
| failed:
    "i < length (qs_running q) \<Longrightarrow> interrupts F t (qs_running q ! i) \<Longrightarrow>
     control_turn (P\<lparr>tp_order := order\<rparr>) F parse c t (qs_running q ! i) (qs_live q) = (Inl (Inl err), st') \<Longrightarrow>
     server_step P F parse q
       (q\<lparr>qs_live := disconnect_connection (cn_id (qs_running q ! i)) st',
          qs_running := remove_at i (qs_running q)\<rparr>)"
| loop_ended:
    "i < length (qs_running q) \<Longrightarrow> interrupts F t (qs_running q ! i) \<Longrightarrow>
     control_turn (P\<lparr>tp_order := order\<rparr>) F parse c t (qs_running q ! i) (qs_live q) = (Inl (Inr ()), st') \<Longrightarrow>
     cn = qs_running q ! i \<Longrightarrow>
     server_step P F parse q
       (q\<lparr>qs_live := disconnect (cn_id cn) (cn_device cn) st',
          qs_running := remove_at i (qs_running q), qs_draining := cn # qs_draining q\<rparr>)"
| drained:
    "i < length (qs_draining q) \<Longrightarrow> cn = qs_draining q ! i \<Longrightarrow> writer_done q (cn_channel cn) \<Longrightarrow>
     server_step P F parse q
       (q\<lparr>qs_live := disconnect_connection (cn_id cn) (qs_live q),
          qs_draining := remove_at i (qs_draining q)\<rparr>)"
| writer_failed:
    "ob_messages (lv_outboxes (qs_live q) ch) \<noteq> [] \<Longrightarrow>
     server_step P F parse q (q\<lparr>qs_live := (qs_live q)\<lparr>lv_outboxes :=
       (lv_outboxes (qs_live q))(ch := (lv_outboxes (qs_live q) ch)\<lparr>ob_open := False\<rparr>)\<rparr>\<rparr>)"
| command_started:
    "start_command P (qs_next_waiter q) d e (qs_live q) = (Inr rid, st') \<Longrightarrow>
     bt_get d (lv_sessions (qs_live q)) = Some h \<Longrightarrow>
     server_step P F parse q
       (q\<lparr>qs_live := st', qs_waiting := (qs_next_waiter q, rid) # qs_waiting q,
          qs_clones := (qs_next_waiter q, sh_outgoing h) # qs_clones q,
          qs_next_waiter := Suc (qs_next_waiter q)\<rparr>)"
| command_refused:
    "start_command P (qs_next_waiter q) d e (qs_live q) = (Inl err, st') \<Longrightarrow>
     server_step P F parse q (q\<lparr>qs_live := st', qs_next_waiter := Suc (qs_next_waiter q)\<rparr>)"
| command_finished:
    "(w, rid) \<in> set (qs_waiting q) \<Longrightarrow> finish_command w rid c (qs_live q) = (r, st') \<Longrightarrow>
     server_step P F parse q
       (q\<lparr>qs_live := st', qs_waiting := filter (\<lambda>(w', _). w' \<noteq> w) (qs_waiting q),
          qs_clones := filter (\<lambda>(w', _). w' \<noteq> w) (qs_clones q)\<rparr>)"

subsection \<open>What one operation leaves as it was\<close>

lemma outgoing_send_Some_iff [ok_iff]:
  "outgoing_send ch b st = Some st' \<longleftrightarrow>
     ob_open (lv_outboxes st ch) \<and>
     st' = st\<lparr>lv_outboxes := (lv_outboxes st)(ch := (lv_outboxes st ch)
              \<lparr>ob_messages := ob_messages (lv_outboxes st ch) @ [b]\<rparr>)\<rparr>"
  by (auto simp: outgoing_send_def Let_def)

lemma outgoing_send_frame:
  assumes "outgoing_send ch b st = Some st'"
  shows "lv_registry st' = lv_registry st" and "lv_ingress st' = lv_ingress st"
    and "lv_sessions st' = lv_sessions st" and "lv_pending st' = lv_pending st"
    and "lv_delivered st' = lv_delivered st"
  using assms by (auto simp: outgoing_send_Some_iff)

lemma register_frame [simp]:
  "lv_registry (register_session cid ch e st) = lv_registry st"
  "lv_ingress (register_session cid ch e st) = lv_ingress st"
  "lv_pending (register_session cid ch e st) = lv_pending st"
  "lv_outboxes (register_session cid ch e st) = lv_outboxes st"
  "lv_delivered (register_session cid ch e st) = lv_delivered st"
  by (simp_all add: register_session_def split: option.splits)

lemma deliver_frame [simp]:
  "lv_registry (deliver_response e st) = lv_registry st"
  "lv_ingress (deliver_response e st) = lv_ingress st"
  "lv_sessions (deliver_response e st) = lv_sessions st"
  "lv_outboxes (deliver_response e st) = lv_outboxes st"
  by (simp_all add: deliver_response_def Let_def split: option.splits)

lemma disconnect_frame [simp]:
  "lv_ingress (disconnect cid d st) = lv_ingress st"
  "lv_pending (disconnect cid d st) = lv_pending st"
  "lv_outboxes (disconnect cid d st) = lv_outboxes st"
  "lv_delivered (disconnect cid d st) = lv_delivered st"
  by (simp_all add: disconnect_def split: option.splits)

text \<open>
  What an envelope can do to the shared state: nothing, deliver a response, or go through the
  ingress, after which the registry has every device of the ingress, the hello's session is
  registered, and at most one message has been sent.
\<close>

lemma accept_envelope_cases:
  assumes "accept_envelope P cid ch e st = (r, st')"
  obtains (refused) err where "validate_quic_envelope e = Inl err" "r = Inl err" "st' = st"
  | (terminal) "ev_kind e = CommandResponse \<or> ev_kind e = ErrorMessage" "r = Inr None"
      "st' = deliver_response e st" "validate_quic_envelope e = Inr ()"
  | (session) response st1 where "\<not> (ev_kind e = CommandResponse \<or> ev_kind e = ErrorMessage)"
      "validate_quic_envelope e = Inr ()"
      "fst (live_ingress P e st) = Inr response"
      "st1 = register_session cid ch e
         (st\<lparr>lv_ingress := snd (live_ingress P e st),
             lv_registry := upsert_all (session_devices (tp_order P) (ig_sessions (snd (live_ingress P e st)))) (lv_registry st)\<rparr>)"
      "lv_registry st' = lv_registry st1" "lv_ingress st' = lv_ingress st1"
      "lv_sessions st' = lv_sessions st1" "lv_pending st' = lv_pending st1"
      "lv_delivered st' = lv_delivered st1"
      "st' = st1 \<and> (ev_kind e = Heartbeat \<longleftrightarrow> is_ok r) \<and> (ev_kind e = Heartbeat \<longrightarrow> r = Inr (ev_device_id e)) \<or>
       ev_kind e \<noteq> Heartbeat \<and> r = Inr (ev_device_id e) \<and>
         (\<exists>b. tp_to_vec P response = Inr b \<and> outgoing_send ch b st1 = Some st')"
proof -
  obtain response ig where li: "live_ingress P e st = (Inr response, ig)"
    using ingress_total [of "tp_serde P" "tp_base64 P" "tp_media P" e "lv_ingress st"]
    by (cases "live_ingress P e st") (auto simp: live_ingress_def)
  show ?thesis
  proof (cases "validate_quic_envelope e")
    case (Inl err)
    then show ?thesis using assms refused by (simp add: accept_envelope_def)
  next
    case (Inr u)
    show ?thesis
    proof (cases "ev_kind e = CommandResponse \<or> ev_kind e = ErrorMessage")
      case True
      then show ?thesis using assms Inr terminal by (auto simp: accept_envelope_def)
    next
      case False
      let ?st1 = "register_session cid ch e
         (st\<lparr>lv_ingress := snd (live_ingress P e st),
             lv_registry := upsert_all (session_devices (tp_order P) (ig_sessions (snd (live_ingress P e st)))) (lv_registry st)\<rparr>)"
      have end_: "st' = ?st1 \<and> (ev_kind e = Heartbeat \<longleftrightarrow> is_ok r) \<and> (ev_kind e = Heartbeat \<longrightarrow> r = Inr (ev_device_id e)) \<or>
         ev_kind e \<noteq> Heartbeat \<and> r = Inr (ev_device_id e) \<and>
           (\<exists>b. tp_to_vec P response = Inr b \<and> outgoing_send ch b ?st1 = Some st')"
        using assms Inr False li
        by (auto simp: accept_envelope_def Let_def split: sum.splits option.splits if_splits)
      then have frame: "lv_registry st' = lv_registry ?st1" "lv_ingress st' = lv_ingress ?st1"
        "lv_sessions st' = lv_sessions ?st1" "lv_pending st' = lv_pending ?st1"
        "lv_delivered st' = lv_delivered ?st1"
        by (elim disjE conjE exE; simp only: outgoing_send_frame)+
      show ?thesis
        by (rule session [OF False _ _ refl frame end_]) (simp_all add: Inr li)
    qed
  qed
qed

end
