(* ===== verification/Companion_Connections_Facts.thy ===== *)
theory Companion_Connections_Facts
  imports Companion_Connections
begin

text \<open>
  What holds of the live transport: the invariant of all runs of the listener, the effect of an
  envelope, the correlation of commands and responses, and the behaviour at the end of a
  connection.
\<close>

subsection \<open>The registry follows the sessions\<close>

lemma upsert_all_simps [simp]:
  "upsert_all [] r = r"
  "upsert_all (d # ds) r = upsert_all ds (upsert d r)"
  by (simp_all add: upsert_all_def)

lemma registry_ok_upsert_all: "registry_ok r \<Longrightarrow> registry_ok (upsert_all ds r)"
  by (induction ds arbitrary: r) (auto intro: registry_ok_upsert)

lemma upsert_all_other:
  "d \<notin> set (map dv_device_id ds) \<Longrightarrow> registry_abs (upsert_all ds r) d = registry_abs r d"
  by (induction ds arbitrary: r) (auto simp: upsert_abs)

lemma upsert_all_distinct:
  "distinct (map dv_device_id ds) \<Longrightarrow> x \<in> set ds \<Longrightarrow>
   registry_abs (upsert_all ds r) (dv_device_id x) = Some x"
proof (induction ds arbitrary: r)
  case (Cons d ds)
  then show ?case
    using upsert_all_other [of "dv_device_id d" ds "upsert d r"] by (auto simp: upsert_abs)
qed simp

lemma session_devices_ids:
  "sessions_ok ss \<Longrightarrow> map dv_device_id (session_devices order ss) = keys (iterate order ss)"
proof -
  assume ok: "sessions_ok ss"
  have "dv_device_id (to_device (snd p)) = fst p" if "p \<in> set ss" for p
  proof -
    have "bt_get (fst p) ss = Some (snd p)"
      using ok that map_of_is_SomeI [of ss "fst p" "snd p"] bt_ok_distinct [of ss]
      by (simp add: sessions_ok_def bt_get_def keys_def)
    then show ?thesis using ok by (auto simp: sessions_ok_def session_ok_def to_device_def)
  qed
  then show ?thesis by (auto simp: session_devices_def keys_def)
qed

lemma upsert_sessions:
  assumes "sessions_ok ss"
  shows "registry_abs (upsert_all (session_devices order ss) r) d =
           (case bt_get d ss of None \<Rightarrow> registry_abs r d | Some s \<Rightarrow> Some (to_device s))"
proof (cases "bt_get d ss")
  case None
  then have "d \<notin> set (map dv_device_id (session_devices order ss))"
    using session_devices_ids [OF assms] by (simp add: bt_get_def keys_def map_of_eq_None_iff image_image)
  then show ?thesis using None upsert_all_other [of d "session_devices order ss" r] by (simp del: upsert_all_simps)
next
  case (Some s)
  have "distinct (map dv_device_id (session_devices order ss))"
    using session_devices_ids [OF assms] assms bt_ok_distinct
    by (auto simp: sessions_ok_def keys_def)
  moreover have "to_device s \<in> set (session_devices order ss)"
    using Some by (force simp: session_devices_def bt_get_def dest: map_of_SomeD)
  moreover have "dv_device_id (to_device s) = d"
    using assms Some by (auto simp: sessions_ok_def session_ok_def to_device_def)
  ultimately show ?thesis using upsert_all_distinct Some by fastforce
qed

text \<open>No message removes a session.\<close>

lemma session_kept:
  "bt_get d ss \<noteq> None \<Longrightarrow> bt_get d (snd (session_handle_envelope sm e ss)) \<noteq> None"
proof (cases "session_handle_envelope sm e ss")
  case (Pair r ss')
  assume "bt_get d ss \<noteq> None"
  then show ?thesis using Pair
  proof (cases r)
    case (Inl err)
    then show ?thesis using Pair \<open>bt_get d ss \<noteq> None\<close> session_error_frame by fastforce
  next
    case (Inr a)
    then have "session_handle_envelope sm e ss = (Inr a, ss')" using Pair by simp
    then show ?thesis using \<open>bt_get d ss \<noteq> None\<close> Pair
      by (cases rule: session_success_cases) auto
  qed
qed

lemma live_ingress_sessions:
  "sessions_ok (ig_sessions (lv_ingress st)) \<Longrightarrow> sessions_ok (ig_sessions (snd (live_ingress P e st)))"
  "bt_get d (ig_sessions (lv_ingress st)) \<noteq> None \<Longrightarrow>
   bt_get d (ig_sessions (snd (live_ingress P e st))) \<noteq> None"
proof -
  show "sessions_ok (ig_sessions (lv_ingress st)) \<Longrightarrow> sessions_ok (ig_sessions (snd (live_ingress P e st)))"
    by (simp add: live_ingress_def ingress_sessions_ok)
  assume "bt_get d (ig_sessions (lv_ingress st)) \<noteq> None"
  then show "bt_get d (ig_sessions (snd (live_ingress P e st))) \<noteq> None"
    using dispatch_sessions [of "tp_serde P" "tp_base64 P" "tp_media P" e "lv_ingress st"]
      session_kept [of d "ig_sessions (lv_ingress st)" "tp_serde P" e]
    by (auto simp: live_ingress_def ingress_snd)
qed

definition registry_coherent :: "live \<Rightarrow> bool" where
  "registry_coherent st \<longleftrightarrow>
     registry_ok (lv_registry st) \<and> sessions_ok (ig_sessions (lv_ingress st)) \<and>
     (\<forall>d x. registry_abs (lv_registry st) d = Some x \<longrightarrow>
        (\<exists>s. bt_get d (ig_sessions (lv_ingress st)) = Some s \<and> x = to_device s))"

lemma coherent_same:
  "lv_registry st' = lv_registry st \<Longrightarrow> lv_ingress st' = lv_ingress st \<Longrightarrow>
   registry_coherent st' = registry_coherent st"
  by (simp add: registry_coherent_def)

lemma coherent_ingress:
  assumes "registry_coherent st"
    and "lv_ingress st' = snd (live_ingress P e st)"
    and "lv_registry st' = upsert_all (session_devices (tp_order P) (ig_sessions (snd (live_ingress P e st)))) (lv_registry st)"
  shows "registry_coherent st'"
proof -
  let ?ss = "ig_sessions (snd (live_ingress P e st))"
  have ok: "sessions_ok ?ss" using assms(1) live_ingress_sessions(1) by (simp add: registry_coherent_def)
  have "\<exists>s. bt_get d ?ss = Some s \<and> x = to_device s"
    if "registry_abs (upsert_all (session_devices (tp_order P) ?ss) (lv_registry st)) d = Some x" for d x
  proof (cases "bt_get d ?ss")
    case None
    then have "registry_abs (lv_registry st) d = Some x" using that upsert_sessions [OF ok] by simp
    then have "bt_get d (ig_sessions (lv_ingress st)) \<noteq> None"
      using assms(1) by (auto simp: registry_coherent_def)
    then show ?thesis using None live_ingress_sessions(2) by blast
  qed (use that upsert_sessions [OF ok] in simp)
  then show ?thesis
    using assms ok by (auto simp: registry_coherent_def intro: registry_ok_upsert_all)
qed

lemma coherent_accept:
  assumes "registry_coherent st" and "accept_envelope P cid ch e st = (r, st')"
  shows "registry_coherent st'"
  using assms(2)
proof (cases rule: accept_envelope_cases)
  case refused
  then show ?thesis using assms by simp
next
  case terminal
  then show ?thesis using assms(1) coherent_same [of st' st] by simp
next
  case (session response st1)
  have "lv_ingress st' = snd (live_ingress P e st)"
    by (simp add: session(4,6))
  moreover have "lv_registry st' = upsert_all (session_devices (tp_order P) (ig_sessions (snd (live_ingress P e st)))) (lv_registry st)"
    by (simp add: session(4,5))
  ultimately show ?thesis by (rule coherent_ingress [OF assms(1)])
qed

lemma coherent_disconnect: "registry_coherent st \<Longrightarrow> registry_coherent (disconnect cid dev st)"
  by (auto simp: disconnect_def registry_coherent_def registry_ok_remove remove_abs split: option.splits)

lemma coherent_disconnect_connection:
  "registry_coherent st \<Longrightarrow> registry_coherent (disconnect_connection cid st)"
proof -
  have "registry_coherent s \<Longrightarrow> registry_coherent (foldl (\<lambda>s d. disconnect cid (Some d) s) s ds)" for s ds
    by (induction ds arbitrary: s) (auto intro: coherent_disconnect)
  then show "registry_coherent st \<Longrightarrow> registry_coherent (disconnect_connection cid st)"
    by (simp add: disconnect_connection_def)
qed

subsection \<open>The end of a connection\<close>

definition held_by :: "64 word \<Rightarrow> live \<Rightarrow> string \<Rightarrow> bool" where
  "held_by cid st d \<longleftrightarrow> (\<exists>h. bt_get d (lv_sessions st) = Some h \<and> sh_connection_id h = cid)"

lemma disconnect_get:
  "bt_get k (lv_sessions (disconnect cid (Some d) st)) =
     (if k = d \<and> held_by cid st d then None else bt_get k (lv_sessions st))"
  "registry_abs (lv_registry (disconnect cid (Some d) st)) k =
     (if k = d \<and> held_by cid st d then None else registry_abs (lv_registry st) k)"
  by (auto simp: disconnect_def held_by_def remove_abs split: option.splits)

lemma held_disconnect:
  "held_by cid (disconnect cid (Some d) st) k \<longleftrightarrow> held_by cid st k \<and> k \<noteq> d"
  by (auto simp: held_by_def disconnect_get)

lemma disconnect_all_get:
  "bt_get k (lv_sessions (foldl (\<lambda>s d. disconnect cid (Some d) s) st ds)) =
     (if k \<in> set ds \<and> held_by cid st k then None else bt_get k (lv_sessions st)) \<and>
   registry_abs (lv_registry (foldl (\<lambda>s d. disconnect cid (Some d) s) st ds)) k =
     (if k \<in> set ds \<and> held_by cid st k then None else registry_abs (lv_registry st) k)"
proof (induction ds arbitrary: st)
  case (Cons d ds)
  show ?case
    using Cons [of "disconnect cid (Some d) st"]
    by (cases "k = d") (auto simp: held_disconnect disconnect_get)
qed simp

lemma held_connection_device: "held_by cid st k \<Longrightarrow> k \<in> set (connection_devices cid st)"
  by (force simp: held_by_def connection_devices_def bt_get_def dest: map_of_SomeD)

lemma disconnect_connection_get:
  "bt_get k (lv_sessions (disconnect_connection cid st)) =
     (if held_by cid st k then None else bt_get k (lv_sessions st))"
  "registry_abs (lv_registry (disconnect_connection cid st)) k =
     (if held_by cid st k then None else registry_abs (lv_registry st) k)"
  using disconnect_all_get [of k cid st "connection_devices cid st"] held_connection_device
  by (auto simp: disconnect_connection_def)

lemma disconnect_connection_frame [simp]:
  "lv_ingress (disconnect_connection cid st) = lv_ingress st"
  "lv_pending (disconnect_connection cid st) = lv_pending st"
  "lv_outboxes (disconnect_connection cid st) = lv_outboxes st"
  "lv_delivered (disconnect_connection cid st) = lv_delivered st"
proof -
  have "lv_ingress (foldl (\<lambda>s d. disconnect cid (Some d) s) s ds) = lv_ingress s \<and>
    lv_pending (foldl (\<lambda>s d. disconnect cid (Some d) s) s ds) = lv_pending s \<and>
    lv_outboxes (foldl (\<lambda>s d. disconnect cid (Some d) s) s ds) = lv_outboxes s \<and>
    lv_delivered (foldl (\<lambda>s d. disconnect cid (Some d) s) s ds) = lv_delivered s" for s ds
    by (induction ds arbitrary: s) auto
  then show "lv_ingress (disconnect_connection cid st) = lv_ingress st"
    "lv_pending (disconnect_connection cid st) = lv_pending st"
    "lv_outboxes (disconnect_connection cid st) = lv_outboxes st"
    "lv_delivered (disconnect_connection cid st) = lv_delivered st"
    by (simp_all add: disconnect_connection_def)
qed

lemma held_anyhow:
  "held_by cid (disconnect cid dev st) k \<longleftrightarrow> held_by cid st k \<and> dev \<noteq> Some k"
  by (cases dev) (auto simp: held_disconnect disconnect_def [of _ None])

lemma disconnect_gets:
  "bt_get k (lv_sessions (disconnect cid dev st)) =
     (if dev = Some k \<and> held_by cid st k then None else bt_get k (lv_sessions st))"
  "registry_abs (lv_registry (disconnect cid dev st)) k =
     (if dev = Some k \<and> held_by cid st k then None else registry_abs (lv_registry st) k)"
  by (cases dev; auto simp: disconnect_get disconnect_def [of _ None])+

subsection \<open>Sessions belong to connections, and have registered devices\<close>

definition handles_running :: "connection list \<Rightarrow> live \<Rightarrow> bool" where
  "handles_running cs st \<longleftrightarrow>
     (\<forall>d h. bt_get d (lv_sessions st) = Some h \<longrightarrow>
        (\<exists>cn \<in> set cs. cn_id cn = sh_connection_id h \<and> cn_channel cn = sh_outgoing h))"

lemma handles_same: "lv_sessions st' = lv_sessions st \<Longrightarrow> handles_running cs st' = handles_running cs st"
  by (simp add: handles_running_def)

lemma register_handles:
  assumes "handles_running cs st" and "cn \<in> set cs"
  shows "handles_running cs (register_session (cn_id cn) (cn_channel cn) e st)"
  using assms by (auto simp: handles_running_def register_session_def split: option.splits)

lemma accept_handles:
  assumes "handles_running cs st" and "cn \<in> set cs"
    and "accept_envelope P (cn_id cn) (cn_channel cn) e st = (r, st')"
  shows "handles_running cs st'"
  using assms(3)
proof (cases rule: accept_envelope_cases)
  case refused
  then show ?thesis using assms by simp
next
  case terminal
  then show ?thesis using assms(1) handles_same [of st' st cs] by simp
next
  case (session response st1)
  let ?st0 = "st\<lparr>lv_ingress := snd (live_ingress P e st),
     lv_registry := upsert_all (session_devices (tp_order P) (ig_sessions (snd (live_ingress P e st)))) (lv_registry st)\<rparr>"
  have "handles_running cs ?st0" using assms(1) handles_same [of ?st0 st cs] by simp
  then have "handles_running cs st1" unfolding session(4) by (rule register_handles [OF _ assms(2)])
  then show ?thesis using handles_same [OF session(7)] by simp
qed

text \<open>A device commands can reach is one the core lists, once the ingress has a session of it.\<close>

definition devices_listed :: "live \<Rightarrow> bool" where
  "devices_listed st \<longleftrightarrow>
     (\<forall>d. bt_get d (lv_sessions st) \<noteq> None \<longrightarrow> bt_get d (ig_sessions (lv_ingress st)) \<noteq> None \<longrightarrow>
        registry_abs (lv_registry st) d \<noteq> None)"

lemma listed_same:
  "lv_registry st' = lv_registry st \<Longrightarrow> lv_ingress st' = lv_ingress st \<Longrightarrow>
   lv_sessions st' = lv_sessions st \<Longrightarrow> devices_listed st' = devices_listed st"
  by (simp add: devices_listed_def)

lemma listed_disconnect: "devices_listed st \<Longrightarrow> devices_listed (disconnect cid dev st)"
  by (auto simp: devices_listed_def disconnect_gets split: if_splits)

lemma listed_disconnect_connection: "devices_listed st \<Longrightarrow> devices_listed (disconnect_connection cid st)"
  by (auto simp: devices_listed_def disconnect_connection_get split: if_splits)

lemma listed_accept:
  assumes "devices_listed st" and "registry_coherent st" and "accept_envelope P cid ch e st = (r, st')"
  shows "devices_listed st'"
  using assms(3)
proof (cases rule: accept_envelope_cases)
  case refused
  then show ?thesis using assms(1) by simp
next
  case terminal
  then show ?thesis using assms(1) listed_same [of st' st] by simp
next
  case (session response st1)
  have "sessions_ok (ig_sessions (snd (live_ingress P e st)))"
    using assms(2) live_ingress_sessions(1) by (simp add: registry_coherent_def)
  then show ?thesis
    by (auto simp: devices_listed_def session(4-7) upsert_sessions split: option.splits)
qed

lemma heartbeat_frame:
  assumes "send_heartbeat P cid ch target ts st = (r, st')"
  shows "lv_registry st' = lv_registry st" and "lv_ingress st' = lv_ingress st"
    and "lv_sessions st' = lv_sessions st" and "lv_pending st' = lv_pending st"
    and "lv_delivered st' = lv_delivered st"
  using assms by (auto simp: send_heartbeat_def outgoing_send_frame split: sum.splits option.splits)

subsection \<open>Commands and responses\<close>

text \<open>
  The commands in flight: each waits on a channel of its own, is pending at most under its own
  request id, and what was delivered to it names that id.
\<close>

definition waiters_ok :: "(nat \<times> string) list \<Rightarrow> nat \<Rightarrow> live \<Rightarrow> bool" where
  "waiters_ok ws next st \<longleftrightarrow>
     distinct (map fst ws) \<and> (\<forall>p \<in> set ws. fst p < next) \<and>
     (\<forall>rid w. bt_get rid (lv_pending st) = Some w \<longrightarrow> (w, rid) \<in> set ws \<and> lv_delivered st w = None) \<and>
     (\<forall>w e. lv_delivered st w = Some e \<longrightarrow>
        w < next \<and> (\<forall>rid. (w, rid) \<in> set ws \<longrightarrow> response_request_id e = rid))"

lemma waiters_same:
  "lv_pending st' = lv_pending st \<Longrightarrow> lv_delivered st' = lv_delivered st \<Longrightarrow>
   waiters_ok ws n st' = waiters_ok ws n st"
  by (simp add: waiters_ok_def)

lemma waiters_unique: "waiters_ok ws n st \<Longrightarrow> (w, r) \<in> set ws \<Longrightarrow> (w, r') \<in> set ws \<Longrightarrow> r = r'"
  by (auto simp: waiters_ok_def dest: eq_key_imp_eq_value)

lemma waiters_deliver:
  assumes "waiters_ok ws n st"
  shows "waiters_ok ws n (deliver_response e st)"
proof (cases "bt_get (response_request_id e) (lv_pending st)")
  case None
  then show ?thesis using assms by (simp add: deliver_response_def Let_def)
next
  case (Some w)
  then have w: "(w, response_request_id e) \<in> set ws" using assms by (auto simp: waiters_ok_def)
  then have "w < n" using assms by (force simp: waiters_ok_def)
  moreover have "response_request_id e = rid" if "(w, rid) \<in> set ws" for rid
    using waiters_unique [OF assms w that] .
  ultimately show ?thesis
    using assms Some by (auto simp: waiters_ok_def deliver_response_def Let_def)
qed

lemma accept_waiters:
  assumes "waiters_ok ws n st" and "accept_envelope P cid ch e st = (r, st')"
  shows "waiters_ok ws n st'"
  using assms(2)
proof (cases rule: accept_envelope_cases)
  case refused
  then show ?thesis using assms(1) by simp
next
  case terminal
  then show ?thesis using waiters_deliver [OF assms(1)] by simp
next
  case (session response st1)
  have "lv_pending st' = lv_pending st" "lv_delivered st' = lv_delivered st"
    by (simp_all add: session(4,8,9))
  then show ?thesis using assms(1) waiters_same by blast
qed

lemma start_command_Inr:
  assumes "start_command P w d e st = (Inr rid, st')"
  obtains h b where "bt_get d (lv_sessions st) = Some h" "tp_to_vec P e = Inr b"
    "rid = command_request_id e" "ob_open (lv_outboxes st (sh_outgoing h))"
    "st' = st\<lparr>lv_pending := bt_insert rid w (lv_pending st),
             lv_outboxes := (lv_outboxes st)(sh_outgoing h := (lv_outboxes st (sh_outgoing h))
               \<lparr>ob_messages := ob_messages (lv_outboxes st (sh_outgoing h)) @ [b]\<rparr>)\<rparr>"
  using assms
  by (auto simp: start_command_def Let_def ok_iff split: option.splits sum.splits)

lemma start_command_Inl:
  assumes "start_command P w d e st = (Inl err, st')"
  obtains "st' = st"
  | "st' = st\<lparr>lv_pending := bt_remove (command_request_id e) (bt_insert (command_request_id e) w (lv_pending st))\<rparr>"
  using assms
  by (auto simp: start_command_def Let_def ok_iff split: option.splits sum.splits)

lemma start_waiters:
  assumes "waiters_ok ws n st"
  shows "start_command P n d e st = (Inr rid, st') \<Longrightarrow> waiters_ok ((n, rid) # ws) (Suc n) st'"
    and "start_command P n d e st = (Inl err, st') \<Longrightarrow> waiters_ok ws (Suc n) st'"
proof -
  have fresh: "n \<notin> fst ` set ws" "lv_delivered st n = None"
    using assms by (auto simp: waiters_ok_def) (metis less_irrefl option.exhaust)
  show "waiters_ok ((n, rid) # ws) (Suc n) st'" if "start_command P n d e st = (Inr rid, st')"
    using that
  proof (rule start_command_Inr)
    fix h b
    assume "st' = st\<lparr>lv_pending := bt_insert rid n (lv_pending st),
             lv_outboxes := (lv_outboxes st)(sh_outgoing h := (lv_outboxes st (sh_outgoing h))
               \<lparr>ob_messages := ob_messages (lv_outboxes st (sh_outgoing h)) @ [b]\<rparr>)\<rparr>"
    then show ?thesis using assms fresh by (auto simp: waiters_ok_def less_SucI)
  qed
  show "waiters_ok ws (Suc n) st'" if "start_command P n d e st = (Inl err, st')"
    using that
  proof (rule start_command_Inl)
    assume "st' = st"
    then show ?thesis using assms by (auto simp: waiters_ok_def less_SucI)
  next
    assume "st' = st\<lparr>lv_pending := bt_remove (command_request_id e)
              (bt_insert (command_request_id e) n (lv_pending st))\<rparr>"
    then show ?thesis using assms by (auto simp: waiters_ok_def less_SucI)
  qed
qed

lemma finish_command_cases:
  assumes "finish_command w rid c st = (r, st')"
  obtains (response) e where "lv_delivered st w = Some e" "r = command_result e" "st' = st"
  | (expired) "lv_delivered st w = None" "st' = st\<lparr>lv_pending := bt_remove rid (lv_pending st)\<rparr>"
      "\<exists>err. r = Inl err \<and> error_code err = ''COMPANION_COMMAND_TIMEOUT''"
  using assms
  by (auto simp: finish_command_def quinn_error_def split: option.splits)

lemma finish_waiters:
  assumes "waiters_ok ws n st" and "(w, rid) \<in> set ws" and "finish_command w rid c st = (r, st')"
  shows "waiters_ok (filter (\<lambda>(w', _). w' \<noteq> w) ws) n st'"
proof -
  have d: "distinct (map fst (filter (\<lambda>(w', _). w' \<noteq> w) ws))"
    using assms(1) by (simp add: waiters_ok_def distinct_map_filter)
  show ?thesis
    using assms(3)
  proof (cases rule: finish_command_cases)
    case (response e)
    then show ?thesis using assms(1) d by (auto simp: waiters_ok_def)
  next
    case expired
    have "(v, k) \<in> set (filter (\<lambda>(w', _). w' \<noteq> w) ws)"
      if "bt_get k (lv_pending st) = Some v" "k \<noteq> rid" for k v
      using that assms(1) waiters_unique [OF assms(1,2), of k] by (auto simp: waiters_ok_def)
    then show ?thesis using assms(1) d expired by (auto simp: waiters_ok_def)
  qed
qed

subsection \<open>The invariant of all runs\<close>

text \<open>The connections that have not been cleaned up: the loop runs, or the writer is awaited.\<close>

definition held_connections :: "quic_server \<Rightarrow> connection list" where
  "held_connections q = qs_running q @ qs_draining q"

definition server_ok :: "quic_server \<Rightarrow> bool" where
  "server_ok q \<longleftrightarrow>
     handles_running (held_connections q) (qs_live q) \<and> registry_coherent (qs_live q) \<and>
     devices_listed (qs_live q) \<and> waiters_ok (qs_waiting q) (qs_next_waiter q) (qs_live q)"

lemma server_start_ok: "server_start q \<Longrightarrow> server_ok q"
  by (simp add: server_start_def server_ok_def new_live_def handles_running_def registry_coherent_def
      waiters_ok_def devices_listed_def registry_ok_def new_ingress_def sessions_ok_empty bt_get_def)

lemma control_turn_live:
  assumes "control_turn P F parse c t cn st = (r, st')" and "registry_coherent st"
    and "waiters_ok ws n st" and "handles_running cs st" and "devices_listed st" and "cn \<in> set cs"
  shows "registry_coherent st' \<and> waiters_ok ws n st' \<and> handles_running cs st' \<and> devices_listed st'"
proof -
  have same: "st' = st \<Longrightarrow> ?thesis" using assms by simp
  have accept: ?thesis if acc: "accept_envelope P (cn_id cn) (cn_channel cn) e st = (a, st')" for e a
    using coherent_accept [OF assms(2) acc] accept_waiters [OF assms(3) acc]
      accept_handles [OF assms(4,6) acc] listed_accept [OF assms(5,2) acc] by simp
  have beat: "send_heartbeat P (cn_id cn) (cn_channel cn) target ts st = (a, st') \<Longrightarrow> ?thesis" for target ts a
    using heartbeat_frame [of P "cn_id cn" "cn_channel cn" target ts st a st'] assms
      coherent_same [of st' st] waiters_same [of st' st ws n] handles_same [of st' st cs]
      listed_same [of st' st] by simp
  show ?thesis
    using assms(1) same accept beat
    by (auto simp: control_turn_def split: turn.splits sum.splits prod.splits option.splits)
qed

lemma control_turn_identity:
  "control_turn P F parse c t cn st = (Inr cn', st') \<Longrightarrow> cn_id cn' = cn_id cn \<and> cn_channel cn' = cn_channel cn"
  by (auto simp: control_turn_def split: turn.splits sum.splits prod.splits option.splits)

text \<open>
  Whether sessions belong to a list of connections is a matter of their ids and channels, as a set;
  a connection may leave the list once no session is its own any more.
\<close>

lemma handles_mono:
  assumes "handles_running cs st"
    and "\<And>cn. cn \<in> set cs \<Longrightarrow> \<exists>x \<in> set cs'. cn_id x = cn_id cn \<and> cn_channel x = cn_channel cn"
  shows "handles_running cs' st"
  using assms by (fastforce simp: handles_running_def)

lemma update_covers:
  assumes "i < length cs" and "cn_id cn' = cn_id (cs ! i) \<and> cn_channel cn' = cn_channel (cs ! i)"
    and "cn \<in> set cs"
  shows "\<exists>x \<in> set (cs[i := cn']). cn_id x = cn_id cn \<and> cn_channel x = cn_channel cn"
proof -
  obtain j where j: "j < length cs" "cs ! j = cn" using assms(3) by (auto simp: in_set_conv_nth)
  then have "cs[i := cn'] ! j \<in> set (cs[i := cn'])" by simp
  then show ?thesis using j assms(1,2) by (cases "i = j") (auto simp: nth_list_update)
qed

lemma remove_at_mem: "i < length cs \<Longrightarrow> set cs = insert (cs ! i) (set (remove_at i cs))"
  by (metis (no_types, lifting) Un_insert_right id_take_nth_drop list.simps(15) remove_at_def set_append)

lemma handles_less: "handles_running cs st \<Longrightarrow> handles_running cs (disconnect_connection cid st)"
  by (auto simp: handles_running_def disconnect_connection_get split: if_splits)

lemma handles_disconnect: "handles_running cs st \<Longrightarrow> handles_running cs (disconnect cid dev st)"
  by (auto simp: handles_running_def disconnect_gets split: if_splits)

lemma handles_end:
  assumes "handles_running cs st" and "set cs = insert cn (set cs')"
  shows "handles_running cs' (disconnect_connection (cn_id cn) st)"
  unfolding handles_running_def
proof (intro allI impI)
  fix d h
  assume "bt_get d (lv_sessions (disconnect_connection (cn_id cn) st)) = Some h"
  then have h: "bt_get d (lv_sessions st) = Some h" "sh_connection_id h \<noteq> cn_id cn"
    by (auto simp: disconnect_connection_get held_by_def split: if_splits)
  then obtain x where x: "x \<in> set cs" "cn_id x = sh_connection_id h" "cn_channel x = sh_outgoing h"
    using assms(1) by (auto simp: handles_running_def)
  then have "x \<in> set cs'" using assms(2) h(2) by auto
  then show "\<exists>x \<in> set cs'. cn_id x = sh_connection_id h \<and> cn_channel x = sh_outgoing h"
    using x by blast
qed

lemma start_command_frame:
  assumes "start_command P w d e st = (r, st')"
  shows "lv_registry st' = lv_registry st" and "lv_ingress st' = lv_ingress st"
    and "lv_sessions st' = lv_sessions st"
  using assms by (auto simp: start_command_def Let_def ok_iff split: option.splits sum.splits)

lemma finish_command_frame:
  assumes "finish_command w rid c st = (r, st')"
  shows "lv_registry st' = lv_registry st" and "lv_ingress st' = lv_ingress st"
    and "lv_sessions st' = lv_sessions st"
  using assms by (auto simp: finish_command_def split: option.splits)

lemmas same_live = coherent_same waiters_same handles_same listed_same

text \<open>A turn of a running connection keeps the invariant of the shared state.\<close>

lemma server_turn:
  assumes "server_ok q" and "i < length (qs_running q)"
    and "control_turn P F parse c t (qs_running q ! i) (qs_live q) = (r, st')"
  shows "handles_running (held_connections q) st'" and "registry_coherent st'"
    and "devices_listed st'" and "waiters_ok (qs_waiting q) (qs_next_waiter q) st'"
  using control_turn_live [OF assms(3), of "qs_waiting q" "qs_next_waiter q" "held_connections q"] assms(1,2)
  by (simp_all add: server_ok_def held_connections_def)

lemma server_cleaned:
  assumes "handles_running cs st" and "registry_coherent st" and "devices_listed st" and "waiters_ok ws n st"
    and "set cs = insert cn (set (held_connections q))"
    and "qs_live q = disconnect_connection (cn_id cn) st" and "qs_waiting q = ws" and "qs_next_waiter q = n"
  shows "server_ok q"
  using handles_end [OF assms(1,5)] coherent_disconnect_connection [OF assms(2)]
    listed_disconnect_connection [OF assms(3)] assms(4,6-8) waiters_same [of "qs_live q" st]
  by (simp add: server_ok_def)

lemma server_command:
  assumes "server_ok q" and "held_connections q' = held_connections q"
    and "lv_registry (qs_live q') = lv_registry (qs_live q)"
    and "lv_ingress (qs_live q') = lv_ingress (qs_live q)"
    and "lv_sessions (qs_live q') = lv_sessions (qs_live q)"
    and "waiters_ok (qs_waiting q') (qs_next_waiter q') (qs_live q')"
  shows "server_ok q'"
  using assms same_live [of "qs_live q'" "qs_live q"] by (simp add: server_ok_def)

lemma server_step_ok:
  assumes "server_ok q" and "server_step P F parse q q'"
  shows "server_ok q'"
proof -
  have ok: "handles_running (held_connections q) (qs_live q)" "registry_coherent (qs_live q)"
    "devices_listed (qs_live q)" "waiters_ok (qs_waiting q) (qs_next_waiter q) (qs_live q)"
    using assms(1) by (simp_all add: server_ok_def)
  show ?thesis
    using assms(2)
  proof cases
    case handshake_failed
    then show ?thesis using ok by (simp add: server_ok_def held_connections_def)
  next
    case (preface_refused c bs err)
    then show ?thesis
      using ok coherent_disconnect_connection handles_less listed_disconnect_connection
        waiters_same [of "disconnect_connection (qs_next_id q) (qs_live q)" "qs_live q"]
      by (simp add: server_ok_def held_connections_def)
  next
    case (accepted c bs rest)
    have "handles_running (held_connections q') (qs_live q)"
      using ok(1) by (rule handles_mono) (use accepted(1) in \<open>auto simp: held_connections_def\<close>)
    then show ?thesis using ok accepted(1) by (simp add: server_ok_def)
  next
    case (turned i t order c cn' st')
    note st' = server_turn [OF assms(1) turned(2,4)]
    have "handles_running (held_connections q') st'"
      using st'(1)
      by (rule handles_mono)
        (use turned(1) update_covers [OF turned(2) control_turn_identity [OF turned(4)]]
          in \<open>fastforce simp: held_connections_def\<close>)
    then show ?thesis using turned(1) st' by (simp add: server_ok_def)
  next
    case (failed i t order c err st')
    then show ?thesis
      using remove_at_mem [OF failed(2)]
      by (intro server_cleaned [OF server_turn [OF assms(1) failed(2,4)]]) (auto simp: held_connections_def)
  next
    case (loop_ended i t order c st' cn)
    note st' = server_turn [OF assms(1) loop_ended(2,4)]
    have "handles_running (held_connections q') st'"
      using st'(1)
      by (rule handles_mono)
        (use loop_ended(1,5) remove_at_mem [OF loop_ended(2)] in \<open>auto simp: held_connections_def\<close>)
    then show ?thesis
      using loop_ended(1) st' handles_disconnect coherent_disconnect listed_disconnect
        waiters_same [of "qs_live q'" st'] by (simp add: server_ok_def)
  next
    case (drained i cn)
    then show ?thesis
      using remove_at_mem [OF drained(2)]
      by (intro server_cleaned [OF ok]) (auto simp: held_connections_def)
  next
    case (writer_failed ch)
    then show ?thesis
      using ok(4) waiters_same [of "qs_live q'" "qs_live q"]
      by (intro server_command [OF assms(1)]) (simp_all add: held_connections_def)
  next
    case (command_started d e rid st' h)
    then show ?thesis
      using start_command_frame [OF command_started(2)] start_waiters(1) [OF ok(4) command_started(2)]
      by (intro server_command [OF assms(1)]) (simp_all add: held_connections_def)
  next
    case (command_refused d e err st')
    then show ?thesis
      using start_command_frame [OF command_refused(2)] start_waiters(2) [OF ok(4) command_refused(2)]
      by (intro server_command [OF assms(1)]) (simp_all add: held_connections_def)
  next
    case (command_finished w rid c r st')
    then show ?thesis
      using finish_command_frame [OF command_finished(3)] finish_waiters [OF ok(4) command_finished(2,3)]
      by (intro server_command [OF assms(1)]) (simp_all add: held_connections_def)
  qed
qed

interpretation listener: invariant_machine server_start "server_step P F parse" server_ok for P F parse
  by unfold_locales (auto intro: server_start_ok server_step_ok)

text \<open>C5. The live transport in all runs of the listener, whatever arrives on whichever connection, when
  heartbeats are due, writers fail, connections end and commands are sent: every session through
  which commands go belongs to a connection that has not been cleaned up (its control loop runs, or
  has ended and its writer is still awaited) and goes to that connection's writer; the registry the
  core reads has each device once, exactly as its session has it, and it has every device that
  commands reach and the ingress knows; and two commands in flight never wait on one channel.\<close>

theorem live_transport_invariant:
  assumes "reachable server_start (server_step P F parse) q"
  shows "(\<forall>d h. bt_get d (lv_sessions (qs_live q)) = Some h \<longrightarrow>
            (\<exists>cn \<in> set (qs_running q) \<union> set (qs_draining q).
               cn_id cn = sh_connection_id h \<and> cn_channel cn = sh_outgoing h)) \<and>
         distinct (map dv_device_id (transport_registry (qs_live q))) \<and>
         (\<forall>x \<in> set (transport_registry (qs_live q)).
            \<exists>s. bt_get (dv_device_id x) (ig_sessions (lv_ingress (qs_live q))) = Some s \<and> x = to_device s) \<and>
         (\<forall>d. bt_get d (lv_sessions (qs_live q)) \<noteq> None \<longrightarrow>
            bt_get d (ig_sessions (lv_ingress (qs_live q))) \<noteq> None \<longrightarrow>
            d \<in> set (map dv_device_id (transport_registry (qs_live q)))) \<and>
         distinct (map fst (qs_waiting q))"
proof -
  have ok: "server_ok q" using assms by (rule listener.reach_inv)
  have "d \<in> set (map dv_device_id (lv_registry (qs_live q)))"
    if "registry_abs (lv_registry (qs_live q)) d \<noteq> None" for d
    using that by (auto simp: registry_abs_def dest: find_SomeD)
  then show ?thesis
    using ok registry_abs_mem [of "lv_registry (qs_live q)"]
    by (auto simp: server_ok_def handles_running_def held_connections_def registry_coherent_def
        registry_ok_def devices_listed_def waiters_ok_def transport_registry_def)
qed

text \<open>A command gets its own response: in every reachable state of the listener, the command that
  waits for request \<open>rid\<close> ends either with the result of one envelope that names \<open>rid\<close>, or with the
  timeout error, and then no response can be delivered to it any more.\<close>

theorem responses_match_commands:
  assumes "reachable server_start (server_step P F parse) q" and "(w, rid) \<in> set (qs_waiting q)"
    and "finish_command w rid c (qs_live q) = (r, st')"
  shows "(\<exists>e. lv_delivered (qs_live q) w = Some e \<and> response_request_id e = rid \<and>
            r = command_result e \<and> st' = qs_live q) \<or>
         (\<exists>err. r = Inl err \<and> error_code err = ''COMPANION_COMMAND_TIMEOUT'' \<and>
            (\<forall>k. bt_get k (lv_pending st') \<noteq> Some w))"
proof -
  have ok: "waiters_ok (qs_waiting q) (qs_next_waiter q) (qs_live q)"
    using listener.reach_inv [OF assms(1)] by (simp add: server_ok_def)
  show ?thesis
    using assms(3)
  proof (cases rule: finish_command_cases)
    case (response e)
    then show ?thesis using ok assms(2) by (auto simp: waiters_ok_def)
  next
    case expired
    have "bt_get k (lv_pending st') \<noteq> Some w" for k
      using expired(2) ok waiters_unique [OF ok assms(2), of k] by (auto simp: waiters_ok_def)
    then show ?thesis using expired(3) by blast
  qed
qed

subsection \<open>One envelope\<close>

text \<open>What one envelope from a companion can do: only the sender's own writer gets a message, at most one,
  and only the answer of the ingress to a message that is neither a heartbeat nor a terminal
  response, so two sides that acknowledge heartbeats cannot keep each other busy; only a hello
  changes who gets the commands for a device, and only for the device it names, which then belongs
  to the sender.\<close>

theorem envelope_effect:
  assumes "accept_envelope P cid ch e st = (r, st')"
  shows "(\<forall>ch'. ch' \<noteq> ch \<longrightarrow> lv_outboxes st' ch' = lv_outboxes st ch') \<and>
         (lv_outboxes st' ch = lv_outboxes st ch \<or>
          ev_kind e \<notin> {Heartbeat, CommandResponse, ErrorMessage} \<and>
          (\<exists>answer b. fst (live_ingress P e st) = Inr answer \<and> tp_to_vec P answer = Inr b \<and>
             ob_messages (lv_outboxes st' ch) = ob_messages (lv_outboxes st ch) @ [b])) \<and>
         (\<forall>d. bt_get d (lv_sessions st') \<noteq> bt_get d (lv_sessions st) \<longrightarrow>
            ev_kind e = Hello \<and> ev_device_id e = Some d \<and>
            bt_get d (lv_sessions st') = Some \<lparr>sh_connection_id = cid, sh_outgoing = ch\<rparr>)"
  using assms
proof (cases rule: accept_envelope_cases)
  case (session answer st1)
  have out: "lv_outboxes st1 = lv_outboxes st" by (simp add: session(4))
  have "bt_get d (lv_sessions st') \<noteq> bt_get d (lv_sessions st) \<Longrightarrow>
      ev_kind e = Hello \<and> ev_device_id e = Some d \<and>
      bt_get d (lv_sessions st') = Some \<lparr>sh_connection_id = cid, sh_outgoing = ch\<rparr>" for d
    by (auto simp: session(4,7) register_session_def split: option.splits if_splits)
  moreover have "(\<forall>ch'. ch' \<noteq> ch \<longrightarrow> lv_outboxes st' ch' = lv_outboxes st ch') \<and>
         (lv_outboxes st' ch = lv_outboxes st ch \<or>
          ev_kind e \<notin> {Heartbeat, CommandResponse, ErrorMessage} \<and>
          (\<exists>answer b. fst (live_ingress P e st) = Inr answer \<and> tp_to_vec P answer = Inr b \<and>
             ob_messages (lv_outboxes st' ch) = ob_messages (lv_outboxes st ch) @ [b]))"
    using session(10)
  proof
    assume "ev_kind e \<noteq> Heartbeat \<and> r = Inr (ev_device_id e) \<and>
      (\<exists>b. tp_to_vec P answer = Inr b \<and> outgoing_send ch b st1 = Some st')"
    then obtain b where "ev_kind e \<noteq> Heartbeat" "tp_to_vec P answer = Inr b" "outgoing_send ch b st1 = Some st'"
      by blast
    then show ?thesis using session(1,3) by (auto simp: outgoing_send_Some_iff out)
  qed (simp add: out)
  ultimately show ?thesis by blast
qed simp_all

text \<open>C36. A device that has gone comes back without having reconnected: after its connection ended it is
  out of the registry, yet the next message of any other companion that reaches the ingress puts
  it back there, because every message registers the devices of all sessions and a session is never
  removed. The core then lists the device while no connection would carry a command to it. The end
  of the connection is the cleanup after an error, the cleanup after the loop ended, or the end of
  the loop of the device's own connection alone.\<close>

theorem disconnected_device_returns:
  assumes "registry_coherent st" and "bt_get d (ig_sessions (lv_ingress st)) = Some s"
    and "held_by (cn_id cn) st d"
    and "gone = disconnect_connection (cn_id cn) st \<or>
         gone = disconnect_connection (cn_id cn) (disconnect (cn_id cn) (cn_device cn) st) \<or>
         gone = disconnect (cn_id cn) (cn_device cn) st \<and> cn_device cn = Some d"
    and "validate_quic_envelope e = Inr ()" and "ev_kind e \<notin> {Hello, CommandResponse, ErrorMessage}"
    and "accept_envelope P cid ch e gone = (r', st')"
  shows "registry_abs (transport_registry gone) d = None \<and>
         registry_abs (transport_registry st') d \<noteq> None \<and>
         bt_get d (lv_sessions st') = None \<and>
         fst (start_command P w d e' st') = Inl (transport_not_connected d)"
proof -
  have gone: "bt_get d (lv_sessions gone) = None" "registry_abs (lv_registry gone) d = None"
    "lv_ingress gone = lv_ingress st"
    using assms(3,4) by (auto simp: disconnect_connection_get disconnect_gets held_anyhow)
  show ?thesis
    using assms(7)
  proof (cases rule: accept_envelope_cases)
    case (session answer st1)
    let ?ss = "ig_sessions (snd (live_ingress P e gone))"
    have "sessions_ok ?ss" and "bt_get d ?ss \<noteq> None"
      using live_ingress_sessions(1) [of gone P e] live_ingress_sessions(2) [of d gone P e] assms(1,2) gone(3)
      by (auto simp: registry_coherent_def)
    then have "registry_abs (lv_registry st') d \<noteq> None"
      by (auto simp: session(4,5) upsert_sessions)
    moreover have none: "bt_get d (lv_sessions st') = None"
      using assms(6) gone by (simp add: session(4,7) register_session_def split: option.splits)
    ultimately show ?thesis using gone by (simp add: transport_registry_def start_command_def)
  qed (use assms(5,6) in simp_all)
qed

text \<open>C35. A hello takes a device's commands over even when it is refused: whatever the ingress makes of a
  hello that is well formed as an envelope, its sender becomes the one that gets the commands for
  the device it names, although the device's session, which the ingress left as it was, belongs to
  another connection.\<close>

theorem refused_hello_takes_over:
  assumes "validate_quic_envelope e = Inr ()" and "ev_kind e = Hello" and "ev_device_id e = Some d"
    and "fst (dispatch_envelope (tp_serde P) (tp_base64 P) (tp_media P) e (lv_ingress st)) = Inl err"
    and "accept_envelope P cid ch e st = (r, st')"
    and "tp_to_vec P command = Inr b" and "ob_open (lv_outboxes st' ch)"
  shows "ig_sessions (lv_ingress st') = ig_sessions (lv_ingress st) \<and>
         fst (start_command P w d command st') = Inr (command_request_id command) \<and>
         ob_messages (lv_outboxes (snd (start_command P w d command st')) ch) =
           ob_messages (lv_outboxes st' ch) @ [b]"
  using assms(5)
proof (cases rule: accept_envelope_cases)
  case (session answer st1)
  have "ig_sessions (lv_ingress st') = ig_sessions (lv_ingress st)"
    using dispatch_error_sessions [OF assms(4)]
    by (simp add: session(4,6) live_ingress_def ingress_snd)
  moreover have "bt_get d (lv_sessions st') = Some \<lparr>sh_connection_id = cid, sh_outgoing = ch\<rparr>"
    using assms(2,3) by (simp add: session(4,7) register_session_def)
  ultimately show ?thesis
    using assms(6,7) by (simp add: start_command_def Let_def outgoing_send_def)
qed (use assms(1,2) in simp_all)

subsection \<open>The heartbeat and the frame in progress\<close>

lemma unat_of_nat_small: "n < 4294967296 \<Longrightarrow> unat (of_nat n :: 32 word) = n"
  by (simp add: unat_of_nat)

lemma large_length:
  assumes "0 < (of_char x :: nat)"
  shows "unat (u32_be_value [x, y, z, u]) > max_control_message_bytes"
proof -
  have lt: "of_char c < (256 :: nat)" for c by (rule nat_of_char_less_256)
  let ?n = "256 * (256 * (256 * of_char x + of_char y) + of_char z) + of_char u :: nat"
  have "k < 256 \<Longrightarrow> l < 256 \<Longrightarrow> m < 256 \<Longrightarrow> n < 256 \<Longrightarrow> 256 * (256 * (256 * k + l) + m) + n < 4294967296"
    for k l m n :: nat by simp
  then have "?n < 4294967296" using lt by blast
  then have "unat (of_nat ?n :: 32 word) = ?n" by (rule unat_of_nat_small)
  moreover have "foldl (\<lambda>n c. 256 * n + of_char c) 0 [x, y, z, u] = ?n" by simp
  moreover have "?n > max_control_message_bytes" using assms by (simp add: max_control_message_bytes_def)
  ultimately show ?thesis by (simp only: u32_be_value_def)
qed

text \<open>C34. A heartbeat that falls into the arrival of a frame breaks the connection: the turn drops the read
  in progress, so when the four length bytes had been read already, the next read takes the first
  bytes of the message for a length. A message that does not begin with a zero byte (JSON never
  does) then ends the connection with the frame-length error, though the peer sent a valid frame
  that the core would have read without the heartbeat.\<close>

theorem heartbeat_breaks_frame:
  assumes "cn_input cn = framed network_order b @ rest" and "sendable b"
    and "4 \<le> length b" and "hd b \<noteq> CHR 0x00" and "cn_device cn = Some target"
    and "control_turn P network_order parse c (Tick ts 4) cn st = (Inr cn', st')"
  shows "interrupts network_order (Tick ts 4) cn \<and>
         read_control_frame network_order c (cn_input cn) = Inr (b, rest) \<and>
         control_turn P network_order parse c Frame cn' st'' = (Inl (Inl frame_length_invalid), st'')"
proof -
  have input: "cn_input cn' = b @ rest"
    using assms(1,5,6)
    by (auto simp: control_turn_def framed_def network.length_put split: sum.splits prod.splits)
  obtain x y z u b' where b: "b = x # y # z # u # b'"
    using assms(3) by (auto simp: Suc_le_length_iff numeral_eq_Suc)
  have "x \<noteq> CHR 0x00" using assms(4) b by simp
  moreover have "x = CHR 0x00" if "(of_char x :: nat) = 0"
    using that char_of_char [of x, where 'a = nat] by (simp add: char_of_def)
  ultimately have "0 < (of_char x :: nat)" by (intro gr0I) blast
  then have "unat (u32_be_value [x, y, z, u]) > max_control_message_bytes" by (rule large_length)
  then have "read_control_frame network_order c (cn_input cn') = Inl frame_length_invalid"
    by (simp add: read_control_frame_def read_u32_def read_exact_def network_order_def input b Let_def)
  moreover have "interrupts network_order (Tick ts 4) cn"
    using network.read_frame_cut [OF assms(2), of 4 "[]"] assms(2)
    by (auto simp: interrupts_def assms(1) sendable_def frame_read_failed_def frame_length_invalid_def
        quinn_error_def with_cause_def new_error_def)
  ultimately show ?thesis
    using network.read_framed [OF assms(2)]
    by (simp add: assms(1) control_turn_def frame_length_invalid_def quinn_error_def)
qed

end
