(* ===== verification/Stdio.thy ===== *)
theory Stdio
  imports Core_Service Companion_Wire
begin

text \<open>
  The stdio interface of the core: the encoding of a response (\<open>encode_response\<close> and
  \<open>handle_json_line\<close> of \<open>protocol.rs\<close>) and the loop of \<open>ipc/stdio.rs\<close> that answers one line of
  input with one line of output. The reader is the list of lines it will give, an error of the
  reader among them; the writer is a \<open>sink\<close>. \<open>to_string\<close> is \<open>serde_json::to_string\<close> on a
  response, \<open>value_text\<close> the display of a JSON value.
\<close>

record encoder =
  en_to_string :: "ipc_response \<Rightarrow> string + string"
  en_value_text :: "json \<Rightarrow> string"

definition encode_response :: "encoder \<Rightarrow> ipc_response \<Rightarrow> string" where
  "encode_response en r =
     (case en_to_string en r of
        Inr text \<Rightarrow> text
      | Inl c \<Rightarrow> en_value_text en (JObj
          [(''id'', JNull), (''ok'', JBool False),
           (''error'', JObj [(''errorCode'', JStr ''IPC_RESPONSE_ENCODING_FAILED''),
              (''message'', JStr ''Core failed to encode IPC response.''),
              (''module'', JStr ''ipc.protocol''), (''recoverable'', JBool False),
              (''cause'', JStr c)])]))"

definition handle_json_line ::
    "encoder \<Rightarrow> ('n, 'w) core_ports \<Rightarrow> (string \<Rightarrow> string + ipc_request) \<Rightarrow> string \<Rightarrow>
     manager \<times> ('n, 'w) core \<Rightarrow> string \<times> manager \<times> ('n, 'w) core" where
  "handle_json_line en P parse line st =
     (case handle_json_line_result P parse line st of (r, st') \<Rightarrow> (encode_response en r, st'))"

definition stdio_error :: "string \<Rightarrow> string \<Rightarrow> string \<Rightarrow> app_error" where
  "stdio_error code msg c = with_cause c (new_error code msg ''ipc.stdio'' True)"

definition newline :: char where
  "newline = CHR 0x0A"

definition write_response_line :: "'o sink \<Rightarrow> string \<Rightarrow> 'o \<Rightarrow> (app_error + unit) \<times> 'o" where
  "write_response_line K response w =
     (case sink_write K response w of
        (Inl c, w1) \<Rightarrow> (Inl (stdio_error ''IPC_WRITE_FAILED'' ''Failed to write IPC response line.'' c), w1)
      | (Inr _, w1) \<Rightarrow>
          (case sink_write K [newline] w1 of
             (Inl c, w2) \<Rightarrow>
               (Inl (stdio_error ''IPC_WRITE_FAILED'' ''Failed to write IPC response newline.'' c), w2)
           | (Inr _, w2) \<Rightarrow>
               (case sink_flush K w2 of
                  (Inl c, w3) \<Rightarrow> (Inl (stdio_error ''IPC_FLUSH_FAILED'' ''Failed to flush IPC response.'' c), w3)
                | (Inr _, w3) \<Rightarrow> (Inr (), w3))))"

fun serve_json_lines ::
    "encoder \<Rightarrow> ('n, 'w) core_ports \<Rightarrow> (string \<Rightarrow> string + ipc_request) \<Rightarrow> 'o sink \<Rightarrow>
     (string + string) list \<Rightarrow> manager \<times> ('n, 'w) core \<Rightarrow> 'o \<Rightarrow>
     (app_error + unit) \<times> (manager \<times> ('n, 'w) core) \<times> 'o" where
  "serve_json_lines en P parse K [] st w = (Inr (), st, w)"
| "serve_json_lines en P parse K (Inl c # ls) st w =
     (Inl (stdio_error ''IPC_READ_FAILED'' ''Failed to read IPC request line.'' c), st, w)"
| "serve_json_lines en P parse K (Inr line # ls) st w =
     (case handle_json_line en P parse line st of
        (response, st') \<Rightarrow>
          (case write_response_line K response w of
             (Inl e, w') \<Rightarrow> (Inl e, st', w')
           | (Inr _, w') \<Rightarrow> serve_json_lines en P parse K ls st' w'))"

subsection \<open>Facts\<close>

text \<open>The reference: the core's answers to the lines, one after the other.\<close>

fun answers_to ::
    "('n, 'w) core_ports \<Rightarrow> (string \<Rightarrow> string + ipc_request) \<Rightarrow> string list \<Rightarrow>
     manager \<times> ('n, 'w) core \<Rightarrow> ipc_response list \<times> manager \<times> ('n, 'w) core" where
  "answers_to P parse [] st = ([], st)"
| "answers_to P parse (l # ls) st =
     (case handle_json_line_result P parse l st of
        (r, st') \<Rightarrow> (case answers_to P parse ls st' of (rs, st'') \<Rightarrow> (r # rs, st'')))"

lemma length_answers: "length (fst (answers_to P parse ls st)) = length ls"
  by (induction ls arbitrary: st) (simp_all add: case_prod_beta)

lemma write_line_bytes:
  "write_response_line byte_sink response w = (Inr (), w @ response @ [newline])"
  by (simp add: write_response_line_def byte_sink_def)

lemma serve_bytes:
  "serve_json_lines en P parse byte_sink (map Inr ls) st w =
     (Inr (), snd (answers_to P parse ls st),
      w @ concat (map (\<lambda>r. encode_response en r @ [newline]) (fst (answers_to P parse ls st))))"
  by (induction ls arbitrary: st w)
    (auto simp: handle_json_line_def write_line_bytes case_prod_beta)

text \<open>A compact JSON text has no line feed and no carriage return: control characters are escaped.\<close>

definition single_line :: "encoder \<Rightarrow> bool" where
  "single_line en \<longleftrightarrow> (\<forall>r. \<forall>c \<in> set (encode_response en r). byte c \<noteq> 10 \<and> byte c \<noteq> 13)"

lemma byte_newline [simp]: "byte newline = 10"
  by (simp add: byte_def newline_def)

lemma lines_aux_line:
  "\<forall>c \<in> set t. byte c \<noteq> 10 \<and> byte c \<noteq> 13 \<Longrightarrow> \<forall>c \<in> set acc. byte c \<noteq> 13 \<Longrightarrow>
   lines_aux acc (t @ newline # rest) = (rev acc @ t) # lines_aux [] rest"
proof (induction t arbitrary: acc)
  case Nil
  then show ?case by (cases acc) auto
qed simp

lemma lines_of_lines:
  "\<forall>t \<in> set ts. \<forall>c \<in> set t. byte c \<noteq> 10 \<and> byte c \<noteq> 13 \<Longrightarrow>
   lines (concat (map (\<lambda>t. t @ [newline]) ts)) = ts"
proof (induction ts)
  case (Cons t ts)
  then show ?case
    using lines_aux_line [of t "[]" "concat (map (\<lambda>t. t @ [newline]) ts)"] by (simp add: lines_def)
qed (simp add: lines_def)

text \<open>The stdio loop answers line by line: for any lines of input, requests or not, it ends without an
  error, its output splits into exactly one line per line of input, the n-th being the encoded
  answer of the core to the n-th, and the core's state is the one these requests lead to.\<close>

theorem stdio_answers_line_by_line:
  assumes "single_line en"
    and "serve_json_lines en P parse byte_sink (map Inr ls) st [] = (r, st', out)"
  shows "r = Inr () \<and> st' = snd (answers_to P parse ls st) \<and>
         lines out = map (encode_response en) (fst (answers_to P parse ls st)) \<and>
         length (lines out) = length ls"
proof -
  let ?texts = "map (encode_response en) (fst (answers_to P parse ls st))"
  have "out = concat (map (\<lambda>t. t @ [newline]) ?texts)" "r = Inr ()" "st' = snd (answers_to P parse ls st)"
    using assms(2) by (simp_all add: serve_bytes o_def)
  moreover have "lines (concat (map (\<lambda>t. t @ [newline]) ?texts)) = ?texts"
    by (rule lines_of_lines) (use assms(1) in \<open>auto simp: single_line_def\<close>)
  ultimately show ?thesis using length_answers [of P parse ls st] by simp
qed

end
