(* ===== verification/Live_System.thy ===== *)
theory Live_System
  imports Startup Companion_Connections_Facts Stdio
begin

text \<open>
  The core over the live transport, as \<open>main.rs\<close> puts them together: the router of the core is the
  transport, and the registry the core reads is the transport's. A command of a request travels
  from the dispatcher through the registry's check and the transport to the connection that holds
  the device, and its result is the payload of the companion's response.
\<close>

definition live_router ::
    "transport_ports \<Rightarrow> nat \<Rightarrow> (live \<Rightarrow> live) \<Rightarrow> string \<Rightarrow> live router" where
  "live_router T waiter others c = transport_dispatch (send_command_envelope T waiter others c)"

text \<open>The registry is shared: the core sees the transport's registry as it is when a request begins.\<close>

definition share_registry :: "(live, 'w) core \<Rightarrow> (live, 'w) core" where
  "share_registry co = co\<lparr>co_registry := transport_registry (co_router co)\<rparr>"

lemma command_request_id_build [simp]:
  "command_request_id (build_command_request_envelope command) = dc_request_id command"
  by (simp add: command_request_id_def build_command_request_envelope_def command_request_json_def
      get_str_def)

lemma invoke_Inr:
  assumes "handle_device_invoke P i params co = (Inr v, co')"
  obtains command r where "invocable (co_registry co) command" "dc_request_id command = i"
    "pt_router P command (co_router co) = (Inr r, co_router co')" "v = response_json r"
proof -
  obtain p where p: "parse_ipc_params (pt_serde P) ''device.invoke'' decode_invoke
      ''device.invoke params must match { deviceId, capabilityId, operation, args }.'' params = Inr p"
    using assms by (auto simp: handle_device_invoke_def split: sum.splits)
  obtain command where c: "check_invoke i p (co_registry co) = Inr command"
    using assms p by (auto simp: handle_device_invoke_def split: sum.splits)
  obtain r n where r: "pt_router P command (co_router co) = (Inr r, n)" "v = response_json r"
    and "co' = co\<lparr>co_router := n\<rparr>"
    using assms p c by (auto simp: handle_device_invoke_def map_ok_def split: prod.splits sum.splits)
  moreover have "invocable (co_registry co) command" "dc_request_id command = i"
    using c by (auto simp: check_invoke_Inr_iff invocable_def dest: find_SomeD)
  ultimately show thesis using that by simp
qed

lemma live_router_Inr:
  assumes "live_router T w others c command st = (Inr r, st')"
  obtains h b st1 e where "bt_get (dc_device_id command) (lv_sessions st) = Some h"
    "tp_to_vec T (build_command_request_envelope command) = Inr b"
    "start_command T w (dc_device_id command) (build_command_request_envelope command) st =
       (Inr (dc_request_id command), st1)"
    "ob_messages (lv_outboxes st1 (sh_outgoing h)) = ob_messages (lv_outboxes st (sh_outgoing h)) @ [b]"
    "lv_delivered (others st1) w = Some e" "command_result e = Inr (ev_payload e)"
    "r = command_reply command Dispatched (ev_payload e)" "st' = others st1"
proof -
  obtain payload where s: "send_command_envelope T w others c (dc_device_id command)
      (build_command_request_envelope command) st = (Inr payload, st')"
    and r: "r = command_reply command Dispatched payload"
    using assms by (auto simp: live_router_def transport_dispatch_def split: prod.splits sum.splits)
  obtain rid st1 where st1: "start_command T w (dc_device_id command)
      (build_command_request_envelope command) st = (Inr rid, st1)"
    and f: "finish_command w rid c (others st1) = (Inr payload, st')"
    using s by (auto simp: send_command_envelope_def split: prod.splits sum.splits)
  obtain h b where h: "bt_get (dc_device_id command) (lv_sessions st) = Some h"
    "tp_to_vec T (build_command_request_envelope command) = Inr b" "rid = dc_request_id command"
    "ob_messages (lv_outboxes st1 (sh_outgoing h)) = ob_messages (lv_outboxes st (sh_outgoing h)) @ [b]"
    using st1 by (rule start_command_Inr) (use that in simp)
  have "\<exists>e. lv_delivered (others st1) w = Some e \<and> command_result e = Inr (ev_payload e) \<and>
      payload = ev_payload e \<and> st' = others st1"
    using f by (auto simp: finish_command_def command_result_def split: option.splits if_splits)
  then show thesis using that h st1 r by blast
qed

text \<open>The rest of the process while a command waits: the listener's further steps.\<close>

definition continues ::
    "transport_ports \<Rightarrow> u32_format \<Rightarrow> (string \<Rightarrow> string + envelope) \<Rightarrow> quic_server \<Rightarrow> (live \<Rightarrow> live) \<Rightarrow> bool" where
  "continues T F parse q others \<longleftrightarrow>
     (\<forall>d e h rid st1. start_command T (qs_next_waiter q) d e (qs_live q) = (Inr rid, st1) \<longrightarrow>
        bt_get d (lv_sessions (qs_live q)) = Some h \<longrightarrow>
        (\<exists>q2. reachable
           (\<lambda>q1. q1 = q\<lparr>qs_live := st1, qs_waiting := (qs_next_waiter q, rid) # qs_waiting q,
                        qs_clones := (qs_next_waiter q, sh_outgoing h) # qs_clones q,
                        qs_next_waiter := Suc (qs_next_waiter q)\<rparr>)
           (server_step T F parse) q2 \<and>
           others st1 = qs_live q2 \<and> (qs_next_waiter q, rid) \<in> set (qs_waiting q2)))"

text \<open>A \<open>device.invoke\<close> the core answers with success went through its handler.\<close>

lemma invoke_dispatched:
  assumes "rq_method rq = ''device.invoke''"
    and "core_handle_request P rq (m, co) = (resp, m', co')" and "rs_ok resp"
  obtains v where "handle_device_invoke P (rq_id rq) (rq_params rq) (co\<lparr>co_requests := Suc (co_requests co)\<rparr>) = (Inr v, co')"
    "rs_result resp = Some v"
proof -
  have "\<not> local_method (rq_method rq)" using assms(1) by (simp add: local_method_def starts_with_def)
  then show thesis
    using that assms
    by (auto simp: core_handle_request_def core_result_def Let_def ipc_reply_def ipc_failure_def
        ipc_success_def split: prod.splits sum.splits)
qed

text \<open>What the listener hands to a waiting command in the end names that command's request.\<close>

lemma continues_delivered:
  assumes "server_ok q" and "continues T F parse q others"
    and "start_command T (qs_next_waiter q) d e (qs_live q) = (Inr rid, st1)"
    and "lv_delivered (others st1) (qs_next_waiter q) = Some response"
  shows "response_request_id response = rid" and "lv_delivered (qs_live q) (qs_next_waiter q) = None"
proof -
  obtain h where h: "bt_get d (lv_sessions (qs_live q)) = Some h"
    using assms(3) by (rule start_command_Inr)
  let ?q1 = "q\<lparr>qs_live := st1, qs_waiting := (qs_next_waiter q, rid) # qs_waiting q,
               qs_clones := (qs_next_waiter q, sh_outgoing h) # qs_clones q,
               qs_next_waiter := Suc (qs_next_waiter q)\<rparr>"
  obtain q2 where q2: "reachable (\<lambda>q1. q1 = ?q1) (server_step T F parse) q2" "others st1 = qs_live q2"
    "(qs_next_waiter q, rid) \<in> set (qs_waiting q2)"
    using assms(2) [unfolded continues_def, rule_format, OF assms(3) h] by blast
  have "server_step T F parse q ?q1" using assms(3) h by (rule command_started)
  then have "server_ok ?q1" using assms(1) server_step_ok by blast
  with q2(1) have "server_ok q2" by (induction rule: reachable.induct) (auto intro: server_step_ok)
  then show "response_request_id response = rid"
    using assms(4) q2(2,3) by (auto simp: server_ok_def waiters_ok_def)
  show "lv_delivered (qs_live q) (qs_next_waiter q) = None"
    using assms(1) by (auto simp: server_ok_def waiters_ok_def) (metis less_irrefl option.exhaust)
qed

text \<open>C4. Invoking a capability, end to end: if the core answers a \<open>device.invoke\<close> with success while the
  listener goes on serving its connections, the device is registered and exposes the capability
  and the operation; the command went, as the encoded command envelope, to the writer of a connection
  that had said hello for this device and has not been cleaned up (its control loop runs, or has
  ended with the writer still awaited); and the result in the answer is the payload of an
  envelope that a companion sent afterwards and that names this very request.\<close>

theorem invoke_end_to_end:
  assumes "reachable server_start (server_step T F parse) q"
    and "pt_router P = live_router T (qs_next_waiter q) others c"
    and "continues T F parse q others"
    and "co_router co = qs_live q" and "rq_method rq = ''device.invoke''"
    and "core_handle_request P rq (m, share_registry co) = (resp, m', co')" and "rs_ok resp"
  shows "\<exists>command b e cn.
           invocable (transport_registry (qs_live q)) command \<and> dc_request_id command = rq_id rq \<and>
           cn \<in> set (qs_running q) \<union> set (qs_draining q) \<and>
           bt_get (dc_device_id command) (lv_sessions (qs_live q)) =
             Some \<lparr>sh_connection_id = cn_id cn, sh_outgoing = cn_channel cn\<rparr> \<and>
           tp_to_vec T (build_command_request_envelope command) = Inr b \<and>
           (\<exists>st1. start_command T (qs_next_waiter q) (dc_device_id command)
                    (build_command_request_envelope command) (qs_live q) = (Inr (rq_id rq), st1) \<and>
              ob_messages (lv_outboxes st1 (cn_channel cn)) =
                ob_messages (lv_outboxes (qs_live q) (cn_channel cn)) @ [b]) \<and>
           lv_delivered (qs_live q) (qs_next_waiter q) = None \<and>
           lv_delivered (co_router co') (qs_next_waiter q) = Some e \<and>
           response_request_id e = rq_id rq \<and> command_result e = Inr (ev_payload e) \<and>
           rs_result resp = Some (response_json (command_reply command Dispatched (ev_payload e)))"
proof -
  let ?w = "qs_next_waiter q"
  let ?co = "share_registry co\<lparr>co_requests := Suc (co_requests (share_registry co))\<rparr>"
  obtain v where inv: "handle_device_invoke P (rq_id rq) (rq_params rq) ?co = (Inr v, co')"
    and v: "rs_result resp = Some v"
    using assms(5,6,7) by (rule invoke_dispatched)
  from inv obtain command r where cmd: "invocable (co_registry ?co) command" "dc_request_id command = rq_id rq"
    "pt_router P command (co_router ?co) = (Inr r, co_router co')" "v = response_json r"
    by (rule invoke_Inr)
  have reg: "co_registry ?co = transport_registry (qs_live q)" "co_router ?co = qs_live q"
    using assms(4) by (simp_all add: share_registry_def)
  have "live_router T ?w others c command (qs_live q) = (Inr r, co_router co')"
    using cmd(3) reg(2) assms(2) by simp
  then obtain h b st1 e where h: "bt_get (dc_device_id command) (lv_sessions (qs_live q)) = Some h"
    and b: "tp_to_vec T (build_command_request_envelope command) = Inr b"
    and st1: "start_command T ?w (dc_device_id command) (build_command_request_envelope command) (qs_live q) =
       (Inr (dc_request_id command), st1)"
    and out: "ob_messages (lv_outboxes st1 (sh_outgoing h)) = ob_messages (lv_outboxes (qs_live q) (sh_outgoing h)) @ [b]"
    and e: "lv_delivered (others st1) ?w = Some e" "command_result e = Inr (ev_payload e)"
    and r: "r = command_reply command Dispatched (ev_payload e)" and st': "co_router co' = others st1"
    by (rule live_router_Inr)
  have ok: "server_ok q" using assms(1) by (rule listener.reach_inv)
  then obtain cn where cn: "cn \<in> set (qs_running q) \<union> set (qs_draining q)" "cn_id cn = sh_connection_id h" "cn_channel cn = sh_outgoing h"
    using h by (auto simp: server_ok_def handles_running_def held_connections_def)
  from continues_delivered [OF ok assms(3) st1 e(1)] show ?thesis
    using cmd reg h cn b st1 out e r v st'
    by (intro exI [of _ command] exI [of _ b] exI [of _ e] exI [of _ cn]) simp
qed

end
