(* ===== verification/Quic_Android.thy ===== *)
theory Quic_Android
  imports Companion_Wire Json Transition
begin

text \<open>
  The native QUIC client of the Android companion (\<open>adbcontrol-quic-android/src/lib.rs\<close>): connecting,
  the two tasks of the control stream, and the video streams with their queues. The JNI functions
  only convert arguments and turn errors into exceptions. \<open>F\<close> is the library's layout of a 32-bit
  number, \<open>put64\<close> that of a 64-bit one; sending streams are \<open>sink\<close>s as on the core's side.
\<close>

datatype native_error =
    InvalidEndpoint string
  | InvalidCertificate string
  | ConnectFailed string
  | ControlFailed string
  | VideoMetadataInvalid string

fun display_native_error :: "native_error \<Rightarrow> string" where
  "display_native_error (InvalidEndpoint e) = ''QUIC endpoint is invalid: '' @ e"
| "display_native_error (InvalidCertificate e) = ''server certificate is invalid: '' @ e"
| "display_native_error (ConnectFailed e) = ''QUIC connection failed: '' @ e"
| "display_native_error (ControlFailed e) = ''QUIC control stream failed: '' @ e"
| "display_native_error (VideoMetadataInvalid e) = ''video stream metadata is invalid: '' @ e"

definition client_wire_magic :: string where
  "client_wire_magic = ''ACQ1''"

definition client_stream_control :: char where
  "client_stream_control = CHR 0x01"

definition client_stream_video :: char where
  "client_stream_video = CHR 0x02"

definition client_max_message_bytes :: nat where
  "client_max_message_bytes = 4 * 1024 * 1024"

definition video_queue_capacity :: nat where
  "video_queue_capacity = 4"

text \<open>Writing several buffers one after the other, until the first failure.\<close>

fun write_parts :: "'w sink \<Rightarrow> string list \<Rightarrow> 'w \<Rightarrow> (string + unit) \<times> 'w" where
  "write_parts K [] w = (Inr (), w)"
| "write_parts K (p # ps) w =
     (case sink_write K p w of
        (Inl c, w') \<Rightarrow> (Inl c, w')
      | (Inr _, w') \<Rightarrow> write_parts K ps w')"

definition flush_after :: "'w sink \<Rightarrow> (string + unit) \<times> 'w \<Rightarrow> (string + unit) \<times> 'w" where
  "flush_after K rw = (case rw of (Inl c, w) \<Rightarrow> (Inl c, w) | (Inr _, w) \<Rightarrow> sink_flush K w)"

subsection \<open>Connecting\<close>

record parsed_url =
  url_scheme :: string
  url_host :: "string option"
  url_port :: "nat option"

datatype address = IPv4 string | IPv6 string

text \<open>What the runtime, the parser of URLs, rustls and quinn answer on the way.\<close>

record connect_io =
  io_runtime :: "string + unit"
  io_parse_url :: "string \<Rightarrow> string + parsed_url"
  io_add_root :: "string \<Rightarrow> string + unit"
  io_crypto :: "string + unit"
  io_lookup :: "string \<Rightarrow> nat \<Rightarrow> string + address list"
  io_endpoint :: "address \<Rightarrow> string + unit"
  io_start :: "address \<Rightarrow> string \<Rightarrow> string + unit"
  io_handshake :: "(string + unit) option"
  io_open_bi :: "string + unit"
  io_sha256_hex :: "string \<Rightarrow> string"

definition resolve_remote :: "connect_io \<Rightarrow> string \<Rightarrow> nat \<Rightarrow> native_error + address" where
  "resolve_remote io host port =
     (case io_lookup io host port of
        Inl e \<Rightarrow> Inl (ConnectFailed e)
      | Inr [] \<Rightarrow> Inl (ConnectFailed ''host resolved to no address'')
      | Inr (a # _) \<Rightarrow> Inr a)"

definition bind_address :: "address \<Rightarrow> address" where
  "bind_address remote = (case remote of IPv4 _ \<Rightarrow> IPv4 ''0.0.0.0:0'' | IPv6 _ \<Rightarrow> IPv6 ''[::]:0'')"

definition checked_endpoint :: "connect_io \<Rightarrow> string \<Rightarrow> native_error + string \<times> nat" where
  "checked_endpoint io endpoint_text =
     (case io_parse_url io endpoint_text of
        Inl e \<Rightarrow> Inl (InvalidEndpoint e)
      | Inr url \<Rightarrow>
          if url_scheme url \<noteq> ''quic''
          then Inl (InvalidEndpoint ''only quic:// endpoints are accepted'')
          else
            (case url_host url of
               None \<Rightarrow> Inl (InvalidEndpoint ''host is missing'')
             | Some host \<Rightarrow>
                 (case url_port url of
                    None \<Rightarrow> Inl (InvalidEndpoint ''port is missing'')
                  | Some port \<Rightarrow> Inr (host, port))))"

definition connect_handshake ::
    "connect_io \<Rightarrow> string \<Rightarrow> nat \<Rightarrow> string \<Rightarrow> native_error + address" where
  "connect_handshake io host port server_name =
     on_ok (resolve_remote io host port) (\<lambda>remote.
     on_ok (map_err ConnectFailed (io_endpoint io (bind_address remote))) (\<lambda>_.
     on_ok (map_err ConnectFailed (io_start io remote server_name)) (\<lambda>_.
     on_ok (case io_handshake io of
              None \<Rightarrow> Inl (ConnectFailed ''timed out after 6 seconds'')
            | Some r \<Rightarrow> map_err ConnectFailed r) (\<lambda>_.
     on_ok (map_err ControlFailed (io_open_bi io)) (\<lambda>_. Inr remote)))))"

definition client_preface :: "'w sink \<Rightarrow> 'w \<Rightarrow> (string + unit) \<times> 'w" where
  "client_preface K w = flush_after K (write_parts K [client_wire_magic, [client_stream_control]] w)"

record video_packet =
  vp_presentation_time_us :: "64 word"
  vp_flags :: "32 word"
  vp_data :: string

record native_client =
  nc_outgoing :: "string list"
  nc_outgoing_open :: bool
  nc_video_senders :: "string \<rightharpoonup> nat"
  nc_video_queues :: "nat \<Rightarrow> video_packet list"
  nc_next_queue :: nat
  nc_fingerprint :: string

definition connect_checks ::
    "connect_io \<Rightarrow> string \<Rightarrow> string \<Rightarrow> string \<Rightarrow> native_error + address" where
  "connect_checks io endpoint_text server_name certificate =
     on_ok (map_err ConnectFailed (io_runtime io)) (\<lambda>_.
     on_ok (checked_endpoint io endpoint_text) (\<lambda>(host, port).
     on_ok (map_err InvalidCertificate (io_add_root io certificate)) (\<lambda>_.
     on_ok (map_err InvalidCertificate (io_crypto io)) (\<lambda>_.
       connect_handshake io host port server_name))))"

definition native_connect ::
    "connect_io \<Rightarrow> 'w sink \<Rightarrow> string \<Rightarrow> string \<Rightarrow> string \<Rightarrow> 'w \<Rightarrow> (native_error + native_client) \<times> 'w" where
  "native_connect io K endpoint_text server_name certificate w =
     (case connect_checks io endpoint_text server_name certificate of
        Inl e \<Rightarrow> (Inl e, w)
      | Inr _ \<Rightarrow>
          (case client_preface K w of
             (Inl e, w') \<Rightarrow> (Inl (ControlFailed e), w')
           | (Inr _, w') \<Rightarrow>
               (Inr \<lparr>nc_outgoing = [], nc_outgoing_open = True, nc_video_senders = Map.empty,
                     nc_video_queues = (\<lambda>_. []), nc_next_queue = 0,
                     nc_fingerprint = io_sha256_hex io certificate\<rparr>, w')))"

subsection \<open>The control stream\<close>

definition send_control :: "string \<Rightarrow> native_client \<Rightarrow> (native_error + unit) \<times> native_client" where
  "send_control text nc =
     (if nc_outgoing_open nc then (Inr (), nc\<lparr>nc_outgoing := nc_outgoing nc @ [text]\<rparr>)
      else (Inl (ControlFailed ''control stream is closed''), nc))"

text \<open>The writing task: messages that are too long are left out, a failed write ends it.\<close>

fun client_write_loop :: "u32_format \<Rightarrow> 'w sink \<Rightarrow> string list \<Rightarrow> 'w \<Rightarrow> 'w" where
  "client_write_loop F K [] w = w"
| "client_write_loop F K (m # ms) w =
     (if length m > client_max_message_bytes then client_write_loop F K ms w
      else (case flush_after K (write_parts K [u32_put F (of_nat (length m)), m] w) of
              (Inl _, w') \<Rightarrow> w'
            | (Inr _, w') \<Rightarrow> client_write_loop F K ms w'))"

text \<open>\<open>String::from_utf8\<close>: well-formed UTF-8 as the Unicode standard lists it.\<close>

definition continuation :: "char \<Rightarrow> bool" where
  "continuation c \<longleftrightarrow> 0x80 \<le> byte c \<and> byte c \<le> 0xBF"

fun utf8_valid :: "string \<Rightarrow> bool" where
  "utf8_valid [] = True"
| "utf8_valid (a # s) =
     (if byte a \<le> 0x7F then utf8_valid s
      else
        (case s of
           [] \<Rightarrow> False
         | b # s1 \<Rightarrow>
             if 0xC2 \<le> byte a \<and> byte a \<le> 0xDF then continuation b \<and> utf8_valid s1
             else
               (case s1 of
                  [] \<Rightarrow> False
                | c # s2 \<Rightarrow>
                    if byte a = 0xE0 then 0xA0 \<le> byte b \<and> byte b \<le> 0xBF \<and> continuation c \<and> utf8_valid s2
                    else if byte a = 0xED then 0x80 \<le> byte b \<and> byte b \<le> 0x9F \<and> continuation c \<and> utf8_valid s2
                    else if 0xE1 \<le> byte a \<and> byte a \<le> 0xEF then continuation b \<and> continuation c \<and> utf8_valid s2
                    else
                      (case s2 of
                         [] \<Rightarrow> False
                       | d # s3 \<Rightarrow>
                           (if byte a = 0xF0 then 0x90 \<le> byte b \<and> byte b \<le> 0xBF
                            else if byte a = 0xF4 then 0x80 \<le> byte b \<and> byte b \<le> 0x8F
                            else 0xF1 \<le> byte a \<and> byte a \<le> 0xF3 \<and> continuation b) \<and>
                           continuation c \<and> continuation d \<and> utf8_valid s3))))"

text \<open>The reading task: what it hands to the app before the stream, or its patience, ends.\<close>

definition client_read_frame :: "u32_format \<Rightarrow> string \<Rightarrow> (string \<times> string) option" where
  "client_read_frame F bs =
     Option.bind (read_u32 F bs) (\<lambda>(w, rest).
       if unat w = 0 \<or> unat w > client_max_message_bytes then None else read_exact (unat w) rest)"

lemma client_read_consumes: "client_read_frame F bs = Some (b, rest) \<Longrightarrow> length rest < length bs"
  by (auto simp: client_read_frame_def bind_eq_Some_conv ok_iff split: if_splits)

function client_read_loop :: "u32_format \<Rightarrow> string \<Rightarrow> string list" where
  "client_read_loop F bs =
     (case client_read_frame F bs of
        None \<Rightarrow> []
      | Some (b, rest) \<Rightarrow> (if utf8_valid b then [b] else []) @ client_read_loop F rest)"
  by pat_completeness auto
termination
  by (relation "measure (\<lambda>(F, bs). length bs)") (auto dest: client_read_consumes)

declare client_read_loop.simps [simp del]

text \<open>\<open>recv_timeout\<close> on the queue of the app's messages.\<close>

datatype recv_outcome = Received string | TimedOut | Hung_up

definition receive_control_message :: "recv_outcome \<Rightarrow> native_error + string option" where
  "receive_control_message r =
     (case r of
        Received m \<Rightarrow> Inr (Some m)
      | TimedOut \<Rightarrow> Inr None
      | Hung_up \<Rightarrow> Inl (ControlFailed ''control stream is disconnected''))"

subsection \<open>Video streams\<close>

record video_metadata =
  vm_session_id :: string
  vm_codec :: string
  vm_width :: nat
  vm_height :: nat
  vm_bitrate :: nat
  vm_frame_rate :: nat

definition decode_video_metadata :: "json \<Rightarrow> video_metadata option" where
  "decode_video_metadata = decode_struct 6 (\<lambda>v.
     map_option (\<lambda>(s, c, w, h, b, f).
         \<lparr>vm_session_id = s, vm_codec = c, vm_width = w, vm_height = h, vm_bitrate = b,
          vm_frame_rate = f\<rparr>)
       (both (required de_string (struct_field 0 ''sessionId'' v))
         (both (required de_string (struct_field 1 ''codec'' v))
           (both (required (de_uint 32) (struct_field 2 ''width'' v))
             (both (required (de_uint 32) (struct_field 3 ''height'' v))
               (both (required (de_uint 32) (struct_field 4 ''bitrate'' v))
                 (required (de_uint 32) (struct_field 5 ''frameRate'' v))))))))"

definition video_metadata_ok :: "video_metadata \<Rightarrow> bool" where
  "video_metadata_ok m \<longleftrightarrow>
     \<not> (vm_session_id m = [] \<or> vm_codec m \<noteq> ''h264'' \<or> vm_width m = 0 \<or> vm_height m = 0 \<or>
        vm_bitrate m = 0 \<or> vm_frame_rate m = 0)"

text \<open>\<open>parse\<close> is \<open>serde_json::from_str\<close> up to the value, \<open>wording\<close> its message for a value of another shape.\<close>

definition parsed_video_metadata ::
    "(string \<Rightarrow> string + json) \<Rightarrow> (json \<Rightarrow> string) \<Rightarrow> string \<Rightarrow> native_error + video_metadata" where
  "parsed_video_metadata parse wording metadata_json =
     on_ok (map_err VideoMetadataInvalid (parse metadata_json)) (\<lambda>v.
       ok_or (VideoMetadataInvalid (wording v)) (decode_video_metadata v))"

definition start_video_stream ::
    "(string \<Rightarrow> string + json) \<Rightarrow> (json \<Rightarrow> string) \<Rightarrow> string \<Rightarrow> native_client \<Rightarrow>
     (native_error + nat) \<times> native_client" where
  "start_video_stream parse wording metadata_json nc =
     (case parsed_video_metadata parse wording metadata_json of
        Inl e \<Rightarrow> (Inl e, nc)
      | Inr m \<Rightarrow>
          if \<not> video_metadata_ok m
          then (Inl (VideoMetadataInvalid
                 ''sessionId, H.264 codec, dimensions, bitrate and frameRate are required''), nc)
          else (Inr (nc_next_queue nc),
                nc\<lparr>nc_video_senders := (nc_video_senders nc)(vm_session_id m \<mapsto> nc_next_queue nc),
                   nc_next_queue := Suc (nc_next_queue nc)\<rparr>))"

text \<open>
  \<open>try_send\<close> on the queue of a stream: it fails when the queue is full or its stream's task,
  which is \<open>alive\<close> or not, has ended.
\<close>

definition send_video_frame ::
    "(nat \<Rightarrow> bool) \<Rightarrow> string \<Rightarrow> video_packet \<Rightarrow> native_client \<Rightarrow> bool \<times> native_client" where
  "send_video_frame alive session_id packet nc =
     (case nc_video_senders nc session_id of
        None \<Rightarrow> (False, nc)
      | Some k \<Rightarrow>
          if alive k \<and> length (nc_video_queues nc k) < video_queue_capacity
          then (True, nc\<lparr>nc_video_queues := (nc_video_queues nc)(k := nc_video_queues nc k @ [packet])\<rparr>)
          else (False, nc))"

definition stop_video_stream :: "string \<Rightarrow> native_client \<Rightarrow> native_client" where
  "stop_video_stream session_id nc =
     nc\<lparr>nc_video_senders := (nc_video_senders nc)(session_id := None)\<rparr>"

definition drop_client :: "native_client \<Rightarrow> native_client" where
  "drop_client nc = nc\<lparr>nc_video_senders := Map.empty\<rparr>"

text \<open>The task of a stream: a header, then its packets until a write fails.\<close>

definition video_header_parts :: "u32_format \<Rightarrow> string \<Rightarrow> string list" where
  "video_header_parts F header =
     [client_wire_magic, [client_stream_video], u32_put F (of_nat (length header)), header]"

definition video_packet_parts :: "u32_format \<Rightarrow> (64 word \<Rightarrow> string) \<Rightarrow> video_packet \<Rightarrow> string list" where
  "video_packet_parts F put64 p =
     [put64 (vp_presentation_time_us p), u32_put F (vp_flags p),
      u32_put F (of_nat (length (vp_data p))), vp_data p]"

fun write_packets ::
    "u32_format \<Rightarrow> (64 word \<Rightarrow> string) \<Rightarrow> 'w sink \<Rightarrow> video_packet list \<Rightarrow> 'w \<Rightarrow> 'w" where
  "write_packets F put64 K [] w = w"
| "write_packets F put64 K (p # ps) w =
     (case write_parts K (video_packet_parts F put64 p) w of
        (Inl _, w') \<Rightarrow> w'
      | (Inr _, w') \<Rightarrow> write_packets F put64 K ps w')"

definition video_stream_task ::
    "u32_format \<Rightarrow> (64 word \<Rightarrow> string) \<Rightarrow> 'w sink \<Rightarrow> string \<Rightarrow> video_packet list \<Rightarrow> 'w \<Rightarrow> 'w" where
  "video_stream_task F put64 K header packets w =
     (case write_parts K (video_header_parts F header) w of
        (Inl _, w') \<Rightarrow> w'
      | (Inr _, w') \<Rightarrow> write_packets F put64 K packets w')"

subsection \<open>Both ends of the control stream\<close>

lemma write_parts_bytes: "write_parts byte_sink ps w = (Inr (), w @ concat ps)"
  by (induction ps arbitrary: w) (auto simp: byte_sink_def)

lemma flush_bytes: "flush_after byte_sink (Inr u, w) = (Inr (), w)"
  by (simp add: flush_after_def byte_sink_def)

lemma client_write_bytes:
  "client_write_loop F byte_sink ms w =
     w @ concat (map (framed F) (filter (\<lambda>m. length m \<le> client_max_message_bytes) ms))"
  by (induction ms arbitrary: w)
    (auto simp: write_parts_bytes flush_bytes framed_def simp del: write_parts.simps)

lemma max_bytes_agree: "client_max_message_bytes = max_control_message_bytes"
  by (simp add: client_max_message_bytes_def max_control_message_bytes_def)

lemma write_frames_prefix:
  "snd (write_frames F byte_sink bs w) = w @ concat (map (framed F) (takeWhile sendable bs))"
  by (induction bs arbitrary: w) (auto simp: write_frame_bytes)

context wire_format
begin

lemma read_empty_frame:
  "read_frames F c (framed F [] @ rest) = ([], frame_length_invalid)"
  by (subst read_frames.simps) (simp add: read_control_frame_def framed_def Let_def)

lemma read_client_frames:
  "list_all (\<lambda>m. length m \<le> max_control_message_bytes) ms \<Longrightarrow>
   read_frames F c (concat (map (framed F) ms)) =
     (takeWhile (\<lambda>m. m \<noteq> []) ms, if [] \<in> set ms then frame_length_invalid else control_closed c)"
proof (induction ms)
  case (Cons m ms)
  then show ?case
    using read_empty_frame by (cases "m = []") (auto simp: sendable_def)
qed simp

lemma client_read_framed:
  "sendable b \<Longrightarrow>
   client_read_loop F (framed F b @ rest) = (if utf8_valid b then [b] else []) @ client_read_loop F rest"
  by (subst client_read_loop.simps)
    (simp add: client_read_frame_def framed_def sendable_def unat_frame_length read_exact_def max_bytes_agree)

lemma client_read_frames:
  "list_all sendable bs \<Longrightarrow> client_read_loop F (concat (map (framed F) bs)) = filter utf8_valid bs"
proof (induction bs)
  case Nil
  then show ?case
    by (subst client_read_loop.simps) (simp add: client_read_frame_def read_u32_def read_exact_def)
qed (simp add: client_read_framed)

end

text \<open>C33. The two ends of the control stream fit together, in both directions. The core accepts the
  client's preface and then reads the client's messages one by one in order, those longer than the
  limit left out, up to the first empty one, which ends the connection with the length error; and the
  client hands to the app exactly the messages the core wrote, those that are not UTF-8 left out.\<close>

theorem control_stream_roundtrip:
  assumes "u32_format_ok F"
  shows "(\<exists>rest. read_preface c (client_write_loop F byte_sink ms (snd (client_preface byte_sink []))) = Inr rest \<and>
            read_frames F c rest =
              (takeWhile (\<lambda>m. m \<noteq> []) (filter (\<lambda>m. length m \<le> client_max_message_bytes) ms),
               if [] \<in> set ms then frame_length_invalid else control_closed c)) \<and>
         client_read_loop F (snd (write_frames F byte_sink bs [])) =
           filter utf8_valid (takeWhile sendable bs)"
proof -
  note wf = wire_format.intro [OF assms]
  let ?kept = "filter (\<lambda>m. length m \<le> client_max_message_bytes) ms"
  have "snd (client_preface byte_sink []) = wire_magic @ [stream_control]"
    by (simp add: client_preface_def write_parts_bytes flush_bytes client_wire_magic_def wire_magic_def
        client_stream_control_def stream_control_def del: write_parts.simps)
  then have "read_preface c (client_write_loop F byte_sink ms (snd (client_preface byte_sink []))) =
      Inr (concat (map (framed F) ?kept))"
    by (simp add: client_write_bytes read_preface_def read_exact_def wire_magic_def del: client_write_loop.simps)
  moreover have "list_all (\<lambda>m. length m \<le> max_control_message_bytes) ?kept"
    by (simp add: list_all_iff max_bytes_agree)
  then have "read_frames F c (concat (map (framed F) ?kept)) = (takeWhile (\<lambda>m. m \<noteq> []) ?kept,
      if [] \<in> set ?kept then frame_length_invalid else control_closed c)"
    by (rule wire_format.read_client_frames [OF wf])
  moreover have "client_read_loop F (concat (map (framed F) (takeWhile sendable bs))) =
      filter utf8_valid (takeWhile sendable bs)"
    by (rule wire_format.client_read_frames [OF wf]) (auto simp: list_all_iff dest: set_takeWhileD)
  ultimately show ?thesis by (simp add: write_frames_prefix)
qed

subsection \<open>The video queues\<close>

inductive client_step :: "native_client \<Rightarrow> native_client \<Rightarrow> bool" where
  sends_control: "client_step nc (snd (send_control text nc))"
| writer_stops: "client_step nc (nc\<lparr>nc_outgoing_open := False\<rparr>)"
| starts_video: "client_step nc (snd (start_video_stream parse wording metadata nc))"
| sends_frame: "client_step nc (snd (send_video_frame alive session_id packet nc))"
| takes_frame:
    "nc_video_queues nc k = p # ps \<Longrightarrow>
     client_step nc (nc\<lparr>nc_video_queues := (nc_video_queues nc)(k := ps)\<rparr>)"
| stops_video: "client_step nc (stop_video_stream session_id nc)"
| drops: "client_step nc (drop_client nc)"

definition client_start :: "native_client \<Rightarrow> bool" where
  "client_start nc \<longleftrightarrow> (\<exists>io endpoint server cert.
     fst (native_connect io byte_sink endpoint server cert []) = Inr nc)"

definition client_ok :: "native_client \<Rightarrow> bool" where
  "client_ok nc \<longleftrightarrow>
     (\<forall>k. length (nc_video_queues nc k) \<le> video_queue_capacity) \<and>
     (\<forall>s k. nc_video_senders nc s = Some k \<longrightarrow> k < nc_next_queue nc) \<and>
     (\<forall>k. nc_next_queue nc \<le> k \<longrightarrow> nc_video_queues nc k = []) \<and>
     (\<forall>s t k. nc_video_senders nc s = Some k \<longrightarrow> nc_video_senders nc t = Some k \<longrightarrow> s = t)"

lemma native_connect_Inr:
  assumes "fst (native_connect io K endpoint server cert w) = Inr nc"
  shows "nc = \<lparr>nc_outgoing = [], nc_outgoing_open = True, nc_video_senders = Map.empty,
              nc_video_queues = (\<lambda>_. []), nc_next_queue = 0, nc_fingerprint = io_sha256_hex io cert\<rparr>"
  using assms
  by (cases "connect_checks io endpoint server cert")
    (auto simp: native_connect_def split: sum.splits prod.splits)

lemma client_start_ok: "client_start nc \<Longrightarrow> client_ok nc"
  by (auto simp: client_start_def client_ok_def dest!: native_connect_Inr)

lemma start_video_cases:
  "snd (start_video_stream parse wording metadata nc) = nc \<or>
   (\<exists>s. snd (start_video_stream parse wording metadata nc) =
      nc\<lparr>nc_video_senders := (nc_video_senders nc)(s \<mapsto> nc_next_queue nc),
         nc_next_queue := Suc (nc_next_queue nc)\<rparr>)"
  by (cases "parsed_video_metadata parse wording metadata") (auto simp: start_video_stream_def)

lemma client_ok_new_stream:
  "client_ok nc \<Longrightarrow> client_ok (nc\<lparr>nc_video_senders := (nc_video_senders nc)(s \<mapsto> nc_next_queue nc),
     nc_next_queue := Suc (nc_next_queue nc)\<rparr>)"
  by (auto simp: client_ok_def less_Suc_eq split: if_splits)

lemma client_step_ok:
  assumes "client_ok nc" and "client_step nc nc'"
  shows "client_ok nc'"
  using assms(2)
proof cases
  case (starts_video parse wording metadata)
  then show ?thesis
    using assms(1) start_video_cases [of parse wording metadata nc] client_ok_new_stream by auto
next
  case (sends_frame alive session_id packet)
  then show ?thesis
    using assms(1)
    by (auto simp: client_ok_def send_video_frame_def split: option.splits if_splits;
        fastforce simp: not_le)
next
  case (takes_frame k p ps)
  then show ?thesis using assms(1) unfolding client_ok_def
    by (auto; metis Suc_leD length_Cons list.distinct(1))
qed (use assms(1) in \<open>auto simp: client_ok_def send_control_def stop_video_stream_def drop_client_def
        split: if_splits\<close>)

interpretation client: invariant_machine client_start client_step client_ok
  by unfold_locales (auto intro: client_start_ok client_step_ok)

text \<open>Video never piles up in the client: in every state the client can reach each stream has at most
  four packets waiting, and a frame is taken exactly when its session has been started and not
  stopped, the stream's task still runs and there is room; it is then the last packet of that
  session's queue and of no other, and a frame that is not taken changes nothing.\<close>

theorem video_queue_bounded:
  assumes "reachable client_start client_step nc" and "send_video_frame alive s p nc = (taken, nc')"
  shows "(\<forall>k. length (nc_video_queues nc' k) \<le> video_queue_capacity) \<and>
         (taken \<longleftrightarrow> (\<exists>k. nc_video_senders nc s = Some k \<and> alive k \<and>
            length (nc_video_queues nc k) < video_queue_capacity)) \<and>
         (taken \<longrightarrow> (\<exists>k. nc_video_senders nc s = Some k \<and>
            nc_video_queues nc' k = nc_video_queues nc k @ [p] \<and>
            (\<forall>t j. t \<noteq> s \<longrightarrow> nc_video_senders nc t = Some j \<longrightarrow>
               nc_video_queues nc' j = nc_video_queues nc j))) \<and>
         (\<not> taken \<longrightarrow> nc' = nc)"
proof -
  have ok: "client_ok nc" using assms(1) by (rule client.reach_inv)
  show ?thesis
  proof (cases "nc_video_senders nc s")
    case None
    then show ?thesis using assms(2) ok by (auto simp: send_video_frame_def client_ok_def)
  next
    case (Some k)
    have "j \<noteq> k" if "t \<noteq> s" "nc_video_senders nc t = Some j" for t j
      using that Some ok by (auto simp: client_ok_def)
    then show ?thesis
      using Some assms(2) ok
      by (auto simp: send_video_frame_def client_ok_def Suc_le_eq split: if_splits)
  qed
qed

end
