(* ===== verification/Diagnostics.thy ===== *)
theory Diagnostics
  imports Json Transition "HOL-Library.Word"
begin

text \<open>
  The diagnostics of \<open>diagnostics.rs\<close>: the filter that lets only identifiers into an event, the
  bounded queue in front of the worker thread, and the worker's four rotating files. The two
  globals \<open>SENDER\<close> and \<open>DROPPED\<close> and the worker's locals are one state. Clock, process id and what
  a file operation does are arguments; \<open>shown\<close> is the display of a JSON value.
\<close>

definition token_byte :: "char \<Rightarrow> bool" where
  "token_byte c \<longleftrightarrow> is_ascii_alphanumeric c \<or> c \<in> {CHR ''_'', CHR ''.'', CHR '':'', CHR ''-''}"

definition token :: "string \<Rightarrow> string" where
  "token value =
     (if value \<noteq> [] \<and> length value \<le> 128 \<and> list_all token_byte value then value else ''unknown'')"

definition is_identifier :: "string \<Rightarrow> bool" where
  "is_identifier s \<longleftrightarrow> s \<noteq> [] \<and> length s \<le> 128 \<and> list_all token_byte s"

lemma token_identifier: "is_identifier (token v)"
proof (cases "is_identifier v")
  case False
  then have "token v = ''unknown''" by (auto simp: token_def is_identifier_def)
  moreover have "is_identifier ''unknown''" by code_simp
  ultimately show ?thesis by simp
qed (simp add: token_def is_identifier_def)

record event_context =
  ec_now :: nat
  ec_session :: "string option"
  ec_process_id :: nat
  ec_dropped :: "64 word"

definition event ::
    "event_context \<Rightarrow> string \<Rightarrow> string \<Rightarrow> string \<Rightarrow> bool \<Rightarrow> nat \<Rightarrow> string option \<Rightarrow> json" where
  "event cx stage mth trace ok elapsed code =
     JObj [(''schemaVersion'', JInt 1), (''timestampUnixMs'', JInt (int (ec_now cx))),
       (''sessionId'', case ec_session cx of None \<Rightarrow> JNull | Some s \<Rightarrow> JStr s),
       (''processId'', JInt (int (ec_process_id cx))), (''module'', JStr ''core''),
       (''event'', JStr (token stage)), (''traceId'', JStr (token trace)),
       (''level'', JStr (if ok then ''info'' else ''error'')),
       (''fields'', JObj [(''operation'', JStr (token mth)),
          (''outcome'', JStr (if ok then ''success'' else ''failed'')),
          (''elapsedMs'', JInt (int elapsed)),
          (''errorCode'', case code of None \<Rightarrow> JNull | Some c \<Rightarrow> JStr (token c)),
          (''dropped'', JInt (int (unat (ec_dropped cx))))])]"

subsection \<open>Queue and worker\<close>

datatype pending = Line string | Flush

record diagnostics =
  dg_started :: bool
  dg_worker :: bool
  dg_queue :: "pending list"
  dg_dropped :: "64 word"
  dg_session :: "string option"
  dg_generation :: nat
  dg_bytes :: nat
  dg_files :: "nat \<rightharpoonup> string"

definition queue_capacity :: nat where
  "queue_capacity = 1024"

definition max_file_bytes :: nat where
  "max_file_bytes = 2 * 1024 * 1024"

definition idle :: diagnostics where
  "idle = \<lparr>dg_started = False, dg_worker = False, dg_queue = [], dg_dropped = 0, dg_session = None,
           dg_generation = 0, dg_bytes = 0, dg_files = Map.empty\<rparr>"

text \<open>\<open>try_send\<close>: it fails when the queue is full or the worker is gone.\<close>

definition try_send :: "pending \<Rightarrow> diagnostics \<Rightarrow> diagnostics option" where
  "try_send p dg =
     (if dg_worker dg \<and> length (dg_queue dg) < queue_capacity
      then Some (dg\<lparr>dg_queue := dg_queue dg @ [p]\<rparr>) else None)"

definition event_line ::
    "(json \<Rightarrow> string) \<Rightarrow> nat \<Rightarrow> nat \<Rightarrow> string \<Rightarrow> string \<Rightarrow> string \<Rightarrow> bool \<Rightarrow> nat \<Rightarrow> string option \<Rightarrow>
     diagnostics \<Rightarrow> string" where
  "event_line shown now pid stage mth trace ok elapsed code dg =
     shown (event \<lparr>ec_now = now, ec_session = dg_session dg, ec_process_id = pid, ec_dropped = dg_dropped dg\<rparr>
             stage mth trace ok elapsed code)"

definition record_event ::
    "(json \<Rightarrow> string) \<Rightarrow> nat \<Rightarrow> nat \<Rightarrow> string \<Rightarrow> string \<Rightarrow> string \<Rightarrow> bool \<Rightarrow> nat \<Rightarrow> string option \<Rightarrow>
     diagnostics \<Rightarrow> diagnostics" where
  "record_event shown now pid stage mth trace ok elapsed code dg =
     (if \<not> dg_started dg then dg
      else
        (case try_send (Line (event_line shown now pid stage mth trace ok elapsed code dg)) dg of
           Some dg' \<Rightarrow> dg'
         | None \<Rightarrow> dg\<lparr>dg_dropped := dg_dropped dg + 1\<rparr>))"

text \<open>
  \<open>session\<close> is the environment's session name, or else the clock names the session; \<open>spawned\<close> says
  whether the thread could be started. A second call leaves the sender and the session alone.
\<close>

definition name_session :: "nat \<Rightarrow> string option \<Rightarrow> diagnostics \<Rightarrow> diagnostics" where
  "name_session now session dg =
     (case dg_session dg of
        Some _ \<Rightarrow> dg
      | None \<Rightarrow> dg\<lparr>dg_session :=
          Some (token (case session of Some s \<Rightarrow> s | None \<Rightarrow> ''core-'' @ show_nat now))\<rparr>)"

definition initialize ::
    "(json \<Rightarrow> string) \<Rightarrow> nat \<Rightarrow> nat \<Rightarrow> string option \<Rightarrow> bool \<Rightarrow> diagnostics \<Rightarrow> diagnostics" where
  "initialize shown now pid session spawned dg =
     (let dg1 = name_session now session dg
      in if dg_started dg then dg1
         else record_event shown now pid ''start'' ''process'' ''startup'' True 0 None
                (dg1\<lparr>dg_started := True, dg_worker := spawned\<rparr>))"

text \<open>What a write does: it succeeds, or fails and leaves the file with some content or absent.\<close>

datatype log_io = Log_written | Log_failed "string option"

definition write_line :: "log_io \<Rightarrow> string \<Rightarrow> diagnostics \<Rightarrow> diagnostics" where
  "write_line reply line dg =
     (let dg1 = (if dg_bytes dg > max_file_bytes
                 then dg\<lparr>dg_generation := (dg_generation dg + 1) mod 4, dg_bytes := 0\<rparr> else dg);
          old = (case dg_files dg1 (dg_generation dg1) of None \<Rightarrow> [] | Some t \<Rightarrow> t)
      in case reply of
           Log_written \<Rightarrow>
             dg1\<lparr>dg_files := (dg_files dg1)(dg_generation dg1 \<mapsto>
                   (if dg_bytes dg1 = 0 then [] else old) @ line @ [CHR 0x0A]),
                 dg_bytes := dg_bytes dg1 + length line + 1\<rparr>
         | Log_failed left \<Rightarrow> dg1\<lparr>dg_files := (dg_files dg1)(dg_generation dg1 := left)\<rparr>)"

definition worker_turn :: "log_io \<Rightarrow> diagnostics \<Rightarrow> diagnostics option" where
  "worker_turn reply dg =
     (case dg_queue dg of
        [] \<Rightarrow> None
      | Line line # q \<Rightarrow> Some (write_line reply line (dg\<lparr>dg_queue := q\<rparr>))
      | Flush # q \<Rightarrow> Some (dg\<lparr>dg_queue := q\<rparr>))"

text \<open>\<open>flush\<close> asks the worker for a sign of life; how long it waits for it does not change the state.\<close>

definition flush :: "diagnostics \<Rightarrow> diagnostics" where
  "flush dg = (if dg_started dg then (case try_send Flush dg of Some dg' \<Rightarrow> dg' | None \<Rightarrow> dg) else dg)"

text \<open>Where the files are; \<open>below\<close> puts a path below another, \<open>temp\<close> is the temporary directory.\<close>

definition diagnostics_root :: "(string \<Rightarrow> string option) \<Rightarrow> (string \<Rightarrow> string \<Rightarrow> string) \<Rightarrow> string \<Rightarrow> string" where
  "diagnostics_root env below temp =
     (case env ''LOCALAPPDATA'' of
        Some local \<Rightarrow> below local ''ADBControl/diagnostics''
      | None \<Rightarrow>
          below (case env ''XDG_STATE_HOME'' of
                  Some b \<Rightarrow> b
                | None \<Rightarrow> below (case env ''HOME'' of Some h \<Rightarrow> h | None \<Rightarrow> temp) ''.local/state'')
            ''ADBControl/diagnostics'')"

text \<open>
  The panic hook appends one event to the emergency file, past the queue. \<open>usable\<close> says whether
  the directory and the file can be had; a write that fails leaves some prefix, \<open>written\<close> bytes long.
\<close>

definition panic_hook ::
    "(json \<Rightarrow> string) \<Rightarrow> nat \<Rightarrow> nat \<Rightarrow> bool \<Rightarrow> nat \<Rightarrow> diagnostics \<Rightarrow> string option \<Rightarrow> string option" where
  "panic_hook shown now pid usable written dg emergency =
     (if usable
      then Some ((case emergency of None \<Rightarrow> [] | Some t \<Rightarrow> t) @
             take written (event_line shown now pid ''panic'' ''runtime'' ''panic'' False 0 (Some ''RUST_PANIC'') dg @
                           [CHR 0x0A]))
      else emergency)"

subsection \<open>Runs\<close>

text \<open>
  The worker writes to files that no one else writes to. A failed write is assumed to leave the
  file absent, as it was, or emptied; the lines recorded have at most \<open>n\<close> bytes.
\<close>

definition failure_ok :: "diagnostics \<Rightarrow> log_io \<Rightarrow> bool" where
  "failure_ok dg reply \<longleftrightarrow>
     (case reply of
        Log_written \<Rightarrow> True
      | Log_failed left \<Rightarrow> left = None \<or> left = Some [] \<or> (\<exists>g. g < 4 \<and> left = dg_files dg g \<and>
          g = dg_generation (write_line reply [] dg)))"

inductive diagnostics_step :: "nat \<Rightarrow> diagnostics \<Rightarrow> diagnostics \<Rightarrow> bool" for n where
  initializes:
    "(\<And>dg'. length (event_line shown now pid ''start'' ''process'' ''startup'' True 0 None dg') \<le> n) \<Longrightarrow>
     diagnostics_step n dg (initialize shown now pid session spawned dg)"
| records:
    "length (event_line shown now pid stage mth trace ok elapsed code dg) \<le> n \<Longrightarrow>
     diagnostics_step n dg (record_event shown now pid stage mth trace ok elapsed code dg)"
| flushes: "diagnostics_step n dg (flush dg)"
| works:
    "failure_ok dg reply \<Longrightarrow> worker_turn reply dg = Some dg' \<Longrightarrow> diagnostics_step n dg dg'"
| worker_dies: "diagnostics_step n dg (dg\<lparr>dg_worker := False\<rparr>)"

definition diagnostics_ok :: "nat \<Rightarrow> diagnostics \<Rightarrow> bool" where
  "diagnostics_ok n dg \<longleftrightarrow>
     length (dg_queue dg) \<le> queue_capacity \<and>
     (\<forall>l. Line l \<in> set (dg_queue dg) \<longrightarrow> length l \<le> n) \<and>
     (\<forall>s. dg_session dg = Some s \<longrightarrow> is_identifier s) \<and>
     dg_generation dg < 4 \<and> dg_bytes dg \<le> max_file_bytes + n + 1 \<and>
     (\<forall>g t. dg_files dg g = Some t \<longrightarrow> g < 4 \<and> length t \<le> max_file_bytes + n + 1) \<and>
     (\<forall>t. dg_files dg (dg_generation dg) = Some t \<longrightarrow> dg_bytes dg \<noteq> 0 \<longrightarrow> length t \<le> dg_bytes dg)"

lemma try_send_Some_iff [ok_iff]:
  "try_send p dg = Some dg' \<longleftrightarrow>
     dg_worker dg \<and> length (dg_queue dg) < queue_capacity \<and> dg' = dg\<lparr>dg_queue := dg_queue dg @ [p]\<rparr>"
  by (auto simp: try_send_def)

lemma send_ok:
  "diagnostics_ok n dg \<Longrightarrow> (\<And>l. p = Line l \<Longrightarrow> length l \<le> n) \<Longrightarrow> try_send p dg = Some dg' \<Longrightarrow>
   diagnostics_ok n dg'"
  by (auto simp: diagnostics_ok_def ok_iff)

lemma record_ok:
  assumes "diagnostics_ok n dg"
    and "length (event_line shown now pid stage mth trace ok elapsed code dg) \<le> n"
  shows "diagnostics_ok n (record_event shown now pid stage mth trace ok elapsed code dg)"
proof -
  have "diagnostics_ok n (dg\<lparr>dg_dropped := d\<rparr>)" for d using assms(1) by (simp add: diagnostics_ok_def)
  moreover have "diagnostics_ok n dg'"
    if "try_send (Line (event_line shown now pid stage mth trace ok elapsed code dg)) dg = Some dg'" for dg'
    by (rule send_ok [OF assms(1) _ that]) (use assms(2) in simp)
  ultimately show ?thesis using assms(1) by (auto simp: record_event_def split: option.splits)
qed

lemma write_line_ok:
  assumes "diagnostics_ok n dg" and "length line \<le> n" and "failure_ok dg reply"
  shows "diagnostics_ok n (write_line reply line dg)"
proof (cases reply)
  case Log_written
  then show ?thesis using assms
    by (auto simp: diagnostics_ok_def write_line_def Let_def not_less split: option.splits)
next
  case (Log_failed left)
  then show ?thesis using assms
    by (auto simp: diagnostics_ok_def write_line_def failure_ok_def Let_def not_less split: option.splits if_splits)
qed

lemma name_session_ok: "diagnostics_ok n dg \<Longrightarrow> diagnostics_ok n (name_session now session dg)"
  by (auto simp: name_session_def diagnostics_ok_def token_identifier split: option.splits)

lemma diagnostics_step_ok:
  assumes "diagnostics_ok n dg" and "diagnostics_step n dg dg'"
  shows "diagnostics_ok n dg'"
  using assms(2)
proof cases
  case (initializes shown now pid session spawned)
  let ?dg1 = "name_session now session dg"
  have "diagnostics_ok n ?dg1" using assms(1) by (rule name_session_ok)
  moreover from this have "diagnostics_ok n (?dg1\<lparr>dg_started := True, dg_worker := spawned\<rparr>)"
    by (simp add: diagnostics_ok_def)
  from this initializes(2) have "diagnostics_ok n (record_event shown now pid ''start'' ''process'' ''startup''
      True 0 None (?dg1\<lparr>dg_started := True, dg_worker := spawned\<rparr>))"
    by (rule record_ok)
  ultimately show ?thesis using initializes(1) by (simp add: initialize_def Let_def)
next
  case (records shown now pid stage mth trace ok elapsed code)
  then show ?thesis using record_ok [OF assms(1)] by simp
next
  case flushes
  then show ?thesis
    using assms(1) send_ok [OF assms(1), of Flush] by (auto simp: flush_def split: option.splits)
next
  case (works reply)
  then show ?thesis
  proof (cases "dg_queue dg")
    case (Cons p q)
    let ?dg = "dg\<lparr>dg_queue := q\<rparr>"
    have ok: "diagnostics_ok n ?dg" using assms(1) Cons by (auto simp: diagnostics_ok_def)
    show ?thesis
    proof (cases p)
      case (Line line)
      have "length line \<le> n" using assms(1) Cons Line by (auto simp: diagnostics_ok_def)
      moreover have "failure_ok ?dg reply"
        using works(1) by (auto simp: failure_ok_def write_line_def Let_def split: log_io.splits)
      moreover have "dg' = write_line reply line ?dg"
        using works(2) Cons Line by (simp add: worker_turn_def)
      ultimately show ?thesis using write_line_ok [OF ok] by blast
    qed (use works(2) Cons ok in \<open>simp add: worker_turn_def\<close>)
  qed (simp add: worker_turn_def)
next
  case worker_dies
  then show ?thesis using assms(1) by (simp add: diagnostics_ok_def)
qed

lemma idle_ok: "diagnostics_ok n idle"
  by (simp add: idle_def diagnostics_ok_def)

interpretation diagnostics: invariant_machine "\<lambda>dg. dg = idle" "diagnostics_step n" "diagnostics_ok n" for n
  by unfold_locales (auto intro: idle_ok diagnostics_step_ok)

text \<open>Diagnostics use bounded memory and disk: in every reachable state at most 1024 lines wait, only
  the files of the four generations exist, and if no line is longer than \<open>n\<close> bytes, each file has at
  most 2 MiB and one more line; an event that finds the queue full is counted instead.\<close>

theorem diagnostics_bounded:
  assumes "reachable (\<lambda>dg. dg = idle) (diagnostics_step n) dg"
  shows "length (dg_queue dg) \<le> queue_capacity \<and>
         (\<forall>g t. dg_files dg g = Some t \<longrightarrow> g < 4 \<and> length t \<le> max_file_bytes + n + 1) \<and>
         (dg_started dg \<and> length (dg_queue dg) = queue_capacity \<longrightarrow>
            record_event shown now pid stage mth trace ok elapsed code dg = dg\<lparr>dg_dropped := dg_dropped dg + 1\<rparr>)"
proof -
  have "diagnostics_ok n dg" using assms by (rule diagnostics.reach_inv)
  then show ?thesis by (auto simp: diagnostics_ok_def record_event_def try_send_def)
qed

text \<open>The texts a JSON value carries as string values; field names are not among them.\<close>

fun json_texts :: "json \<Rightarrow> string set" where
  "json_texts (JStr s) = {s}"
| "json_texts (JArr xs) = (\<Union>x \<in> set xs. json_texts x)"
| "json_texts (JObj m) = (\<Union>p \<in> set m. json_texts (snd p))"
| "json_texts v = {}"

lemma constant_identifiers:
  "is_identifier ''core''" "is_identifier ''info''" "is_identifier ''error''"
  "is_identifier ''success''" "is_identifier ''failed''"
  by code_simp+

text \<open>Only metadata enters the diagnostics: whatever a request names as its method, its id, its stage or
  its error code, every text value of the recorded event is a short identifier of letters, digits
  and four punctuation bytes, so that no argument, path, address with a query or credential with a
  blank in it is written.\<close>

theorem diagnostics_metadata_only:
  assumes "reachable (\<lambda>dg. dg = idle) (diagnostics_step n) dg"
    and "s \<in> json_texts (event \<lparr>ec_now = now, ec_session = dg_session dg, ec_process_id = pid,
                            ec_dropped = dg_dropped dg\<rparr> stage mth trace ok elapsed code)"
  shows "is_identifier s"
proof -
  have "diagnostics_ok n dg" using assms(1) by (rule diagnostics.reach_inv)
  then have "\<forall>x. dg_session dg = Some x \<longrightarrow> is_identifier x" by (simp add: diagnostics_ok_def)
  then show ?thesis
    using assms(2) token_identifier constant_identifiers
    by (auto simp: event_def split: if_splits option.splits)
qed

end
