(* ===== verification/Live_Runs.thy ===== *)
theory Live_Runs
  imports Live_System Quic_Android Diagnostics Companion_Witnesses Concrete_Runs
begin

text \<open>
  Concrete runs of the listener: a companion says hello, announces a capability, gets a command and
  answers it. The frames carry one letter each, which \<open>letter_parse\<close> reads as the envelope meant.
\<close>

definition letter_ports :: transport_ports where
  "letter_ports = \<lparr>tp_serde = plain_text, tp_base64 = (\<lambda>s. Inl []), tp_media = Media_ok,
                   tp_to_vec = (\<lambda>e. Inr (ev_message_id e)), tp_order = []\<rparr>"

definition demo_response :: envelope where
  "demo_response = demo_envelope CommandResponse
     (JObj [(''requestId'', JStr ''c1''), (''ok'', JBool True)])"

definition demo_heartbeat :: envelope where
  "demo_heartbeat = (demo_envelope Heartbeat (JObj []))\<lparr>ev_device_id := Some ''other''\<rparr>"

text \<open>A hello for \<open>d\<close> whose payload is no hello.\<close>

definition broken_hello :: envelope where
  "broken_hello = demo_envelope Hello JNull"

definition letter_parse :: "string \<Rightarrow> string + envelope" where
  "letter_parse b =
     (if b = ''h'' then Inr demo_hello
      else if b = ''c'' then Inr demo_capabilities
      else if b = ''r'' then Inr demo_response
      else if b = ''b'' then Inr demo_heartbeat
      else if b = ''x'' then Inr broken_hello
      else Inl ''unknown letter'')"

definition frames :: "string list \<Rightarrow> string" where
  "frames ms = concat (map (framed network_order) ms)"

lemma frames_Cons: "frames (m # ms) = framed network_order m @ frames ms"
  by (simp add: frames_def)

definition live_start :: quic_server where
  "live_start = \<lparr>qs_live = new_live [], qs_running = [], qs_draining = [], qs_next_id = 1,
                 qs_next_channel = 0, qs_waiting = [], qs_clones = [], qs_next_waiter = 0\<rparr>"

definition connect :: "string \<Rightarrow> quic_server \<Rightarrow> quic_server" where
  "connect input q =
     q\<lparr>qs_running := \<lparr>cn_id = qs_next_id q, cn_channel = qs_next_channel q, cn_device = None,
                      cn_input = input\<rparr> # qs_running q,
       qs_next_id := qs_next_id q + 1, qs_next_channel := Suc (qs_next_channel q)\<rparr>"

text \<open>The next frame of the first connection, when it does not end the loop.\<close>

definition turn_first :: "quic_server \<Rightarrow> quic_server" where
  "turn_first q =
     (case control_turn letter_ports network_order letter_parse [] Frame (qs_running q ! 0) (qs_live q) of
        (Inl r, st') \<Rightarrow> q
      | (Inr cn', st') \<Rightarrow> q\<lparr>qs_live := st', qs_running := (qs_running q)[0 := cn']\<rparr>)"

abbreviation "live_reachable \<equiv> reachable server_start (server_step letter_ports network_order letter_parse)"

lemma reachable_live_start: "live_reachable live_start"
  by (rule reachable_start) (simp add: server_start_def live_start_def)

lemma reachable_connect: "live_reachable q \<Longrightarrow> live_reachable (connect input q)"
proof (erule reachable_step)
  have "read_preface [] (wire_magic @ [stream_control] @ input) = Inr input"
    by (simp add: read_preface_def read_exact_def wire_magic_def)
  then show "server_step letter_ports network_order letter_parse q (connect input q)"
    unfolding connect_def by (rule accepted)
qed

lemma turn_first_step:
  assumes "qs_running q \<noteq> []"
  shows "turn_first q = q \<or> server_step letter_ports network_order letter_parse q (turn_first q)"
proof (cases "control_turn letter_ports network_order letter_parse [] Frame (qs_running q ! 0) (qs_live q)")
  case (Pair r st')
  show ?thesis
  proof (cases r)
    case (Inr cn')
    have "server_step letter_ports network_order letter_parse q
        (q\<lparr>qs_live := st', qs_running := (qs_running q)[0 := cn']\<rparr>)"
      using assms Pair Inr
      by (intro turned [where t = Frame and c = "[]" and order = "[]"]) (auto simp: interrupts_def letter_ports_def)
    then show ?thesis using Pair Inr by (simp add: turn_first_def)
  qed (use Pair in \<open>simp add: turn_first_def\<close>)
qed

lemma reachable_turn_first:
  "reachable start (server_step letter_ports network_order letter_parse) q \<Longrightarrow> qs_running q \<noteq> [] \<Longrightarrow>
   reachable start (server_step letter_ports network_order letter_parse) (turn_first q)"
  by (metis turn_first_step reachable_step)

lemma turn_first_running [simp]: "qs_running (turn_first q) \<noteq> [] \<longleftrightarrow> qs_running q \<noteq> []"
  by (auto simp: turn_first_def split: prod.splits sum.splits)

lemma connect_running [simp]: "qs_running (connect input q) \<noteq> []"
  by (simp add: connect_def)

text \<open>A turn on a letter is what the letter's envelope does.\<close>

lemma letter_turn:
  assumes "cn_input cn = frames (l # ls)" and "sendable l" and "letter_parse l = Inr e"
  shows "control_turn letter_ports network_order letter_parse c Frame cn st =
    (case accept_envelope letter_ports (cn_id cn) (cn_channel cn) e st of
       (Inl err, st') \<Rightarrow> (Inl (Inl err), st')
     | (Inr dev, st') \<Rightarrow>
         (Inr (cn\<lparr>cn_input := frames ls,
                  cn_device := (case dev of None \<Rightarrow> cn_device cn | Some d \<Rightarrow> Some d)\<rparr>), st'))"
  using network.read_framed [OF assms(2), of c "frames ls"] assms(1,3)
  by (simp add: control_turn_def frames_Cons)

lemma turn_first_letter:
  assumes "qs_running q = cn # cs" and "cn_input cn = frames (l # ls)" and "sendable l"
    and "letter_parse l = Inr e"
    and "fst (accept_envelope letter_ports (cn_id cn) (cn_channel cn) e (qs_live q)) = Inr dev"
  shows "turn_first q = q\<lparr>qs_live := snd (accept_envelope letter_ports (cn_id cn) (cn_channel cn) e (qs_live q)),
     qs_running := cn\<lparr>cn_input := frames ls,
       cn_device := (case dev of None \<Rightarrow> cn_device cn | Some d \<Rightarrow> Some d)\<rparr> # cs\<rparr>"
  using letter_turn [OF assms(2-4), of "[]" "qs_live q"] assms(1,5)
  by (cases "accept_envelope letter_ports (cn_id cn) (cn_channel cn) e (qs_live q)")
    (simp add: turn_first_def)

lemma sendable_letter [simp]: "sendable [x]"
  by (simp add: sendable_def max_control_message_bytes_def)

definition hello_live :: live where
  "hello_live = snd (accept_envelope letter_ports 1 0 demo_hello (new_live []))"

definition capable_live :: live where
  "capable_live = snd (accept_envelope letter_ports 1 0 demo_capabilities hello_live)"

definition greeted :: quic_server where
  "greeted = turn_first (connect (frames [''h'', ''c'', ''r'']) live_start)"

definition capable :: quic_server where
  "capable = turn_first greeted"

lemma hello_accepted:
  "fst (accept_envelope letter_ports 1 0 demo_hello (new_live [])) = Inr (Some ''d'')"
  by code_simp

lemma capable_accepted:
  "fst (accept_envelope letter_ports 1 0 demo_capabilities hello_live) = Inr (Some ''d'')"
  by code_simp

lemma greeted_eq:
  "greeted = \<lparr>qs_live = hello_live, qs_running = [\<lparr>cn_id = 1, cn_channel = 0, cn_device = Some ''d'',
     cn_input = frames [''c'', ''r'']\<rparr>], qs_draining = [], qs_next_id = 2, qs_next_channel = 1,
     qs_waiting = [], qs_clones = [], qs_next_waiter = 0\<rparr>"
  using turn_first_letter [of "connect (frames [''h'', ''c'', ''r'']) live_start"
      "\<lparr>cn_id = 1, cn_channel = 0, cn_device = None, cn_input = frames [''h'', ''c'', ''r'']\<rparr>" "[]"
      "''h''" "[''c'', ''r'']" demo_hello "Some ''d''"] hello_accepted
  by (simp add: greeted_def connect_def live_start_def letter_parse_def hello_live_def)

lemma capable_eq:
  "capable = \<lparr>qs_live = capable_live, qs_running = [\<lparr>cn_id = 1, cn_channel = 0, cn_device = Some ''d'',
     cn_input = frames [''r'']\<rparr>], qs_draining = [], qs_next_id = 2, qs_next_channel = 1,
     qs_waiting = [], qs_clones = [], qs_next_waiter = 0\<rparr>"
  using turn_first_letter [of greeted
      "\<lparr>cn_id = 1, cn_channel = 0, cn_device = Some ''d'', cn_input = frames [''c'', ''r'']\<rparr>" "[]"
      "''c''" "[''r'']" demo_capabilities "Some ''d''"] capable_accepted
  by (simp add: capable_def greeted_eq letter_parse_def capable_live_def)

lemma reachable_greeted: "live_reachable greeted"
  unfolding greeted_def by (intro reachable_turn_first reachable_connect reachable_live_start) simp

lemma reachable_capable: "live_reachable capable"
  unfolding capable_def by (intro reachable_turn_first reachable_greeted) (simp add: greeted_def)

lemma capable_handle:
  "bt_get ''d'' (lv_sessions capable_live) = Some \<lparr>sh_connection_id = 1, sh_outgoing = 0\<rparr>"
  by code_simp

lemma capable_registered: "map dv_device_id (transport_registry capable_live) = [''d'']"
  by code_simp

text \<open>A command goes out and its response comes in.\<close>

definition demo_dispatch :: dispatch_command where
  "demo_dispatch = \<lparr>dc_request_id = ''c1'', dc_device_id = ''d'', dc_capability_id = ''android.sms.read'',
                    dc_operation = ''sms.read'', dc_args = JObj []\<rparr>"

definition commanded_live :: live where
  "commanded_live = snd (start_command letter_ports 0 ''d'' (build_command_request_envelope demo_dispatch) capable_live)"

definition commanded :: quic_server where
  "commanded = capable\<lparr>qs_live := commanded_live, qs_waiting := [(0, ''c1'')], qs_clones := [(0, 0)], qs_next_waiter := 1\<rparr>"

definition answered :: quic_server where
  "answered = turn_first commanded"

lemma command_sent:
  "fst (start_command letter_ports 0 ''d'' (build_command_request_envelope demo_dispatch) capable_live) = Inr ''c1''"
  by code_simp

lemma reachable_commanded: "live_reachable commanded"
proof -
  have "start_command letter_ports (qs_next_waiter capable) ''d'' (build_command_request_envelope demo_dispatch)
      (qs_live capable) = (Inr ''c1'', commanded_live)"
    using command_sent by (simp add: capable_eq commanded_live_def prod_eq_iff)
  moreover have "bt_get ''d'' (lv_sessions (qs_live capable)) = Some \<lparr>sh_connection_id = 1, sh_outgoing = 0\<rparr>"
    using capable_handle by (simp add: capable_eq)
  ultimately have "server_step letter_ports network_order letter_parse capable
      (capable\<lparr>qs_live := commanded_live, qs_waiting := (qs_next_waiter capable, ''c1'') # qs_waiting capable,
         qs_clones := (qs_next_waiter capable, 0) # qs_clones capable,
         qs_next_waiter := Suc (qs_next_waiter capable)\<rparr>)"
    using command_started by fastforce
  then show ?thesis
    using reachable_step [OF reachable_capable] by (simp add: commanded_def capable_eq)
qed

lemma reachable_answered: "live_reachable answered"
  unfolding answered_def
  by (intro reachable_turn_first reachable_commanded) (simp add: commanded_def capable_eq)

lemma response_accepted:
  "accept_envelope letter_ports cid ch demo_response st = (Inr None, deliver_response demo_response st)"
proof -
  have "validate_quic_envelope demo_response = Inr ()" by code_simp
  then show ?thesis by (simp add: accept_envelope_def demo_response_def demo_envelope_def)
qed

lemma answered_eq:
  "answered = commanded\<lparr>qs_live := deliver_response demo_response commanded_live,
     qs_running := [\<lparr>cn_id = 1, cn_channel = 0, cn_device = Some ''d'', cn_input = frames []\<rparr>]\<rparr>"
  using turn_first_letter [of commanded
      "\<lparr>cn_id = 1, cn_channel = 0, cn_device = Some ''d'', cn_input = frames [''r'']\<rparr>" "[]"
      "''r''" "[]" demo_response None] response_accepted
  by (simp add: answered_def commanded_def capable_eq letter_parse_def)

end
