(* ===== verification/Companion_Ends.thy ===== *)
theory Companion_Ends
  imports Companion_Connections_Facts
begin

text \<open>
  The end of a connection that said hello for more than one device. When its stream has ended,
  only the device it served last is disconnected before the writer is awaited; the session of any
  other device keeps a sender of the writer's channel, so the writer does not end and the cleanup
  that would remove the session is not reached.
\<close>

text \<open>The writer has not failed, and the commands for the device still go to this connection.\<close>

definition still_reached :: "string \<Rightarrow> connection \<Rightarrow> quic_server \<Rightarrow> bool" where
  "still_reached d cn q \<longleftrightarrow>
     ob_open (lv_outboxes (qs_live q) (cn_channel cn)) \<and>
     bt_get d (lv_sessions (qs_live q)) =
       Some \<lparr>sh_connection_id = cn_id cn, sh_outgoing = cn_channel cn\<rparr>"

definition stranded :: "string \<Rightarrow> connection \<Rightarrow> quic_server \<Rightarrow> bool" where
  "stranded d cn q \<longleftrightarrow>
     cn \<in> set (qs_draining q) \<and> still_reached d cn q \<and>
     bt_get d (ig_sessions (lv_ingress (qs_live q))) \<noteq> None"

lemma reached_not_done: "still_reached d cn q \<Longrightarrow> \<not> writer_done q (cn_channel cn)"
  by (force simp: still_reached_def writer_done_def has_sender_def bt_get_def dest: map_of_SomeD)

text \<open>Nothing the listener does next cleans the connection up.\<close>

lemma stranded_waits:
  assumes "stranded d cn q" and "server_step P F parse q q'"
  shows "cn \<in> set (qs_draining q')"
proof -
  have mem: "cn \<in> set (qs_draining q)" and busy: "\<not> writer_done q (cn_channel cn)"
    using assms(1) reached_not_done by (auto simp: stranded_def)
  show ?thesis
    using assms(2)
  proof cases
    case (drained i cn1)
    then have "cn \<noteq> cn1" using busy by auto
    then show ?thesis using drained mem remove_at_mem [OF drained(2)] by auto
  qed (use mem in auto)
qed

text \<open>No step of the listener makes the ingress forget a session.\<close>

lemma turn_remembers:
  assumes "control_turn P F parse c t cn st = (r, st')"
    and "bt_get d (ig_sessions (lv_ingress st)) \<noteq> None"
  shows "bt_get d (ig_sessions (lv_ingress st')) \<noteq> None"
proof -
  have accept: ?thesis if acc: "accept_envelope P (cn_id cn) (cn_channel cn) e st = (a, st')" for e a
    using acc
  proof (cases rule: accept_envelope_cases)
    case (session response st1)
    then show ?thesis using live_ingress_sessions(2) [OF assms(2)] by simp
  qed (use assms(2) in simp_all)
  have beat: "send_heartbeat P (cn_id cn) (cn_channel cn) target ts st = (a, st') \<Longrightarrow> ?thesis" for target ts a
    using heartbeat_frame(2) assms(2) by metis
  have same: "st' = st \<Longrightarrow> ?thesis" using assms(2) by simp
  show ?thesis
    using assms(1) accept beat same
    by (auto simp: control_turn_def split: turn.splits sum.splits prod.splits option.splits)
qed

lemma step_remembers:
  assumes "server_step P F parse q q'" and "bt_get d (ig_sessions (lv_ingress (qs_live q))) \<noteq> None"
  shows "bt_get d (ig_sessions (lv_ingress (qs_live q'))) \<noteq> None"
  using assms(1)
  by cases (use assms(2) in \<open>auto dest: turn_remembers start_command_frame(2) finish_command_frame(2)\<close>)

lemma stranded_step:
  assumes "stranded d cn q" and "server_step P F parse q q'" and "still_reached d cn q'"
  shows "stranded d cn q'"
  using assms stranded_waits [OF assms(1,2)] step_remembers [OF assms(2), of d]
  by (simp add: stranded_def)

text \<open>C22. A device stays online on a connection that is no longer served: when the stream of a connection ends
  while its last message named another device than one it had said hello for, only the device named
  last is disconnected. The other one keeps its session, and from then on, through any run of the
  listener in which no write to the companion fails and the session stays as it is (another hello
  for the device would replace it), the core lists the device, a command to it is accepted and put
  into the queue of this connection, and whatever step comes next is not the cleanup of the
  connection: it waits for a writer that waits for its last sender, which is the session.\<close>

theorem other_device_stays_online:
  assumes "reachable server_start (server_step P F parse) q"
    and "i < length (qs_running q)" and "cn = qs_running q ! i"
    and "still_reached d cn q" and "bt_get d (ig_sessions (lv_ingress (qs_live q))) \<noteq> None"
    and "cn_device cn \<noteq> Some d"
    and "read_control_frame F c (cn_input cn) = Inl err"
    and "error_code err = ''COMPANION_QUIC_CONTROL_CLOSED''"
    and "ended = q\<lparr>qs_live := disconnect (cn_id cn) (cn_device cn) (qs_live q),
           qs_running := remove_at i (qs_running q), qs_draining := cn # qs_draining q\<rparr>"
    and "reachable (\<lambda>x. x = ended) (\<lambda>a b. server_step P F parse a b \<and> still_reached d cn b) q'"
  shows "server_step P F parse q ended \<and>
         (\<forall>q''. server_step P F parse q' q'' \<longrightarrow> cn \<in> set (qs_draining q'')) \<and>
         d \<in> set (map dv_device_id (transport_registry (qs_live q'))) \<and>
         (\<forall>w e b. tp_to_vec P e = Inr b \<longrightarrow>
            fst (start_command P w d e (qs_live q')) = Inr (command_request_id e) \<and>
            ob_messages (lv_outboxes (snd (start_command P w d e (qs_live q'))) (cn_channel cn)) =
              ob_messages (lv_outboxes (qs_live q') (cn_channel cn)) @ [b])"
proof -
  have "control_turn (P\<lparr>tp_order := tp_order P\<rparr>) F parse c Frame (qs_running q ! i) (qs_live q) =
      (Inl (Inr ()), qs_live q)"
    using assms(3,7,8) by (simp add: control_turn_def)
  from loop_ended [OF assms(2) _ this assms(3)] have step: "server_step P F parse q ended"
    by (simp add: interrupts_def assms(9))
  have "stranded d cn ended"
    using assms(4-6) by (simp add: stranded_def still_reached_def assms(9) disconnect_gets)
  with assms(10) have q': "stranded d cn q' \<and> server_ok q'"
    using listener.reach_inv [OF reachable_step [OF assms(1) step]]
    by (induction rule: reachable.induct) (auto intro: stranded_step server_step_ok)
  then have "registry_abs (lv_registry (qs_live q')) d \<noteq> None"
    by (simp add: stranded_def still_reached_def server_ok_def devices_listed_def)
  then have "d \<in> set (map dv_device_id (transport_registry (qs_live q')))"
    by (auto simp: transport_registry_def registry_abs_def dest: find_SomeD)
  moreover have "still_reached d cn q'" using q' by (simp add: stranded_def)
  ultimately show ?thesis
    using step stranded_waits [OF conjunct1 [OF q']]
    by (simp add: still_reached_def start_command_def Let_def outgoing_send_def)
qed

end
