(* ===== verification/Transport_Witnesses.thy ===== *)
theory Transport_Witnesses
  imports Live_Runs Companion_Ends
begin

text \<open>
  The properties of the transports, of the process around the core and of the Android client, each
  applied to a concrete state in which its hypotheses hold.
\<close>

subsection \<open>The live transport\<close>

theorem live_transport_invariant_witness:
  "bt_get ''d'' (lv_sessions (qs_live capable)) = Some \<lparr>sh_connection_id = 1, sh_outgoing = 0\<rparr> \<and>
   (\<exists>cn \<in> set (qs_running capable). cn_id cn = 1 \<and> cn_channel cn = 0) \<and>
   distinct (map dv_device_id (transport_registry (qs_live capable)))"
proof -
  have h: "bt_get ''d'' (lv_sessions (qs_live capable)) = Some \<lparr>sh_connection_id = 1, sh_outgoing = 0\<rparr>"
    using capable_handle by (simp add: capable_eq)
  from live_transport_invariant [OF reachable_capable]
  have "\<forall>d h. bt_get d (lv_sessions (qs_live capable)) = Some h \<longrightarrow>
      (\<exists>cn \<in> set (qs_running capable) \<union> set (qs_draining capable).
         cn_id cn = sh_connection_id h \<and> cn_channel cn = sh_outgoing h)"
    and "distinct (map dv_device_id (transport_registry (qs_live capable)))" by blast+
  moreover have "qs_draining capable = []" by (simp add: capable_eq)
  ultimately show ?thesis using h by fastforce
qed

theorem responses_match_commands_witness:
  "\<exists>e. lv_delivered (qs_live answered) 0 = Some e \<and> response_request_id e = ''c1'' \<and>
     fst (finish_command 0 ''c1'' [] (qs_live answered)) = command_result e"
proof -
  have "(0, ''c1'') \<in> set (qs_waiting answered)" by (simp add: answered_eq commanded_def)
  moreover have "is_ok (fst (finish_command 0 ''c1'' [] (deliver_response demo_response commanded_live)))"
    by code_simp
  then have "is_ok (fst (finish_command 0 ''c1'' [] (qs_live answered)))" by (simp add: answered_eq)
  ultimately show ?thesis
    using responses_match_commands [OF reachable_answered, of 0 "''c1''" "[]"
        "fst (finish_command 0 ''c1'' [] (qs_live answered))" "snd (finish_command 0 ''c1'' [] (qs_live answered))"]
    by (auto simp: is_ok_iff)
qed

theorem envelope_effect_witness:
  "\<exists>answer b. fst (live_ingress letter_ports demo_hello (new_live [])) = Inr answer \<and>
     tp_to_vec letter_ports answer = Inr b \<and> ob_messages (lv_outboxes hello_live 0) = [b] \<and>
     bt_get ''d'' (lv_sessions hello_live) = Some \<lparr>sh_connection_id = 1, sh_outgoing = 0\<rparr>"
proof -
  have p: "accept_envelope letter_ports 1 0 demo_hello (new_live []) =
      (fst (accept_envelope letter_ports 1 0 demo_hello (new_live [])), hello_live)"
    by (simp add: hello_live_def)
  have sent: "length (ob_messages (lv_outboxes hello_live 0)) = 1"
    and set_: "map_option sh_connection_id (bt_get ''d'' (lv_sessions hello_live)) = Some 1"
    by code_simp+
  have start: "ob_messages (lv_outboxes (new_live []) 0) = []" "bt_get ''d'' (lv_sessions (new_live [])) = None"
    by (simp_all add: new_live_def bt_get_def)
  from envelope_effect [OF p] have
    a: "lv_outboxes hello_live 0 = lv_outboxes (new_live []) 0 \<or>
       (\<exists>answer b. fst (live_ingress letter_ports demo_hello (new_live [])) = Inr answer \<and>
          tp_to_vec letter_ports answer = Inr b \<and>
          ob_messages (lv_outboxes hello_live 0) = ob_messages (lv_outboxes (new_live []) 0) @ [b])"
    and b: "bt_get ''d'' (lv_sessions hello_live) \<noteq> bt_get ''d'' (lv_sessions (new_live [])) \<Longrightarrow>
       bt_get ''d'' (lv_sessions hello_live) = Some \<lparr>sh_connection_id = 1, sh_outgoing = 0\<rparr>"
    by blast+
  have "bt_get ''d'' (lv_sessions hello_live) = Some \<lparr>sh_connection_id = 1, sh_outgoing = 0\<rparr>"
    using b set_ start(2) by auto
  moreover have "lv_outboxes hello_live 0 \<noteq> lv_outboxes (new_live []) 0" using sent start(1) by auto
  ultimately show ?thesis using a start(1) by auto
qed

definition first_connection :: connection where
  "first_connection = \<lparr>cn_id = 1, cn_channel = 0, cn_device = Some ''d'', cn_input = []\<rparr>"

theorem disconnected_device_returns_witness:
  "\<exists>st'. accept_envelope letter_ports 2 1 demo_heartbeat
       (disconnect_connection 1 (disconnect 1 (Some ''d'') capable_live)) = (Inr (Some ''other''), st') \<and>
     registry_abs (transport_registry (disconnect_connection 1 (disconnect 1 (Some ''d'') capable_live))) ''d'' = None \<and>
     registry_abs (transport_registry st') ''d'' \<noteq> None \<and> bt_get ''d'' (lv_sessions st') = None"
proof -
  let ?st = "disconnect_connection 1 (disconnect 1 (Some ''d'') capable_live)"
  have "server_ok capable" using reachable_capable by (rule listener.reach_inv)
  then have c: "registry_coherent capable_live" by (simp add: server_ok_def capable_eq)
  have "bt_get ''d'' (ig_sessions (lv_ingress capable_live)) \<noteq> None" by code_simp
  then obtain s where s: "bt_get ''d'' (ig_sessions (lv_ingress capable_live)) = Some s" by auto
  have h: "held_by (cn_id first_connection) capable_live ''d''"
    using capable_handle by (simp add: held_by_def first_connection_def)
  have v: "validate_quic_envelope demo_heartbeat = Inr ()" by code_simp
  have k: "ev_kind demo_heartbeat \<notin> {Hello, CommandResponse, ErrorMessage}"
    by (simp add: demo_heartbeat_def demo_envelope_def)
  have r: "fst (accept_envelope letter_ports 2 1 demo_heartbeat ?st) = Inr (Some ''other'')" by code_simp
  then have p: "accept_envelope letter_ports 2 1 demo_heartbeat ?st =
      (Inr (Some ''other''), snd (accept_envelope letter_ports 2 1 demo_heartbeat ?st))"
    by (simp add: prod_eq_iff)
  have g: "?st = disconnect_connection (cn_id first_connection)
      (disconnect (cn_id first_connection) (cn_device first_connection) capable_live)"
    by (simp add: first_connection_def)
  from disconnected_device_returns [OF c s h disjI2 [OF disjI1 [OF g]] v k p] p show ?thesis by blast
qed

text \<open>A hello for \<open>d\<close>, then a heartbeat that names another device, then the end of the stream.\<close>

definition wandered :: quic_server where
  "wandered = turn_first (turn_first (connect (frames [''h'', ''b'']) live_start))"

definition wandered_live :: live where
  "wandered_live = snd (accept_envelope letter_ports 1 0 demo_heartbeat hello_live)"

definition wandered_connection :: connection where
  "wandered_connection = \<lparr>cn_id = 1, cn_channel = 0, cn_device = Some ''other'', cn_input = []\<rparr>"

lemma reachable_wandered: "live_reachable wandered"
  unfolding wandered_def by (intro reachable_turn_first reachable_connect reachable_live_start) simp_all

lemma heartbeat_accepted:
  "fst (accept_envelope letter_ports 1 0 demo_heartbeat hello_live) = Inr (Some ''other'')"
  by code_simp

lemma wandered_eq:
  "wandered = \<lparr>qs_live = wandered_live, qs_running = [wandered_connection], qs_draining = [], qs_next_id = 2,
     qs_next_channel = 1, qs_waiting = [], qs_clones = [], qs_next_waiter = 0\<rparr>"
proof -
  have "turn_first (connect (frames [''h'', ''b'']) live_start) =
      \<lparr>qs_live = hello_live, qs_running = [\<lparr>cn_id = 1, cn_channel = 0, cn_device = Some ''d'',
         cn_input = frames [''b'']\<rparr>], qs_draining = [], qs_next_id = 2,
       qs_next_channel = 1, qs_waiting = [], qs_clones = [], qs_next_waiter = 0\<rparr>"
    using turn_first_letter [of "connect (frames [''h'', ''b'']) live_start"
        "\<lparr>cn_id = 1, cn_channel = 0, cn_device = None, cn_input = frames [''h'', ''b'']\<rparr>" "[]"
        "''h''" "[''b'']" demo_hello "Some ''d''"] hello_accepted
    by (simp add: connect_def live_start_def letter_parse_def hello_live_def)
  then show ?thesis
    using turn_first_letter [of "turn_first (connect (frames [''h'', ''b'']) live_start)"
        "\<lparr>cn_id = 1, cn_channel = 0, cn_device = Some ''d'', cn_input = frames [''b'']\<rparr>" "[]"
        "''b''" "[]" demo_heartbeat "Some ''other''"] heartbeat_accepted
    by (simp add: wandered_def letter_parse_def wandered_live_def wandered_connection_def frames_def)
qed

definition wandered_ended :: quic_server where
  "wandered_ended = wandered\<lparr>qs_live := disconnect 1 (Some ''other'') wandered_live,
     qs_running := [], qs_draining := [wandered_connection]\<rparr>"

theorem other_device_stays_online_witness:
  "live_reachable wandered_ended \<and>
   ''d'' \<in> set (map dv_device_id (transport_registry (qs_live wandered_ended))) \<and>
   fst (start_command letter_ports 0 ''d'' demo_hello (qs_live wandered_ended)) = Inr ''m'' \<and>
   \<not> server_step letter_ports network_order letter_parse wandered_ended
       (wandered_ended\<lparr>qs_live := disconnect_connection 1 (qs_live wandered_ended), qs_draining := []\<rparr>)"
proof -
  have r: "still_reached ''d'' wandered_connection wandered"
  proof -
    have "bt_get ''d'' (lv_sessions wandered_live) = Some \<lparr>sh_connection_id = 1, sh_outgoing = 0\<rparr>"
      and "ob_open (lv_outboxes wandered_live 0)" by code_simp+
    then show ?thesis by (simp add: still_reached_def wandered_eq wandered_connection_def)
  qed
  have s: "bt_get ''d'' (ig_sessions (lv_ingress (qs_live wandered))) \<noteq> None"
    unfolding wandered_eq by code_simp
  have e: "read_control_frame network_order [] (cn_input wandered_connection) =
      Inl (with_cause [] (quinn_error ''COMPANION_QUIC_CONTROL_CLOSED'' ''Companion QUIC control stream was closed.'' True))"
    by code_simp
  have c: "error_code (with_cause [] (quinn_error ''COMPANION_QUIC_CONTROL_CLOSED''
      ''Companion QUIC control stream was closed.'' True)) = ''COMPANION_QUIC_CONTROL_CLOSED''" by code_simp
  have i: "0 < length (qs_running wandered)" "wandered_connection = qs_running wandered ! 0"
    "cn_device wandered_connection \<noteq> Some ''d''" by (simp_all add: wandered_eq wandered_connection_def)
  have d: "wandered_ended = wandered\<lparr>qs_live := disconnect (cn_id wandered_connection)
      (cn_device wandered_connection) (qs_live wandered), qs_running := remove_at 0 (qs_running wandered),
      qs_draining := wandered_connection # qs_draining wandered\<rparr>"
    by (simp add: wandered_ended_def wandered_eq wandered_connection_def remove_at_def)
  have run: "reachable (\<lambda>x. x = wandered_ended) (\<lambda>a b. server_step letter_ports network_order letter_parse a b \<and>
      still_reached ''d'' wandered_connection b) wandered_ended" by (rule reachable_start) simp
  note stays = other_device_stays_online [OF reachable_wandered i(1,2) r s i(3) e c d run]
  have t: "tp_to_vec letter_ports demo_hello = Inr ''m''" "command_request_id demo_hello = ''m''"
    by (simp_all add: letter_ports_def demo_hello_def demo_envelope_def command_request_id_def get_str_def)
  have "wandered_connection \<notin> set (qs_draining
      (wandered_ended\<lparr>qs_live := disconnect_connection 1 (qs_live wandered_ended), qs_draining := []\<rparr>))" by simp
  then have "\<not> server_step letter_ports network_order letter_parse wandered_ended
      (wandered_ended\<lparr>qs_live := disconnect_connection 1 (qs_live wandered_ended), qs_draining := []\<rparr>)"
    using stays by blast
  moreover have "live_reachable wandered_ended" using stays reachable_step [OF reachable_wandered] by blast
  moreover have "fst (start_command letter_ports 0 ''d'' demo_hello (qs_live wandered_ended)) = Inr ''m''"
    using stays t by simp
  ultimately show ?thesis using stays by blast
qed

theorem refused_hello_takes_over_witness:
  "\<exists>err st'. fst (dispatch_envelope plain_text (\<lambda>s. Inl []) Media_ok broken_hello (lv_ingress capable_live)) = Inl err \<and>
     st' = snd (accept_envelope letter_ports 2 1 broken_hello capable_live) \<and>
     fst (start_command letter_ports 7 ''d'' demo_hello st') = Inr ''m'' \<and>
     ob_messages (lv_outboxes (snd (start_command letter_ports 7 ''d'' demo_hello st')) 1) =
       ob_messages (lv_outboxes st' 1) @ [''m'']"
proof -
  let ?r = "accept_envelope letter_ports 2 1 broken_hello capable_live"
  have v: "validate_quic_envelope broken_hello = Inr ()" by code_simp
  have k: "ev_kind broken_hello = Hello" "ev_device_id broken_hello = Some ''d''"
    by (simp_all add: broken_hello_def demo_envelope_def)
  have "\<not> is_ok (fst (dispatch_envelope plain_text (\<lambda>s. Inl []) Media_ok broken_hello (lv_ingress capable_live)))"
    by code_simp
  then obtain err where e: "fst (dispatch_envelope plain_text (\<lambda>s. Inl []) Media_ok broken_hello
      (lv_ingress capable_live)) = Inl err"
    by (cases "fst (dispatch_envelope plain_text (\<lambda>s. Inl []) Media_ok broken_hello (lv_ingress capable_live))")
      auto
  then have e': "fst (dispatch_envelope (tp_serde letter_ports) (tp_base64 letter_ports) (tp_media letter_ports)
      broken_hello (lv_ingress capable_live)) = Inl err"
    by (simp add: letter_ports_def)
  have p: "?r = (fst ?r, snd ?r)" by simp
  have t: "tp_to_vec letter_ports demo_hello = Inr ''m''" "command_request_id demo_hello = ''m''"
    by (simp_all add: letter_ports_def demo_hello_def demo_envelope_def command_request_id_def get_str_def)
  have o: "ob_open (lv_outboxes (snd ?r) 1)" by code_simp
  note taken = refused_hello_takes_over [OF v k e' p t(1) o, of 7, unfolded t(2)]
  show ?thesis
    by (rule exI [of _ err], rule exI [of _ "snd ?r"], intro conjI)
      (rule e refl taken [THEN conjunct2, THEN conjunct1] taken [THEN conjunct2, THEN conjunct2])+
qed

definition braces :: string where
  "braces = ''{abc}''"

definition waiting_connection :: connection where
  "waiting_connection = \<lparr>cn_id = 1, cn_channel = 0, cn_device = Some ''d'',
     cn_input = framed network_order braces\<rparr>"

theorem heartbeat_breaks_frame_witness:
  "\<exists>cn' st'. control_turn letter_ports network_order letter_parse [] (Tick 5 4) waiting_connection (new_live []) = (Inr cn', st') \<and>
     read_control_frame network_order [] (cn_input waiting_connection) = Inr (braces, []) \<and>
     control_turn letter_ports network_order letter_parse [] Frame cn' st' = (Inl (Inl frame_length_invalid), st')"
proof -
  have "\<exists>cn' st'. control_turn letter_ports network_order letter_parse [] (Tick 5 4) waiting_connection (new_live []) =
      (Inr cn', st')"
    by (simp add: control_turn_def waiting_connection_def send_heartbeat_def letter_ports_def
        outgoing_send_def new_live_def Let_def)
  then obtain cn' st' where p: "control_turn letter_ports network_order letter_parse [] (Tick 5 4)
      waiting_connection (new_live []) = (Inr cn', st')" by blast
  have i: "cn_input waiting_connection = framed network_order braces @ []"
    "cn_device waiting_connection = Some ''d''" by (simp_all add: waiting_connection_def)
  have b: "sendable braces" "4 \<le> length braces" "hd braces \<noteq> CHR 0x00"
    by (simp_all add: sendable_def braces_def max_control_message_bytes_def)
  from heartbeat_breaks_frame [OF i(1) b i(2) p] p show ?thesis by blast
qed

subsection \<open>The wire\<close>

theorem cut_stream_keeps_messages_whole_witness:
  "\<exists>n. fst (read_frames network_order [] (take 9 (snd (write_frames network_order byte_sink [''abc'', ''de''] [])))) =
     take n [''abc'', ''de'']"
proof -
  have "list_all sendable [''abc'', ''de'']" by (simp add: sendable_def max_control_message_bytes_def)
  from cut_stream_keeps_messages_whole [OF network_order_ok this] show ?thesis by blast
qed

theorem control_stream_roundtrip_witness:
  "\<exists>rest. read_preface [] (client_write_loop network_order byte_sink [''hi'', [], ''lost'']
             (snd (client_preface byte_sink []))) = Inr rest \<and>
     read_frames network_order [] rest = ([''hi''], frame_length_invalid)"
  using control_stream_roundtrip [OF network_order_ok, of "[]" "[''hi'', [], ''lost'']" "[]"]
  by (auto simp: client_max_message_bytes_def)

theorem video_queue_bounded_witness:
  "\<exists>nc. reachable client_start client_step nc \<and>
     (\<forall>k. length (nc_video_queues (snd (send_video_frame (\<lambda>_. True) ''s''
        \<lparr>vp_presentation_time_us = 0, vp_flags = 0, vp_data = []\<rparr> nc)) k) \<le> video_queue_capacity)"
proof -
  let ?io = "\<lparr>io_runtime = Inr (), io_parse_url = (\<lambda>s. Inr \<lparr>url_scheme = ''quic'', url_host = Some ''h'', url_port = Some 1\<rparr>),
    io_add_root = (\<lambda>s. Inr ()), io_crypto = Inr (), io_lookup = (\<lambda>h p. Inr [IPv4 ''h'']),
    io_endpoint = (\<lambda>a. Inr ()), io_start = (\<lambda>a s. Inr ()), io_handshake = Some (Inr ()),
    io_open_bi = Inr (), io_sha256_hex = (\<lambda>s. s)\<rparr>"
  obtain nc where "fst (native_connect ?io byte_sink ''quic://h:1'' ''core'' ''cert'' []) = Inr nc"
    by (simp add: native_connect_def connect_checks_def checked_endpoint_def connect_handshake_def
        resolve_remote_def client_preface_def write_parts_bytes flush_bytes del: write_parts.simps)
  then have r: "reachable client_start client_step nc"
    by (intro reachable_start) (auto simp: client_start_def)
  have "send_video_frame (\<lambda>_. True) ''s'' \<lparr>vp_presentation_time_us = 0, vp_flags = 0, vp_data = []\<rparr> nc =
     (fst (send_video_frame (\<lambda>_. True) ''s'' \<lparr>vp_presentation_time_us = 0, vp_flags = 0, vp_data = []\<rparr> nc),
      snd (send_video_frame (\<lambda>_. True) ''s'' \<lparr>vp_presentation_time_us = 0, vp_flags = 0, vp_data = []\<rparr> nc))"
    by simp
  from video_queue_bounded [OF r this] r show ?thesis by blast
qed

end
