(* ===== verification/Process_Run.thy ===== *)
theory Process_Run
  imports Startup Stdio Diagnostics
begin

text \<open>
  The whole process of \<open>main.rs\<close>: diagnostics on, the start, the stdio loop until the input ends,
  and the exit code. Here a line of input is handled as \<open>protocol.rs\<close> does it, with the two events
  recorded around each request. The diagnostics worker is another thread: \<open>worker i\<close> is what it has
  done to the shared state before the i-th line is handled.
\<close>

record event_clock =
  ek_start :: nat
  ek_end :: nat
  ek_elapsed :: nat

record diag_io =
  dio_shown :: "json \<Rightarrow> string"
  dio_process_id :: nat
  dio_session :: "string option"
  dio_spawned :: bool
  dio_now :: nat
  dio_exit_now :: nat
  dio_clock :: "nat \<Rightarrow> event_clock"
  dio_worker :: "nat \<Rightarrow> diagnostics \<Rightarrow> diagnostics"

definition traced_json_line ::
    "diag_io \<Rightarrow> event_clock \<Rightarrow> ('n, 'w) core_ports \<Rightarrow> (string \<Rightarrow> string + ipc_request) \<Rightarrow> string \<Rightarrow>
     (manager \<times> ('n, 'w) core) \<times> diagnostics \<Rightarrow> ipc_response \<times> (manager \<times> ('n, 'w) core) \<times> diagnostics" where
  "traced_json_line D k P parse line s =
     (case s of (st, dg) \<Rightarrow>
        case parse line of
          Inl c \<Rightarrow>
            (ipc_failure None (with_cause c (ipc_error ''IPC_INVALID_JSON''
               ''IPC request must be a valid JSON object.'')), st, dg)
        | Inr rq \<Rightarrow>
            (let dg1 = record_event (dio_shown D) (ek_start k) (dio_process_id D) ''request.start''
                         (rq_method rq) (rq_id rq) True 0 None dg
             in case core_handle_request P rq st of
                  (r, st') \<Rightarrow>
                    (r, st', record_event (dio_shown D) (ek_end k) (dio_process_id D) ''request.end''
                       (rq_method rq) (rq_id rq) (rs_ok r) (ek_elapsed k)
                       (map_option error_code (rs_error r)) dg1)))"

fun serve_traced ::
    "diag_io \<Rightarrow> encoder \<Rightarrow> ('n, 'w) core_ports \<Rightarrow> (string \<Rightarrow> string + ipc_request) \<Rightarrow> 'o sink \<Rightarrow> nat \<Rightarrow>
     (string + string) list \<Rightarrow> (manager \<times> ('n, 'w) core) \<times> diagnostics \<Rightarrow> 'o \<Rightarrow>
     (app_error + unit) \<times> ((manager \<times> ('n, 'w) core) \<times> diagnostics) \<times> 'o" where
  "serve_traced D en P parse K i [] s w = (Inr (), s, w)"
| "serve_traced D en P parse K i (Inl c # ls) s w =
     (Inl (stdio_error ''IPC_READ_FAILED'' ''Failed to read IPC request line.'' c), s, w)"
| "serve_traced D en P parse K i (Inr line # ls) s w =
     (case traced_json_line D (dio_clock D i) P parse line (fst s, dio_worker D i (snd s)) of
        (r, s') \<Rightarrow>
          (case write_response_line K (encode_response en r) w of
             (Inl e, w') \<Rightarrow> (Inl e, s', w')
           | (Inr _, w') \<Rightarrow> serve_traced D en P parse K (Suc i) ls s' w'))"

text \<open>
  The events a phone reports through the remote service enter the same queue; \<open>now\<close> is the clock
  at the i-th of them.
\<close>

definition record_client_event ::
    "(json \<Rightarrow> string) \<Rightarrow> nat \<Rightarrow> nat \<Rightarrow> string \<Rightarrow> client_event \<Rightarrow> diagnostics \<Rightarrow> diagnostics" where
  "record_client_event shown now pid session_id ev dg =
     record_event shown now pid ''mobile.client'' (safe (ce_phase ev) 96) (''mobile-'' @ session_id) (ce_ok ev)
       (ce_elapsed_ms ev) (if ce_ok ev then None else Some (safe (ce_error_code ev) 96)) dg"

fun record_client_events ::
    "(json \<Rightarrow> string) \<Rightarrow> (nat \<Rightarrow> nat) \<Rightarrow> nat \<Rightarrow> nat \<Rightarrow> string \<Rightarrow> client_event list \<Rightarrow> diagnostics \<Rightarrow> diagnostics" where
  "record_client_events shown now i pid session_id [] dg = dg"
| "record_client_events shown now i pid session_id (ev # evs) dg =
     record_client_events shown now (Suc i) pid session_id evs
       (record_client_event shown (now i) pid session_id ev dg)"

definition traced_report ::
    "(json \<Rightarrow> string) \<Rightarrow> (nat \<Rightarrow> nat) \<Rightarrow> nat \<Rightarrow> serde_text \<Rightarrow> json \<Rightarrow> authenticated_session \<Rightarrow>
     'c service \<Rightarrow> diagnostics \<Rightarrow> 'c outcome \<times> diagnostics" where
  "traced_report shown now pid sm params s st dg =
     (let r = report_diagnostics sm params s st
      in (r, case remote_params sm ''report'' decode_report params of
               Inl e \<Rightarrow> dg
             | Inr p \<Rightarrow> if is_ok (fst r)
                        then record_client_events shown now 0 pid (safe (fst p) 64) (snd p) dg else dg))"

text \<open>
  \<open>main\<close>: the exit code, the files, the diagnostics and the output. The core is called with ports
  \<open>P\<close>; what is written to the standard error is left out. A process that does not get as far as
  its loop has no accounts and no core to show. The threads of the remote endpoint share the accounts
  and the core with the loop; here they take no step between two lines of input. How their steps
  and those of the loop's requests interleave is the pool of \<open>Concurrent_Requests\<close>.
\<close>

record ('o, 'w) process_end =
  pe_code :: nat
  pe_files :: files
  pe_diagnostics :: diagnostics
  pe_output :: 'o
  pe_state :: "(manager \<times> (live, 'w) core) option"

definition startup_failed :: "diag_io \<Rightarrow> app_error \<Rightarrow> diagnostics \<Rightarrow> diagnostics" where
  "startup_failed D e dg =
     flush (record_event (dio_shown D) (dio_exit_now D) (dio_process_id D) ''startup.failed'' ''manifest''
              ''startup'' False 0 (Some (error_code e)) dg)"

definition exit_recorded :: "diag_io \<Rightarrow> app_error + unit \<Rightarrow> diagnostics \<Rightarrow> diagnostics" where
  "exit_recorded D r dg =
     flush (case r of
        Inl e \<Rightarrow> record_event (dio_shown D) (dio_exit_now D) (dio_process_id D) ''exit'' ''process''
                   ''shutdown'' False 0 (Some (error_code e)) dg
      | Inr _ \<Rightarrow> record_event (dio_shown D) (dio_exit_now D) (dio_process_id D) ''exit'' ''process''
                   ''shutdown'' True 0 None dg)"

definition main_process ::
    "argon \<Rightarrow> start_io \<Rightarrow> diag_io \<Rightarrow> encoder \<Rightarrow> (live, 'w) core_ports \<Rightarrow> (string \<Rightarrow> string + ipc_request) \<Rightarrow>
     'o sink \<Rightarrow> (string + string) list \<Rightarrow> 'w \<Rightarrow> (nat \<Rightarrow> core_env) \<Rightarrow> files \<Rightarrow> diagnostics \<Rightarrow> 'o \<Rightarrow>
     ('o, 'w) process_end" where
  "main_process A io D en P parse K input world envs fs dg w =
     (let dg1 = initialize (dio_shown D) (dio_now D) (dio_process_id D) (dio_session D) (dio_spawned D) dg
      in case sio_manifest io of
           Inl e \<Rightarrow> \<lparr>pe_code = 1, pe_files = fs, pe_diagnostics = startup_failed D e dg1, pe_output = w,
                     pe_state = None\<rparr>
         | Inr _ \<Rightarrow>
             (case main_start A io world envs fs of
                (Inl e, fs1) \<Rightarrow> \<lparr>pe_code = 1, pe_files = fs1, pe_diagnostics = dg1, pe_output = w, pe_state = None\<rparr>
              | (Inr sd, fs1) \<Rightarrow>
                  (case serve_traced D en P parse K 0 input ((sd_accounts sd, sd_core sd), dg1) w of
                     (r, (st, dg2), w') \<Rightarrow>
                       \<lparr>pe_code = (case r of Inl _ \<Rightarrow> 1 | Inr _ \<Rightarrow> 0), pe_files = fs1,
                        pe_diagnostics = exit_recorded D r dg2, pe_output = w', pe_state = Some st\<rparr>)))"

subsection \<open>Facts\<close>

text \<open>Without its diagnostics, a line is handled as the core handles it.\<close>

lemma traced_line:
  "traced_json_line D k P parse line s =
     (fst (handle_json_line_result P parse line (fst s)), snd (handle_json_line_result P parse line (fst s)),
      snd (snd (traced_json_line D k P parse line s)))"
  by (simp add: traced_json_line_def handle_json_line_result_def Let_def case_prod_beta split: sum.splits)

text \<open>The diagnostics never interfere: whatever the worker does, answers and state are those of the loop without them.\<close>

lemma serve_traced_plain:
  "fst (serve_traced D en P parse K i ls s w) = fst (serve_json_lines en P parse K ls (fst s) w) \<and>
   fst (fst (snd (serve_traced D en P parse K i ls s w))) = fst (snd (serve_json_lines en P parse K ls (fst s) w)) \<and>
   snd (snd (serve_traced D en P parse K i ls s w)) = snd (snd (serve_json_lines en P parse K ls (fst s) w))"
proof (induction ls arbitrary: i s w)
  case (Cons l ls)
  show ?case
  proof (cases l)
    case (Inr line)
    let ?h = "handle_json_line_result P parse line (fst s)"
    obtain dg1 where t: "traced_json_line D (dio_clock D i) P parse line (fst s, dio_worker D i (snd s)) =
        (fst ?h, snd ?h, dg1)"
      using traced_line [of D "dio_clock D i" P parse line "(fst s, dio_worker D i (snd s))"]
      by (metis fst_conv)
    have l: "handle_json_line en P parse line (fst s) = (encode_response en (fst ?h), snd ?h)"
      by (simp add: handle_json_line_def case_prod_beta)
    show ?thesis
    proof (cases "write_response_line K (encode_response en (fst ?h)) w")
      case (Pair r w')
      then show ?thesis using Cons.IH [of "Suc i" "(snd ?h, dg1)" w'] by (cases r) (simp_all add: Inr t l)
    qed
  qed simp
qed simp

text \<open>What the queue and the counter of dropped events hold together.\<close>

definition accounted :: "diagnostics \<Rightarrow> 64 word" where
  "accounted dg = of_nat (length (dg_queue dg)) + dg_dropped dg"

lemma record_accounted:
  "accounted (record_event shown now pid stage mth trace ok elapsed code dg) =
     accounted dg + (if dg_started dg then 1 else 0)"
  "dg_started (record_event shown now pid stage mth trace ok elapsed code dg) = dg_started dg"
  by (auto simp: record_event_def accounted_def ok_iff split: option.splits)

lemma traced_accounted:
  assumes "dg_started dg"
  shows "accounted (snd (snd (traced_json_line D k P parse line (st, dg)))) =
     accounted dg + (if is_ok (parse line) then 2 else 0) \<and>
     dg_started (snd (snd (traced_json_line D k P parse line (st, dg))))"
  using assms
  by (cases "parse line")
    (simp_all add: traced_json_line_def Let_def case_prod_beta record_accounted)

lemma client_events_accounted:
  "dg_started dg \<Longrightarrow>
   accounted (record_client_events shown now i pid session_id evs dg) = accounted dg + of_nat (length evs) \<and>
   dg_started (record_client_events shown now i pid session_id evs dg)"
  by (induction evs arbitrary: i dg) (simp_all add: record_client_event_def record_accounted)

text \<open>A report adds one event for each of its own, and nothing when it is refused; so never more than fifty.\<close>

lemma traced_report_accounted:
  assumes "traced_report shown now pid sm params s st dg = (r, dg')" and "dg_started dg"
  shows "\<exists>n \<le> 50. accounted dg' = accounted dg + of_nat n \<and> (n = 0 \<longleftrightarrow> \<not> is_ok (fst r))"
proof (cases "remote_params sm ''report'' decode_report params")
  case (Inl e)
  then show ?thesis using assms by (intro exI [of _ 0]) (auto simp: traced_report_def report_diagnostics_def Let_def)
next
  case (Inr p)
  show ?thesis
  proof (cases "snd p = [] \<or> length (snd p) > 50")
    case True
    then show ?thesis using Inr assms
      by (intro exI [of _ 0]) (auto simp: traced_report_def report_diagnostics_def Let_def)
  next
    case False
    then show ?thesis using Inr assms client_events_accounted [OF assms(2)]
      by (intro exI [of _ "length (snd p)"]) (auto simp: traced_report_def report_diagnostics_def Let_def)
  qed
qed

text \<open>Every request leaves its trace: over a run of the stdio loop that does not end early, with a worker
  that is not taking lines, the queue and the counter of dropped events grow together by exactly two
  for every line that is a request, and by nothing for a line that is none. So no event is lost
  without being counted.\<close>

theorem requests_accounted:
  assumes "serve_traced D en P parse byte_sink i (map Inr ls) (st, dg) out = (r, (st', dg'), out')"
    and "dg_started dg" and "dio_worker D = (\<lambda>_ d. d)"
  shows "accounted dg' = accounted dg + 2 * of_nat (length (filter (\<lambda>l. is_ok (parse l)) ls))"
  using assms(1,2)
proof (induction ls arbitrary: i st dg out)
  case (Cons l ls)
  obtain x st1 dg1 where t: "traced_json_line D (dio_clock D i) P parse l (st, dg) = (x, st1, dg1)"
    by (metis prod.exhaust)
  have a: "accounted dg1 = accounted dg + (if is_ok (parse l) then 2 else 0)" "dg_started dg1"
    using traced_accounted [OF Cons.prems(2), of D "dio_clock D i" P parse l st] t by simp_all
  have "serve_traced D en P parse byte_sink (Suc i) (map Inr ls) (st1, dg1) (out @ encode_response en x @ [newline]) =
      (r, (st', dg'), out')"
    using Cons.prems(1) t by (simp add: write_line_bytes assms(3))
  from Cons.IH [OF this a(2)] show ?case using a(1) by simp
qed simp

text \<open>The lines of the input up to the first that cannot be read.\<close>

fun readable :: "(string + string) list \<Rightarrow> string list" where
  "readable [] = []"
| "readable (Inl c # input) = []"
| "readable (Inr line # input) = line # readable input"

lemma serve_readable:
  "fst (serve_json_lines en P parse byte_sink input st w) = Inr () \<longleftrightarrow> list_all is_ok input"
  "snd (serve_json_lines en P parse byte_sink input st w) =
     (snd (answers_to P parse (readable input) st),
      w @ concat (map (\<lambda>r. encode_response en r @ [newline]) (fst (answers_to P parse (readable input) st))))"
  by (induction input arbitrary: st w rule: readable.induct)
    (simp_all add: handle_json_line_def write_line_bytes case_prod_beta)

text \<open>The end of a process that did not start, and of one that did.\<close>

lemma process_refused:
  assumes "main_process A io D en P parse K input world envs fs dg w = e"
    and "fst (main_start A io world envs fs) = Inl err"
  shows "pe_code e = 1 \<and> pe_output e = w \<and> pe_state e = None"
  using assms
  by (cases "main_start A io world envs fs"; cases "sio_manifest io") (auto simp: main_process_def Let_def)

lemma process_started:
  assumes "main_process A io D en P parse K input world envs fs dg w = e"
    and "fst (main_start A io world envs fs) = Inr sd"
  shows "pe_code e = (if fst (serve_json_lines en P parse K input (sd_accounts sd, sd_core sd) w) = Inr () then 0 else 1)"
    and "pe_state e = Some (fst (snd (serve_json_lines en P parse K input (sd_accounts sd, sd_core sd) w)))"
    and "pe_output e = snd (snd (serve_json_lines en P parse K input (sd_accounts sd, sd_core sd) w))"
proof -
  let ?st = "(sd_accounts sd, sd_core sd)"
  let ?dg = "initialize (dio_shown D) (dio_now D) (dio_process_id D) (dio_session D) (dio_spawned D) dg"
  let ?t = "serve_traced D en P parse K 0 input (?st, ?dg) w"
  have m: "is_ok (sio_manifest io)" using assms(2) by (auto simp: main_start_def split: sum.splits)
  have e: "pe_code e = (case fst ?t of Inl _ \<Rightarrow> 1 | Inr _ \<Rightarrow> 0)"
    "pe_state e = Some (fst (fst (snd ?t)))" "pe_output e = snd (snd ?t)"
    using assms m
    by (cases "main_start A io world envs fs"; cases "sio_manifest io";
        auto simp: main_process_def Let_def case_prod_beta)+
  then show "pe_code e = (if fst (serve_json_lines en P parse K input ?st w) = Inr () then 0 else 1)"
    and "pe_state e = Some (fst (snd (serve_json_lines en P parse K input ?st w)))"
    and "pe_output e = snd (snd (serve_json_lines en P parse K input ?st w))"
    using serve_traced_plain [of D en P parse K 0 input "(?st, ?dg)" w]
    by (auto split: sum.splits)
qed

text \<open>C16. The process answers or refuses, whatever its diagnostics do, as long as no remote client changes the
  shared state between two lines. A process that does not start ends with code 1 and has written
  nothing to its standard output. One that started ends with code 0 if its loop reached the end of
  the input and with code 1 if the loop ended early, because a line could not be read or a line of
  output could not be written. With an output that takes every write, what it wrote is one line per
  line of input up to the first that cannot be read, the n-th the encoded answer of the core that
  started to the n-th line; and it ends with code 0 exactly if every line could be read.\<close>

theorem process_answers_or_refuses:
  assumes "single_line en"
    and "main_process A io D en P parse K input world envs fs dg [] = e"
  shows "case fst (main_start A io world envs fs) of
           Inl _ \<Rightarrow> pe_code e = 1 \<and> pe_output e = [] \<and> pe_state e = None
         | Inr sd \<Rightarrow>
             pe_code e = (if fst (serve_json_lines en P parse K input (sd_accounts sd, sd_core sd) []) = Inr () then 0 else 1) \<and>
             (K = byte_sink \<longrightarrow>
                lines (pe_output e) =
                  map (encode_response en) (fst (answers_to P parse (readable input) (sd_accounts sd, sd_core sd))) \<and>
                length (lines (pe_output e)) = length (readable input) \<and>
                pe_state e = Some (snd (answers_to P parse (readable input) (sd_accounts sd, sd_core sd))) \<and>
                (pe_code e = 0 \<longleftrightarrow> list_all is_ok input))"
proof (cases "fst (main_start A io world envs fs)")
  case (Inl err)
  then show ?thesis using process_refused [OF assms(2)] by simp
next
  case (Inr sd)
  let ?rs = "fst (answers_to P parse (readable input) (sd_accounts sd, sd_core sd))"
  have "lines (concat (map (\<lambda>r. encode_response en r @ [newline]) ?rs)) = map (encode_response en) ?rs"
    using lines_of_lines [of "map (encode_response en) ?rs"] assms(1) by (auto simp: single_line_def o_def)
  then show ?thesis
    using Inr process_started [OF assms(2) Inr] by (simp add: serve_readable length_answers)
qed

end
