(* ===== verification/Android_Jni.thy ===== *)
theory Android_Jni
  imports Quic_Android
begin

text \<open>
  The functions the Android library exports to Java (the \<open>extern "system"\<close> functions of
  \<open>adbcontrol-quic-android/src/lib.rs\<close>). A handle is the address of a boxed client; the heap says
  which addresses hold one. A call returns, throws an \<open>IllegalStateException\<close>, or, when it
  dereferences an address that holds no client, has no defined behaviour. An argument Java passes
  is what its conversion gives, \<open>None\<close> when the conversion fails; a Java string the library could
  not create is the null reference, as is no string.
\<close>

type_synonym native_heap = "64 word \<rightharpoonup> native_client"

datatype 'a native_outcome = Returned 'a | Thrown string | Undefined

datatype java_value = JVoid | JHandle "64 word" | JBoolean bool | JText "string option"

definition null_handle :: "64 word" where
  "null_handle = 0"

definition client_from_handle :: "64 word \<Rightarrow> native_heap \<Rightarrow> native_client option native_outcome" where
  "client_from_handle h heap =
     (if h = null_handle then Returned None
      else (case heap h of None \<Rightarrow> Undefined | Some nc \<Rightarrow> Returned (Some nc)))"

text \<open>The common frame of the calls: \<open>closed\<close> is the answer to the null handle.\<close>

definition with_client ::
    "64 word \<Rightarrow> java_value native_outcome \<Rightarrow>
     (native_client \<Rightarrow> java_value native_outcome \<times> native_client) \<Rightarrow>
     native_heap \<Rightarrow> java_value native_outcome \<times> native_heap" where
  "with_client h closed f heap =
     (case client_from_handle h heap of
        Undefined \<Rightarrow> (Undefined, heap)
      | Thrown m \<Rightarrow> (Thrown m, heap)
      | Returned None \<Rightarrow> (closed, heap)
      | Returned (Some nc) \<Rightarrow> (case f nc of (r, nc') \<Rightarrow> (r, heap(h \<mapsto> nc'))))"

datatype panic_payload = Owned_text string | Static_text string | Other_payload

definition panic_detail :: "panic_payload \<Rightarrow> string" where
  "panic_detail p =
     (case p of Owned_text s \<Rightarrow> s | Static_text s \<Rightarrow> s | Other_payload \<Rightarrow> ''unknown native panic'')"

text \<open>\<open>addr\<close> is where the allocator puts the client; \<open>panicked\<close> is a panic on the way, with what had been sent.\<close>

definition java_connect ::
    "connect_io \<Rightarrow> 'o sink \<Rightarrow> (panic_payload \<times> 'o) option \<Rightarrow> 64 word \<Rightarrow>
     string option \<Rightarrow> string option \<Rightarrow> string option \<Rightarrow> native_heap \<Rightarrow> 'o \<Rightarrow>
     java_value native_outcome \<times> native_heap \<times> 'o" where
  "java_connect io K panicked addr endpoint server_name certificate heap w =
     (case endpoint of
        None \<Rightarrow> (Thrown ''QUIC endpoint is invalid'', heap, w)
      | Some e \<Rightarrow>
          (case server_name of
             None \<Rightarrow> (Thrown ''QUIC server name is invalid'', heap, w)
           | Some s \<Rightarrow>
               (case certificate of
                  None \<Rightarrow> (Thrown ''QUIC server certificate is missing'', heap, w)
                | Some c \<Rightarrow>
                    if c = [] then (Thrown ''QUIC server certificate is missing'', heap, w)
                    else
                      (case panicked of
                         Some (p, w') \<Rightarrow> (Thrown (''native QUIC panic: '' @ panic_detail p), heap, w')
                       | None \<Rightarrow>
                           (case native_connect io K e s c w of
                              (Inl err, w') \<Rightarrow> (Thrown (display_native_error err), heap, w')
                            | (Inr nc, w') \<Rightarrow> (Returned (JHandle addr), heap(addr \<mapsto> nc), w'))))))"

definition java_send_envelope ::
    "64 word \<Rightarrow> string option \<Rightarrow> native_heap \<Rightarrow> java_value native_outcome \<times> native_heap" where
  "java_send_envelope h envelope_json =
     with_client h (Thrown ''native QUIC client is closed'') (\<lambda>nc.
       case envelope_json of
         None \<Rightarrow> (Thrown ''QUIC envelope JSON is invalid'', nc)
       | Some text \<Rightarrow>
           (case send_control text nc of
              (Inl err, nc') \<Rightarrow> (Thrown (display_native_error err), nc')
            | (Inr _, nc') \<Rightarrow> (Returned JVoid, nc')))"

text \<open>The time to wait, from a signed 32-bit number of milliseconds.\<close>

definition poll_timeout_ms :: "32 word \<Rightarrow> nat" where
  "poll_timeout_ms timeout_ms = nat (max (sint timeout_ms) 0)"

definition java_poll_envelope ::
    "(nat \<Rightarrow> recv_outcome) \<Rightarrow> (string \<Rightarrow> bool) \<Rightarrow> 64 word \<Rightarrow> 32 word \<Rightarrow> native_heap \<Rightarrow>
     java_value native_outcome \<times> native_heap" where
  "java_poll_envelope wait new_string h timeout_ms =
     with_client h (Returned (JText None)) (\<lambda>nc.
       (case receive_control_message (wait (poll_timeout_ms timeout_ms)) of
          Inr (Some m) \<Rightarrow> Returned (JText (if new_string m then Some m else None))
        | Inr None \<Rightarrow> Returned (JText None)
        | Inl err \<Rightarrow> Thrown (display_native_error err), nc))"

definition java_start_video_stream ::
    "(string \<Rightarrow> string + json) \<Rightarrow> (json \<Rightarrow> string) \<Rightarrow> 64 word \<Rightarrow> string option \<Rightarrow> native_heap \<Rightarrow>
     java_value native_outcome \<times> native_heap" where
  "java_start_video_stream parse wording h metadata_json =
     with_client h (Thrown ''native QUIC client is closed'') (\<lambda>nc.
       case metadata_json of
         None \<Rightarrow> (Thrown ''video stream metadata is invalid'', nc)
       | Some text \<Rightarrow>
           (case start_video_stream parse wording text nc of
              (Inl err, nc') \<Rightarrow> (Thrown (display_native_error err), nc')
            | (Inr _, nc') \<Rightarrow> (Returned JVoid, nc')))"

definition java_send_video_frame ::
    "(nat \<Rightarrow> bool) \<Rightarrow> 64 word \<Rightarrow> string option \<Rightarrow> 64 word \<Rightarrow> 32 word \<Rightarrow> string option \<Rightarrow> native_heap \<Rightarrow>
     java_value native_outcome \<times> native_heap" where
  "java_send_video_frame alive h session_id presentation_time_us flags data =
     with_client h (Returned (JBoolean False)) (\<lambda>nc.
       case session_id of
         None \<Rightarrow> (Returned (JBoolean False), nc)
       | Some s \<Rightarrow>
           (case data of
              None \<Rightarrow> (Returned (JBoolean False), nc)
            | Some d \<Rightarrow>
                (case send_video_frame alive s
                        \<lparr>vp_presentation_time_us = presentation_time_us, vp_flags = flags, vp_data = d\<rparr> nc of
                   (taken, nc') \<Rightarrow> (Returned (JBoolean taken), nc'))))"

definition java_stop_video_stream ::
    "64 word \<Rightarrow> string option \<Rightarrow> native_heap \<Rightarrow> java_value native_outcome \<times> native_heap" where
  "java_stop_video_stream h session_id =
     with_client h (Returned JVoid) (\<lambda>nc.
       (Returned JVoid, case session_id of None \<Rightarrow> nc | Some s \<Rightarrow> stop_video_stream s nc))"

definition java_fingerprint ::
    "(string \<Rightarrow> bool) \<Rightarrow> 64 word \<Rightarrow> native_heap \<Rightarrow> java_value native_outcome \<times> native_heap" where
  "java_fingerprint new_string h =
     with_client h (Returned (JText None)) (\<lambda>nc.
       (Returned (JText (if new_string (nc_fingerprint nc) then Some (nc_fingerprint nc) else None)), nc))"

text \<open>Closing frees the client; what dropping it does to it is gone with it.\<close>

definition java_close :: "64 word \<Rightarrow> native_heap \<Rightarrow> java_value native_outcome \<times> native_heap" where
  "java_close h heap =
     (if h = null_handle then (Returned JVoid, heap)
      else (case heap h of None \<Rightarrow> (Undefined, heap) | Some nc \<Rightarrow> (Returned JVoid, heap(h := None))))"

subsection \<open>The calls as one interface\<close>

datatype java_call =
    Send_envelope "string option"
  | Poll_envelope "nat \<Rightarrow> recv_outcome" "string \<Rightarrow> bool" "32 word"
  | Start_video_stream "string \<Rightarrow> string + json" "json \<Rightarrow> string" "string option"
  | Send_video_frame "nat \<Rightarrow> bool" "string option" "64 word" "32 word" "string option"
  | Stop_video_stream "string option"
  | Fingerprint "string \<Rightarrow> bool"
  | Close

fun java_run :: "64 word \<Rightarrow> java_call \<Rightarrow> native_heap \<Rightarrow> java_value native_outcome \<times> native_heap" where
  "java_run h (Send_envelope t) heap = java_send_envelope h t heap"
| "java_run h (Poll_envelope wait ns t) heap = java_poll_envelope wait ns h t heap"
| "java_run h (Start_video_stream p wd t) heap = java_start_video_stream p wd h t heap"
| "java_run h (Send_video_frame alive s t fl d) heap = java_send_video_frame alive h s t fl d heap"
| "java_run h (Stop_video_stream s) heap = java_stop_video_stream h s heap"
| "java_run h (Fingerprint ns) heap = java_fingerprint ns h heap"
| "java_run h Close heap = java_close h heap"

text \<open>
  A run of the app: the allocator gives a new client an address that holds none and is not null,
  every other call is made with the null handle or the handle of a client that is open, and the
  tasks of a client go on meanwhile.
\<close>

inductive java_step :: "native_heap \<Rightarrow> native_heap \<Rightarrow> bool" where
  connects:
    "addr \<noteq> null_handle \<Longrightarrow> heap addr = None \<Longrightarrow>
     java_step heap (fst (snd (java_connect io byte_sink panicked addr endpoint server cert heap [])))"
| calls: "h = null_handle \<or> heap h \<noteq> None \<Longrightarrow> java_step heap (snd (java_run h call heap))"
| task_runs: "heap h = Some nc \<Longrightarrow> client_step nc nc' \<Longrightarrow> java_step heap (heap(h \<mapsto> nc'))"

definition heap_ok :: "native_heap \<Rightarrow> bool" where
  "heap_ok heap \<longleftrightarrow> heap null_handle = None \<and> (\<forall>h nc. heap h = Some nc \<longrightarrow> client_ok nc)"

lemma with_client_null [simp]: "with_client null_handle closed f heap = (closed, heap)"
  by (simp add: with_client_def client_from_handle_def)

lemma with_client_open [simp]:
  "h \<noteq> null_handle \<Longrightarrow> heap h = Some nc \<Longrightarrow>
   with_client h closed f heap = (fst (f nc), heap(h \<mapsto> snd (f nc)))"
  by (simp add: with_client_def client_from_handle_def case_prod_beta)

lemma with_client_freed [simp]:
  "h \<noteq> null_handle \<Longrightarrow> heap h = None \<Longrightarrow> with_client h closed f heap = (Undefined, heap)"
  by (simp add: with_client_def client_from_handle_def)

lemmas java_call_defs =
  java_send_envelope_def java_poll_envelope_def java_start_video_stream_def java_send_video_frame_def
  java_stop_video_stream_def java_fingerprint_def java_close_def

text \<open>What a call does to an open client: nothing, or one of the client's steps.\<close>

definition tame :: "(native_client \<Rightarrow> java_value native_outcome \<times> native_client) \<Rightarrow> native_client \<Rightarrow> bool" where
  "tame f nc \<longleftrightarrow> fst (f nc) \<noteq> Undefined \<and> (snd (f nc) = nc \<or> client_step nc (snd (f nc)))"

lemma tame_send:
  "tame (\<lambda>nc. case send_control msg nc of
       (Inl err, nc') \<Rightarrow> (Thrown (display_native_error err), nc') | (Inr _, nc') \<Rightarrow> (Returned JVoid, nc')) nc"
  using sends_control [of nc msg]
  by (cases "send_control msg nc"; cases "fst (send_control msg nc)") (auto simp: tame_def)

lemma tame_start:
  "tame (\<lambda>nc. case start_video_stream parse wording msg nc of
       (Inl err, nc') \<Rightarrow> (Thrown (display_native_error err), nc') | (Inr _, nc') \<Rightarrow> (Returned JVoid, nc')) nc"
  using starts_video [of nc parse wording msg]
  by (cases "start_video_stream parse wording msg nc"; cases "fst (start_video_stream parse wording msg nc)")
    (auto simp: tame_def)

lemma tame_frame:
  "tame (\<lambda>nc. case send_video_frame alive s p nc of (taken, nc') \<Rightarrow> (Returned (JBoolean taken), nc')) nc"
  using sends_frame [of nc alive s p] by (simp add: tame_def case_prod_beta)

lemma tame_stop: "tame (\<lambda>nc. (Returned JVoid, stop_video_stream s nc)) nc"
  using stops_video [of nc s] by (simp add: tame_def)

lemma tame_same: "fst (f nc) \<noteq> Undefined \<Longrightarrow> snd (f nc) = nc \<Longrightarrow> tame f nc"
  by (simp add: tame_def)

text \<open>On an open client a call is defined, and it closes the client or does one of the client's steps.\<close>

definition open_effect :: "64 word \<Rightarrow> native_client \<Rightarrow> native_heap \<Rightarrow> java_value native_outcome \<times> native_heap \<Rightarrow> bool" where
  "open_effect h nc heap result \<longleftrightarrow>
     fst result \<noteq> Undefined \<and> (\<exists>nc'. snd result = heap(h \<mapsto> nc') \<and> (nc' = nc \<or> client_step nc nc'))"

lemma with_client_tame:
  "h \<noteq> null_handle \<Longrightarrow> heap h = Some nc \<Longrightarrow> tame f nc \<Longrightarrow> open_effect h nc heap (with_client h closed f heap)"
  by (auto simp: tame_def open_effect_def)

lemma java_run_open:
  assumes "h \<noteq> null_handle" and "heap h = Some nc" and "call \<noteq> Close"
  shows "open_effect h nc heap (java_run h call heap)"
proof (cases call)
  case (Send_envelope t)
  show ?thesis
    unfolding Send_envelope java_run.simps java_send_envelope_def
    by (rule with_client_tame [where h = h and heap = heap, OF assms(1,2)], cases t) (simp_all add: tame_same tame_send)
next
  case (Poll_envelope wait ns t)
  show ?thesis
    unfolding Poll_envelope java_run.simps java_poll_envelope_def
    by (rule with_client_tame [where h = h and heap = heap, OF assms(1,2)], rule tame_same) (auto split: sum.splits option.splits)
next
  case (Start_video_stream p wd t)
  show ?thesis
    unfolding Start_video_stream java_run.simps java_start_video_stream_def
    by (rule with_client_tame [where h = h and heap = heap, OF assms(1,2)], cases t) (simp_all add: tame_same tame_start)
next
  case (Send_video_frame alive s t fl d)
  show ?thesis
    unfolding Send_video_frame java_run.simps java_send_video_frame_def
    by (rule with_client_tame [where h = h and heap = heap, OF assms(1,2)], cases s; cases d) (simp_all add: tame_same tame_frame)
next
  case (Stop_video_stream s)
  show ?thesis
    unfolding Stop_video_stream java_run.simps java_stop_video_stream_def
    by (rule with_client_tame [where h = h and heap = heap, OF assms(1,2)], cases s) (simp_all add: tame_same tame_stop)
next
  case (Fingerprint ns)
  show ?thesis
    unfolding Fingerprint java_run.simps java_fingerprint_def
    by (rule with_client_tame [where h = h and heap = heap, OF assms(1,2)], rule tame_same) simp_all
qed (use assms(3) in simp)

lemma java_close_open:
  "h \<noteq> null_handle \<Longrightarrow> heap h = Some nc \<Longrightarrow> java_run h Close heap = (Returned JVoid, heap(h := None))"
  by (simp add: java_close_def)

lemma java_run_null: "fst (java_run null_handle call heap) \<noteq> Undefined \<and> snd (java_run null_handle call heap) = heap"
  by (cases call) (simp_all add: java_call_defs)

lemma java_run_freed:
  "h \<noteq> null_handle \<Longrightarrow> heap h = None \<Longrightarrow> java_run h call heap = (Undefined, heap)"
  by (cases call) (simp_all add: java_call_defs)

lemma surjective_pairs: "p = (fst p, fst (snd p), snd (snd p))"
  by simp

lemma java_connect_outcome:
  assumes "java_connect io K panicked addr endpoint server cert heap w = (r, heap', w')"
  shows "(\<exists>m. r = Thrown m) \<and> heap' = heap \<or>
         r = Returned (JHandle addr) \<and>
         (\<exists>nc e s c. heap' = heap(addr \<mapsto> nc) \<and> fst (native_connect io K e s c w) = Inr nc)"
proof (cases "\<exists>e s c. endpoint = Some e \<and> server = Some s \<and> cert = Some c \<and> c \<noteq> [] \<and> panicked = None")
  case True
  then obtain e s c where args: "endpoint = Some e" "server = Some s" "cert = Some c" "c \<noteq> []" "panicked = None"
    by blast
  show ?thesis
  proof (cases "fst (native_connect io K e s c w)")
    case (Inl err)
    then show ?thesis using assms args by (auto simp: java_connect_def case_prod_beta)
  next
    case (Inr nc)
    then have "r = Returned (JHandle addr)" "heap' = heap(addr \<mapsto> nc)"
      using assms args by (simp_all add: java_connect_def case_prod_beta)
    with Inr show ?thesis by blast
  qed
next
  case False
  then show ?thesis using assms by (auto simp: java_connect_def split: option.splits prod.splits if_splits)
qed

lemma heap_ok_upd: "heap_ok heap \<Longrightarrow> h \<noteq> null_handle \<Longrightarrow> client_ok nc \<Longrightarrow> heap_ok (heap(h \<mapsto> nc))"
  by (simp add: heap_ok_def)

lemma java_step_ok:
  assumes "heap_ok heap" and "java_step heap heap'"
  shows "heap_ok heap'"
  using assms(2)
proof cases
  case (connects addr io panicked endpoint server cert)
  have "client_ok nc" if "fst (native_connect io byte_sink e s c []) = Inr nc" for nc e s c
    by (rule client_start_ok) (use that client_start_def in blast)
  then show ?thesis
    using java_connect_outcome [OF surjective_pairs] assms(1) connects(2) heap_ok_upd
    unfolding connects(1) by metis
next
  case (calls h call)
  show ?thesis
  proof (cases "h = null_handle")
    case True
    then show ?thesis using calls java_run_null assms(1) by simp
  next
    case False
    with calls obtain nc where nc: "heap h = Some nc" by auto
    show ?thesis
    proof (cases "call = Close")
      case True
      then show ?thesis using calls(1) assms(1) java_close_open [where heap = heap, OF False nc] by (simp add: heap_ok_def)
    next
      case no_close: False
      then obtain nc' where "heap' = heap(h \<mapsto> nc')" "nc' = nc \<or> client_step nc nc'"
        using java_run_open [where heap = heap, OF False nc no_close] calls(1) by (auto simp: open_effect_def)
      moreover from this have "client_ok nc'"
        using assms(1) nc client_step_ok by (auto simp: heap_ok_def)
      ultimately show ?thesis using assms(1) False heap_ok_upd by blast
    qed
  qed
next
  case (task_runs h nc nc')
  then show ?thesis using assms(1) by (auto simp: heap_ok_def intro: client_step_ok)
qed

interpretation java: invariant_machine "\<lambda>heap. heap = Map.empty" java_step heap_ok
proof unfold_locales
  show "heap_ok s" if "s = Map.empty" for s using that by (simp add: heap_ok_def)
  show "heap_ok t" if "heap_ok s" and "java_step s t" for s t using that by (rule java_step_ok)
qed

text \<open>
  A connection is made exactly with every string there, no panic and a native connect that succeeds;
  otherwise the call throws.
\<close>

lemma java_connect_exact:
  assumes "java_connect io K panicked addr endpoint server cert heap w = (r, heap', w')"
  shows "(case (endpoint, server, cert, panicked) of
            (Some e, Some s, Some (x # c), None) \<Rightarrow>
              (case fst (native_connect io K e s (x # c) w) of
                 Inl _ \<Rightarrow> (\<exists>m. r = Thrown m) \<and> heap' = heap
               | Inr nc \<Rightarrow> r = Returned (JHandle addr) \<and> heap' = heap(addr \<mapsto> nc))
          | _ \<Rightarrow> (\<exists>m. r = Thrown m) \<and> heap' = heap)"
  using assms by (auto simp: java_connect_def split: option.splits prod.splits sum.splits list.splits)

text \<open>C21. Handles are memory safe exactly as long as the app keeps to open ones: in every state of a run, a
  call has no defined behaviour if and only if its handle is neither null nor that of an open
  client. With the null handle it changes nothing; with an open one it touches no other client,
  leaves the client open unless it closes it, and no video queue exceeds its four packets. A
  connection that fails, by a missing string, an error or a panic, throws and leaves every client
  as it was; one that succeeds returns a handle that is not null, and the client just made is open
  under it.\<close>

theorem java_handles_safe:
  assumes "reachable (\<lambda>heap. heap = Map.empty) java_step heap"
    and "java_run h call heap = (r, heap')"
    and "java_connect io byte_sink panicked addr endpoint server cert heap w = (r2, heap2, w')"
    and "addr \<noteq> null_handle" and "heap addr = None"
  shows "(r = Undefined \<longleftrightarrow> h \<noteq> null_handle \<and> heap h = None) \<and>
         (h = null_handle \<longrightarrow> heap' = heap) \<and>
         (\<forall>h2. h2 \<noteq> h \<longrightarrow> heap' h2 = heap h2) \<and>
         (heap h \<noteq> None \<longrightarrow> (heap' h = None \<longleftrightarrow> call = Close)) \<and>
         (r \<noteq> Undefined \<longrightarrow> (\<forall>h2 nc k. heap' h2 = Some nc \<longrightarrow> length (nc_video_queues nc k) \<le> video_queue_capacity)) \<and>
         (case (endpoint, server, cert, panicked) of
            (Some e, Some s, Some (x # c), None) \<Rightarrow>
              (case fst (native_connect io byte_sink e s (x # c) w) of
                 Inl _ \<Rightarrow> (\<exists>m. r2 = Thrown m) \<and> heap2 = heap
               | Inr nc \<Rightarrow> r2 = Returned (JHandle addr) \<and> heap2 = heap(addr \<mapsto> nc))
          | _ \<Rightarrow> (\<exists>m. r2 = Thrown m) \<and> heap2 = heap) \<and>
         ((\<exists>m. r2 = Thrown m) \<and> heap2 = heap \<or>
          r2 = Returned (JHandle addr) \<and> addr \<noteq> null_handle \<and> heap2 addr \<noteq> None \<and>
            (\<forall>h2. h2 \<noteq> addr \<longrightarrow> heap2 h2 = heap h2))"
proof -
  have ok: "heap_ok heap" using assms(1) by (rule java.reach_inv)
  have rh: "r = fst (java_run h call heap)" "heap' = snd (java_run h call heap)" using assms(2) by simp_all
  have queues: "\<forall>h2 nc k. heap' h2 = Some nc \<longrightarrow> length (nc_video_queues nc k) \<le> video_queue_capacity"
    if "r \<noteq> Undefined"
  proof -
    have "h = null_handle \<or> heap h \<noteq> None"
      using that java_run_freed [of h heap call] rh(1) by (cases "heap h"; cases "h = null_handle") simp_all
    then have "java_step heap heap'" unfolding rh(2) by (rule calls)
    with ok have "heap_ok heap'" by (rule java_step_ok)
    then show ?thesis by (simp add: heap_ok_def client_ok_def)
  qed
  have connect: "(\<exists>m. r2 = Thrown m) \<and> heap2 = heap \<or>
      r2 = Returned (JHandle addr) \<and> addr \<noteq> null_handle \<and> heap2 addr \<noteq> None \<and>
        (\<forall>h2. h2 \<noteq> addr \<longrightarrow> heap2 h2 = heap h2)"
    using java_connect_outcome [OF assms(3)] assms(4) by auto
  have main: "(r = Undefined \<longleftrightarrow> h \<noteq> null_handle \<and> heap h = None) \<and> (h = null_handle \<longrightarrow> heap' = heap) \<and>
      (\<forall>h2. h2 \<noteq> h \<longrightarrow> heap' h2 = heap h2) \<and> (heap h \<noteq> None \<longrightarrow> (heap' h = None \<longleftrightarrow> call = Close))"
  proof (cases "h = null_handle")
    case True
    then show ?thesis using java_run_null [of call heap] ok rh by (simp add: heap_ok_def)
  next
    case nonnull: False
    show ?thesis
    proof (cases "heap h")
      case None
      then show ?thesis using java_run_freed [where heap = heap, OF nonnull None] rh nonnull by simp
    next
      case (Some nc)
      then show ?thesis
        using java_run_open [where heap = heap and call = call, OF nonnull Some] java_close_open [where heap = heap, OF nonnull Some] rh nonnull
        by (cases "call = Close") (auto simp: open_effect_def)
    qed
  qed
  show ?thesis
    using main queues connect java_connect_exact [OF assms(3)] by (intro conjI) (elim conjE, assumption | blast)+
qed

end
