(* ===== verification/Response_Types.thy ===== *)
theory Response_Types
  imports Core_Service_Facts
begin

text \<open>
  The shape of the answers of both protocols: the fields of a response agree, whichever handler
  made it.
\<close>

definition ipc_response_ok :: "ipc_response \<Rightarrow> bool" where
  "ipc_response_ok r \<longleftrightarrow>
     (if rs_ok r then rs_result r \<noteq> None \<and> rs_error r = None else rs_result r = None \<and> rs_error r \<noteq> None)"

definition remote_response_ok :: "remote_response \<Rightarrow> bool" where
  "remote_response_ok r \<longleftrightarrow>
     (if rp_ok r then rp_result r \<noteq> None \<and> rp_error r = None else rp_result r = None \<and> rp_error r \<noteq> None)"

lemma response_ok_simps [simp]:
  "ipc_response_ok (ipc_failure i e)" "ipc_response_ok (ipc_success j v)" "ipc_response_ok (ipc_reply j r)"
  "remote_response_ok (remote_failure i e)" "remote_response_ok (remote_success j v)"
  "remote_response_ok (remote_reply j r)"
  by (cases r; simp add: ipc_response_ok_def remote_response_ok_def ipc_reply_def remote_reply_def)+

lemma core_response_ok: "ipc_response_ok (fst (core_handle_request P rq st))"
  by (simp add: core_handle_request_def local_admin_handle_def Let_def case_prod_beta)

text \<open>A response of the core that is passed on keeps its shape, with or without another result.\<close>

lemma remote_of_ipc_ok:
  "ipc_response_ok r \<Longrightarrow> remote_response_ok (remote_of_ipc r)"
  "ipc_response_ok r \<Longrightarrow> rs_ok r \<Longrightarrow> remote_response_ok (remote_of_ipc (r\<lparr>rs_result := Some v\<rparr>))"
  by (simp_all add: ipc_response_ok_def remote_response_ok_def remote_of_ipc_def)

lemma call_core_ok: "ipc_response_ok (fst (call_core (core_handle_request P) rq st))"
  using core_response_ok [of P rq "(sv_accounts st, sv_core st)"]
  by (simp add: call_core_def case_prod_beta)

lemma forward_response_ok:
  "remote_response_ok (fst (forward_core_request (core_handle_request P) s rr st))"
  using call_core_ok
  by (auto simp: forward_core_request_def case_prod_beta intro: remote_of_ipc_ok split: sum.splits option.splits)

lemma remote_response_shape:
  "remote_response_ok (fst (remote_handle_request A sm (core_handle_request P) E rr st))"
  using forward_response_ok
  by (auto simp: remote_handle_request_def remote_dispatch_def reply_with_def Let_def case_prod_beta
      split: sum.splits option.splits)

text \<open>C31. Every answer has the declared shape: for any line on the standard input and any bytes on a remote
  stream, whatever handler answers, a response that is ok has a result and no error, one that is
  not has an error and no result, and it carries the id of the request it answers, or none when
  the input is no request.\<close>

theorem responses_well_typed:
  "ipc_response_ok (fst (handle_json_line_result P parse_line line (m, co))) \<and>
   rs_id (fst (handle_json_line_result P parse_line line (m, co))) =
     (case parse_line line of Inl c \<Rightarrow> None | Inr rq \<Rightarrow> Some (rq_id rq)) \<and>
   remote_response_ok (fst (remote_handle_json_bytes A sm (core_handle_request P) E parse_bytes bytes st)) \<and>
   rp_id (fst (remote_handle_json_bytes A sm (core_handle_request P) E parse_bytes bytes st)) =
     (case parse_bytes bytes of Inl c \<Rightarrow> None | Inr rr \<Rightarrow> Some (rr_id rr))"
proof (intro conjI)
  show "ipc_response_ok (fst (handle_json_line_result P parse_line line (m, co)))"
    using core_response_ok by (auto simp: handle_json_line_result_def split: sum.splits)
  show "rs_id (fst (handle_json_line_result P parse_line line (m, co))) =
      (case parse_line line of Inl c \<Rightarrow> None | Inr rq \<Rightarrow> Some (rq_id rq))"
    by (auto simp: handle_json_line_result_def core_echo split: sum.splits)
  show "remote_response_ok (fst (remote_handle_json_bytes A sm (core_handle_request P) E parse_bytes bytes st))"
    using remote_response_shape by (auto simp: remote_handle_json_bytes_def split: sum.splits)
  show "rp_id (fst (remote_handle_json_bytes A sm (core_handle_request P) E parse_bytes bytes st)) =
      (case parse_bytes bytes of Inl c \<Rightarrow> None | Inr rr \<Rightarrow> Some (rr_id rr))"
    using core_service.remote_echo by (auto simp: remote_handle_json_bytes_def split: sum.splits)
qed

end
