(* ===== verification/Process_Witnesses.thy ===== *)
theory Process_Witnesses
  imports Transport_Witnesses Process_Run Android_Jni Response_Types
begin

text \<open>
  The properties of the process around the core, applied to concrete runs: its start, the stdio
  loop, the remote endpoint, the diagnostics, and a request that reaches a companion.
\<close>

subsection \<open>Starting\<close>

definition working_disk :: identity_io where
  "working_disk = \<lparr>io_read_cert = None, io_read_key = None,
     io_write_cert = \<lparr>wr_dir = None, wr_write = None\<rparr>, io_write_key = \<lparr>wr_dir = None, wr_write = None\<rparr>\<rparr>"

definition generator :: "string \<Rightarrow> identity_ports" where
  "generator s = \<lparr>ip_fingerprint = (\<lambda>c. ''sha256:'' @ c), ip_generate = (\<lambda>names. Inr (s, s @ ''-key''))\<rparr>"

theorem identity_stable_witness:
  "load_or_generate (generator ''second'') working_disk ''c'' ''k'' [''other''] [''c'' \<mapsto> ''first'', ''k'' \<mapsto> ''first-key''] =
     (Inr (from_der (generator ''first'') ''first'' ''first-key''), [''c'' \<mapsto> ''first'', ''k'' \<mapsto> ''first-key''])"
proof (rule identity_stable)
  show "load_or_generate (generator ''first'') working_disk ''c'' ''k'' [''localhost''] Map.empty =
      (Inr (from_der (generator ''first'') ''first'' ''first-key''), [''c'' \<mapsto> ''first'', ''k'' \<mapsto> ''first-key''])"
    by (simp add: load_or_generate_def generate_self_signed_def save_to_files_def write_identity_file_def
        generator_def working_disk_def from_der_def)
qed (simp_all add: generator_def working_disk_def)

definition remote_only :: start_io where
  "remote_only =
     \<lparr>sio_env = [''ADBCONTROL_COMPANION_LISTEN'' \<mapsto> ''  '', ''ADBCONTROL_REMOTE_LISTEN'' \<mapsto> ''0.0.0.0:45921''],
      sio_join = (\<lambda>a b. a @ ''/'' @ b), sio_manifest = Inr linux_manifest, sio_keepalive_error = None, sio_now = 0,
      sio_auth_env = env_at 0 [], sio_account_file = (\<lambda>p. No_file),
      sio_parse_address = (\<lambda>s. Inr (s, ''0.0.0.0'')), sio_identity = generator ''made'',
      sio_companion_files = working_disk, sio_remote_files = working_disk, sio_build = (\<lambda>c k. None),
      sio_crypto = None, sio_companion_endpoint = Listening ''a'', sio_remote_endpoint = Listening ''b'',
      sio_base64 = (\<lambda>s. s)\<rparr>"

definition remote_start :: "(app_error + unit started) \<times> files" where
  "remote_start = main_start plain_argon remote_only () (\<lambda>i. run_env) Map.empty"

theorem startup_opens_only_configured_witness:
  "\<exists>sd fs'. remote_start = (Inr sd, fs') \<and> co_connection_info (sd_core sd) = None \<and>
     sd_remote_address sd \<noteq> None \<and> co_registry (sd_core sd) = []"
proof -
  have "is_ok (fst remote_start)" by code_simp
  then obtain sd where p: "remote_start = (Inr sd, snd remote_start)"
    by (metis is_ok_iff prod.collapse)
  have e: "configured remote_only ''ADBCONTROL_COMPANION_LISTEN'' = None"
    "configured remote_only ''ADBCONTROL_REMOTE_LISTEN'' \<noteq> None" by code_simp+
  from startup_opens_only_configured [OF p [unfolded remote_start_def]] e p show ?thesis
    by (auto simp: remote_start_def)
qed

subsection \<open>The stdio loop and the remote endpoint\<close>

definition plain_encoder :: encoder where
  "plain_encoder = \<lparr>en_to_string = (\<lambda>r. Inr (if rs_ok r then ''ok'' else ''failed'')), en_value_text = (\<lambda>v. [])\<rparr>"

lemma plain_encoder_line: "single_line plain_encoder"
proof -
  have "encode_response plain_encoder r \<in> {''ok'', ''failed''}" for r
    by (simp add: encode_response_def plain_encoder_def)
  moreover have "\<forall>t \<in> {''ok'', ''failed''}. \<forall>c \<in> set t. byte c \<noteq> 10 \<and> byte c \<noteq> 13" by code_simp
  ultimately show ?thesis unfolding single_line_def by blast
qed

definition parse_line :: "string \<Rightarrow> string + ipc_request" where
  "parse_line s = (if s = ''hello'' then Inr \<lparr>rq_id = ''1'', rq_method = ''system.version'', rq_params = JNull\<rparr>
                   else Inl ''expected value'')"

definition stdio_run ::
    "(app_error + unit) \<times> (manager \<times> ((string \<rightharpoonup> memory_session) \<times> dispatch_command list,
       unit \<times> string list list) core) \<times> string" where
  "stdio_run = serve_json_lines plain_encoder run_ports parse_line byte_sink
     (map Inr [''hello'', [], ''hello'']) (bob_signed_in, run_core) []"

theorem stdio_answers_line_by_line_witness:
  "length (lines (snd (snd stdio_run))) = 3 \<and> fst stdio_run = Inr ()"
proof -
  have "serve_json_lines plain_encoder run_ports parse_line byte_sink (map Inr [''hello'', [], ''hello''])
      (bob_signed_in, run_core) [] = (fst stdio_run, fst (snd stdio_run), snd (snd stdio_run))"
    by (simp only: stdio_run_def prod.collapse)
  from stdio_answers_line_by_line [OF plain_encoder_line this]
  have "fst stdio_run = Inr ()" "length (lines (snd (snd stdio_run))) = length [''hello'', [], ''hello'']"
    by (rule conjunct1, elim conjE)
  then show ?thesis by simp
qed

definition long_stream where
  "long_stream = handle_stream plain_argon (pt_serde run_ports) (core_handle_request run_ports) (\<lambda>i. env_at 20 [])
     (\<lambda>b. Inr shell_request) (\<lambda>r. None) ''too long'' 3 (Inr ''abcd'') byte_stream (service_over bob_signed_in) []"

theorem remote_stream_all_or_nothing_witness:
  "\<not> is_ok (fst long_stream) \<and> fst (snd long_stream) = service_over bob_signed_in \<and> snd (snd long_stream) = []"
proof -
  have "handle_stream plain_argon (pt_serde run_ports) (core_handle_request run_ports) (\<lambda>i. env_at 20 [])
      (\<lambda>b. Inr shell_request) (\<lambda>r. None) ''too long'' 3 (Inr ''abcd'') byte_stream (service_over bob_signed_in) [] =
      (fst long_stream, fst (snd long_stream), snd (snd long_stream))"
    by (simp only: long_stream_def prod.collapse)
  from remote_stream_all_or_nothing [OF this] show ?thesis by simp
qed

subsection \<open>Diagnostics\<close>

definition named :: diagnostics where
  "named = initialize (\<lambda>v. ''{}'') 5 7 (Some ''pc 1'') True idle"

lemma reachable_named: "reachable (\<lambda>dg. dg = idle) (diagnostics_step 2) named"
  unfolding named_def
  by (rule reachable_step [OF reachable_start], rule refl, rule initializes) (simp add: event_line_def)

theorem diagnostics_bounded_witness:
  "length (dg_queue named) \<le> queue_capacity \<and> dg_started named"
proof (rule conjI)
  show "length (dg_queue named) \<le> queue_capacity" by (rule diagnostics_bounded [OF reachable_named, THEN conjunct1])
  show "dg_started named" by code_simp
qed

definition odd_event :: json where
  "odd_event = event \<lparr>ec_now = 6, ec_session = dg_session named, ec_process_id = 7, ec_dropped = dg_dropped named\<rparr>
     ''finish'' ''device.invoke'' ''{secret}'' False 3 (Some ''FAILED'')"

theorem diagnostics_metadata_only_witness:
  "''unknown'' \<in> json_texts odd_event \<and> is_identifier ''unknown'' \<and> ''{secret}'' \<notin> json_texts odd_event"
proof (intro conjI)
  show u: "''unknown'' \<in> json_texts odd_event" by code_simp
  show "is_identifier ''unknown''"
    by (rule diagnostics_metadata_only [OF reachable_named u [unfolded odd_event_def]])
  show "''{secret}'' \<notin> json_texts odd_event" by code_simp
qed

subsection \<open>A request that reaches a companion\<close>

definition companion_answers :: "live \<Rightarrow> live" where
  "companion_answers st = snd (accept_envelope letter_ports 1 0 demo_response st)"

definition live_ports :: "(live, unit \<times> string list list) core_ports" where
  "live_ports =
     \<lparr>pt_argon = plain_argon, pt_serde = (\<lambda>k v. ''invalid''), pt_os = ''linux'', pt_arch = ''x86_64'',
      pt_join_path = (\<lambda>a b. a @ ''/'' @ b), pt_runner = logged_runner listing_runner,
      pt_router = live_router letter_ports 0 companion_answers [], pt_qr = (\<lambda>t. Inr (1, [True]))\<rparr>"

definition live_core :: "(live, unit \<times> string list list) core" where
  "live_core = with_local_admin (new_core linux_manifest [] capable_live ((), []) (\<lambda>i. run_env))"

definition invoke_request :: ipc_request where
  "invoke_request = \<lparr>rq_id = ''c1'', rq_method = ''device.invoke'', rq_params =
     JObj [(''deviceId'', JStr ''d''), (''capabilityId'', JStr ''android.sms.read''), (''operation'', JStr ''sms.read''),
           (''args'', JObj [])]\<rparr>"

lemma continues_capable: "continues letter_ports network_order letter_parse capable companion_answers"
  unfolding continues_def
proof (intro allI impI)
  fix d e h rid st1
  assume "start_command letter_ports (qs_next_waiter capable) d e (qs_live capable) = (Inr rid, st1)"
  let ?q = "capable\<lparr>qs_live := st1, qs_waiting := (qs_next_waiter capable, rid) # qs_waiting capable,
                     qs_clones := (qs_next_waiter capable, sh_outgoing h) # qs_clones capable,
                     qs_next_waiter := Suc (qs_next_waiter capable)\<rparr>"
  have q: "turn_first ?q = ?q\<lparr>qs_live := companion_answers st1,
     qs_running := [\<lparr>cn_id = 1, cn_channel = 0, cn_device = Some ''d'', cn_input = frames []\<rparr>]\<rparr>"
    using turn_first_letter [of ?q
      "\<lparr>cn_id = 1, cn_channel = 0, cn_device = Some ''d'', cn_input = frames [''r'']\<rparr>" "[]"
      "''r''" "[]" demo_response None] response_accepted
    by (simp add: capable_eq letter_parse_def companion_answers_def)
  have "reachable (\<lambda>q1. q1 = ?q) (server_step letter_ports network_order letter_parse) (turn_first ?q)"
    by (rule reachable_turn_first) (auto simp: capable_eq intro: reachable_start)
  with q show "\<exists>q2. reachable (\<lambda>q1. q1 = ?q) (server_step letter_ports network_order letter_parse) q2 \<and>
      companion_answers st1 = qs_live q2 \<and> (qs_next_waiter capable, rid) \<in> set (qs_waiting q2)"
    by (intro exI [of _ "turn_first ?q"]) simp
qed

definition invoke_run :: "ipc_response \<times> manager \<times> (live, unit \<times> string list list) core" where
  "invoke_run = core_handle_request live_ports invoke_request (bob_signed_in, share_registry live_core)"

lemma invoke_run_ok: "rs_ok (fst invoke_run)"
  by code_simp

theorem invoke_end_to_end_witness:
  "\<exists>command e. dc_request_id command = ''c1'' \<and> invocable (transport_registry capable_live) command \<and>
     lv_delivered (co_router (snd (snd invoke_run))) 0 = Some e \<and> response_request_id e = ''c1'' \<and>
     rs_result (fst invoke_run) = Some (response_json (command_reply command Dispatched (ev_payload e)))"
proof -
  have p: "pt_router live_ports = live_router letter_ports (qs_next_waiter capable) companion_answers []"
    "co_router live_core = qs_live capable" "rq_method invoke_request = ''device.invoke''"
    "rq_id invoke_request = ''c1''"
    by (simp_all add: live_ports_def live_core_def with_local_admin_def new_core_def capable_eq invoke_request_def)
  have run: "core_handle_request live_ports invoke_request (bob_signed_in, share_registry live_core) =
      (fst invoke_run, fst (snd invoke_run), snd (snd invoke_run))"
    by (simp add: invoke_run_def)
  from invoke_end_to_end [OF reachable_capable p(1) continues_capable p(2,3) run invoke_run_ok]
  show ?thesis by (auto simp: p(4) capable_eq)
qed

subsection \<open>The whole process\<close>

definition traced_io :: diag_io where
  "traced_io = \<lparr>dio_shown = (\<lambda>v. ''{}''), dio_process_id = 7, dio_session = None, dio_spawned = True, dio_now = 1,
     dio_exit_now = 9, dio_clock = (\<lambda>i. \<lparr>ek_start = i, ek_end = i, ek_elapsed = 0\<rparr>), dio_worker = (\<lambda>i dg. dg)\<rparr>"

definition traced_run where
  "traced_run = serve_traced traced_io plain_encoder run_ports parse_line byte_sink 0
     (map Inr [''hello'', [], ''hello'']) ((bob_signed_in, run_core), named) []"

theorem requests_accounted_witness:
  "accounted (snd (fst (snd traced_run))) = accounted named + 4"
proof -
  have "serve_traced traced_io plain_encoder run_ports parse_line byte_sink 0
      (map Inr [''hello'', [], ''hello'']) ((bob_signed_in, run_core), named) [] =
      (fst traced_run, (fst (fst (snd traced_run)), snd (fst (snd traced_run))), snd (snd traced_run))"
    by (simp only: traced_run_def prod.collapse)
  moreover have "dg_started named" by code_simp
  moreover have "dio_worker traced_io = (\<lambda>_ d. d)" by (simp add: traced_io_def)
  ultimately have "accounted (snd (fst (snd traced_run))) =
      accounted named + 2 * of_nat (length (filter (\<lambda>l. is_ok (parse_line l)) [''hello'', [], ''hello'']))"
    by (rule requests_accounted)
  then show ?thesis by (simp add: parse_line_def)
qed

definition remote_process :: "(string, unit \<times> string list list) process_end" where
  "remote_process = main_process plain_argon remote_only traced_io plain_encoder live_ports parse_line byte_sink
     [Inr ''hello'', Inr [], Inl ''stream did not contain valid UTF-8'', Inr ''hello''] ((), []) (\<lambda>i. run_env) Map.empty idle []"

theorem process_answers_or_refuses_witness:
  "pe_code remote_process = 1 \<and> length (lines (pe_output remote_process)) = 2"
proof -
  let ?start = "main_start plain_argon remote_only ((), [] :: string list list) (\<lambda>i. run_env) Map.empty"
  have ok: "is_ok (fst ?start)" by code_simp
  then obtain sd where "fst ?start = Inr sd" by (auto simp: is_ok_iff)
  with process_answers_or_refuses [OF plain_encoder_line remote_process_def [symmetric]] ok
  have "case fst ?start of Inl _ \<Rightarrow> False
      | Inr sd \<Rightarrow> pe_code remote_process \<in> {0, 1} \<and> (pe_code remote_process = 0 \<longleftrightarrow> False) \<and>
          length (lines (pe_output remote_process)) = 2"
    by (auto split: sum.splits simp del: answers_to.simps serve_json_lines.simps)
  then show ?thesis using ok by (auto split: sum.splits)
qed

text \<open>A client is connected at 8; closing it frees it, and a second connection, whose runtime fails, throws.\<close>

definition good_io :: connect_io where
  "good_io = \<lparr>io_runtime = Inr (), io_parse_url = (\<lambda>s. Inr \<lparr>url_scheme = ''quic'', url_host = Some ''h'', url_port = Some 1\<rparr>),
     io_add_root = (\<lambda>s. Inr ()), io_crypto = Inr (), io_lookup = (\<lambda>h p. Inr [IPv4 ''h'']),
     io_endpoint = (\<lambda>a. Inr ()), io_start = (\<lambda>a s. Inr ()), io_handshake = Some (Inr ()),
     io_open_bi = Inr (), io_sha256_hex = (\<lambda>s. s)\<rparr>"

abbreviation connect_at :: "connect_io \<Rightarrow> 64 word \<Rightarrow> native_heap \<Rightarrow> java_value native_outcome \<times> native_heap \<times> string" where
  "connect_at io addr heap \<equiv>
     java_connect io byte_sink None addr (Some ''quic://h:1'') (Some ''core'') (Some ''cert'') heap []"

definition one_client :: native_heap where
  "one_client = fst (snd (connect_at good_io 8 Map.empty))"

theorem java_handles_safe_witness:
  "java_run 8 Close one_client = (Returned JVoid, one_client(8 := None)) \<and> one_client 8 \<noteq> None \<and>
   (\<exists>m w'. connect_at (good_io\<lparr>io_runtime := Inl ''no threads''\<rparr>) 16 one_client = (Thrown m, one_client, w'))"
proof -
  obtain nc where nc: "fst (native_connect good_io byte_sink ''quic://h:1'' ''core'' ''cert'' []) = Inr nc"
    by (simp add: good_io_def native_connect_def connect_checks_def checked_endpoint_def connect_handshake_def
        resolve_remote_def client_preface_def write_parts_bytes flush_bytes del: write_parts.simps)
  then have heap: "one_client = [8 \<mapsto> nc]"
    by (simp add: one_client_def java_connect_def case_prod_beta)
  have start: "reachable (\<lambda>heap. heap = Map.empty) java_step Map.empty" by (rule reachable_start) simp
  have "java_step Map.empty one_client"
    unfolding one_client_def by (rule connects) (simp_all add: null_handle_def)
  then have r: "reachable (\<lambda>heap. heap = Map.empty) java_step one_client"
    by (rule reachable_step [OF start])
  have run: "java_run 8 Close one_client = (Returned JVoid, one_client(8 := None))"
    by (rule java_close_open [where nc = nc]) (simp_all add: heap null_handle_def)
  let ?io = "good_io\<lparr>io_runtime := Inl ''no threads''\<rparr>"
  have f: "fst (native_connect ?io byte_sink ''quic://h:1'' ''core'' ''cert'' []) = Inl (ConnectFailed ''no threads'')"
    by (simp add: native_connect_def connect_checks_def good_io_def)
  have c: "connect_at ?io 16 one_client = (fst (connect_at ?io 16 one_client),
      fst (snd (connect_at ?io 16 one_client)), snd (snd (connect_at ?io 16 one_client)))" by simp
  have free: "(16 :: 64 word) \<noteq> null_handle" "one_client 16 = None" by (simp_all add: null_handle_def heap)
  have "(\<exists>m. fst (connect_at ?io 16 one_client) = Thrown m) \<and> fst (snd (connect_at ?io 16 one_client)) = one_client"
    using java_handles_safe [OF r run c free] f by simp
  then obtain m where "fst (connect_at ?io 16 one_client) = Thrown m"
    "fst (snd (connect_at ?io 16 one_client)) = one_client" by blast
  with c have "connect_at ?io 16 one_client = (Thrown m, one_client, snd (snd (connect_at ?io 16 one_client)))" by simp
  moreover have "one_client 8 \<noteq> None" by (simp add: heap)
  ultimately show ?thesis using run by blast
qed

definition busy_supervisor :: keepalive where
  "busy_supervisor = snd (keepalive_configure \<lparr>kc_enabled = False, kc_interval_secs = 60\<rparr>
     \<lparr>ka_status = initial_status 1 default_keepalive_config, ka_queue = [], ka_receiver = True\<rparr>)"

theorem keepalive_stop_ends_witness:
  "\<not> ks_running (ka_status (drain [(2, Inl undefined), (3, Inl undefined)] (keepalive_stop busy_supervisor)))"
proof -
  have "keepalive_started \<lparr>ka_status = initial_status 1 default_keepalive_config, ka_queue = [], ka_receiver = True\<rparr>"
    by (auto simp: keepalive_started_def spawn_keepalive_def ok_iff default_keepalive_config_def intro!: exI)
  then have r: "reachable keepalive_started keepalive_step busy_supervisor"
    unfolding busy_supervisor_def by (rule reachable_step [OF reachable_start]) (rule keepalive_set)
  have "length (ka_queue busy_supervisor) < length [(2 :: nat, Inl undefined :: app_error + adb_output), (3, Inl undefined)]"
    by (simp add: busy_supervisor_def keepalive_configure_def validate_keepalive_def keepalive_min_interval_secs_def Let_def)
  from keepalive_stop_ends [OF r this] show ?thesis by blast
qed

end
