(* ===== verification/Keepalive_Supervisor.thy ===== *)
theory Keepalive_Supervisor
  imports Keepalive
begin

text \<open>
  The keep-alive supervisor of \<open>keepalive.rs\<close> with the interleaving of its two sides: \<open>configure\<close>
  takes two steps (it writes the shared status, then sends the message), and the thread reads
  the status, waits, takes a message or starts a check, each at its own time. Shown are the
  absence of lost updates, the end after a stop, and the liveness of the checks.
\<close>

subsection \<open>State and steps\<close>

text \<open>Where the thread is in \<open>keepalive_loop\<close>; \<open>Waiting\<close> holds the values read at the top of the loop.\<close>

datatype loop_point = Checking | Reading | Waiting bool nat | Leaving | Closing | Gone

text \<open>
  \<open>sv_sending\<close> are the \<open>configure\<close> calls between their write of the status and their send; the handle
  is shared by the threads of the core, so there may be several.
\<close>

record supervisor =
  sv_status :: keepalive_status
  sv_queue :: "keepalive_control list"
  sv_sending :: "keepalive_config list"
  sv_handle :: bool
  sv_at :: loop_point

definition supervisor_spawned :: "nat \<Rightarrow> keepalive_config \<Rightarrow> supervisor" where
  "supervisor_spawned now c =
     \<lparr>sv_status = initial_status now c, sv_queue = [], sv_sending = [], sv_handle = True,
      sv_at = Checking\<rparr>"

definition configure_begin :: "keepalive_config \<Rightarrow> supervisor \<Rightarrow> (app_error + unit) \<times> supervisor" where
  "configure_begin c s =
     (case validate_keepalive c of
        Inl e \<Rightarrow> (Inl e, s)
      | Inr _ \<Rightarrow> (Inr (), s\<lparr>sv_status := apply_configure c (sv_status s), sv_sending := sv_sending s @ [c]\<rparr>))"

definition channel_send :: "keepalive_control \<Rightarrow> supervisor \<Rightarrow> (app_error + unit) \<times> supervisor" where
  "channel_send msg s =
     (if sv_at s = Gone
      then (Inl (new_error ''ADB_KEEPALIVE_THREAD_STOPPED''
              ''ADB keep-alive thread has already stopped.'' ''adb.keepalive'' False), s)
      else (Inr (), s\<lparr>sv_queue := sv_queue s @ [msg]\<rparr>))"

definition configure_send :: "nat \<Rightarrow> supervisor \<Rightarrow> (app_error + unit) \<times> supervisor" where
  "configure_send i s =
     (if i < length (sv_sending s)
      then channel_send (Configure (sv_sending s ! i))
             (s\<lparr>sv_sending := take i (sv_sending s) @ drop (Suc i) (sv_sending s)\<rparr>)
      else (Inr (), s))"

text \<open>
  One step of the thread: a check that completes, the reading of the status, the end of a wait
  (a message, the dropped handle, or the time-out of an enabled supervisor), and the two steps in
  which it ends.
\<close>

definition wait_ends :: "bool \<Rightarrow> supervisor \<Rightarrow> supervisor" where
  "wait_ends enabled s =
     (case sv_queue s of
        Configure c # q \<Rightarrow> s\<lparr>sv_status := apply_configure c (sv_status s), sv_queue := q, sv_at := Reading\<rparr>
      | Stop # q \<Rightarrow> s\<lparr>sv_queue := q, sv_at := Leaving\<rparr>
      | [] \<Rightarrow>
          if \<not> sv_handle s then s\<lparr>sv_at := Leaving\<rparr>
          else if enabled then s\<lparr>sv_at := Checking\<rparr> else s)"

definition thread_move :: "nat \<Rightarrow> app_error + adb_output \<Rightarrow> supervisor \<Rightarrow> supervisor" where
  "thread_move now result s =
     (case sv_at s of
        Checking \<Rightarrow> s\<lparr>sv_status := apply_cycle now result (sv_status s), sv_at := Reading\<rparr>
      | Reading \<Rightarrow>
          s\<lparr>sv_at := Waiting (ks_enabled (sv_status s)) (ks_interval_secs (sv_status s))\<rparr>
      | Waiting enabled interval \<Rightarrow> wait_ends enabled s
      | Leaving \<Rightarrow> s\<lparr>sv_status := (sv_status s)\<lparr>ks_running := False\<rparr>, sv_at := Closing\<rparr>
      | Closing \<Rightarrow> s\<lparr>sv_queue := [], sv_at := Gone\<rparr>
      | Gone \<Rightarrow> s)"

text \<open>
  \<open>Send i\<close> is the second step of the call that is \<open>i\<close>-th in flight. The handle is dropped last, when no
  call is under way.
\<close>

datatype supervisor_action =
  Begin keepalive_config | Send nat | Halt | Drop_handle | Move nat "app_error + adb_output"

fun act :: "supervisor_action \<Rightarrow> supervisor \<Rightarrow> supervisor" where
  "act (Begin c) s = (if sv_handle s then snd (configure_begin c s) else s)"
| "act (Send i) s = snd (configure_send i s)"
| "act Halt s = (if sv_handle s then snd (channel_send Stop s) else s)"
| "act Drop_handle s = (if sv_sending s = [] then s\<lparr>sv_handle := False\<rparr> else s)"
| "act (Move now result) s = thread_move now result s"

definition supervisor_started :: "supervisor \<Rightarrow> bool" where
  "supervisor_started s \<longleftrightarrow> (\<exists>now c. validate_keepalive c = Inr () \<and> s = supervisor_spawned now c)"

inductive supervisor_step :: "supervisor \<Rightarrow> supervisor \<Rightarrow> bool" where
  supervisor_act: "supervisor_step s (act a s)"

inductive_cases supervisor_stepE: "supervisor_step s s'"

text \<open>An infinite schedule of actions and the states it goes through.\<close>

primrec supervised :: "(nat \<Rightarrow> supervisor_action) \<Rightarrow> supervisor \<Rightarrow> nat \<Rightarrow> supervisor" where
  "supervised sched s 0 = s"
| "supervised sched s (Suc n) = act (sched n) (supervised sched s n)"

subsection \<open>The configuration that is on its way\<close>

definition status_config :: "keepalive_status \<Rightarrow> keepalive_config" where
  "status_config s = \<lparr>kc_enabled = ks_enabled s, kc_interval_secs = ks_interval_secs s\<rparr>"

fun queued_config :: "keepalive_control list \<Rightarrow> keepalive_config option" where
  "queued_config [] = None"
| "queued_config (Configure c # q) = (case queued_config q of None \<Rightarrow> Some c | Some d \<Rightarrow> Some d)"
| "queued_config (Stop # q) = queued_config q"

text \<open>
  The configuration the thread has once it has worked off its queue: the last one in the queue, else
  the one in the status.
\<close>

definition intended :: "supervisor \<Rightarrow> keepalive_config" where
  "intended s =
     (case queued_config (sv_queue s) of Some c \<Rightarrow> c | None \<Rightarrow> status_config (sv_status s))"

definition looping :: "supervisor \<Rightarrow> bool" where
  "looping s \<longleftrightarrow> sv_at s \<notin> {Leaving, Closing, Gone} \<and> Stop \<notin> set (sv_queue s) \<and> sv_handle s"

definition supervisor_ok :: "supervisor \<Rightarrow> bool" where
  "supervisor_ok s \<longleftrightarrow>
     5 \<le> ks_interval_secs (sv_status s) \<and>
     (\<forall>c. Configure c \<in> set (sv_queue s) \<longrightarrow> 5 \<le> kc_interval_secs c) \<and>
     (\<forall>c \<in> set (sv_sending s). 5 \<le> kc_interval_secs c) \<and>
     (ks_running (sv_status s) \<longleftrightarrow> sv_at s \<notin> {Closing, Gone}) \<and>
     (sv_at s = Gone \<longrightarrow> sv_queue s = []) \<and> (\<not> sv_handle s \<longrightarrow> sv_sending s = []) \<and>
     (\<forall>en iv. sv_at s = Waiting en iv \<longrightarrow> 5 \<le> iv \<and>
        (sv_sending s = [] \<longrightarrow> queued_config (sv_queue s) = None \<longrightarrow>
           en = ks_enabled (sv_status s) \<and> iv = ks_interval_secs (sv_status s)))"

subsection \<open>Every step keeps the invariant\<close>

lemma queued_config_append:
  "queued_config (q @ r) = (case queued_config r of Some c \<Rightarrow> Some c | None \<Rightarrow> queued_config q)"
  by (induction q rule: queued_config.induct) (auto split: option.splits)

lemma queued_config_valid: "queued_config q = Some c \<Longrightarrow> Configure c \<in> set q"
  by (induction q rule: queued_config.induct) (auto split: option.splits)

lemma supervisor_ok_started: "supervisor_started s \<Longrightarrow> supervisor_ok s"
  by (auto simp: supervisor_started_def supervisor_ok_def supervisor_spawned_def initial_status_def ok_iff)

lemma supervisor_ok_begin: "supervisor_ok s \<Longrightarrow> sv_handle s \<Longrightarrow> supervisor_ok (snd (configure_begin c s))"
  by (auto simp: supervisor_ok_def configure_begin_def validate_keepalive_def keepalive_min_interval_secs_def)

lemma supervisor_ok_send: "supervisor_ok s \<Longrightarrow> supervisor_ok (snd (configure_send i s))"
  by (auto simp: supervisor_ok_def configure_send_def channel_send_def queued_config_append
      dest: in_set_takeD in_set_dropD)

lemma supervisor_ok_halt: "supervisor_ok s \<Longrightarrow> supervisor_ok (snd (channel_send Stop s))"
  by (auto simp: supervisor_ok_def channel_send_def queued_config_append)

lemma supervisor_ok_wait:
  assumes "supervisor_ok s" and "sv_at s = Waiting en iv"
  shows "supervisor_ok (wait_ends en s)"
  using assms by (auto simp: supervisor_ok_def wait_ends_def split: list.splits keepalive_control.splits)

lemma supervisor_ok_move: "supervisor_ok s \<Longrightarrow> supervisor_ok (thread_move now r s)"
proof (cases "sv_at s")
  case (Waiting en iv)
  then show "supervisor_ok s \<Longrightarrow> ?thesis" by (simp add: thread_move_def supervisor_ok_wait)
qed (auto simp: supervisor_ok_def thread_move_def)

lemma supervisor_ok_act: "supervisor_ok s \<Longrightarrow> supervisor_ok (act a s)"
  by (cases a) (auto simp: supervisor_ok_begin supervisor_ok_send supervisor_ok_halt supervisor_ok_move,
      auto simp: supervisor_ok_def)

interpretation supervisor: invariant_machine supervisor_started supervisor_step supervisor_ok
  by unfold_locales (auto intro: supervisor_ok_started supervisor_ok_act elim!: supervisor_stepE)

lemma supervised_reachable:
  "reachable supervisor_started supervisor_step s \<Longrightarrow>
   reachable supervisor_started supervisor_step (supervised sched s n)"
  by (induction n) (auto intro: reachable_step supervisor_act)

subsection \<open>No update is lost\<close>

lemma intended_begin:
  "intended (snd (configure_begin c s)) =
     (if 5 \<le> kc_interval_secs c \<and> queued_config (sv_queue s) = None then c else intended s)"
  by (auto simp: configure_begin_def intended_def validate_keepalive_def status_config_def
      apply_configure_def keepalive_min_interval_secs_def split: option.splits)

lemma intended_send:
  "sv_at s \<noteq> Gone \<Longrightarrow> i < length (sv_sending s) \<Longrightarrow> intended (snd (configure_send i s)) = sv_sending s ! i"
  by (simp add: configure_send_def channel_send_def intended_def queued_config_append)

lemma status_config_cycle [simp]: "status_config (apply_cycle now r s) = status_config s"
  by (simp add: status_config_def)

lemma status_config_configure [simp]: "status_config (apply_configure c s) = c"
  by (simp add: status_config_def)

lemma intended_move:
  assumes "looping s"
  shows "intended (thread_move now r s) = intended s"
proof (cases "sv_at s")
  case (Waiting en iv)
  then show ?thesis
    using assms by (auto simp: thread_move_def wait_ends_def intended_def looping_def
        split: list.splits keepalive_control.splits option.splits)
qed (use assms in \<open>auto simp: thread_move_def intended_def looping_def split: option.splits\<close>)

lemma looping_move: "looping s \<Longrightarrow> looping (thread_move now r s)"
  by (cases "sv_at s") (auto simp: thread_move_def wait_ends_def looping_def
      split: list.splits keepalive_control.splits)

lemma looping_open: "looping s \<Longrightarrow> sv_at s \<noteq> Gone \<and> sv_handle s"
  by (auto simp: looping_def)

text \<open>C17. No configuration is lost, however the two steps of \<open>configure\<close> calls and the thread interleave. In
  every reachable state of a supervisor that has not been told to stop: the second step of a call
  makes its configuration the one the thread will end up with, whatever older ones are queued;
  no step of the thread changes that, although it may put an older one back into the status for a
  while, and neither does the first step of another call while a message is queued; and whenever
  no call is in flight and no message is queued, the status shows this configuration and a thread
  that waits does so with exactly its values, at least five seconds.\<close>

theorem supervisor_loses_no_configuration:
  assumes "reachable supervisor_started supervisor_step s" and "looping s"
  shows "(i < length (sv_sending s) \<longrightarrow> intended (act (Send i) s) = sv_sending s ! i) \<and>
         intended (act (Move now r) s) = intended s \<and>
         (queued_config (sv_queue s) \<noteq> None \<longrightarrow> intended (act (Begin c) s) = intended s) \<and>
         (sv_sending s = [] \<and> queued_config (sv_queue s) = None \<longrightarrow>
            status_config (sv_status s) = intended s \<and>
            (\<forall>en iv. sv_at s = Waiting en iv \<longrightarrow>
               en = kc_enabled (intended s) \<and> iv = kc_interval_secs (intended s) \<and> 5 \<le> iv))"
proof -
  have ok: "supervisor_ok s" by (rule supervisor.reach_inv [OF assms(1)])
  have "status_config (sv_status s) = intended s \<and>
      (\<forall>en iv. sv_at s = Waiting en iv \<longrightarrow>
         en = kc_enabled (intended s) \<and> iv = kc_interval_secs (intended s) \<and> 5 \<le> iv)"
    if "sv_sending s = []" "queued_config (sv_queue s) = None"
    using ok that by (auto simp: supervisor_ok_def intended_def status_config_def)
  then show ?thesis
    using intended_begin [of c s] intended_send [of s i] intended_move [OF assms(2)] looping_open [OF assms(2)]
    by auto
qed

subsection \<open>A stopped supervisor ends\<close>

text \<open>
  A supervisor is stopping when the thread has left its loop, or a stop message is queued, or the
  handle is gone. \<open>moves_left\<close> bounds the steps its thread still takes.
\<close>

definition stopping :: "supervisor \<Rightarrow> bool" where
  "stopping s \<longleftrightarrow>
     sv_at s \<in> {Leaving, Closing, Gone} \<or> Stop \<in> set (sv_queue s) \<or> (\<not> sv_handle s \<and> sv_sending s = [])"

definition moves_left :: "supervisor \<Rightarrow> nat" where
  "moves_left s =
     (let ahead = 2 * length (takeWhile (\<lambda>msg. msg \<noteq> Stop) (sv_queue s)) in
      case sv_at s of
        Checking \<Rightarrow> ahead + 5
      | Reading \<Rightarrow> ahead + 4
      | Waiting enabled interval \<Rightarrow> ahead + 3
      | Leaving \<Rightarrow> 2
      | Closing \<Rightarrow> 1
      | Gone \<Rightarrow> 0)"

lemma takeWhile_append_in: "x \<in> set q \<Longrightarrow> \<not> P x \<Longrightarrow> takeWhile P (q @ r) = takeWhile P q"
  by (induction q) auto

lemma stopping_move:
  "stopping s \<Longrightarrow> stopping (thread_move now r s) \<and> moves_left (thread_move now r s) \<le> moves_left s - 1"
  by (cases "sv_at s") (auto simp: stopping_def thread_move_def wait_ends_def moves_left_def Let_def
      split: list.splits keepalive_control.splits)

lemma stopping_channel:
  assumes "sv_at s \<in> {Leaving, Closing, Gone} \<or> Stop \<in> set (sv_queue s)"
  shows "stopping (snd (channel_send msg s)) \<and> moves_left (snd (channel_send msg s)) = moves_left s"
  using assms
  by (auto simp: stopping_def channel_send_def moves_left_def Let_def takeWhile_append_in split: loop_point.splits)

lemma stopping_other:
  assumes "stopping s" and "\<And>now r. a \<noteq> Move now r"
  shows "stopping (act a s) \<and> moves_left (act a s) \<le> moves_left s"
proof (cases a)
  case (Begin c)
  then show ?thesis
    using assms(1) by (auto simp: stopping_def moves_left_def configure_begin_def split: sum.splits)
next
  case (Send i)
  let ?s = "s\<lparr>sv_sending := take i (sv_sending s) @ drop (Suc i) (sv_sending s)\<rparr>"
  show ?thesis
  proof (cases "i < length (sv_sending s)")
    case True
    then have out: "sv_at s \<in> {Leaving, Closing, Gone} \<or> Stop \<in> set (sv_queue s)"
      using assms(1) by (auto simp: stopping_def)
    have "moves_left ?s = moves_left s" by (simp add: moves_left_def)
    then show ?thesis
      using stopping_channel [of ?s "Configure (sv_sending s ! i)"] out Send True
      by (simp add: configure_send_def)
  qed (use assms Send in \<open>simp add: configure_send_def\<close>)
next
  case Halt
  then show ?thesis using assms(1) stopping_channel [of s Stop] by (auto simp: stopping_def)
qed (use assms in \<open>auto simp: stopping_def moves_left_def\<close>)

definition is_move :: "supervisor_action \<Rightarrow> bool" where
  "is_move a = (case a of Move now r \<Rightarrow> True | Begin c \<Rightarrow> False | Send i \<Rightarrow> False | Halt \<Rightarrow> False | Drop_handle \<Rightarrow> False)"

lemma stopping_act:
  assumes "stopping s"
  shows "stopping (act a s) \<and> moves_left (act a s) \<le> moves_left s - (if is_move a then 1 else 0)"
proof (cases a)
  case (Move now r)
  then show ?thesis using stopping_move [OF assms] by (simp add: is_move_def)
qed (use stopping_other [OF assms, of a] in \<open>simp_all add: is_move_def\<close>)

lemma stopping_run:
  "stopping s \<Longrightarrow> stopping (fold act as s) \<and>
     moves_left (fold act as s) \<le> moves_left s - length (filter is_move as)"
proof (induction as arbitrary: s)
  case (Cons a as)
  have "stopping (act a s)" "moves_left (act a s) \<le> moves_left s - (if is_move a then 1 else 0)"
    using stopping_act [OF Cons.prems] by blast+
  then show ?case using Cons.IH [of "act a s"] by (auto split: if_splits)
qed simp

lemma moves_left_0: "moves_left s = 0 \<longleftrightarrow> sv_at s = Gone"
  by (simp add: moves_left_def Let_def split: loop_point.splits)

text \<open>No check is started once the supervisor is stopping; one that is under way completes.\<close>

lemma stopping_no_check:
  assumes "stopping s" and "sv_at s \<noteq> Checking"
  shows "sv_at (act a s) \<noteq> Checking \<and>
         ks_last_check_at (sv_status (act a s)) = ks_last_check_at (sv_status s)"
  using assms
  by (cases a; cases "sv_at s") (auto simp: stopping_def thread_move_def wait_ends_def configure_begin_def
      configure_send_def channel_send_def apply_configure_def
      split: sum.splits option.splits list.splits keepalive_control.splits)

lemma stopping_no_checks:
  "stopping s \<Longrightarrow> sv_at s \<noteq> Checking \<Longrightarrow>
   ks_last_check_at (sv_status (fold act as s)) = ks_last_check_at (sv_status s)"
proof (induction as arbitrary: s)
  case (Cons a as)
  then show ?case
    using stopping_no_check [OF Cons.prems, of a] stopping_act [OF Cons.prems(1), of a] by simp
qed simp

lemma takeWhile_snoc_le: "\<not> P x \<Longrightarrow> length (takeWhile P (q @ [x])) \<le> length q"
  by (induction q) auto

lemma stopping_bound: "moves_left s \<le> 2 * length (takeWhile (\<lambda>msg. msg \<noteq> Stop) (sv_queue s)) + 5"
  by (simp add: moves_left_def Let_def split: loop_point.splits)

lemma stopping_called:
  assumes "supervisor_ok s" and "sv_handle s" and "e = Halt \<or> e = Drop_handle \<and> sv_sending s = []"
  shows "stopping (act e s) \<and> moves_left (act e s) \<le> 2 * length (sv_queue s) + 5"
proof -
  consider "e = Halt" "sv_at s = Gone" | "e = Halt" "sv_at s \<noteq> Gone" | "e = Drop_handle"
    using assms(3) by blast
  then show ?thesis
  proof cases
    case 1
    then show ?thesis using assms(2) by (simp add: channel_send_def stopping_def moves_left_def)
  next
    case 2
    then have "act e s = s\<lparr>sv_queue := sv_queue s @ [Stop]\<rparr>"
      using assms(2) by (simp add: channel_send_def)
    then show ?thesis
      using stopping_bound [of "act e s"] takeWhile_snoc_le [of "\<lambda>msg. msg \<noteq> Stop" Stop "sv_queue s"]
      by (simp add: stopping_def)
  next
    case 3
    then show ?thesis
      using stopping_bound [of "act e s"] length_takeWhile_le [of "\<lambda>msg. msg \<noteq> Stop" "sv_queue s"] assms(3)
      by (simp add: stopping_def)
  qed
qed

text \<open>C23. Stopping ends the supervisor under every interleaving: once \<open>stop\<close> has been called or the
  handle dropped, whatever actions follow (further calls included), after as many steps of the
  thread as twice the messages then queued plus five the thread is gone and the status says so; and
  unless a check was under way at that moment, none is run any more.\<close>

theorem supervisor_stops:
  assumes "reachable supervisor_started supervisor_step s" and "sv_handle s"
    and "e = Halt \<or> e = Drop_handle \<and> sv_sending s = []"
    and "2 * length (sv_queue s) + 5 \<le> length (filter is_move as)"
  shows "sv_at (fold act as (act e s)) = Gone \<and> \<not> ks_running (sv_status (fold act as (act e s))) \<and>
         (sv_at s \<noteq> Checking \<longrightarrow>
            ks_last_check_at (sv_status (fold act as (act e s))) = ks_last_check_at (sv_status s))"
proof -
  have ok: "supervisor_ok s" by (rule supervisor.reach_inv [OF assms(1)])
  have st: "stopping (act e s)" "moves_left (act e s) \<le> 2 * length (sv_queue s) + 5"
    using stopping_called [OF ok assms(2,3)] by blast+
  have gone: "sv_at (fold act as (act e s)) = Gone"
    using stopping_run [OF st(1), of as] st(2) assms(4) by (simp flip: moves_left_0)
  have "supervisor_ok (fold act as (act e s))"
    using ok by (intro fold_invariant [where Q = "\<lambda>_. True" and P = supervisor_ok]) (auto intro: supervisor_ok_act)
  moreover have "sv_at (act e s) = sv_at s" "sv_status (act e s) = sv_status s"
    using assms(2,3) by (auto simp: channel_send_def)
  ultimately show ?thesis
    using gone stopping_no_checks [OF st(1), of as] by (auto simp: supervisor_ok_def)
qed

subsection \<open>A supervisor that is left alone checks for ever\<close>

definition quiet :: "supervisor \<Rightarrow> bool" where
  "quiet s \<longleftrightarrow> looping s \<and> sv_sending s = [] \<and> supervisor_ok s"

text \<open>The steps until the queue is empty are at most \<open>backlog\<close>.\<close>

definition backlog :: "supervisor \<Rightarrow> nat" where
  "backlog s = 2 * length (sv_queue s) +
     (case sv_at s of Checking \<Rightarrow> 2 | Reading \<Rightarrow> 1 | Waiting en iv \<Rightarrow> 0 | Leaving \<Rightarrow> 0 | Closing \<Rightarrow> 0 | Gone \<Rightarrow> 0)"

lemma quiet_move: "quiet s \<Longrightarrow> quiet (thread_move now r s)"
proof -
  have "sv_sending (thread_move now r s) = sv_sending s"
    by (simp add: thread_move_def wait_ends_def split: loop_point.splits list.splits keepalive_control.splits)
  then show "quiet s \<Longrightarrow> ?thesis" by (simp add: quiet_def looping_move supervisor_ok_move)
qed

lemma settled_move: "quiet s \<Longrightarrow> sv_queue s = [] \<Longrightarrow> sv_queue (thread_move now r s) = []"
  by (simp add: thread_move_def wait_ends_def split: loop_point.splits)

lemma backlog_move:
  assumes "quiet s" and "sv_queue s \<noteq> []"
  shows "backlog (thread_move now r s) < backlog s"
  using assms
  by (cases "sv_at s"; cases "sv_queue s")
    (auto simp: thread_move_def wait_ends_def backlog_def quiet_def looping_def split: keepalive_control.splits)

lemma supervised_quiet:
  assumes "\<And>n. N \<le> n \<Longrightarrow> \<exists>now r. sched n = Move now r" and "quiet (supervised sched s N)"
  shows "quiet (supervised sched s (N + k)) \<and> intended (supervised sched s (N + k)) = intended (supervised sched s N) \<and>
         (sv_queue (supervised sched s (N + k)) = [] \<or> backlog (supervised sched s (N + k)) + k \<le> backlog (supervised sched s N))"
proof (induction k)
  case (Suc k)
  obtain now r where m: "sched (N + k) = Move now r" using assms(1) [of "N + k"] by auto
  let ?s = "supervised sched s (N + k)"
  have s: "supervised sched s (N + Suc k) = thread_move now r ?s" using m by simp
  have q: "quiet ?s" using Suc.IH by blast
  then have "looping ?s" by (simp add: quiet_def)
  then show ?case
    using Suc.IH quiet_move [OF q, of now r] settled_move [OF q, of now r] backlog_move [OF q, of now r]
      intended_move [of ?s now r] unfolding s by fastforce
qed (use assms(2) in simp)

lemma settled_by:
  assumes "\<And>n. N \<le> n \<Longrightarrow> \<exists>now r. sched n = Move now r" and "quiet (supervised sched s N)"
    and "N + backlog (supervised sched s N) \<le> n"
  shows "quiet (supervised sched s n) \<and> sv_queue (supervised sched s n) = [] \<and>
         intended (supervised sched s n) = intended (supervised sched s N)"
proof -
  let ?f = "supervised sched s"
  let ?k = "n - N"
  have n: "n = N + ?k" "backlog (?f N) \<le> ?k" using assms(3) by simp_all
  have "quiet (?f n) \<and> intended (?f n) = intended (?f N) \<and>
      (sv_queue (?f n) = [] \<or> backlog (?f n) + ?k \<le> backlog (?f N))"
    using supervised_quiet [OF assms(1,2), of ?k] n(1) by simp
  moreover have "sv_queue (?f n) = []" if "backlog (?f n) + ?k \<le> backlog (?f N)"
  proof -
    have "backlog (?f n) = 0" using that n(2) by linarith
    then show ?thesis by (simp add: backlog_def)
  qed
  ultimately show ?thesis by blast
qed

text \<open>From a settled state with an enabled configuration the next check begins within two steps.\<close>

lemma settled_checks:
  assumes "quiet s" and "sv_queue s = []" and "kc_enabled (intended s)"
  shows "sv_at s = Checking \<or> sv_at (thread_move now r s) = Checking \<or>
         sv_at (thread_move now' r' (thread_move now r s)) = Checking"
proof -
  have en: "ks_enabled (sv_status s)"
    using assms by (simp add: quiet_def intended_def status_config_def)
  have w: "en = ks_enabled (sv_status s)" if "sv_at s = Waiting en iv" for en iv
    using assms that by (auto simp: quiet_def supervisor_ok_def)
  show ?thesis
    using assms(1,2) en w
    by (cases "sv_at s") (auto simp: thread_move_def wait_ends_def quiet_def looping_def)
qed

text \<open>C9. Liveness of the checks: in any infinite run of the supervisor, once the handle makes no more
  calls, no stop is pending and the last accepted configuration is enabled, checks go on for
  ever: at every later moment, after at most two steps of the thread per message left in the queue
  plus two, a check is run and recorded in the status within two further steps.\<close>

theorem supervisor_checks_forever:
  assumes "supervisor_started s" and "\<And>n. N \<le> n \<Longrightarrow> \<exists>now r. sched n = Move now r"
    and "looping (supervised sched s N)" and "sv_sending (supervised sched s N) = []"
    and "kc_enabled (intended (supervised sched s N))"
    and "N + 2 * length (sv_queue (supervised sched s N)) + 2 \<le> n"
  shows "\<exists>m now r. n \<le> m \<and> m \<le> n + 2 \<and> sched m = Move now r \<and>
           sv_at (supervised sched s m) = Checking \<and>
           sv_status (supervised sched s (Suc m)) = apply_cycle now r (sv_status (supervised sched s m))"
proof -
  let ?f = "supervised sched s"
  have "reachable supervisor_started supervisor_step s" by (rule reachable_start) (rule assms(1))
  then have "supervisor_ok (?f N)" by (intro supervisor.reach_inv supervised_reachable)
  then have q: "quiet (?f N)" using assms(3,4) by (simp add: quiet_def)
  have "N + backlog (?f N) \<le> n" using assms(6) by (simp add: backlog_def split: loop_point.splits)
  from settled_by [OF assms(2) q this] have st: "quiet (?f n)" "sv_queue (?f n) = []" "kc_enabled (intended (?f n))"
    using assms(5) by auto
  have "N \<le> n" using assms(6) by simp
  then obtain a r b r' where "sched n = Move a r" "sched (Suc n) = Move b r'"
    using assms(2) [of n] assms(2) [of "Suc n"] by auto
  then have "\<exists>m. n \<le> m \<and> m \<le> n + 2 \<and> sv_at (?f m) = Checking"
    using settled_checks [OF st, of a r b r']
    by (metis act.simps(5) supervised.simps(2) add_2_eq_Suc' le_SucI le_add1 order_refl)
  then obtain m where m: "n \<le> m" "m \<le> n + 2" "sv_at (?f m) = Checking" by blast
  moreover obtain now q where "sched m = Move now q" using assms(2) [of m] m(1) \<open>N \<le> n\<close> by auto
  ultimately show ?thesis by (auto simp: thread_move_def)
qed

subsection \<open>Reconfiguration restarts the wait\<close>

text \<open>
  A schedule in which each call of the handle arrives while the thread waits: read the status,
  begin, send, take the message, and so on, after the first check.
\<close>

fun busy_schedule :: "keepalive_config \<Rightarrow> nat \<Rightarrow> supervisor_action" where
  "busy_schedule c 0 = Move 0 (Inl undefined)"
| "busy_schedule c (Suc n) =
     (if n mod 4 = 1 then Begin c else if n mod 4 = 2 then Send 0 else Move n (Inl undefined))"

definition idle_reading :: "supervisor \<Rightarrow> bool" where
  "idle_reading s \<longleftrightarrow> sv_queue s = [] \<and> sv_sending s = [] \<and> sv_handle s \<and> sv_at s = Reading"

lemma busy_round:
  assumes "idle_reading s" and "5 \<le> kc_interval_secs c"
  shows "idle_reading (act (Move n r) (act (Send 0) (act (Begin c) (act (Move m q) s)))) \<and>
         sv_at (act (Move m q) s) \<noteq> Checking \<and> sv_at (act (Begin c) (act (Move m q) s)) \<noteq> Checking \<and>
         sv_at (act (Send 0) (act (Begin c) (act (Move m q) s))) \<noteq> Checking"
  using assms
  by (simp add: idle_reading_def thread_move_def configure_begin_def configure_send_def channel_send_def
      wait_ends_def validate_keepalive_def keepalive_min_interval_secs_def)

lemma busy_rounds:
  assumes "supervisor_started s" and "5 \<le> kc_interval_secs c"
  shows "idle_reading (supervised (busy_schedule c) s (Suc (4 * k)))"
proof (induction k)
  case 0
  then show ?case
    using assms(1) by (auto simp: supervisor_started_def supervisor_spawned_def
        thread_move_def idle_reading_def)
next
  case (Suc k)
  let ?n = "4 * k"
  have m: "?n mod 4 = 0" "Suc ?n mod 4 = 1" "Suc (Suc ?n) mod 4 = 2" "Suc (Suc (Suc ?n)) mod 4 = 3"
    by presburger+
  have "4 * Suc k = Suc (Suc (Suc (Suc ?n)))" by simp
  then show ?case
    using busy_round [OF Suc.IH assms(2), of "Suc (Suc (Suc ?n))" "Inl undefined" ?n "Inl undefined"]
    by (simp add: m del: mult_Suc_right)
qed

text \<open>Every later moment is one of the four of a round.\<close>

lemma busy_not_checking:
  assumes "supervisor_started s" and "5 \<le> kc_interval_secs c" and "0 < n"
  shows "sv_at (supervised (busy_schedule c) s n) \<noteq> Checking"
proof -
  let ?k = "(n - 1) div 4"
  let ?b = "4 * ?k"
  let ?f = "supervised (busy_schedule c) s"
  have m: "?b mod 4 = 0" "Suc ?b mod 4 = 1" "Suc (Suc ?b) mod 4 = 2" "Suc (Suc (Suc ?b)) mod 4 = 3"
    by presburger+
  have i: "idle_reading (?f (Suc ?b))" by (rule busy_rounds [OF assms(1,2)])
  have f: "?f (Suc (Suc ?b)) = act (Move ?b (Inl undefined)) (?f (Suc ?b))"
    "?f (Suc (Suc (Suc ?b))) = act (Begin c) (?f (Suc (Suc ?b)))"
    "?f (Suc (Suc (Suc (Suc ?b)))) = act (Send 0) (?f (Suc (Suc (Suc ?b))))"
    using m by simp_all
  have "n = Suc ?b \<or> n = Suc (Suc ?b) \<or> n = Suc (Suc (Suc ?b)) \<or> n = Suc (Suc (Suc (Suc ?b)))"
    using assms(3) by presburger
  moreover have "sv_at (?f (Suc ?b)) \<noteq> Checking" using i by (simp add: idle_reading_def)
  moreover note busy_round [OF i assms(2), of 0 "Inl undefined" ?b "Inl undefined"]
  ultimately show ?thesis unfolding f [symmetric] by (metis f)
qed

text \<open>A supervisor that is reconfigured during every wait runs no check after its first one, although
  its thread takes infinitely many steps and the configuration is valid and may be enabled: each
  message ends the wait and the next one starts from the full interval.\<close>

theorem reconfiguration_starves_checks:
  assumes "supervisor_started s" and "5 \<le> kc_interval_secs c"
  shows "(\<forall>n. \<exists>m \<ge> n. is_move (busy_schedule c m)) \<and>
         (\<forall>n > 0. sv_at (supervised (busy_schedule c) s n) \<noteq> Checking)"
proof -
  have "is_move (busy_schedule c (Suc (4 * n)))" for n by (simp add: is_move_def)
  moreover have "n \<le> Suc (4 * n)" for n :: nat by simp
  ultimately show ?thesis using busy_not_checking [OF assms] by blast
qed

subsection \<open>Uninterrupted, it is the sequential model\<close>

definition keepalive_of :: "supervisor \<Rightarrow> keepalive" where
  "keepalive_of s = \<lparr>ka_status = sv_status s, ka_queue = sv_queue s, ka_receiver = (sv_at s \<noteq> Gone)\<rparr>"

text \<open>The two steps of \<open>configure\<close> made in a row are \<open>keepalive_configure\<close>, and at most four steps of the
  thread from the top of its loop are one \<open>keepalive_turn\<close>.\<close>

theorem uninterrupted_is_sequential:
  assumes "sv_handle s" and "sv_sending s = []"
  shows "(5 \<le> kc_interval_secs c \<longrightarrow>
            keepalive_of (snd (configure_send 0 (snd (configure_begin c s)))) = snd (keepalive_configure c (keepalive_of s))) \<and>
         (sv_at s = Reading \<longrightarrow>
            (\<exists>k \<le> 4. keepalive_of ((thread_move now r ^^ k) s) = keepalive_turn now r (keepalive_of s) \<and>
               sv_at ((thread_move now r ^^ k) s) \<in> {Reading, Gone, Waiting False (ks_interval_secs (sv_status s))}))"
proof (intro conjI impI)
  show "keepalive_of (snd (configure_send 0 (snd (configure_begin c s)))) = snd (keepalive_configure c (keepalive_of s))"
    if "5 \<le> kc_interval_secs c"
    using that assms by (simp add: keepalive_of_def configure_begin_def configure_send_def channel_send_def
        keepalive_configure_def validate_keepalive_def keepalive_min_interval_secs_def Let_def)
  assume at: "sv_at s = Reading"
  let ?m = "thread_move now r"
  define moves where "moves = (case sv_queue s of Configure c # q \<Rightarrow> 2 | Stop # q \<Rightarrow> 4 | [] \<Rightarrow> if ks_enabled (sv_status s) then 3 else (1::nat))"
  have "keepalive_of ((?m ^^ moves) s) = keepalive_turn now r (keepalive_of s) \<and>
      sv_at ((?m ^^ moves) s) \<in> {Reading, Gone, Waiting False (ks_interval_secs (sv_status s))} \<and> moves \<le> 4"
    using assms at
    by (auto simp: moves_def keepalive_of_def keepalive_turn_def thread_move_def wait_ends_def thread_ends_def
        eval_nat_numeral split: list.splits keepalive_control.splits)
  then show "\<exists>k \<le> 4. keepalive_of ((?m ^^ k) s) = keepalive_turn now r (keepalive_of s) \<and>
      sv_at ((?m ^^ k) s) \<in> {Reading, Gone, Waiting False (ks_interval_secs (sv_status s))}" by blast
qed

subsection \<open>Concrete runs\<close>

definition default_supervisor :: supervisor where
  "default_supervisor = supervisor_spawned 100 default_keepalive_config"

lemma default_supervisor_started: "supervisor_started default_supervisor"
  unfolding supervisor_started_def default_supervisor_def
  by (intro exI [of _ 100] exI [of _ default_keepalive_config]) (simp add: default_keepalive_config_def ok_iff)

lemma default_supervisor_reachable: "reachable supervisor_started supervisor_step default_supervisor"
  by (rule reachable_start) (rule default_supervisor_started)

lemma default_supervisor_state:
  "looping default_supervisor" "sv_sending default_supervisor = []" "sv_handle default_supervisor"
  "sv_queue default_supervisor = []" "sv_at default_supervisor = Checking" "kc_enabled (intended default_supervisor)"
  by (simp_all add: default_supervisor_def supervisor_spawned_def looping_def intended_def status_config_def
      initial_status_def default_keepalive_config_def)

theorem supervisor_loses_no_configuration_witness:
  "intended (act (Send 0) (act (Begin \<lparr>kc_enabled = False, kc_interval_secs = 9\<rparr>) default_supervisor)) =
     \<lparr>kc_enabled = False, kc_interval_secs = 9\<rparr>"
proof -
  let ?c = "\<lparr>kc_enabled = False, kc_interval_secs = 9\<rparr>"
  let ?s = "act (Begin ?c) default_supervisor"
  have v: "validate_keepalive ?c = Inr ()" by (simp add: ok_iff)
  have r: "reachable supervisor_started supervisor_step ?s"
    by (rule reachable_step [where step = supervisor_step, OF default_supervisor_reachable supervisor_act])
  have l: "looping ?s" and f: "sv_sending ?s = [?c]"
    using default_supervisor_state by (simp_all add: configure_begin_def v looping_def)
  have "intended (act (Send 0) ?s) = sv_sending ?s ! 0"
    using supervisor_loses_no_configuration [OF r l] f by simp
  then show ?thesis using f by simp
qed

theorem supervisor_stops_witness:
  "sv_at (fold act [Move 1 (Inl undefined), Move 2 (Inl undefined), Begin default_keepalive_config, Send 0,
     Move 3 (Inl undefined), Move 4 (Inl undefined), Move 5 (Inl undefined)] (act Halt default_supervisor)) = Gone"
  using supervisor_stops [OF default_supervisor_reachable default_supervisor_state(3), of Halt
      "[Move 1 (Inl undefined), Move 2 (Inl undefined), Begin default_keepalive_config, Send 0,
        Move 3 (Inl undefined), Move 4 (Inl undefined), Move 5 (Inl undefined)]"]
  by (simp add: default_supervisor_state is_move_def)

theorem supervisor_checks_forever_witness:
  "\<exists>m \<ge> 1000. sv_at (supervised (\<lambda>n. Move n (Inl undefined)) default_supervisor m) = Checking"
proof -
  let ?sched = "\<lambda>n. Move n (Inl undefined)"
  have z: "supervised ?sched default_supervisor 0 = default_supervisor" by simp
  have "\<exists>m now r. 1000 \<le> m \<and> m \<le> 1000 + 2 \<and> ?sched m = Move now r \<and>
      sv_at (supervised ?sched default_supervisor m) = Checking \<and>
      sv_status (supervised ?sched default_supervisor (Suc m)) =
        apply_cycle now r (sv_status (supervised ?sched default_supervisor m))"
    by (rule supervisor_checks_forever [OF default_supervisor_started, where N = 0])
      (simp_all add: default_supervisor_state)
  then show ?thesis by blast
qed

theorem reconfiguration_starves_checks_witness:
  "sv_at (supervised (busy_schedule default_keepalive_config) default_supervisor 1000) \<noteq> Checking"
  using reconfiguration_starves_checks [OF default_supervisor_started, of default_keepalive_config]
  by (simp add: default_keepalive_config_def)

theorem uninterrupted_is_sequential_witness:
  "keepalive_of (snd (configure_send 0 (snd (configure_begin default_keepalive_config default_supervisor)))) =
     snd (keepalive_configure default_keepalive_config (keepalive_of default_supervisor))"
  using uninterrupted_is_sequential [OF default_supervisor_state(3,2), of default_keepalive_config]
  by (simp add: default_keepalive_config_def)

end
