(* ===== verification/Atomic_Programs.thy ===== *)
theory Atomic_Programs
  imports Prelude
begin

text \<open>
  Programs of atomic steps over a shared state: an operation that takes and releases a lock several
  times is one step per critical section, and other operations may run between two steps.
\<close>

subsection \<open>Programs\<close>

datatype ('s, 'r) program = Done 'r | Atomic "'s \<Rightarrow> 's \<times> ('s, 'r) program"

primrec run_alone :: "('s, 'r) program \<Rightarrow> 's \<Rightarrow> 'r \<times> 's" where
  "run_alone (Done r) = Pair r"
| "run_alone (Atomic f) = (\<lambda>s. case map_prod id run_alone (f s) of (s', k) \<Rightarrow> k s')"

primrec and_then :: "('s, 'a) program \<Rightarrow> ('a \<Rightarrow> ('s, 'b) program) \<Rightarrow> ('s, 'b) program" where
  "and_then (Done r) = (\<lambda>k. k r)"
| "and_then (Atomic f) = (\<lambda>k. Atomic (\<lambda>s. map_prod id (\<lambda>p. p k) (map_prod id and_then (f s))))"

definition atomically :: "('s \<Rightarrow> 'r \<times> 's) \<Rightarrow> ('s, 'r) program" where
  "atomically f = Atomic (\<lambda>s. case f s of (r, s') \<Rightarrow> (s', Done r))"

definition returning :: "('a \<Rightarrow> 'b) \<Rightarrow> ('s, 'a) program \<Rightarrow> ('s, 'b) program" where
  "returning f p = and_then p (\<lambda>r. Done (f r))"

text \<open>Every atomic step of the program, from whatever state it is taken, satisfies \<open>R\<close>.\<close>

inductive all_steps :: "('s \<Rightarrow> 's \<Rightarrow> bool) \<Rightarrow> ('s, 'r) program \<Rightarrow> bool" for R :: "'s \<Rightarrow> 's \<Rightarrow> bool" where
  all_done: "all_steps R (Done r)"
| all_atomic: "(\<And>s. R s (fst (f s))) \<Longrightarrow> (\<And>s. all_steps R (snd (f s))) \<Longrightarrow> all_steps R (Atomic f)"

inductive_simps all_steps_atomic: "all_steps R (Atomic f)"

text \<open>The program takes at most \<open>n\<close> atomic steps.\<close>

inductive steps_within :: "nat \<Rightarrow> ('s, 'r) program \<Rightarrow> bool" where
  within_done: "steps_within n (Done r)"
| within_atomic: "(\<And>s. steps_within n (snd (f s))) \<Longrightarrow> steps_within (Suc n) (Atomic f)"

lemma program_induct [case_names Done Atomic]:
  assumes "\<And>r. P (Done r)" and "\<And>f. (\<And>s. P (snd (f s))) \<Longrightarrow> P (Atomic f)"
  shows "P p"
proof (induction p)
  case (Atomic f)
  then show ?case using assms(2) by (metis prod.collapse rangeI snd_conv snds.intros)
qed (rule assms(1))

lemma run_alone_Atomic [simp]: "run_alone (Atomic f) s = run_alone (snd (f s)) (fst (f s))"
  by (simp add: case_prod_beta)

lemma and_then_Atomic [simp]:
  "and_then (Atomic f) k = Atomic (\<lambda>s. (fst (f s), and_then (snd (f s)) k))"
  by (auto simp: map_prod_def case_prod_beta)

declare run_alone.simps(2) [simp del] and_then.simps(2) [simp del]

lemma run_alone_atomically [simp]: "run_alone (atomically f) s = f s"
  by (simp add: atomically_def case_prod_beta)

lemma run_alone_and_then [simp]:
  "run_alone (and_then p k) s = (case run_alone p s of (r, s') \<Rightarrow> run_alone (k r) s')"
  by (induction p arbitrary: s rule: program_induct) (auto simp: case_prod_beta)

lemma run_alone_returning [simp]:
  "run_alone (returning f p) s = (case run_alone p s of (r, s') \<Rightarrow> (f r, s'))"
  by (simp add: returning_def)

lemma all_steps_and_then:
  assumes "all_steps R p" and "\<And>r. all_steps R (k r)"
  shows "all_steps R (and_then p k)"
  using assms(1) by (induction rule: all_steps.induct) (auto intro: all_atomic simp: assms(2))

lemma all_steps_returning [intro]: "all_steps R p \<Longrightarrow> all_steps R (returning f p)"
  by (auto simp: returning_def intro: all_steps_and_then all_done)

lemma all_steps_atomically: "(\<And>s. R s (snd (f s))) \<Longrightarrow> all_steps R (atomically f)"
  by (simp add: atomically_def case_prod_beta all_steps_atomic all_done)

lemma all_steps_mono: "all_steps R p \<Longrightarrow> (\<And>s s'. R s s' \<Longrightarrow> R' s s') \<Longrightarrow> all_steps R' p"
  by (induction rule: all_steps.induct) (auto intro: all_done all_atomic)

lemma steps_within_mono: "steps_within n p \<Longrightarrow> n \<le> m \<Longrightarrow> steps_within m p"
proof (induction arbitrary: m rule: steps_within.induct)
  case (within_atomic n f)
  then obtain k where "m = Suc k" "n \<le> k" by (cases m) auto
  with within_atomic show ?case by (auto intro: steps_within.within_atomic)
qed (rule within_done)

lemma steps_within_and_then:
  assumes "steps_within n p" and "\<And>r. steps_within m (k r)"
  shows "steps_within (n + m) (and_then p k)"
  using assms(1)
proof (induction rule: steps_within.induct)
  case (within_done n r)
  then show ?case using assms(2) steps_within_mono [of m "k r" "n + m"] by simp
qed (auto intro: steps_within.within_atomic)

lemma steps_within_returning: "steps_within n p \<Longrightarrow> steps_within n (returning f p)"
  using steps_within_and_then [OF _ within_done, of n p 0] by (simp add: returning_def)

lemma steps_within_atomically: "steps_within (Suc n) (atomically f)"
  unfolding atomically_def by (rule within_atomic) (simp add: case_prod_beta within_done)

lemma all_steps_any: "(\<And>s s'. R s s') \<Longrightarrow> all_steps R p"
  by (induction p rule: program_induct) (auto intro: all_done all_atomic)

lemma all_steps_next: "all_steps R (Atomic f) \<Longrightarrow> f st = (st', rest) \<Longrightarrow> R st st' \<and> all_steps R rest"
  by (metis all_steps_atomic fst_conv snd_conv)

lemma within_next:
  assumes "steps_within n (Atomic f)" and "f st = (st', rest)"
  shows "\<exists>m. n = Suc m \<and> steps_within m rest"
  using assms(1)
proof cases
  case (within_atomic m)
  from within_atomic(2) [of st] show ?thesis using within_atomic(1) assms(2) by auto
qed

subsection \<open>Bounds on the number of steps\<close>

lemma within_case:
  "(\<And>e. steps_within n (f e)) \<Longrightarrow> (\<And>x. steps_within n (g x)) \<Longrightarrow>
   steps_within n (case r of Inl e \<Rightarrow> f e | Inr x \<Rightarrow> g x)"
  by (cases r) auto

lemma within_option:
  "steps_within n p \<Longrightarrow> (\<And>x. steps_within n (g x)) \<Longrightarrow>
   steps_within n (case r of None \<Rightarrow> p | Some x \<Rightarrow> g x)"
  by (cases r) auto

lemma within_pair: "(\<And>x y. steps_within n (f x y)) \<Longrightarrow> steps_within n (case r of (x, y) \<Rightarrow> f x y)"
  by (cases r) auto

lemma within_if: "steps_within n p \<Longrightarrow> steps_within n q \<Longrightarrow> steps_within n (if b then p else q)"
  by simp

lemma within_step: "0 < n \<Longrightarrow> steps_within n (atomically f)"
  using steps_within_atomically [where n = "n - 1" and f = f] by simp

lemma within_seq:
  "steps_within m p \<Longrightarrow> (\<And>r. steps_within n (k r)) \<Longrightarrow> m + n \<le> l \<Longrightarrow> steps_within l (and_then p k)"
  by (rule steps_within_mono [OF steps_within_and_then])

lemmas within_intros = within_case within_option within_pair within_if within_done steps_within_returning

subsection \<open>A program amid others\<close>

text \<open>
  \<open>after p tr q\<close>: the steps \<open>tr\<close>, each with the state it was taken in and the state it left, lead
  \<open>p\<close> to what is left of it, \<open>q\<close>. The state a step finds is whatever others made of the state the
  step before left.
\<close>

inductive after :: "('s, 'r) program \<Rightarrow> ('s \<times> 's) list \<Rightarrow> ('s, 'r) program \<Rightarrow> bool" where
  after_none: "after p [] p"
| after_step: "f s = (s', p) \<Longrightarrow> after p tr q \<Longrightarrow> after (Atomic f) ((s, s') # tr) q"

inductive_simps after_Done [simp]: "after (Done r) tr q"
inductive_simps after_Nil [simp]: "after p [] q"
inductive_simps after_Cons: "after (Atomic f) ((s, s') # tr) q"

lemma after_Atomic [simp]:
  "after (Atomic f) ((s, s') # tr) q \<longleftrightarrow> s' = fst (f s) \<and> after (snd (f s)) tr q"
  by (auto simp: after_Cons prod_eq_iff)

abbreviation finishes :: "('s, 'r) program \<Rightarrow> ('s \<times> 's) list \<Rightarrow> 'r \<Rightarrow> bool" where
  "finishes p tr r \<equiv> after p tr (Done r)"

lemma after_snoc: "after p tr (Atomic f) \<Longrightarrow> f s = (s', q) \<Longrightarrow> after p (tr @ [(s, s')]) q"
  by (induction p tr "Atomic f" rule: after.induct) (auto intro: after.intros)

lemma finishes_Atomic:
  "finishes (Atomic f) tr r \<longleftrightarrow> (\<exists>s tr'. tr = (s, fst (f s)) # tr' \<and> finishes (snd (f s)) tr' r)"
  by (cases tr) auto

lemma finishes_and_thenI: "finishes p tr1 x \<Longrightarrow> finishes (k x) tr2 r \<Longrightarrow> finishes (and_then p k) (tr1 @ tr2) r"
  by (induction p arbitrary: tr1 rule: program_induct) (auto simp: finishes_Atomic)

lemma finishes_and_then:
  "finishes (and_then p k) tr r \<longleftrightarrow>
     (\<exists>tr1 tr2 x. tr = tr1 @ tr2 \<and> finishes p tr1 x \<and> finishes (k x) tr2 r)"
proof
  show "finishes (and_then p k) tr r \<Longrightarrow> \<exists>tr1 tr2 x. tr = tr1 @ tr2 \<and> finishes p tr1 x \<and> finishes (k x) tr2 r"
  proof (induction p arbitrary: tr rule: program_induct)
    case (Atomic f)
    then obtain s tr' where tr: "tr = (s, fst (f s)) # tr'" "finishes (and_then (snd (f s)) k) tr' r"
      by (auto simp: finishes_Atomic)
    then obtain tr1 tr2 x where "tr' = tr1 @ tr2" "finishes (snd (f s)) tr1 x" "finishes (k x) tr2 r"
      using Atomic.IH [of s tr'] by blast
    with tr(1) show ?case by (intro exI [of _ "(s, fst (f s)) # tr1"] exI [of _ tr2] exI [of _ x]) simp
  qed simp
qed (auto intro: finishes_and_thenI)

lemma finishes_returning: "finishes (returning f p) tr r \<longleftrightarrow> (\<exists>x. finishes p tr x \<and> r = f x)"
  by (auto simp: returning_def finishes_and_then)

lemma finishes_atomically: "finishes (atomically f) tr r \<longleftrightarrow> (\<exists>s. tr = [(s, snd (f s))] \<and> r = fst (f s))"
  by (cases tr) (auto simp: atomically_def case_prod_beta)

end
