(* ===== verification/Core_Steps.thy ===== *)
theory Core_Steps
  imports System Atomic_Programs
begin

text \<open>
  The requests of the core that take a lock more than once, or talk to a process between two locks:
  starting scrcpy, configuring the keep-alive supervisor, pairing over Wi-Fi. Each is a program with
  one step per lock, per adb command and per process spawned.
\<close>

definition on_core :: "('c \<Rightarrow> 'r \<times> 'c) \<Rightarrow> 'c service \<Rightarrow> 'r \<times> 'c service" where
  "on_core f st = (case f (sv_core st) of (r, c) \<Rightarrow> (r, st\<lparr>sv_core := c\<rparr>))"

type_synonym ('n, 'w) core_answer = "(('n, 'w) core service, app_error + json) program"

text \<open>\<open>?\<close>: an error ends the request.\<close>

definition unless_error ::
    "('s, app_error + 'a) program \<Rightarrow> ('a \<Rightarrow> ('s, app_error + 'b) program) \<Rightarrow> ('s, app_error + 'b) program" where
  "unless_error p k = and_then p (\<lambda>r. case r of Inl e \<Rightarrow> Done (Inl e) | Inr x \<Rightarrow> k x)"

definition resolve_adb_step ::
    "('n, 'w) core_ports \<Rightarrow> core_env \<Rightarrow> (('n, 'w) core service, app_error + string) program" where
  "resolve_adb_step P env = atomically (on_core (\<lambda>co. (resolve_current_adb_path P env co, co)))"

subsection \<open>Starting scrcpy\<close>

text \<open>\<open>start_scrcpy\<close> up to the child it spawned, and the registration of the child.\<close>

definition spawn_scrcpy ::
    "string + nat \<Rightarrow> scrcpy_config \<Rightarrow> process_manager \<Rightarrow> (app_error + nat) \<times> process_manager" where
  "spawn_scrcpy spawned k pm =
     (case build_scrcpy_server_args k of
        Inl e \<Rightarrow> (Inl e, pm)
      | Inr args \<Rightarrow>
          (case spawned of
             Inl c \<Rightarrow>
               (Inl (with_suggestion ''Verify the selected device and installed Companion APK.''
                  (with_cause c (new_error ''SCRCPY_PROCESS_SPAWN_FAILED''
                     ''Failed to start the scrcpy ADB process.'' ''adb.scrcpy'' True))), pm)
           | Inr pid \<Rightarrow> (Inr pid, pm\<lparr>pm_running := insert pid (pm_running pm)\<rparr>)))"

definition register_scrcpy ::
    "child_reply \<Rightarrow> scrcpy_config \<Rightarrow> nat \<Rightarrow> process_manager \<Rightarrow>
     (app_error + scrcpy_process) \<times> process_manager" where
  "register_scrcpy reply k pid pm =
     (if pm_poisoned pm then (Inl registry_failed, pm)
      else
        (let pm1 = pm\<lparr>pm_children := (pm_children pm)(sc_session k \<mapsto> pid)\<rparr> in
         (Inr \<lparr>sp_session_id = sc_session k, sp_process_id = pid\<rparr>,
          case pm_children pm (sc_session k) of
            None \<Rightarrow> pm1
          | Some previous \<Rightarrow> wait_child reply previous (kill_child reply previous pm1))))"

definition on_processes ::
    "(process_manager \<Rightarrow> 'r \<times> process_manager) \<Rightarrow> ('n, 'w) core \<Rightarrow> 'r \<times> ('n, 'w) core" where
  "on_processes f co = (case f (co_processes co) of (r, pm) \<Rightarrow> (r, co\<lparr>co_processes := pm\<rparr>))"

definition scrcpy_start_program ::
    "('n, 'w) core_ports \<Rightarrow> core_env \<Rightarrow> json \<Rightarrow> ('n, 'w) core_answer" where
  "scrcpy_start_program P env params =
     (case parse_ipc_params (pt_serde P) ''adb.scrcpy.start'' decode_scrcpy_start
             ''adb.scrcpy.start params are invalid.'' params of
        Inl e \<Rightarrow> Done (Inl e)
      | Inr k \<Rightarrow>
          unless_error (resolve_adb_step P env) (\<lambda>path.
          unless_error (atomically (on_core (on_processes (spawn_scrcpy (cv_spawned env) k)))) (\<lambda>pid.
            returning (map_ok process_json)
              (atomically (on_core (on_processes (register_scrcpy (cv_child env) k pid)))))))"

subsection \<open>Configuring the keep-alive supervisor\<close>

text \<open>
  The status is read, the configuration completed from it, the completed configuration stored in the
  shared status and sent to the thread, and the status read again; the lock of the status is
  released in between. \<open>keepalive_status_step\<close> is \<open>None\<close> without a handle.
\<close>

definition keepalive_status_step :: "(('n, 'w) core service, keepalive_status option) program" where
  "keepalive_status_step = atomically (on_core (\<lambda>co. (map_option ka_status (co_keepalive co), co)))"

definition on_keepalive :: "(keepalive \<Rightarrow> 'r \<times> keepalive) \<Rightarrow> 'r \<Rightarrow> ('n, 'w) core \<Rightarrow> 'r \<times> ('n, 'w) core" where
  "on_keepalive f none co =
     (case co_keepalive co of
        None \<Rightarrow> (none, co)
      | Some k \<Rightarrow> (case f k of (r, k') \<Rightarrow> (r, co\<lparr>co_keepalive := Some k'\<rparr>)))"

definition store_config :: "keepalive_config \<Rightarrow> keepalive \<Rightarrow> unit \<times> keepalive" where
  "store_config c k = ((), k\<lparr>ka_status := apply_configure c (ka_status k)\<rparr>)"

definition send_config :: "keepalive_config \<Rightarrow> keepalive \<Rightarrow> (app_error + unit) \<times> keepalive" where
  "send_config c k =
     (if ka_receiver k then (Inr (), k\<lparr>ka_queue := ka_queue k @ [Configure c]\<rparr>)
      else (Inl (new_error ''ADB_KEEPALIVE_THREAD_STOPPED''
              ''ADB keep-alive thread has already stopped.'' ''adb.keepalive'' False), k))"

definition merged_config :: "bool option \<Rightarrow> nat option \<Rightarrow> keepalive_status \<Rightarrow> keepalive_config" where
  "merged_config enabled interval current =
     \<lparr>kc_enabled = (case enabled of None \<Rightarrow> ks_enabled current | Some b \<Rightarrow> b),
      kc_interval_secs = (case interval of None \<Rightarrow> ks_interval_secs current | Some i \<Rightarrow> i)\<rparr>"

definition configure_show :: "('n, 'w) core_answer" where
  "configure_show =
     returning (\<lambda>shown. case shown of
         None \<Rightarrow> Inl keepalive_not_started
       | Some s \<Rightarrow> Inr (status_json s app_error_json))
       keepalive_status_step"

definition configure_send :: "keepalive_config \<Rightarrow> ('n, 'w) core_answer" where
  "configure_send c =
     unless_error (atomically (on_core (on_keepalive (send_config c) (Inl keepalive_not_started)))) (\<lambda>_.
       configure_show)"

definition configure_store :: "keepalive_config \<Rightarrow> ('n, 'w) core_answer" where
  "configure_store c =
     (case validate_keepalive c of
        Inl e \<Rightarrow> Done (Inl e)
      | Inr _ \<Rightarrow>
          and_then (atomically (on_core (on_keepalive (store_config c) ()))) (\<lambda>_. configure_send c))"

definition keepalive_configure_program ::
    "('n, 'w) core_ports \<Rightarrow> json \<Rightarrow> ('n, 'w) core_answer" where
  "keepalive_configure_program P params =
     (case parse_ipc_params (pt_serde P) ''adb.keepalive.configure'' decode_keepalive_configure
             ''adb.keepalive.configure params must match { enabled?: boolean, intervalSecs?: number }.''
             params of
        Inl e \<Rightarrow> Done (Inl e)
      | Inr (enabled, interval) \<Rightarrow>
          and_then keepalive_status_step (\<lambda>seen.
            case seen of
              None \<Rightarrow> Done (Inl keepalive_not_started)
            | Some current \<Rightarrow>
                if enabled = None \<and> interval = None
                then Done (Inl (ipc_error ''IPC_PARAMS_INVALID''
                       ''adb.keepalive.configure requires at least one of enabled / intervalSecs.''))
                else configure_store (merged_config enabled interval current)))"

subsection \<open>Pairing over Wi-Fi\<close>

definition on_wireless ::
    "(pairing_manager \<Rightarrow> 'r \<times> pairing_manager) \<Rightarrow> ('n, 'w) core \<Rightarrow> 'r \<times> ('n, 'w) core" where
  "on_wireless f co = (case f (co_wireless co) of (r, wm) \<Rightarrow> (r, co\<lparr>co_wireless := wm\<rparr>))"

definition adb_step ::
    "('n, 'w) core_ports \<Rightarrow> string \<Rightarrow> string list \<Rightarrow> (('n, 'w) core service, app_error + adb_output) program" where
  "adb_step P path args =
     atomically (on_core (\<lambda>co. case pt_runner P path args (co_world co) of (r, w) \<Rightarrow> (r, co\<lparr>co_world := w\<rparr>)))"

text \<open>\<open>pair\<close>: the session is looked up, adb asked twice, and the session removed at the end.\<close>

definition pair_confirm ::
    "('n, 'w) core_ports \<Rightarrow> string \<Rightarrow> string \<Rightarrow> pending_pairing \<Rightarrow> string \<Rightarrow>
     (('n, 'w) core service, app_error + pairing_result) program" where
  "pair_confirm P sid path pairing endpoint =
     unless_error (adb_step P path [''pair'', endpoint, pp_password pairing]) (\<lambda>out.
       if \<not> pairing_confirmed out
       then Done (Inl (wifi_error ''ADB_QR_PAIRING_FAILED''
              ''ADB did not confirm QR-code pairing.''))
       else
         returning (map_ok (\<lambda>_. \<lparr>wr_paired = True, wr_service_name = pp_service_name pairing,
                                  wr_endpoint = endpoint\<rparr>))
           (atomically (on_core (on_wireless (cancel_pairing sid)))))"

definition pair_attempt ::
    "('n, 'w) core_ports \<Rightarrow> string \<Rightarrow> string \<Rightarrow> pending_pairing \<Rightarrow>
     (('n, 'w) core service, app_error + pairing_result) program" where
  "pair_attempt P sid path pairing =
     unless_error (adb_step P path [''mdns'', ''services'']) (\<lambda>discovery.
       if ao_exit_code discovery \<noteq> 0
       then Done (Inl (wifi_error ''ADB_QR_PAIRING_DISCOVERY_FAILED''
              ''ADB could not query mDNS pairing services.''))
       else
         (case find_pairing_endpoint (ao_stdout discovery) (pp_service_name pairing) of
            None \<Rightarrow>
              Done (Inl (with_suggestion ''Keep the QR scanner open and retry this request shortly.''
                (wifi_error ''ADB_QR_PAIRING_NOT_DISCOVERED''
                   ''The phone has not advertised the QR pairing service yet.'')))
          | Some endpoint \<Rightarrow> pair_confirm P sid path pairing endpoint))"

definition pair_program ::
    "('n, 'w) core_ports \<Rightarrow> nat \<Rightarrow> string \<Rightarrow> string \<Rightarrow>
     (('n, 'w) core service, app_error + pairing_result) program" where
  "pair_program P now sid path =
     unless_error (atomically (on_core (on_wireless (get_pending now sid)))) (pair_attempt P sid path)"

definition qr_pair_program ::
    "('n, 'w) core_ports \<Rightarrow> core_env \<Rightarrow> json \<Rightarrow> ('n, 'w) core_answer" where
  "qr_pair_program P env params =
     (case parse_ipc_params (pt_serde P) ''adb.wifi.qr.pair'' decode_session_id
             ''adb.wifi.qr.pair params must match { sessionId: string }.'' params of
        Inl e \<Rightarrow> Done (Inl e)
      | Inr sid \<Rightarrow>
          (case require_non_empty sid ''sessionId'' of
             Inl e \<Rightarrow> Done (Inl e)
           | Inr _ \<Rightarrow>
               unless_error (resolve_adb_step P env) (\<lambda>path.
                 returning (map_ok pairing_result_json) (pair_program P (cv_instant env) sid path))))"

subsection \<open>The three methods\<close>

definition stepwise_methods :: "string list" where
  "stepwise_methods = [''adb.scrcpy.start'', ''adb.keepalive.configure'', ''adb.wifi.qr.pair'']"

lemma stepwise_not_local: "mth \<in> set stepwise_methods \<Longrightarrow> \<not> local_method mth"
  by (auto simp: stepwise_methods_def local_method_def starts_with_def)

definition stepwise_program ::
    "('n, 'w) core_ports \<Rightarrow> core_env \<Rightarrow> string \<Rightarrow> json \<Rightarrow> ('n, 'w) core_answer" where
  "stepwise_program P env mth params =
     (if mth = ''adb.scrcpy.start'' then scrcpy_start_program P env params
      else if mth = ''adb.keepalive.configure'' then keepalive_configure_program P params
      else qr_pair_program P env params)"

subsection \<open>Run alone, a program is the handler\<close>

lemma run_unless_error [simp]:
  "run_alone (unless_error p k) st =
     (case run_alone p st of (Inl e, st') \<Rightarrow> (Inl e, st') | (Inr x, st') \<Rightarrow> run_alone (k x) st')"
  by (auto simp: unless_error_def split: prod.splits sum.splits)

lemma start_scrcpy_steps:
  "start_scrcpy spawned reply k pm =
     (case spawn_scrcpy spawned k pm of
        (Inl e, pm') \<Rightarrow> (Inl e, pm')
      | (Inr pid, pm') \<Rightarrow> register_scrcpy reply k pid pm')"
  by (simp add: start_scrcpy_def spawn_scrcpy_def register_scrcpy_def Let_def split: sum.splits)

lemma keepalive_configure_steps:
  "keepalive_configure c k =
     (case validate_keepalive c of
        Inl e \<Rightarrow> (Inl e, k)
      | Inr _ \<Rightarrow> send_config c (snd (store_config c k)))"
  by (simp add: keepalive_configure_def send_config_def store_config_def Let_def split: sum.splits)

lemma run_scrcpy_start:
  "run_alone (scrcpy_start_program P env params) st = on_core (handle_adb_scrcpy_start P env params) st"
  by (auto simp: scrcpy_start_program_def handle_adb_scrcpy_start_def start_scrcpy_steps resolve_adb_step_def
      on_core_def on_processes_def split: sum.splits prod.splits)

lemma run_keepalive_configure:
  "run_alone (keepalive_configure_program P params) st = on_core (handle_adb_keepalive_configure P params) st"
  by (auto simp: keepalive_configure_program_def configure_store_def configure_send_def configure_show_def handle_adb_keepalive_configure_def
      keepalive_configure_steps keepalive_status_step_def merged_config_def on_core_def on_keepalive_def
      store_config_def Let_def split: sum.splits prod.splits option.splits)

lemma run_pair:
  "run_alone (pair_program P now sid path) st =
     on_core (\<lambda>co. case pair_device now sid (pt_runner P) path (co_wireless co) (co_world co) of
       (r, wm, w) \<Rightarrow> (r, co\<lparr>co_wireless := wm, co_world := w\<rparr>)) st"
  by (auto simp: pair_program_def pair_attempt_def pair_confirm_def pair_device_def adb_step_def on_core_def on_wireless_def
      split: sum.splits prod.splits option.splits)

lemma run_qr_pair:
  "run_alone (qr_pair_program P env params) st = on_core (handle_adb_wifi_qr_pair P env params) st"
  by (auto simp: qr_pair_program_def handle_adb_wifi_qr_pair_def resolve_adb_step_def run_pair on_core_def
      split: sum.splits prod.splits)

lemma run_stepwise:
  "rq_method rq \<in> set stepwise_methods \<Longrightarrow>
   run_alone (stepwise_program P env (rq_method rq) (rq_params rq)) st = on_core (core_result P env rq) st"
  by (auto simp: stepwise_program_def stepwise_methods_def core_result_def run_scrcpy_start
      run_keepalive_configure run_qr_pair on_core_def Let_def)

subsection \<open>Their steps\<close>

lemma all_unless_error:
  "all_steps R p \<Longrightarrow> (\<And>x. all_steps R (k x)) \<Longrightarrow> all_steps R (unless_error p k)"
  by (auto simp: unless_error_def intro!: all_steps_and_then all_done split: sum.splits)

lemma within_unless_error:
  "steps_within m p \<Longrightarrow> (\<And>x. steps_within n (k x)) \<Longrightarrow> m + n \<le> l \<Longrightarrow> steps_within l (unless_error p k)"
  unfolding unless_error_def by (intro within_seq [where m = m and n = n] within_case within_done)

text \<open>Every step of these requests is an operation on the core.\<close>

definition core_only :: "'c service \<Rightarrow> 'c service \<Rightarrow> bool" where
  "core_only st st' \<longleftrightarrow> (\<exists>c. st' = st\<lparr>sv_core := c\<rparr>)"

lemma on_core_only: "core_only st (snd (on_core f st))"
  by (auto simp: core_only_def on_core_def case_prod_beta)

lemma stepwise_all: "all_steps core_only (stepwise_program P env mth params)"
proof -
  have "all_steps core_only (scrcpy_start_program P env params)"
    by (auto simp: scrcpy_start_program_def resolve_adb_step_def on_core_only
        intro!: all_unless_error all_steps_atomically all_steps_returning all_done split: sum.splits)
  moreover have "all_steps core_only (keepalive_configure_program P params)"
    by (auto simp: keepalive_configure_program_def configure_store_def configure_send_def configure_show_def
        keepalive_status_step_def on_core_only
        intro!: all_unless_error all_steps_and_then all_steps_atomically all_steps_returning all_done
        split: sum.splits option.splits)
  moreover have "all_steps core_only (pair_program P now sid path)" for now sid path
    by (auto simp: pair_program_def pair_attempt_def pair_confirm_def adb_step_def on_core_only
        intro!: all_unless_error all_steps_atomically all_steps_returning all_done split: option.splits)
  then have "all_steps core_only (qr_pair_program P env params)"
    by (auto simp: qr_pair_program_def resolve_adb_step_def on_core_only
        intro!: all_unless_error all_steps_atomically all_steps_returning all_done split: sum.splits)
  ultimately show ?thesis unfolding stepwise_program_def by simp
qed

lemma stepwise_within: "steps_within 5 (stepwise_program P env mth params)"
proof -
  have "steps_within 3 (scrcpy_start_program P env params)"
    unfolding scrcpy_start_program_def resolve_adb_step_def
    by (intro within_intros within_unless_error [where m = 1 and n = 2]
        within_unless_error [where m = 1 and n = 1] within_step) simp_all
  moreover have "steps_within 4 (keepalive_configure_program P params)"
    unfolding keepalive_configure_program_def configure_store_def configure_send_def configure_show_def
      keepalive_status_step_def
    by (intro within_intros within_seq [where m = 1 and n = 3] within_seq [where m = 1 and n = 2]
        within_unless_error [where m = 1 and n = 1] within_step) simp_all
  moreover have "steps_within 4 (pair_program P now sid path)" for now sid path
    unfolding pair_program_def pair_attempt_def pair_confirm_def adb_step_def
    by (intro within_unless_error [where m = 1 and n = 3] within_unless_error [where m = 1 and n = 2]
        within_unless_error [where m = 1 and n = 1] within_intros within_step) simp_all
  then have "steps_within 5 (qr_pair_program P env params)"
    unfolding qr_pair_program_def resolve_adb_step_def
    by (intro within_intros within_unless_error [where m = 1 and n = 4] within_step) simp_all
  ultimately show ?thesis
    unfolding stepwise_program_def by (auto intro: steps_within_mono)
qed

end
