(* ===== verification/Concurrent_Requests.thy ===== *)
theory Concurrent_Requests
  imports Core_Steps
begin

text \<open>
  Requests that run at the same time. \<open>CoreService\<close> and \<open>RemoteControlService\<close> are shared by the
  loop over the standard input and by one task per stream of every remote client, and no lock is
  held for a whole request. A request is therefore a program of atomic steps, one per call of the
  account manager and one per step of the core's part (\<open>Core_Steps\<close>), and requests interleave at these steps. Run alone, each program is the
  function of the sequential model.
\<close>

subsection \<open>Local management\<close>

text \<open>
  A request of the local management interface: the session is checked in one call of the account
  manager and the operation is another, for a password change after a second check of the token.
\<close>

type_synonym 'c answers = "('c service, app_error + json) program"

definition local_change_program ::
    "argon \<Rightarrow> serde_text \<Rightarrow> auth_envs \<Rightarrow> json \<Rightarrow> string \<Rightarrow> 'c answers" where
  "local_change_program A sm E params token =
     (case local_params sm ''changePassword'' (decode_two ''currentPassword'' ''newPassword'') params of
        Inl e \<Rightarrow> Done (Inl e)
      | Inr pq \<Rightarrow>
          and_then (atomically (on_accounts (authenticate (E 1) token))) (\<lambda>r.
            case r of
              Inl e \<Rightarrow> Done (Inl e)
            | Inr s \<Rightarrow>
                returning (map_ok (\<lambda>_. login_required_json ''passwordChanged''))
                  (atomically (on_accounts
                     (change_own_password A (E 2) (as_username s) (fst pq) (snd pq))))))"

definition local_admin_program ::
    "argon \<Rightarrow> serde_text \<Rightarrow> auth_envs \<Rightarrow> string \<Rightarrow> json \<Rightarrow> 'c answers" where
  "local_admin_program A sm E mth params =
     (if mth = ''remote.internal.session.inspect''
      then atomically (on_accounts (inspect_remote_session sm E params))
      else if mth = ''remote.admin.login'' then atomically (on_accounts (local_login A sm E params))
      else
        and_then (atomically (on_accounts (authenticate_admin sm E params))) (\<lambda>r.
          case r of
            Inl e \<Rightarrow> Done (Inl e)
          | Inr s \<Rightarrow>
              if as_password_change_required s \<and> mth \<notin> set free_while_change_required
              then Done (Inl local_change_required)
              else if mth = ''remote.admin.changePassword''
              then local_change_program A sm E params (as_token s)
              else atomically (on_accounts (local_manage A sm E mth params s))))"

subsection \<open>The core\<close>

text \<open>
  A request of the core takes its environment, then is one step, or for the local methods the
  program of the account operations, or for the methods of \<open>Core_Steps\<close> their program.
\<close>

definition take_env :: "('n, 'w) core service \<Rightarrow> (core_env \<times> bool) \<times> ('n, 'w) core service" where
  "take_env st =
     ((co_envs (sv_core st) (co_requests (sv_core st)), co_has_local_admin (sv_core st)),
      st\<lparr>sv_core := (sv_core st)\<lparr>co_requests := Suc (co_requests (sv_core st))\<rparr>\<rparr>)"

definition core_program ::
    "('n, 'w) core_ports \<Rightarrow> ipc_request \<Rightarrow> (('n, 'w) core service, ipc_response) program" where
  "core_program P rq =
     (if local_method (rq_method rq)
      then and_then (atomically take_env) (\<lambda>(env, has).
             if has
             then returning (ipc_reply (rq_id rq))
                    (local_admin_program (pt_argon P) (pt_serde P) (cv_auth env) (rq_method rq) (rq_params rq))
             else Done (ipc_failure (Some (rq_id rq)) admin_not_configured))
      else if rq_method rq \<in> set stepwise_methods
      then and_then (atomically take_env) (\<lambda>(env, has).
             returning (ipc_reply (rq_id rq)) (stepwise_program P env (rq_method rq) (rq_params rq)))
      else atomically (call_core (core_handle_request P) rq))"

lemma run_local_change:
  "run_alone (local_change_program A sm E params token) st =
     on_accounts (local_change_password A sm E params token) st"
  by (auto simp: local_change_program_def local_change_password_def on_accounts_def case_prod_beta
      split: sum.splits)

lemma local_manage_change:
  "local_manage A sm E ''remote.admin.changePassword'' p s = local_change_password A sm E p (as_token s)"
  by (rule ext) (simp add: local_manage_def)

lemma run_local_admin:
  "run_alone (local_admin_program A sm E mth params) st = on_accounts (local_admin_result A sm E mth params) st"
  by (auto simp: local_admin_program_def local_admin_result_def run_local_change local_manage_change
      on_accounts_def case_prod_beta split: sum.splits)

lemma run_core: "run_alone (core_program P rq) st = call_core (core_handle_request P) rq st"
  by (simp add: core_program_def take_env_def call_core_def core_handle_request_def Let_def
      run_local_admin on_accounts_def local_admin_handle_def case_prod_beta run_stepwise on_core_def
      stepwise_not_local)

subsection \<open>The remote service\<close>

text \<open>
  \<open>core\<close> is the program of a request of the core. Looking up the connected devices is one request of
  the core; the assignment of a device looks it up before it is stored; each line of a client's
  diagnostics is written on its own.
\<close>

type_synonym 'c core_programs = "ipc_request \<Rightarrow> ('c service, ipc_response) program"

definition device_ids_program :: "'c core_programs \<Rightarrow> ('c service, string list) program" where
  "device_ids_program core = returning parsed_adb_devices (core probe_request)"

definition resolve_program ::
    "'c core_programs \<Rightarrow> authenticated_session \<Rightarrow> remote_request \<Rightarrow> ('c service, remote_request) program" where
  "resolve_program core s rr =
     (case requested_device (rr_method rr) (rr_params rr) of
        None \<Rightarrow> Done rr
      | Some requested \<Rightarrow>
          if \<not> session_can_access_device s requested then Done rr
          else returning
                 (\<lambda>ids. case find (same_remote_device_identity requested) ids of
                    None \<Rightarrow> rr
                  | Some current \<Rightarrow>
                      rr\<lparr>rr_params := set_requested_device (rr_method rr) current (rr_params rr)\<rparr>)
                 (device_ids_program core))"

definition forward_program ::
    "'c core_programs \<Rightarrow> authenticated_session \<Rightarrow> remote_request \<Rightarrow> ('c service, remote_response) program" where
  "forward_program core s rr0 =
     and_then (if as_role s \<noteq> Admin then resolve_program core s rr0 else Done rr0) (\<lambda>rr.
       case (if as_role s \<noteq> Admin
             then authorize_user_core_request (rr_method rr) (rr_params rr) s else Inr ()) of
         Inl e \<Rightarrow> Done (remote_failure (Some (rr_id rr)) e)
       | Inr _ \<Rightarrow>
           and_then (core \<lparr>rq_id = rr_id rr, rq_method = rr_method rr, rq_params = rr_params rr\<rparr>) (\<lambda>resp.
             if rr_method rr = ''device.list'' \<and> as_role s \<noteq> Admin \<and> rs_ok resp
             then (case Option.bind (rs_result resp) as_array of
                     None \<Rightarrow> Done (remote_of_ipc resp)
                   | Some devices \<Rightarrow>
                       returning
                         (\<lambda>ids. remote_of_ipc (resp\<lparr>rs_result :=
                            Some (JArr (reconcile_remote_device_list devices s ids))\<rparr>))
                         (device_ids_program core))
             else Done (remote_of_ipc resp)))"

definition has_device_program :: "'c core_programs \<Rightarrow> string \<Rightarrow> ('c service, bool) program" where
  "has_device_program core d =
     returning (\<lambda>resp. case Option.bind (rs_result resp) as_array of
                  None \<Rightarrow> False
                | Some devices \<Rightarrow> list_ex (\<lambda>v. get_str ''deviceId'' v = Some d) devices)
       (core assignment_check_request)"

definition assign_program ::
    "'c core_programs \<Rightarrow> serde_text \<Rightarrow> auth_envs \<Rightarrow> json \<Rightarrow> authenticated_session \<Rightarrow> 'c answers" where
  "assign_program core sm E params s =
     (case require_admin s of
        Inl e \<Rightarrow> Done (Inl e)
      | Inr _ \<Rightarrow>
          (case remote_params sm ''assign'' decode_assign params of
             Inl e \<Rightarrow> Done (Inl e)
           | Inr p \<Rightarrow>
               and_then (if snd (snd p) then has_device_program core (fst (snd p)) else Done True) (\<lambda>known.
                 if \<not> known then Done (Inl device_not_connected)
                 else returning (map_ok account_json)
                        (atomically (on_accounts (set_device_access (E 1) (fst p) (fst (snd p)) (snd (snd p))))))))"

definition write_line :: "json \<Rightarrow> 'c service \<Rightarrow> unit \<times> 'c service" where
  "write_line l st = ((), st\<lparr>sv_log := sv_log st @ [l]\<rparr>)"

primrec write_lines :: "json list \<Rightarrow> ('c service, unit) program" where
  "write_lines [] = Done ()"
| "write_lines (l # ls) = and_then (atomically (write_line l)) (\<lambda>_. write_lines ls)"

definition report_program :: "serde_text \<Rightarrow> json \<Rightarrow> authenticated_session \<Rightarrow> 'c answers" where
  "report_program sm params s =
     (case remote_params sm ''report'' decode_report params of
        Inl e \<Rightarrow> Done (Inl e)
      | Inr p \<Rightarrow>
          if snd p = [] \<or> length (snd p) > 50 then Done (Inl batch_invalid)
          else returning (\<lambda>_. Inr (JObj [(''accepted'', JInt (int (length (snd p))))]))
                 (write_lines (map (diagnostic_line (as_username s) (safe (fst p) 64)) (snd p))))"

definition dispatch_program ::
    "argon \<Rightarrow> serde_text \<Rightarrow> 'c core_programs \<Rightarrow> auth_envs \<Rightarrow> remote_request \<Rightarrow> string \<Rightarrow>
     authenticated_session \<Rightarrow> ('c service, remote_response) program" where
  "dispatch_program A sm core E rr token s =
     (let mth = rr_method rr; params = rr_params rr; reply = returning (remote_reply (rr_id rr)) in
      if mth = ''auth.me''
      then Done (remote_success (rr_id rr)
              (JObj [(''username'', JStr (as_username s)), (''role'', role_json (as_role s)),
                     (''devices'', strings_json (as_devices s)),
                     (''passwordChangeRequired'', JBool (as_password_change_required s))]))
      else if mth = ''auth.logout''
      then reply (returning (map_ok (\<lambda>_. JObj [(''loggedOut'', JBool True)]))
                    (atomically (on_accounts (logout token))))
      else if mth = ''auth.changePassword''
      then reply (atomically (remote_change_password A sm E params s))
      else if mth = ''diagnostics.report'' then reply (report_program sm params s)
      else if mth = ''admin.users.list'' then reply (atomically (admin_list_users s))
      else if mth = ''admin.users.create'' then reply (atomically (admin_create_user A sm E params s))
      else if mth = ''admin.users.delete'' then reply (atomically (admin_delete_user sm E params s))
      else if mth = ''admin.users.resetPassword''
      then reply (atomically (admin_reset_password A sm E params s))
      else if mth = ''admin.devices.assign'' then reply (assign_program core sm E params s)
      else forward_program core s rr)"

definition remote_program ::
    "argon \<Rightarrow> serde_text \<Rightarrow> 'c core_programs \<Rightarrow> auth_envs \<Rightarrow> remote_request \<Rightarrow>
     ('c service, remote_response) program" where
  "remote_program A sm core E rr =
     (if rr_method rr = ''auth.login''
      then returning (remote_reply (rr_id rr)) (atomically (remote_login A sm E (rr_params rr)))
      else
        (case rr_session_token rr of
           None \<Rightarrow> Done (remote_failure (Some (rr_id rr)) session_required)
         | Some token \<Rightarrow>
             if token = [] then Done (remote_failure (Some (rr_id rr)) session_required)
             else
               and_then (atomically (on_accounts (authenticate (E 0) token))) (\<lambda>r.
                 case r of
                   Inl e \<Rightarrow> Done (remote_failure (Some (rr_id rr)) e)
                 | Inr s \<Rightarrow>
                     if as_password_change_required s \<and> rr_method rr \<notin> set remote_free_methods
                     then Done (remote_failure (Some (rr_id rr)) remote_change_required)
                     else dispatch_program A sm core E rr token s)))"

subsection \<open>Run alone, a program is the sequential function\<close>

lemma run_ids: "run_alone (device_ids_program (core_program P)) st = current_adb_device_ids (core_handle_request P) st"
  by (simp add: device_ids_program_def current_adb_device_ids_def run_core)

lemma run_resolve:
  "run_alone (resolve_program (core_program P) s rr) st = resolve_request_device_alias (core_handle_request P) s rr st"
  by (auto simp: resolve_program_def resolve_request_device_alias_def run_ids case_prod_beta
      split: option.splits)

lemma run_forward:
  "run_alone (forward_program (core_program P) s rr) st = forward_core_request (core_handle_request P) s rr st"
  by (auto simp: forward_program_def forward_core_request_def run_resolve run_core run_ids case_prod_beta
      split: sum.splits option.splits)

lemma run_assign:
  "run_alone (assign_program (core_program P) sm E params s) st =
     admin_assign_device (core_handle_request P) sm E params s st"
  by (auto simp: assign_program_def admin_assign_device_def has_device_program_def core_has_device_def
      run_core case_prod_beta split: sum.splits)

lemma run_lines: "run_alone (write_lines ls) st = ((), st\<lparr>sv_log := sv_log st @ ls\<rparr>)"
  by (induction ls arbitrary: st) (simp_all add: write_line_def)

lemma run_report: "run_alone (report_program sm params s) st = report_diagnostics sm params s st"
  by (auto simp: report_program_def report_diagnostics_def run_lines split: sum.splits)

lemma run_dispatch:
  "run_alone (dispatch_program A sm (core_program P) E rr token s) st =
     remote_dispatch A sm (core_handle_request P) E rr token s st"
  by (simp add: dispatch_program_def remote_dispatch_def Let_def run_report run_assign run_forward
      reply_with_def case_prod_beta)

lemma run_remote:
  "run_alone (remote_program A sm (core_program P) E rr) st =
     remote_handle_request A sm (core_handle_request P) E rr st"
  by (auto simp: remote_program_def remote_handle_request_def run_dispatch reply_with_def case_prod_beta
      split: option.splits sum.splits)

end
