(* ===== verification/Concurrent_Facts.thy ===== *)
theory Concurrent_Facts
  imports Concurrent_Requests
begin

text \<open>
  Requests of the host and of remote clients interleaved at their atomic steps. The pool holds the
  shared state of the service and the tasks under way, each with what is left of its program and
  the states in which it took its steps so far.
\<close>

subsection \<open>The pool\<close>

datatype job = Remote auth_envs remote_request | Host ipc_request

datatype answer = To_remote remote_response | To_host ipc_response

record ('n, 'w) task =
  tk_job :: job
  tk_left :: "(('n, 'w) core service, answer) program"
  tk_seen :: "('n, 'w) core service list"

record ('n, 'w) pool =
  pl_service :: "('n, 'w) core service"
  pl_tasks :: "nat \<rightharpoonup> ('n, 'w) task"

definition job_program :: "('n, 'w) core_ports \<Rightarrow> job \<Rightarrow> (('n, 'w) core service, answer) program" where
  "job_program P j =
     (case j of
        Remote E rr \<Rightarrow>
          returning To_remote (remote_program (pt_argon P) (pt_serde P) (core_program P) E rr)
      | Host rq \<Rightarrow> returning To_host (core_program P rq))"

definition new_task :: "('n, 'w) core_ports \<Rightarrow> job \<Rightarrow> ('n, 'w) task" where
  "new_task P j = \<lparr>tk_job = j, tk_left = job_program P j, tk_seen = []\<rparr>"

definition pool_start :: "('n, 'w) core_ports \<Rightarrow> ('n, 'w) pool \<Rightarrow> bool" where
  "pool_start P p \<longleftrightarrow> system_start P (pl_service p) \<and> pl_tasks p = Map.empty"

definition advanced :: "('n, 'w) task \<Rightarrow> ('n, 'w) core service \<Rightarrow> (('n, 'w) core service, answer) program \<Rightarrow> ('n, 'w) task" where
  "advanced t st rest = t\<lparr>tk_left := rest, tk_seen := tk_seen t @ [st]\<rparr>"

inductive pool_step :: "('n, 'w) core_ports \<Rightarrow> ('n, 'w) pool \<Rightarrow> ('n, 'w) pool \<Rightarrow> bool"
  for P :: "('n, 'w) core_ports" where
  task_arrives: "pl_tasks p i = None \<Longrightarrow>
     pool_step P p (p\<lparr>pl_tasks := (pl_tasks p)(i \<mapsto> new_task P j)\<rparr>)"
| task_advances: "pl_tasks p i = Some t \<Longrightarrow> tk_left t = Atomic f \<Longrightarrow> f (pl_service p) = (st, rest) \<Longrightarrow>
     pool_step P p \<lparr>pl_service = st, pl_tasks = (pl_tasks p)(i \<mapsto> advanced t (pl_service p) rest)\<rparr>"
| task_answers: "pl_tasks p i = Some t \<Longrightarrow> tk_left t = Done r \<Longrightarrow>
     pool_step P p (p\<lparr>pl_tasks := (pl_tasks p)(i := None)\<rparr>)"

inductive_cases pool_stepE: "pool_step P p p'"

subsection \<open>What an atomic step does to the accounts\<close>

definition accounts_move :: "argon \<Rightarrow> 'c service \<Rightarrow> 'c service \<Rightarrow> bool" where
  "accounts_move A st st' \<longleftrightarrow>
     sv_accounts st' = sv_accounts st \<or> auth_step A (sv_accounts st) (sv_accounts st')"

lemma on_accounts_move:
  assumes "\<And>m. snd (f m) = m \<or> auth_step A m (snd (f m))"
  shows "accounts_move A st (snd (on_accounts f st))"
  using assms [of "sv_accounts st"] by (auto simp: accounts_move_def on_accounts_def case_prod_beta)

lemmas auth_moves = step_login step_authenticate step_logout step_create step_delete step_change
  step_reset step_assign

lemma local_step_moves:
  "snd (inspect_remote_session sm E p m) = m \<or> auth_step A m (snd (inspect_remote_session sm E p m))"
  "snd (local_login A sm E p m) = m \<or> auth_step A m (snd (local_login A sm E p m))"
  "snd (authenticate_admin sm E p m) = m \<or> auth_step A m (snd (authenticate_admin sm E p m))"
  by (auto simp: inspect_remote_session_def local_login_def authenticate_admin_def case_prod_beta
      auth_moves split: sum.splits)

lemma local_manage_moves:
  assumes "mth \<noteq> ''remote.admin.changePassword''"
  shows "snd (local_manage A sm E mth p s m) = m \<or> auth_step A m (snd (local_manage A sm E mth p s m))"
proof -
  have "snd (local_create_user A sm E p m) = m \<or> auth_step A m (snd (local_create_user A sm E p m))"
    "snd (local_delete_user sm E p m) = m \<or> auth_step A m (snd (local_delete_user sm E p m))"
    "snd (local_reset_password A sm E p m) = m \<or> auth_step A m (snd (local_reset_password A sm E p m))"
    "snd (local_assign_device sm E p m) = m \<or> auth_step A m (snd (local_assign_device sm E p m))"
    by (auto simp: local_create_user_def local_delete_user_def local_reset_password_def
        local_assign_device_def case_prod_beta auth_moves split: sum.splits)
  with assms show ?thesis
    by (simp add: local_manage_def local_list_users_def case_prod_beta auth_moves)
qed

lemma local_change_moves: "all_steps (accounts_move A) (local_change_program A sm E params token)"
  by (auto simp: local_change_program_def auth_moves intro!: all_steps_and_then all_done
      all_steps_returning all_steps_atomically on_accounts_move split: sum.splits)

lemma local_admin_moves: "all_steps (accounts_move A) (local_admin_program A sm E mth params)"
  by (auto simp: local_admin_program_def local_change_moves
      intro!: all_steps_and_then all_done all_steps_atomically on_accounts_move local_step_moves
        local_manage_moves split: sum.splits)

lemma core_moves: "all_steps (accounts_move (pt_argon P)) (core_program P rq)"
proof -
  have "accounts_move (pt_argon P) st (snd (take_env st))" for st
    by (simp add: take_env_def accounts_move_def)
  moreover have "accounts_move (pt_argon P) st (snd (call_core (core_handle_request P) rq st))"
    if "\<not> local_method (rq_method rq)" for st
    by (simp add: accounts_move_def core_service.call_frame [OF that])
  moreover have "all_steps (accounts_move (pt_argon P)) (stepwise_program P env mth params)" for env mth params
    by (rule all_steps_mono [OF stepwise_all]) (auto simp: core_only_def accounts_move_def)
  ultimately show ?thesis
    by (auto simp: core_program_def intro!: all_steps_and_then all_steps_atomically all_done
        all_steps_returning local_admin_moves)
qed

lemma accounts_move_log [simp]: "accounts_move A st (st\<lparr>sv_log := ls\<rparr>)"
  by (simp add: accounts_move_def)

lemma write_lines_all:
  assumes "\<And>l st. R st (snd (write_line l st))"
  shows "all_steps R (write_lines ls)"
  using assms by (induction ls) (auto intro!: all_steps_and_then all_steps_atomically all_done)

lemma service_step_moves:
  "accounts_move A st (snd (remote_login A sm E p st))"
  "accounts_move A st (snd (remote_change_password A sm E p s st))"
  "accounts_move A st (snd (admin_list_users s st))"
  "accounts_move A st (snd (admin_create_user A sm E p s st))"
  "accounts_move A st (snd (admin_delete_user sm E p s st))"
  "accounts_move A st (snd (admin_reset_password A sm E p s st))"
  by (auto simp: remote_login_def remote_change_password_def admin_list_users_def admin_create_user_def
      admin_delete_user_def admin_reset_password_def accounts_move_def on_accounts_def case_prod_beta
      auth_moves split: sum.splits)

text \<open>How the steps of a dispatched request follow from those of its requests to the core.\<close>

lemma ids_all: "all_steps R (core probe_request) \<Longrightarrow> all_steps R (device_ids_program core)"
  by (auto simp: device_ids_program_def)

lemma resolve_all: "all_steps R (core probe_request) \<Longrightarrow> all_steps R (resolve_program core s rr)"
  by (auto simp: resolve_program_def intro: all_done ids_all split: option.splits)

lemma forward_all:
  assumes "all_steps R (core probe_request)"
    and "\<And>i mth p. (as_role s \<noteq> Admin \<Longrightarrow> authorize_user_core_request mth p s = Inr ()) \<Longrightarrow>
           all_steps R (core \<lparr>rq_id = i, rq_method = mth, rq_params = p\<rparr>)"
  shows "all_steps R (forward_program core s rr)"
proof -
  have "all_steps R (case Option.bind (rs_result resp) as_array of
                     None \<Rightarrow> Done (remote_of_ipc resp)
                   | Some devices \<Rightarrow>
                       returning
                         (\<lambda>ids. remote_of_ipc (resp\<lparr>rs_result :=
                            Some (JArr (reconcile_remote_device_list devices s ids))\<rparr>))
                         (device_ids_program core))" for resp
    using ids_all [of R core] assms(1) by (auto intro: all_done split: option.splits)
  then show ?thesis
    using assms(1)
    by (auto simp: forward_program_def intro!: all_steps_and_then resolve_all all_done assms(2)
        split: sum.splits if_splits)
qed

lemma assign_all:
  assumes "as_role s = Admin \<Longrightarrow> all_steps R (core assignment_check_request)"
    and "\<And>env n d b st. R st (snd (on_accounts (set_device_access env n d b) st))"
  shows "all_steps R (assign_program core sm E params s)"
  using assms
  by (auto simp: assign_program_def has_device_program_def require_admin_def intro!: all_steps_and_then
      all_steps_returning all_steps_atomically all_done split: sum.splits)

lemma report_all:
  assumes "\<And>l st. R st (snd (write_line l st))"
  shows "all_steps R (report_program sm params s)"
  using write_lines_all [of R] assms
  by (auto simp: report_program_def intro!: all_steps_returning all_done split: sum.splits)

text \<open>A dispatched request satisfies \<open>R\<close> when its account operations, its log lines and its requests do.\<close>

lemma dispatch_all:
  assumes "all_steps R (forward_program core s rr)"
    and "all_steps R (assign_program core sm E (rr_params rr) s)"
    and "\<And>l st. R st (snd (write_line l st))"
    and "\<And>st. R st (snd (on_accounts (logout token) st))"
    and "\<And>st. R st (snd (remote_change_password A sm E (rr_params rr) s st))"
    and "\<And>st. R st (snd (admin_list_users s st))"
    and "\<And>st. R st (snd (admin_create_user A sm E (rr_params rr) s st))"
    and "\<And>st. R st (snd (admin_delete_user sm E (rr_params rr) s st))"
    and "\<And>st. R st (snd (admin_reset_password A sm E (rr_params rr) s st))"
  shows "all_steps R (dispatch_program A sm core E rr token s)"
  using assms report_all [where R = R, OF assms(3)]
  by (simp add: dispatch_program_def Let_def all_done all_steps_returning all_steps_atomically)

lemma dispatch_moves:
  "all_steps (accounts_move (pt_argon P)) (dispatch_program (pt_argon P) sm (core_program P) E rr token s)"
  by (intro dispatch_all forward_all assign_all core_moves on_accounts_move service_step_moves)
    (simp_all add: auth_moves write_line_def)

lemma remote_moves:
  "all_steps (accounts_move (pt_argon P)) (remote_program (pt_argon P) sm (core_program P) E rr)"
  by (auto simp: remote_program_def auth_moves intro!: all_steps_and_then all_steps_returning all_done
      all_steps_atomically on_accounts_move service_step_moves dispatch_moves split: option.splits sum.splits)

lemma job_moves: "all_steps (accounts_move (pt_argon P)) (job_program P j)"
  by (cases j) (auto simp: job_program_def intro: remote_moves core_moves)

subsection \<open>What an atomic step does to the core\<close>

definition core_still :: "'c service \<Rightarrow> 'c service \<Rightarrow> bool" where
  "core_still st st' \<longleftrightarrow> sv_core st' = sv_core st"

text \<open>A step of a request made for the session \<open>s\<close>.\<close>

definition session_move ::
    "('n, 'w) core_ports \<Rightarrow> authenticated_session \<Rightarrow> ('n, 'w) core service \<Rightarrow> ('n, 'w) core service \<Rightarrow> bool" where
  "session_move P s st st' \<longleftrightarrow>
     as_role s = Admin \<or> sv_core st' = sv_core st \<or>
     (\<exists>rq. user_permitted s rq \<and> st' = snd (call_core (core_handle_request P) rq st))"

lemma service_step_core [simp]:
  "sv_core (snd (remote_change_password A sm E p s st)) = sv_core st"
  "sv_core (snd (admin_list_users s st)) = sv_core st"
  "sv_core (snd (admin_create_user A sm E p s st)) = sv_core st"
  "sv_core (snd (admin_delete_user sm E p s st)) = sv_core st"
  "sv_core (snd (admin_reset_password A sm E p s st)) = sv_core st"
  "sv_core (snd (remote_login A sm E p st)) = sv_core st"
  "sv_core (snd (write_line l st)) = sv_core st"
  by (auto simp: remote_change_password_def admin_list_users_def admin_create_user_def
      admin_delete_user_def admin_reset_password_def remote_login_def write_line_def case_prod_beta
      split: sum.splits)

lemma permitted_not_stepwise: "user_permitted s rq \<Longrightarrow> rq_method rq \<notin> set stepwise_methods"
  by (auto simp: user_permitted_def stepwise_methods_def probe_request_def user_read_only_methods_def
      user_device_methods_def)

lemma permitted_core: "user_permitted s rq \<Longrightarrow> all_steps (session_move P s) (core_program P rq)"
  using permitted_not_local [of s rq] permitted_not_stepwise [of s rq]
  by (auto simp: core_program_def session_move_def intro!: all_steps_atomically)

lemma dispatch_session:
  "all_steps (session_move P s) (dispatch_program A sm (core_program P) E rr token s)"
proof (cases "as_role s = Admin")
  case True
  then show ?thesis by (intro all_steps_any) (simp add: session_move_def)
next
  case False
  have "user_permitted s probe_request" by (simp add: user_permitted_def)
  moreover have "user_permitted s \<lparr>rq_id = i, rq_method = mth, rq_params = p\<rparr>"
    if "authorize_user_core_request mth p s = Inr ()" for i mth p
    using that by (intro authorize_Inr_permitted) simp
  ultimately show ?thesis
    using False by (intro dispatch_all forward_all assign_all permitted_core) (simp_all add: session_move_def)
qed

lemma free_dispatch_still:
  "rr_method rr \<in> set remote_free_methods \<Longrightarrow>
   all_steps core_still (dispatch_program A sm core E rr token s)"
  by (auto simp: dispatch_program_def Let_def remote_free_methods_def core_still_def
      intro!: all_done all_steps_returning all_steps_atomically)

subsection \<open>How long a request takes\<close>

lemma local_change_within: "steps_within 2 (local_change_program A sm E params token)"
  unfolding local_change_program_def
  by (intro within_intros within_seq [where m = 1 and n = 1] within_step) simp_all

lemma local_admin_within: "steps_within 3 (local_admin_program A sm E mth params)"
  unfolding local_admin_program_def
  by (intro within_intros within_seq [where m = 1 and n = 2] within_step local_change_within) simp_all

lemma core_within: "steps_within 6 (core_program P rq)"
  unfolding core_program_def
  by (intro within_intros within_seq [where m = 1 and n = 5] within_step stepwise_within
      steps_within_mono [OF local_admin_within]) simp_all

lemma ids_within: "steps_within 6 (device_ids_program (core_program P))"
  unfolding device_ids_program_def by (intro within_intros core_within)

lemma forward_within: "steps_within 18 (forward_program (core_program P) s rr)"
  unfolding forward_program_def resolve_program_def
  by (intro within_seq [where m = 6 and n = 12] within_seq [where m = 6 and n = 6] within_intros
      ids_within core_within) simp_all

lemma assign_within: "steps_within 7 (assign_program (core_program P) sm E params s)"
  unfolding assign_program_def has_device_program_def
  by (intro within_intros within_seq [where m = 6 and n = 1] core_within within_step) simp_all

lemma lines_within: "length ls \<le> n \<Longrightarrow> steps_within n (write_lines ls)"
proof (induction ls arbitrary: n)
  case (Cons l ls)
  obtain k where k: "n = Suc k" "length ls \<le> k" using Cons.prems by (cases n) auto
  show ?case
    unfolding write_lines.simps k(1)
    by (rule within_seq [where m = 1 and n = k]) (simp_all add: within_step Cons.IH [OF k(2)])
qed (simp add: within_done)

lemma report_within: "steps_within 50 (report_program sm params s)"
  unfolding report_program_def
  by (auto intro!: within_done steps_within_returning lines_within split: sum.splits)

lemma dispatch_within: "steps_within 50 (dispatch_program A sm (core_program P) E rr token s)"
  unfolding dispatch_program_def Let_def
  by (intro within_intros within_step report_within steps_within_mono [OF assign_within]
      steps_within_mono [OF forward_within]) simp_all

lemma remote_within: "steps_within 51 (remote_program A sm (core_program P) E rr)"
  unfolding remote_program_def
  by (intro within_intros within_seq [where m = 1 and n = 50] within_step dispatch_within) simp_all

lemma job_within: "steps_within 51 (job_program P j)"
proof (cases j)
  case (Host rq)
  have "steps_within 51 (core_program P rq)" by (rule steps_within_mono [OF core_within]) simp
  then show ?thesis using Host by (simp add: job_program_def steps_within_returning)
qed (simp add: job_program_def steps_within_returning remote_within)

subsection \<open>The invariant of the pool\<close>

text \<open>
  \<open>granted\<close>: in a state the task saw, its token belonged to a live session without an outstanding
  password change, and what is left of the task keeps to that session.
\<close>

definition granted :: "('n, 'w) core_ports \<Rightarrow> auth_envs \<Rightarrow> remote_request \<Rightarrow> ('n, 'w) task \<Rightarrow> bool" where
  "granted P E rr t \<longleftrightarrow>
     (\<exists>st0 \<in> set (tk_seen t). \<exists>tok s. rr_session_token rr = Some tok \<and>
        fst (authenticate (E 0) tok (sv_accounts st0)) = Inr s \<and> \<not> as_password_change_required s \<and>
        all_steps (session_move P s) (tk_left t))"

definition remote_task_ok :: "('n, 'w) core_ports \<Rightarrow> auth_envs \<Rightarrow> remote_request \<Rightarrow> ('n, 'w) task \<Rightarrow> bool" where
  "remote_task_ok P E rr t \<longleftrightarrow>
     tk_seen t = [] \<and> tk_left t = job_program P (Remote E rr) \<or>
     all_steps core_still (tk_left t) \<or> granted P E rr t"

definition task_ok :: "('n, 'w) core_ports \<Rightarrow> ('n, 'w) task \<Rightarrow> bool" where
  "task_ok P t \<longleftrightarrow>
     all_steps (accounts_move (pt_argon P)) (tk_left t) \<and>
     (\<exists>n. steps_within n (tk_left t) \<and> n + length (tk_seen t) \<le> 51) \<and>
     (case tk_job t of Host rq \<Rightarrow> True | Remote E rr \<Rightarrow> remote_task_ok P E rr t)"

definition pool_ok :: "('n, 'w) core_ports \<Rightarrow> ('n, 'w) pool \<Rightarrow> bool" where
  "pool_ok P p \<longleftrightarrow>
     manager_ok (sv_accounts (pl_service p)) \<and> (\<forall>i t. pl_tasks p i = Some t \<longrightarrow> task_ok P t)"

lemma new_task_ok: "task_ok P (new_task P j)"
  by (auto simp: task_ok_def remote_task_ok_def new_task_def job_moves intro: job_within split: job.splits)

text \<open>The first step of a remote request is its login or the check of its token.\<close>

lemma first_step:
  assumes "job_program P (Remote E rr) = Atomic f" and "f st = (st', rest)"
  shows "sv_core st' = sv_core st \<and>
         (all_steps core_still rest \<or>
          granted P E rr \<lparr>tk_job = Remote E rr, tk_left = rest, tk_seen = [st]\<rparr>)"
proof (cases "rr_method rr = ''auth.login''")
  case True
  then show ?thesis
    using assms by (auto simp: job_program_def remote_program_def returning_def atomically_def
        case_prod_beta all_done)
next
  case False
  then obtain tok where tok: "rr_session_token rr = Some tok" "tok \<noteq> []"
    using assms(1) by (cases "rr_session_token rr") (auto simp: job_program_def remote_program_def
        returning_def split: if_splits)
  define a where "a = fst (authenticate (E 0) tok (sv_accounts st))"
  let ?d = "\<lambda>s. dispatch_program (pt_argon P) (pt_serde P) (core_program P) E rr tok s"
  have st': "st' = snd (on_accounts (authenticate (E 0) tok) st)"
    and rest: "rest = returning To_remote
      (case a of Inl e \<Rightarrow> Done (remote_failure (Some (rr_id rr)) e)
       | Inr s \<Rightarrow>
           if as_password_change_required s \<and> rr_method rr \<notin> set remote_free_methods
           then Done (remote_failure (Some (rr_id rr)) remote_change_required) else ?d s)"
    using assms tok False
    by (auto simp: job_program_def remote_program_def returning_def atomically_def a_def
        on_accounts_def case_prod_beta)
  have "all_steps core_still rest \<or>
      granted P E rr \<lparr>tk_job = Remote E rr, tk_left = rest, tk_seen = [st]\<rparr>"
  proof (cases a)
    case (Inl e)
    then show ?thesis using rest by (simp add: all_steps_returning all_done)
  next
    case (Inr s)
    show ?thesis
    proof (cases "as_password_change_required s")
      case True
      then have "all_steps core_still rest"
        using rest Inr by (auto intro!: all_steps_returning all_done free_dispatch_still)
      then show ?thesis by blast
    next
      case False
      then have "all_steps (session_move P s) rest"
        using rest Inr by (simp add: all_steps_returning dispatch_session)
      then show ?thesis using tok(1) Inr False by (auto simp: granted_def a_def)
    qed
  qed
  then show ?thesis by (simp add: st')
qed

lemma granted_advances:
  assumes "granted P E rr t" and "tk_left t = Atomic f" and "f st = (st', rest)"
  shows "granted P E rr (advanced t st rest)"
proof -
  from assms(1) obtain st0 tok s where g: "st0 \<in> set (tk_seen t)" "rr_session_token rr = Some tok"
    "fst (authenticate (E 0) tok (sv_accounts st0)) = Inr s" "\<not> as_password_change_required s"
    "all_steps (session_move P s) (tk_left t)"
    unfolding granted_def by blast
  have "all_steps (session_move P s) rest"
    using g(5) assms(2,3) all_steps_next [where R = "session_move P s" and f = f and st = st] by simp
  with g show ?thesis by (auto simp: granted_def advanced_def)
qed

lemma task_ok_advances:
  assumes "task_ok P t" and "tk_left t = Atomic f" and "f st = (st', rest)"
  shows "task_ok P (advanced t st rest)"
proof -
  have acc: "all_steps (accounts_move (pt_argon P)) rest"
    using assms all_steps_next [where R = "accounts_move (pt_argon P)" and f = f and st = st]
    by (simp add: task_ok_def)
  obtain n where "steps_within n (Atomic f)" "n + length (tk_seen t) \<le> 51"
    using assms(1,2) by (auto simp: task_ok_def)
  with within_next [where n = n and f = f and st = st] assms(3)
  have len: "\<exists>n. steps_within n rest \<and> n + length (tk_seen t @ [st]) \<le> 51" by auto
  have "all_steps core_still rest \<or> granted P E rr (advanced t st rest)" if "tk_job t = Remote E rr" for E rr
  proof -
    have "remote_task_ok P E rr t" using assms(1) that by (simp add: task_ok_def)
    then consider "tk_seen t = []" "tk_left t = job_program P (Remote E rr)"
      | "all_steps core_still (tk_left t)" | "granted P E rr t"
      by (auto simp: remote_task_ok_def)
    then show ?thesis
    proof cases
      case 1
      then have "advanced t st rest = \<lparr>tk_job = Remote E rr, tk_left = rest, tk_seen = [st]\<rparr>"
        using that by (simp add: advanced_def)
      then show ?thesis using first_step [of P E rr f st st' rest] 1 assms(2,3) by simp
    next
      case 2
      then show ?thesis using all_steps_next [where R = core_still and f = f and st = st] assms(2,3) by simp
    next
      case 3
      then show ?thesis using granted_advances [OF _ assms(2,3)] by blast
    qed
  qed
  then have "remote_task_ok P E rr (advanced t st rest)" if "tk_job t = Remote E rr" for E rr
    using that by (simp add: remote_task_ok_def advanced_def)
  with acc len show ?thesis by (simp add: task_ok_def advanced_def split: job.splits)
qed

lemma pool_ok_step: "pool_ok P p \<Longrightarrow> pool_step P p p' \<Longrightarrow> pool_ok P p'"
proof (erule pool_stepE, goal_cases)
  case (2 i t f st rest)
  have t: "task_ok P t" using 2 by (auto simp: pool_ok_def)
  then have "accounts_move (pt_argon P) (pl_service p) st"
    using 2 all_steps_next [where R = "accounts_move (pt_argon P)" and f = f and st = "pl_service p"]
    by (simp add: task_ok_def)
  then have "manager_ok (sv_accounts st)"
    using 2(1) auth.step_inv by (auto simp: pool_ok_def accounts_move_def)
  then show ?case using 2 task_ok_advances [OF t] by (auto simp: pool_ok_def)
qed (auto simp: pool_ok_def new_task_ok split: if_splits)

lemma pool_ok_start: "pool_start P p \<Longrightarrow> pool_ok P p"
  by (auto simp: pool_start_def pool_ok_def system_start_def intro: opens_ok)

lemma pool_accounts_step:
  assumes "pool_ok P p" and "pool_step P p p'"
  shows "accounts_move (pt_argon P) (pl_service p) (pl_service p')"
  using assms(2)
proof cases
  case (task_advances i t f st rest)
  then have "all_steps (accounts_move (pt_argon P)) (Atomic f)"
    using assms(1) by (metis pool_ok_def task_ok_def)
  then show ?thesis
    using all_steps_next [where R = "accounts_move (pt_argon P)" and f = f and st = "pl_service p"]
      task_advances by simp
qed (simp_all add: accounts_move_def)

interpretation pool: simulation "pool_start P" "pool_step P" "pool_ok P"
  "opens (pt_argon P)" "auth_step (pt_argon P)" "\<lambda>p. sv_accounts (pl_service p)" for P
  by unfold_locales (use pool_accounts_step in
      \<open>auto simp: pool_ok_start pool_start_def system_start_def accounts_move_def intro: pool_ok_step\<close>)

subsection \<open>Schedules\<close>

text \<open>A schedule of arrivals and turns, and the pool it leads to.\<close>

datatype pool_event = Arrive nat job | Turn nat

fun pool_turn :: "('n, 'w) core_ports \<Rightarrow> pool_event \<Rightarrow> ('n, 'w) pool \<Rightarrow> ('n, 'w) pool" where
  "pool_turn P (Arrive i j) p =
     (case pl_tasks p i of
        None \<Rightarrow> p\<lparr>pl_tasks := (pl_tasks p)(i \<mapsto> new_task P j)\<rparr>
      | Some t \<Rightarrow> p)"
| "pool_turn P (Turn i) p =
     (case pl_tasks p i of
        None \<Rightarrow> p
      | Some t \<Rightarrow>
          (case tk_left t of
             Done r \<Rightarrow> p\<lparr>pl_tasks := (pl_tasks p)(i := None)\<rparr>
           | Atomic f \<Rightarrow>
               (case f (pl_service p) of
                  (st, rest) \<Rightarrow>
                    \<lparr>pl_service = st, pl_tasks = (pl_tasks p)(i \<mapsto> advanced t (pl_service p) rest)\<rparr>)))"

lemma pool_turn_step: "pool_turn P e p = p \<or> pool_step P p (pool_turn P e p)"
  by (cases e) (auto intro: pool_step.intros split: option.splits program.splits prod.splits)

lemma schedule_reachable:
  "reachable (pool_start P) (pool_step P) p \<Longrightarrow>
   reachable (pool_start P) (pool_step P) (fold (pool_turn P) es p)"
proof (induction es arbitrary: p)
  case (Cons e es)
  have "reachable (pool_start P) (pool_step P) (pool_turn P e p)"
    using pool_turn_step [of P e p] Cons.prems by (auto intro: reachable_step)
  then show ?case using Cons.IH by simp
qed simp

subsection \<open>Properties\<close>

text \<open>C8. Accounts under concurrency: however the requests of the host and of any number of remote clients
  interleave at their atomic steps, what happens to the accounts is a sequence of whole account
  operations, so in every reachable state there is exactly one administrator, the built-in
  one, every account is stored under its own name, and every session belongs to an account. The
  process starts with an empty data directory or a file whose database is well formed.\<close>

theorem concurrent_accounts_ok:
  assumes "reachable (pool_start P) (pool_step P) p"
  shows "reachable (opens (pt_argon P)) (auth_step (pt_argon P)) (sv_accounts (pl_service p)) \<and>
         (\<exists>a. bt_get default_admin_username (users (sv_accounts (pl_service p))) = Some a \<and> sa_role a = Admin) \<and>
         (\<forall>k u. bt_get k (users (sv_accounts (pl_service p))) = Some u \<longrightarrow>
            sa_username u = k \<and> (sa_role u = Admin \<longleftrightarrow> k = default_admin_username)) \<and>
         (\<forall>t r. mg_sessions (sv_accounts (pl_service p)) t = Some r \<longrightarrow>
            (\<exists>u. bt_get (sr_username r) (users (sv_accounts (pl_service p))) = Some u))"
proof -
  have ok: "manager_ok (sv_accounts (pl_service p))"
    using pool.reach_inv [OF assms] by (simp add: pool_ok_def)
  show ?thesis
    using pool.reach_abs [OF assms] manager_okD [OF ok] by (auto simp: account_ok_def)
qed

text \<open>C2. What a remote client can make the core do while other requests run: in every reachable state of
  the pool, if the next step of a remote request changes the core, then in a state this request
  has already seen its token belonged to a live session without outstanding password change; and
  unless that session is the administrator's, the step runs only adb commands confined to devices
  assigned to it then, sends only commands to such devices and their exposed operations, and
  leaves registry, scrcpy processes, pairings and keep-alive settings as they are.\<close>

theorem concurrent_requests_confined:
  assumes "pt_runner P = logged_runner runner" and "pt_router P = logged_router router"
    and "reachable (pool_start P) (pool_step P) p"
    and "pl_tasks p i = Some t" and "tk_job t = Remote E rr" and "tk_left t = Atomic f"
  shows "sv_core (fst (f (pl_service p))) = sv_core (pl_service p) \<or>
         (\<exists>st0 \<in> set (tk_seen t). \<exists>tok s. rr_session_token rr = Some tok \<and>
            fst (authenticate (E 0) tok (sv_accounts st0)) = Inr s \<and> \<not> as_password_change_required s \<and>
            (as_role s = Admin \<or> confined s (sv_core (pl_service p)) (sv_core (fst (f (pl_service p))))))"
proof -
  let ?st = "pl_service p"
  obtain st' rest where f: "f ?st = (st', rest)" by (cases "f ?st")
  have "task_ok P t" using pool.reach_inv [OF assms(3)] assms(4) by (simp add: pool_ok_def)
  then have "remote_task_ok P E rr t" using assms(5) by (simp add: task_ok_def)
  then consider (first) "tk_left t = job_program P (Remote E rr)" | (still) "all_steps core_still (tk_left t)"
    | (granted) "granted P E rr t" by (auto simp: remote_task_ok_def)
  then show ?thesis
  proof cases
    case first
    then show ?thesis using first_step [of P E rr f ?st st' rest] assms(6) f by simp
  next
    case still
    then show ?thesis
      using all_steps_next [where R = core_still and f = f and st = ?st] assms(6) f by (simp add: core_still_def)
  next
    case granted
    then obtain st0 tok s where g: "st0 \<in> set (tk_seen t)" "rr_session_token rr = Some tok"
      "fst (authenticate (E 0) tok (sv_accounts st0)) = Inr s" "\<not> as_password_change_required s"
      "all_steps (session_move P s) (tk_left t)"
      unfolding granted_def by blast
    then have "session_move P s ?st st'"
      using all_steps_next [where R = "session_move P s" and f = f and st = ?st] assms(6) f by simp
    then have "sv_core st' = sv_core ?st \<or> as_role s = Admin \<or> confined s (sv_core ?st) (sv_core st')"
      using permitted_confined [OF _ assms(1,2)] by (auto simp: session_move_def call_core_def case_prod_beta)
    then show ?thesis using g f by auto
  qed
qed

text \<open>C37. Every request is answered: in any interleaving, a request that has been given 51 steps is done,
  whatever other requests did in between; no request can be made to run longer by another.\<close>

theorem concurrent_requests_end:
  assumes "reachable (pool_start P) (pool_step P) p" and "pl_tasks p i = Some t"
  shows "length (tk_seen t) \<le> 51 \<and> (length (tk_seen t) = 51 \<longrightarrow> (\<exists>r. tk_left t = Done r))"
proof -
  have "task_ok P t" using pool.reach_inv [OF assms(1)] assms(2) by (simp add: pool_ok_def)
  then obtain n where n: "steps_within n (tk_left t)" "n + length (tk_seen t) \<le> 51"
    by (auto simp: task_ok_def)
  from n(1) have "n = 0 \<longrightarrow> (\<exists>r. tk_left t = Done r)" by cases auto
  with n(2) show ?thesis by auto
qed

text \<open>Requests an ordinary user may make of the core neither read nor change the accounts.\<close>

definition swap_accounts :: "manager \<Rightarrow> 'r \<times> 'c service \<Rightarrow> 'r \<times> 'c service" where
  "swap_accounts m p = (fst p, (snd p)\<lparr>sv_accounts := m\<rparr>)"

lemma swap_accounts_pair [simp]: "swap_accounts m (r, st) = (r, st\<lparr>sv_accounts := m\<rparr>)"
  by (simp add: swap_accounts_def)

lemma call_swap:
  "\<not> local_method (rq_method rq) \<Longrightarrow>
   call_core (core_handle_request P) rq (st\<lparr>sv_accounts := m\<rparr>) =
     swap_accounts m (call_core (core_handle_request P) rq st)"
  by (simp add: call_core_def core_handle_request_def Let_def case_prod_beta swap_accounts_def)

lemma ids_swap:
  "current_adb_device_ids (core_handle_request P) (st\<lparr>sv_accounts := m\<rparr>) =
     swap_accounts m (current_adb_device_ids (core_handle_request P) st)"
proof -
  have "\<not> local_method (rq_method probe_request)"
    by (rule permitted_not_local [where s = s]) (simp add: user_permitted_def)
  then show ?thesis by (simp add: current_adb_device_ids_def call_swap swap_accounts_def case_prod_beta)
qed

lemma resolve_swap:
  "resolve_request_device_alias (core_handle_request P) s rr (st\<lparr>sv_accounts := m\<rparr>) =
     swap_accounts m (resolve_request_device_alias (core_handle_request P) s rr st)"
  by (auto simp: resolve_request_device_alias_def ids_swap swap_accounts_def case_prod_beta split: option.splits)

lemma forward_swap:
  assumes "as_role s \<noteq> Admin"
  shows "forward_core_request (core_handle_request P) s rr (st\<lparr>sv_accounts := m\<rparr>) =
           swap_accounts m (forward_core_request (core_handle_request P) s rr st)"
proof -
  obtain rr' st' where r: "resolve_request_device_alias (core_handle_request P) s rr st = (rr', st')"
    by (cases "resolve_request_device_alias (core_handle_request P) s rr st")
  show ?thesis
  proof (cases "authorize_user_core_request (rr_method rr') (rr_params rr') s")
    case (Inl e)
    then show ?thesis using assms by (simp add: forward_core_request_def resolve_swap r)
  next
    case (Inr u)
    let ?rq = "\<lparr>rq_id = rr_id rr', rq_method = rr_method rr', rq_params = rr_params rr'\<rparr>"
    have "user_permitted s ?rq" using Inr by (intro authorize_Inr_permitted) simp
    then have "\<not> local_method (rr_method rr')" using permitted_not_local [of s ?rq] by simp
    then show ?thesis
      using assms Inr
      by (auto simp: forward_core_request_def resolve_swap r call_swap ids_swap swap_accounts_def
          case_prod_beta split: option.splits)
  qed
qed

text \<open>C40. A user's right to a command is decided once: after the step that checked the token, what is left of
  an \<open>adb.exec\<close> or \<open>device.invoke\<close> request gives the same answer and does the same to the core and
  to the log whatever happens to the accounts in the meantime, even if the account is deleted, its
  sessions are revoked or the device is taken from it before the command is sent.\<close>

theorem authorisation_is_a_snapshot:
  assumes "rr_session_token rr = Some tok" and "tok \<noteq> []"
    and "fst (authenticate (E 0) tok (sv_accounts st0)) = Inr s"
    and "\<not> as_password_change_required s" and "as_role s \<noteq> Admin"
    and "rr_method rr \<in> {''adb.exec'', ''device.invoke''}"
  shows "\<exists>f. remote_program A sm (core_program P) E rr = Atomic f \<and>
           run_alone (snd (f st0)) (st\<lparr>sv_accounts := m\<rparr>) =
             (fst (run_alone (snd (f st0)) st), (snd (run_alone (snd (f st0)) st))\<lparr>sv_accounts := m\<rparr>)"
proof -
  let ?f = "\<lambda>st. (snd (on_accounts (authenticate (E 0) tok) st),
      case fst (authenticate (E 0) tok (sv_accounts st)) of
        Inl e \<Rightarrow> Done (remote_failure (Some (rr_id rr)) e)
      | Inr s \<Rightarrow>
          if as_password_change_required s \<and> rr_method rr \<notin> set remote_free_methods
          then Done (remote_failure (Some (rr_id rr)) remote_change_required)
          else dispatch_program A sm (core_program P) E rr tok s)"
  have f: "remote_program A sm (core_program P) E rr = Atomic ?f"
    using assms(1,2,6) by (auto simp: remote_program_def atomically_def on_accounts_def case_prod_beta)
  have "snd (?f st0) = forward_program (core_program P) s rr"
    using assms(3,4,6) by (auto simp: dispatch_program_def Let_def)
  then have "run_alone (snd (?f st0)) st' = forward_core_request (core_handle_request P) s rr st'" for st'
    by (simp add: run_forward)
  with f show ?thesis by (intro exI [of _ ?f]) (simp add: forward_swap [OF assms(5)] swap_accounts_def)
qed

end
