(* ===== verification/Concurrent_Witnesses.thy ===== *)
theory Concurrent_Witnesses
  imports Concurrent_Facts Concrete_Runs
begin

text \<open>
  The properties of interleaved requests applied to a concrete pool: a core opened on a file with the
  user bob, his login, and a shell command that waits while other requests run.
\<close>

definition bob_database :: account_database where
  "bob_database = mg_database bob_assigned"

definition bob_pool :: "((string \<rightharpoonup> memory_session) \<times> dispatch_command list, unit \<times> string list list) pool" where
  "bob_pool = \<lparr>pl_service = service_over (opened 3600 bob_database (Parsed bob_database)), pl_tasks = Map.empty\<rparr>"

definition bob_logs_in :: remote_request where
  "bob_logs_in =
     \<lparr>rr_id = ''l1'', rr_session_token = None, rr_method = ''auth.login'',
      rr_params = JObj [(''username'', JStr ''bob''), (''password'', JStr ''password'')]\<rparr>"

definition bob_events :: "pool_event list" where
  "bob_events =
     [Arrive 0 (Remote (\<lambda>i. env_at 10 ''t1'') bob_logs_in), Turn 0,
      Arrive 1 (Remote (\<lambda>i. env_at 20 []) shell_request), Turn 1, Turn 1, Turn 0]"

definition bob_waiting :: "((string \<rightharpoonup> memory_session) \<times> dispatch_command list, unit \<times> string list list) pool" where
  "bob_waiting = fold (pool_turn run_ports) bob_events bob_pool"

lemma bob_pool_start: "pool_start run_ports bob_pool"
proof -
  have "database_ok bob_database" using run_managers_ok(3) by (simp add: bob_database_def manager_ok_def)
  moreover from this have "validate_database bob_database = Inr ()"
    by (auto simp: database_ok_def account_ok_def ok_iff)
  then have "fst (load_or_initialize_with_session_ttl plain_argon env 3600 (Parsed bob_database)) =
      Inr (opened 3600 bob_database (Parsed bob_database))" for env
    by (simp add: load_or_initialize_with_session_ttl_def)
  ultimately have "opens plain_argon (opened 3600 bob_database (Parsed bob_database))"
    unfolding opens_def by blast
  then show ?thesis by (simp add: pool_start_def system_start_def bob_pool_def)
qed

lemma bob_waiting_reachable: "reachable (pool_start run_ports) (pool_step run_ports) bob_waiting"
  unfolding bob_waiting_def by (intro schedule_reachable reachable_start bob_pool_start)

text \<open>What the next step of a task makes of the core's list of adb commands.\<close>

definition next_world :: "nat \<Rightarrow> ((string \<rightharpoonup> memory_session) \<times> dispatch_command list, unit \<times> string list list) pool \<Rightarrow> string list list option" where
  "next_world i p =
     (case pl_tasks p i of
        None \<Rightarrow> None
      | Some t \<Rightarrow>
          (case tk_left t of
             Done r \<Rightarrow> None
           | Atomic f \<Rightarrow> Some (snd (co_world (sv_core (fst (f (pl_service p))))))))"

lemma bob_next: "next_world 1 bob_waiting = Some [[''devices'', ''-l''], [''-s'', ''phone'', ''shell'', ''ls'']]"
  by code_simp

lemma bob_before: "snd (co_world (sv_core (pl_service bob_waiting))) = [[''devices'', ''-l'']]"
  by code_simp

lemma bob_job:
  "case pl_tasks bob_waiting 1 of
     None \<Rightarrow> False
   | Some t \<Rightarrow> (case tk_job t of Remote E rr \<Rightarrow> rr = shell_request \<and> E 0 = env_at 20 [] | Host rq \<Rightarrow> False)"
  by code_simp

theorem concurrent_requests_confined_witness:
  "\<exists>t f st0 s. pl_tasks bob_waiting 1 = Some t \<and> tk_left t = Atomic f \<and> st0 \<in> set (tk_seen t) \<and>
     fst (authenticate (env_at 20 []) ''t1'' (sv_accounts st0)) = Inr s \<and>
     (as_role s = Admin \<or>
      confined s (sv_core (pl_service bob_waiting)) (sv_core (fst (f (pl_service bob_waiting)))))"
proof -
  obtain t f where t: "pl_tasks bob_waiting 1 = Some t" "tk_left t = Atomic f"
    and w: "snd (co_world (sv_core (fst (f (pl_service bob_waiting))))) \<noteq>
            snd (co_world (sv_core (pl_service bob_waiting)))"
    using bob_next bob_before by (auto simp: next_world_def split: option.splits program.splits)
  obtain E where j: "tk_job t = Remote E shell_request" and E: "E 0 = env_at 20 []"
    using bob_job t(1) by (auto split: job.splits)
  have "sv_core (fst (f (pl_service bob_waiting))) \<noteq> sv_core (pl_service bob_waiting)" using w by auto
  with concurrent_requests_confined [OF run_ports_sel(1,2) bob_waiting_reachable t(1) j t(2)] t
  show ?thesis by (auto simp: shell_request_def ask_def E)
qed

theorem concurrent_accounts_ok_witness:
  "reachable (opens plain_argon) (auth_step plain_argon) (sv_accounts (pl_service bob_waiting)) \<and>
   (\<exists>a. bt_get default_admin_username (users (sv_accounts (pl_service bob_waiting))) = Some a \<and> sa_role a = Admin)"
  using concurrent_accounts_ok [OF bob_waiting_reachable] by simp

theorem concurrent_requests_end_witness:
  "\<exists>t. pl_tasks bob_waiting 1 = Some t \<and> length (tk_seen t) \<le> 51"
proof -
  obtain t where "pl_tasks bob_waiting 1 = Some t" using bob_job by (auto split: option.splits)
  with concurrent_requests_end [OF bob_waiting_reachable this] show ?thesis by blast
qed

text \<open>The account is gone when the command is sent.\<close>

theorem authorisation_is_a_snapshot_witness:
  "\<exists>f. remote_program plain_argon (pt_serde run_ports) (core_program run_ports) (\<lambda>i. env_at 20 []) shell_request = Atomic f \<and>
     fst (run_alone (snd (f (service_over bob_signed_in))) (service_over bob_signed_in\<lparr>sv_accounts := fresh_manager\<rparr>)) =
     fst (run_alone (snd (f (service_over bob_signed_in))) (service_over bob_signed_in))"
proof -
  have "rr_session_token shell_request = Some ''t1''" "rr_method shell_request \<in> {''adb.exec'', ''device.invoke''}"
    by (simp_all add: shell_request_def ask_def)
  moreover have "fst (authenticate ((\<lambda>i. env_at 20 []) 0) ''t1'' (sv_accounts (service_over bob_signed_in))) =
      Inr \<lparr>as_token = ''t1'', as_username = ''bob'', as_role = User, as_devices = [''phone''],
           as_password_change_required = False\<rparr>"
    by (simp add: bob_session)
  ultimately show ?thesis
    using authorisation_is_a_snapshot [where rr = shell_request and tok = "''t1''" and E = "\<lambda>i. env_at 20 []"
        and ?st0.0 = "service_over bob_signed_in" and A = plain_argon and sm = "pt_serde run_ports"
        and P = run_ports and st = "service_over bob_signed_in" and m = fresh_manager]
    by auto
qed

end
