(* ===== verification/Companion_Commands.thy ===== *)
theory Companion_Commands
  imports Companion_Connections_Facts
begin

text \<open>
  \<open>send_command_envelope\<close> of \<open>companion/quinn_transport.rs\<close> at its single steps. The core's callers,
  the thread that reads the standard input and the one that serves remote clients, run it at the
  same time as the listener's thread and as each other, and it holds one lock at a time: it looks
  the session up, registers its response channel, sends, waits, and on a failure withdraws its
  registration. What another thread does between two of these steps is not ruled out by anything.

  A response is delivered in one step: the guard of \<open>pending\<close> is a temporary of the \<open>if let\<close> that sends
  to the waiter, and lives until its end.
\<close>

subsection \<open>One command\<close>

text \<open>Where a command is, with the local variables that are still needed there.\<close>

datatype command_point =
    Looking
  | Registering session_handle string
  | Sending session_handle string
  | Withdrawing
  | Waiting
  | Expired string
  | Finished "app_error + json"

record command_thread =
  ct_device :: string
  ct_envelope :: envelope
  ct_point :: command_point

definition thread_request :: "command_thread \<Rightarrow> string" where
  "thread_request t = command_request_id (ct_envelope t)"

definition command_send_failed :: app_error where
  "command_send_failed = quinn_error ''COMPANION_COMMAND_SEND_FAILED''
     ''Companion QUIC control stream closed before the command was sent.'' True"

definition command_timeout :: "string \<Rightarrow> app_error" where
  "command_timeout c = with_cause c (quinn_error ''COMPANION_COMMAND_TIMEOUT''
     ''Companion did not return a QUIC command response within 15 seconds.'' True)"

text \<open>
  The next step of the command that waits on the channel \<open>w\<close>. \<open>expiry\<close> is the text of the error with
  which the wait ends if it ends in this step without a response; a response that is there is
  always received. \<open>None\<close>: the command goes on waiting, or has returned.
\<close>

definition command_step ::
    "transport_ports \<Rightarrow> string option \<Rightarrow> nat \<Rightarrow> command_thread \<Rightarrow> live \<Rightarrow> (command_point \<times> live) option" where
  "command_step P expiry w t st =
     (case ct_point t of
        Looking \<Rightarrow>
          Some (case bt_get (ct_device t) (lv_sessions st) of
                  None \<Rightarrow> (Finished (Inl (transport_not_connected (ct_device t))), st)
                | Some h \<Rightarrow>
                    (case tp_to_vec P (ct_envelope t) of
                       Inl c \<Rightarrow>
                         (Finished (Inl (with_cause c (quinn_error ''COMPANION_COMMAND_SERIALIZE_FAILED''
                            ''Core failed to serialize the Companion command envelope.'' False))), st)
                     | Inr bytes \<Rightarrow> (Registering h bytes, st)))
      | Registering h bytes \<Rightarrow>
          Some (Sending h bytes, st\<lparr>lv_pending := bt_insert (thread_request t) w (lv_pending st)\<rparr>)
      | Sending h bytes \<Rightarrow>
          Some (case outgoing_send (sh_outgoing h) bytes st of
                  None \<Rightarrow> (Withdrawing, st)
                | Some st' \<Rightarrow> (Waiting, st'))
      | Withdrawing \<Rightarrow>
          Some (Finished (Inl command_send_failed),
                st\<lparr>lv_pending := bt_remove (thread_request t) (lv_pending st)\<rparr>)
      | Waiting \<Rightarrow>
          (case lv_delivered st w of
             Some e \<Rightarrow> Some (Finished (command_result e), st)
           | None \<Rightarrow> map_option (\<lambda>c. (Expired c, st)) expiry)
      | Expired c \<Rightarrow>
          Some (Finished (Inl (command_timeout c)),
                st\<lparr>lv_pending := bt_remove (thread_request t) (lv_pending st)\<rparr>)
      | Finished r \<Rightarrow> None)"

text \<open>How many steps a command takes at most from a point on.\<close>

fun steps_left :: "command_point \<Rightarrow> nat" where
  "steps_left Looking = 5"
| "steps_left (Registering h b) = 4"
| "steps_left (Sending h b) = 3"
| "steps_left Waiting = 2"
| "steps_left Withdrawing = 1"
| "steps_left (Expired c) = 1"
| "steps_left (Finished r) = 0"

lemma command_step_decreases:
  "command_step P expiry w t st = Some (pt, st') \<Longrightarrow> steps_left pt < steps_left (ct_point t)"
  by (auto simp: command_step_def split: command_point.splits option.splits sum.splits)

lemma command_step_frame:
  assumes "command_step P expiry w t st = Some (pt, st')"
  shows "lv_registry st' = lv_registry st" and "lv_ingress st' = lv_ingress st"
    and "lv_sessions st' = lv_sessions st" and "lv_delivered st' = lv_delivered st"
  using assms
  by (auto simp: command_step_def ok_iff split: command_point.splits option.splits sum.splits)

subsection \<open>All commands and the listener\<close>

text \<open>The channel of a command is its position in the list of all commands ever sent.\<close>

record command_pool =
  cp_server :: quic_server
  cp_threads :: "command_thread list"

definition pool_live :: "command_pool \<Rightarrow> live" where
  "pool_live p = qs_live (cp_server p)"

definition commands_start :: "command_pool \<Rightarrow> bool" where
  "commands_start p \<longleftrightarrow> server_start (cp_server p) \<and> cp_threads p = []"

text \<open>
  A step of the listener's own: every step of \<open>server_step\<close> but those of a command. The copies of a
  session that these commands hold are not in \<open>qs_clones\<close>: a connection whose loop has ended may be
  cleaned up here while a command on it still waits, so there are more runs than the program's.
\<close>

definition listener_step ::
    "transport_ports \<Rightarrow> u32_format \<Rightarrow> (string \<Rightarrow> string + envelope) \<Rightarrow> quic_server \<Rightarrow> quic_server \<Rightarrow> bool" where
  "listener_step P F parse q q' \<longleftrightarrow>
     server_step P F parse q q' \<and> qs_waiting q = [] \<and> qs_next_waiter q' = qs_next_waiter q"

inductive commands_step ::
    "transport_ports \<Rightarrow> u32_format \<Rightarrow> (string \<Rightarrow> string + envelope) \<Rightarrow> command_pool \<Rightarrow> command_pool \<Rightarrow> bool"
  for P F parse where
  listens: "listener_step P F parse (cp_server p) q' \<Longrightarrow> commands_step P F parse p (p\<lparr>cp_server := q'\<rparr>)"
| called: "commands_step P F parse p
     (p\<lparr>cp_threads := cp_threads p @ [\<lparr>ct_device = d, ct_envelope = e, ct_point = Looking\<rparr>]\<rparr>)"
| advances: "i < length (cp_threads p) \<Longrightarrow>
     command_step P expiry i (cp_threads p ! i) (pool_live p) = Some (pt, st') \<Longrightarrow>
     commands_step P F parse p
       (p\<lparr>cp_server := (cp_server p)\<lparr>qs_live := st'\<rparr>,
          cp_threads := (cp_threads p)[i := (cp_threads p ! i)\<lparr>ct_point := pt\<rparr>]\<rparr>)"

inductive_cases commands_stepE: "commands_step P F parse p p'"

text \<open>What a step of the listener means for the commands: nothing, or the delivery of one envelope.\<close>

definition delivers :: "live \<Rightarrow> live \<Rightarrow> bool" where
  "delivers st st' \<longleftrightarrow>
     (lv_pending st' = lv_pending st \<and> lv_delivered st' = lv_delivered st) \<or>
     (\<exists>e. lv_pending st' = lv_pending (deliver_response e st) \<and>
          lv_delivered st' = lv_delivered (deliver_response e st))"

lemma delivers_same:
  "lv_pending st' = lv_pending st \<Longrightarrow> lv_delivered st' = lv_delivered st \<Longrightarrow> delivers st st'"
  by (simp add: delivers_def)

lemma accept_delivers:
  assumes "accept_envelope P cid ch e st = (r, st')"
  shows "delivers st st'"
  using assms
proof (cases rule: accept_envelope_cases)
  case (session response st1)
  have "lv_pending st' = lv_pending st" "lv_delivered st' = lv_delivered st"
    by (simp_all add: session(4,8,9))
  then show ?thesis by (rule delivers_same)
qed (auto simp: delivers_def)

lemma turn_delivers:
  assumes "control_turn P F parse c t cn st = (r, st')"
  shows "delivers st st'"
proof -
  have accept: "accept_envelope P (cn_id cn) (cn_channel cn) e st = (a, st') \<Longrightarrow> ?thesis" for e a
    by (rule accept_delivers)
  have beat: "send_heartbeat P (cn_id cn) (cn_channel cn) target ts st = (a, st') \<Longrightarrow> ?thesis" for target ts a
    using heartbeat_frame(4,5) [of P "cn_id cn" "cn_channel cn" target ts st a st'] by (auto intro: delivers_same)
  have same: "st' = st \<Longrightarrow> ?thesis" by (simp add: delivers_same)
  show ?thesis
    using assms accept beat same
    by (auto simp: control_turn_def split: turn.splits sum.splits prod.splits option.splits)
qed

lemma listener_delivers:
  assumes "listener_step P F parse q q'"
  shows "delivers (qs_live q) (qs_live q')" and "qs_waiting q' = []"
proof -
  have step: "server_step P F parse q q'" and none: "qs_waiting q = []"
    and next_: "qs_next_waiter q' = qs_next_waiter q"
    using assms by (simp_all add: listener_step_def)
  show "delivers (qs_live q) (qs_live q')"
    using step
  proof cases
    case (turned i t order c cn' st')
    then show ?thesis by (auto dest: turn_delivers)
  next
    case (failed i t order c err st')
    have "delivers (qs_live q) st'" using failed(4) by (rule turn_delivers)
    then show ?thesis using failed by (simp add: delivers_def)
  next
    case (loop_ended i t order c st' cn)
    have "delivers (qs_live q) st'" using loop_ended(4) by (rule turn_delivers)
    then show ?thesis using loop_ended by (simp add: delivers_def)
  qed (use none next_ in \<open>auto simp: delivers_same\<close>)
  show "qs_waiting q' = []"
    using step by cases (use none next_ in auto)
qed

subsection \<open>The invariant\<close>

text \<open>
  A registration belongs to a command that has not returned, under the command's own request id;
  what was delivered to a command names its request id; a command that returned with success
  returned what was delivered to it.
\<close>

fun registered :: "command_point \<Rightarrow> bool" where
  "registered (Sending h b) = True"
| "registered Withdrawing = True"
| "registered Waiting = True"
| "registered (Expired c) = True"
| "registered _ = False"

fun has_registered :: "command_point \<Rightarrow> bool" where
  "has_registered Looking = False"
| "has_registered (Registering h b) = False"
| "has_registered _ = True"

definition thread_ok :: "live \<Rightarrow> nat \<Rightarrow> command_thread \<Rightarrow> bool" where
  "thread_ok st w t \<longleftrightarrow>
     (\<forall>rid. bt_get rid (lv_pending st) = Some w \<longrightarrow>
        rid = thread_request t \<and> registered (ct_point t) \<and> lv_delivered st w = None) \<and>
     (\<forall>e. lv_delivered st w = Some e \<longrightarrow>
        response_request_id e = thread_request t \<and> has_registered (ct_point t)) \<and>
     (\<forall>r. ct_point t = Finished (Inr r) \<longrightarrow>
        (\<exists>e. lv_delivered st w = Some e \<and> command_result e = Inr r))"

definition commands_ok :: "command_thread list \<Rightarrow> live \<Rightarrow> bool" where
  "commands_ok ts st \<longleftrightarrow>
     (\<forall>w. w < length ts \<longrightarrow> thread_ok st w (ts ! w)) \<and>
     (\<forall>rid w. bt_get rid (lv_pending st) = Some w \<longrightarrow> w < length ts) \<and>
     (\<forall>w e. lv_delivered st w = Some e \<longrightarrow> w < length ts) \<and> bt_ok (lv_pending st)"

lemma thread_ok_same:
  "lv_pending st' = lv_pending st \<Longrightarrow> lv_delivered st' = lv_delivered st \<Longrightarrow>
   thread_ok st' w t = thread_ok st w t"
  by (simp add: thread_ok_def)

lemma commands_ok_same:
  "lv_pending st' = lv_pending st \<Longrightarrow> lv_delivered st' = lv_delivered st \<Longrightarrow>
   commands_ok ts st' = commands_ok ts st"
  by (simp add: commands_ok_def thread_ok_def)

lemma commands_ok_deliver:
  assumes "commands_ok ts st"
  shows "commands_ok ts (deliver_response e st)"
proof (cases "bt_get (response_request_id e) (lv_pending st)")
  case None
  then show ?thesis using assms by (simp add: deliver_response_def)
next
  case (Some w)
  have w: "w < length ts" "thread_ok st w (ts ! w)" using assms Some by (auto simp: commands_ok_def)
  let ?rid = "response_request_id e"
  have after: "lv_pending (deliver_response e st) = bt_remove ?rid (lv_pending st)"
    "lv_delivered (deliver_response e st) = (lv_delivered st)(w \<mapsto> e)"
    by (simp_all add: deliver_response_def Some)
  have mine: "?rid = thread_request (ts ! w)" "registered (ct_point (ts ! w))"
    using w(2) Some by (simp_all add: thread_ok_def)
  have only: "bt_get rid (lv_pending st) = Some w \<Longrightarrow> rid = ?rid" for rid
    using w(2) mine(1) by (simp add: thread_ok_def)
  have "has_registered (ct_point (ts ! w))" "\<forall>r. ct_point (ts ! w) \<noteq> Finished r"
    using mine(2) by (cases "ct_point (ts ! w)"; simp)+
  then have "thread_ok (deliver_response e st) w (ts ! w)"
    using mine(1) only unfolding thread_ok_def after by auto
  moreover have "thread_ok (deliver_response e st) v (ts ! v)" if "v < length ts" "v \<noteq> w" for v
  proof -
    have "thread_ok st v (ts ! v)" using assms that(1) by (simp add: commands_ok_def)
    then show ?thesis using that(2) unfolding thread_ok_def after by auto
  qed
  ultimately have "thread_ok (deliver_response e st) v (ts ! v)" if "v < length ts" for v
    using that by (cases "v = w") simp_all
  moreover have "bt_ok (lv_pending st)" using assms by (simp add: commands_ok_def)
  moreover have "\<forall>v e'. lv_delivered st v = Some e' \<longrightarrow> v < length ts"
    "\<forall>rid v. bt_get rid (lv_pending st) = Some v \<longrightarrow> v < length ts"
    using assms by (simp_all add: commands_ok_def)
  ultimately show ?thesis
    using w(1) unfolding commands_ok_def after by (auto simp: bt_ok_remove)
qed

lemma commands_ok_delivers: "commands_ok ts st \<Longrightarrow> delivers st st' \<Longrightarrow> commands_ok ts st'"
  using commands_ok_same commands_ok_deliver by (metis delivers_def)

lemma commands_ok_called:
  assumes "commands_ok ts st"
  shows "commands_ok (ts @ [\<lparr>ct_device = d, ct_envelope = e, ct_point = Looking\<rparr>]) st"
proof -
  let ?t = "\<lparr>ct_device = d, ct_envelope = e, ct_point = Looking\<rparr>"
  have "bt_get rid (lv_pending st) \<noteq> Some (length ts)" for rid
    using assms unfolding commands_ok_def by blast
  moreover have "lv_delivered st (length ts) \<noteq> Some e" for e
    using assms unfolding commands_ok_def by blast
  ultimately have new: "thread_ok st (length ts) ?t" by (simp add: thread_ok_def)
  have "thread_ok st w ((ts @ [?t]) ! w)" if "w < Suc (length ts)" for w
    using that assms new by (cases "w = length ts") (simp_all add: commands_ok_def nth_append)
  moreover have "w < length ts \<Longrightarrow> w < Suc (length ts)" for w by simp
  ultimately show ?thesis using assms unfolding commands_ok_def by (metis length_append_singleton)
qed

text \<open>When one command moves, the rest of the invariant follows from what it leaves of \<open>pending\<close>.\<close>

lemma commands_ok_moved:
  assumes ok: "commands_ok ts st" and i: "i < length ts"
    and delivered: "lv_delivered st' = lv_delivered st" and sorted: "bt_ok (lv_pending st')"
    and others: "\<And>rid w. w \<noteq> i \<Longrightarrow> bt_get rid (lv_pending st') = Some w \<Longrightarrow> bt_get rid (lv_pending st) = Some w"
    and own: "thread_ok st' i ((ts ! i)\<lparr>ct_point := pt\<rparr>)"
  shows "commands_ok (ts[i := (ts ! i)\<lparr>ct_point := pt\<rparr>]) st'"
proof -
  let ?ts = "ts[i := (ts ! i)\<lparr>ct_point := pt\<rparr>]"
  have "thread_ok st' w (?ts ! w)" if "w < length ts" for w
  proof (cases "w = i")
    case False
    have "thread_ok st w (ts ! w)" using ok that by (simp add: commands_ok_def)
    then have "thread_ok st' w (ts ! w)"
      using others [OF False] by (auto simp: thread_ok_def delivered)
    then show ?thesis using False by simp
  qed (use own i in simp)
  moreover have "w < length ts" if "bt_get rid (lv_pending st') = Some w" for rid w
    using that others [of w rid] i ok by (cases "w = i") (auto simp: commands_ok_def)
  moreover have "w < length ts" if "lv_delivered st' w = Some e" for w e
    using that ok by (simp add: commands_ok_def delivered)
  ultimately show ?thesis using sorted by (simp add: commands_ok_def)
qed

lemma commands_ok_step:
  assumes ok: "commands_ok ts st" and i: "i < length ts"
    and step: "command_step P expiry i (ts ! i) st = Some (pt, st')"
  shows "commands_ok (ts[i := (ts ! i)\<lparr>ct_point := pt\<rparr>]) st'"
proof -
  have own: "thread_ok st i (ts ! i)" and sorted: "bt_ok (lv_pending st)"
    using ok i by (simp_all add: commands_ok_def)
  note moved = commands_ok_moved [OF ok i command_step_frame(4) [OF step], of pt]
  show ?thesis
  proof (cases "ct_point (ts ! i)")
    case Looking
    then have "lv_pending st' = lv_pending st" "\<forall>r. pt \<noteq> Finished (Inr r)" "lv_delivered st i = None"
      using step own by (auto simp: command_step_def thread_ok_def split: option.splits sum.splits)
    then show ?thesis
      using own sorted Looking command_step_frame(4) [OF step] by (intro moved) (auto simp: thread_ok_def)
  next
    case (Registering h b)
    then have "pt = Sending h b" "lv_pending st' = bt_insert (thread_request (ts ! i)) i (lv_pending st)"
      "lv_delivered st i = None"
      using step own by (auto simp: command_step_def thread_ok_def)
    then show ?thesis
      using own sorted Registering command_step_frame(4) [OF step]
      by (intro moved) (auto simp: thread_ok_def thread_request_def bt_ok_insert split: if_splits)
  next
    case (Sending h b)
    then have "lv_pending st' = lv_pending st" "pt = Withdrawing \<or> pt = Waiting"
      using step by (auto simp: command_step_def ok_iff split: option.splits)
    then show ?thesis
      using own sorted Sending command_step_frame(4) [OF step]
      by (intro moved) (auto simp: thread_ok_def thread_request_def)
  next
    case Withdrawing
    then have "pt = Finished (Inl command_send_failed)"
      "lv_pending st' = bt_remove (thread_request (ts ! i)) (lv_pending st)"
      using step by (auto simp: command_step_def)
    then show ?thesis
      using own sorted Withdrawing command_step_frame(4) [OF step]
      by (intro moved) (auto simp: thread_ok_def thread_request_def bt_ok_remove split: if_splits)
  next
    case Waiting
    then have "lv_pending st' = lv_pending st"
      "(\<exists>e. lv_delivered st i = Some e \<and> pt = Finished (command_result e)) \<or>
       lv_delivered st i = None \<and> (\<exists>c. pt = Expired c)"
      using step by (auto simp: command_step_def split: option.splits)
    then show ?thesis
      using own sorted Waiting command_step_frame(4) [OF step]
      by (intro moved) (auto simp: thread_ok_def thread_request_def)
  next
    case (Expired c)
    then have "pt = Finished (Inl (command_timeout c))"
      "lv_pending st' = bt_remove (thread_request (ts ! i)) (lv_pending st)"
      using step by (auto simp: command_step_def)
    then show ?thesis
      using own sorted Expired command_step_frame(4) [OF step]
      by (intro moved) (auto simp: thread_ok_def thread_request_def bt_ok_remove split: if_splits)
  next
    case (Finished r)
    then show ?thesis using step by (simp add: command_step_def)
  qed
qed

definition command_pool_ok :: "command_pool \<Rightarrow> bool" where
  "command_pool_ok p \<longleftrightarrow> qs_waiting (cp_server p) = [] \<and> commands_ok (cp_threads p) (pool_live p)"

lemma commands_start_ok: "commands_start p \<Longrightarrow> command_pool_ok p"
  by (simp add: commands_start_def command_pool_ok_def server_start_def pool_live_def new_live_def
      commands_ok_def bt_get_def bt_ok_def keys_def)

lemma commands_step_ok:
  assumes "command_pool_ok p" and "commands_step P F parse p p'"
  shows "command_pool_ok p'"
  using assms(2)
proof (cases rule: commands_step.cases)
  case (listens q')
  then show ?thesis
    using assms(1) listener_delivers commands_ok_delivers by (fastforce simp: command_pool_ok_def pool_live_def)
next
  case (called d e)
  then show ?thesis using assms(1) commands_ok_called by (simp add: command_pool_ok_def pool_live_def)
next
  case (advances i expiry pt st')
  then show ?thesis
    using assms(1) commands_ok_step by (auto simp: command_pool_ok_def pool_live_def)
qed

interpretation commands: invariant_machine commands_start "commands_step P F parse" command_pool_ok for P F parse
  by unfold_locales (auto intro: commands_start_ok commands_step_ok)

end
