(* ===== verification/Companion_Commands_Facts.thy ===== *)
theory Companion_Commands_Facts
  imports Companion_Commands
begin

text \<open>
  What holds of commands whose steps interleave: each gets its own response, none leaves a
  registration behind, every one returns, one that is not interrupted is
  \<open>send_command_envelope\<close>; and two that share a request id do not both get an answer.
\<close>

subsection \<open>Responses and registrations\<close>

text \<open>C12. A command whose steps interleave with everything else gets its own response: if it returned
  with success, its result is the payload of an envelope, not of kind error, that some companion
  sent, that names this command's request and that was handed to this command's channel.\<close>

theorem command_gets_own_response:
  assumes "reachable commands_start (commands_step P F parse) p"
    and "i < length (cp_threads p)" and "ct_point (cp_threads p ! i) = Finished (Inr payload)"
  shows "\<exists>e. lv_delivered (pool_live p) i = Some e \<and>
           response_request_id e = thread_request (cp_threads p ! i) \<and>
           ev_kind e \<noteq> ErrorMessage \<and> payload = ev_payload e"
proof -
  have "command_pool_ok p" using assms(1) by (rule commands.reach_inv)
  then have "thread_ok (pool_live p) i (cp_threads p ! i)"
    using assms(2) by (simp add: command_pool_ok_def commands_ok_def)
  then show ?thesis
    using assms(3) by (auto simp: thread_ok_def command_result_def split: if_splits)
qed

text \<open>C14. No registration leaks: an entry of the table of pending commands belongs to a command that
  has not returned, under its own request id; once all commands have returned the table is empty.\<close>

theorem no_registration_leaks:
  assumes "reachable commands_start (commands_step P F parse) p"
  shows "(\<forall>rid w. bt_get rid (lv_pending (pool_live p)) = Some w \<longrightarrow>
            w < length (cp_threads p) \<and> rid = thread_request (cp_threads p ! w) \<and>
            (\<forall>r. ct_point (cp_threads p ! w) \<noteq> Finished r)) \<and>
         ((\<forall>t \<in> set (cp_threads p). \<exists>r. ct_point t = Finished r) \<longrightarrow> lv_pending (pool_live p) = [])"
proof -
  have ok: "commands_ok (cp_threads p) (pool_live p)"
    using commands.reach_inv [OF assms] by (simp add: command_pool_ok_def)
  have entry: "w < length (cp_threads p) \<and> rid = thread_request (cp_threads p ! w) \<and>
      (\<forall>r. ct_point (cp_threads p ! w) \<noteq> Finished r)"
    if g: "bt_get rid (lv_pending (pool_live p)) = Some w" for rid w
  proof -
    have w: "w < length (cp_threads p)" using ok g by (auto simp: commands_ok_def)
    then have "thread_ok (pool_live p) w (cp_threads p ! w)" using ok by (simp add: commands_ok_def)
    then have "rid = thread_request (cp_threads p ! w)" "registered (ct_point (cp_threads p ! w))"
      using g by (simp_all add: thread_ok_def)
    then show ?thesis using w by auto
  qed
  have "lv_pending (pool_live p) = []"
    if "\<forall>t \<in> set (cp_threads p). \<exists>r. ct_point t = Finished r"
  proof (rule bt_eqI)
    show "bt_ok (lv_pending (pool_live p))" using ok by (simp add: commands_ok_def)
    show "bt_get k (lv_pending (pool_live p)) = bt_get k []" for k
      using entry [of k] that nth_mem
      by (cases "bt_get k (lv_pending (pool_live p))") (force simp: bt_get_def)+
  qed (simp add: bt_ok_def keys_def)
  then show ?thesis using entry by blast
qed

subsection \<open>Every command returns\<close>

definition command_moves :: "transport_ports \<Rightarrow> nat \<Rightarrow> command_pool \<Rightarrow> command_pool \<Rightarrow> bool" where
  "command_moves P i p p' \<longleftrightarrow>
     (\<exists>expiry pt st'. i < length (cp_threads p) \<and>
        command_step P expiry i (cp_threads p ! i) (pool_live p) = Some (pt, st') \<and>
        p' = p\<lparr>cp_server := (cp_server p)\<lparr>qs_live := st'\<rparr>,
               cp_threads := (cp_threads p)[i := (cp_threads p ! i)\<lparr>ct_point := pt\<rparr>]\<rparr>)"

definition has_returned :: "nat \<Rightarrow> command_pool \<Rightarrow> bool" where
  "has_returned i p \<longleftrightarrow> (\<exists>r. ct_point (cp_threads p ! i) = Finished r)"

text \<open>A command is never stuck: the wait may end, and no other step can block.\<close>

lemma command_enabled:
  "(\<forall>r. ct_point t \<noteq> Finished r) \<Longrightarrow> \<exists>pt st'. command_step P (Some c) w t st = Some (pt, st')"
  by (cases "ct_point t")
    (auto simp: command_step_def intro!: prod.exhaust split: option.splits sum.splits)

lemma step_keeps_point:
  assumes "commands_step P F parse p p'" and "i < length (cp_threads p)" and "\<not> command_moves P i p p'"
  shows "i < length (cp_threads p') \<and> cp_threads p' ! i = cp_threads p ! i"
  using assms(1)
proof (cases rule: commands_step.cases)
  case (advances j expiry pt st')
  then have "j \<noteq> i" using assms(3) by (auto simp: command_moves_def)
  then show ?thesis using advances assms(2) by simp
qed (use assms(2) in \<open>simp_all add: nth_append\<close>)

lemma move_decreases:
  assumes "command_moves P i p p'"
  shows "i < length (cp_threads p')" and "steps_left (ct_point (cp_threads p' ! i)) < steps_left (ct_point (cp_threads p ! i))"
  using assms by (auto simp: command_moves_def dest: command_step_decreases)

text \<open>
  An infinite run of the listener and all commands. The command is \<open>scheduled\<close> when it moves again and
  again until it has returned, which it can at any time, a wait that ends counted among its moves.
\<close>

definition commands_run ::
    "transport_ports \<Rightarrow> u32_format \<Rightarrow> (string \<Rightarrow> string + envelope) \<Rightarrow> (nat \<Rightarrow> command_pool) \<Rightarrow> bool" where
  "commands_run P F parse run \<longleftrightarrow> (\<forall>n. commands_step P F parse (run n) (run (Suc n)))"

definition scheduled :: "transport_ports \<Rightarrow> nat \<Rightarrow> (nat \<Rightarrow> command_pool) \<Rightarrow> bool" where
  "scheduled P i run \<longleftrightarrow> (\<forall>n. \<exists>m \<ge> n. has_returned i (run m) \<or> command_moves P i (run m) (run (Suc m)))"

lemma run_keeps_until_move:
  assumes "commands_run P F parse run" and "i < length (cp_threads (run n))"
    and "\<forall>m. n \<le> m \<and> m < n + k \<longrightarrow> \<not> command_moves P i (run m) (run (Suc m))"
  shows "i < length (cp_threads (run (n + k))) \<and> cp_threads (run (n + k)) ! i = cp_threads (run n) ! i"
  using assms(3)
proof (induction k)
  case (Suc k)
  then have "i < length (cp_threads (run (n + k)))" "cp_threads (run (n + k)) ! i = cp_threads (run n) ! i"
    and "\<not> command_moves P i (run (n + k)) (run (Suc (n + k)))" by simp_all
  then show ?case
    using step_keeps_point [of P F parse "run (n + k)" "run (Suc (n + k))" i] assms(1)
    by (simp add: commands_run_def)
qed (simp add: assms(2))

text \<open>C13. Every command returns: whatever the listener and the other commands do in between, a command
  that goes on being scheduled has returned at some moment of the run; it takes five steps at most,
  and as long as it has not returned there is a step it can take.\<close>

theorem commands_return:
  assumes "commands_run P F parse run" and "scheduled P i run" and "i < length (cp_threads (run 0))"
  shows "(\<exists>n. has_returned i (run n)) \<and>
         (\<forall>n c. \<not> has_returned i (run n) \<longrightarrow>
            (\<exists>pt st'. command_step P (Some c) i (cp_threads (run n) ! i) (pool_live (run n)) = Some (pt, st'))) \<and>
         steps_left (ct_point (cp_threads (run 0) ! i)) \<le> 5"
proof -
  have "\<exists>m. has_returned i (run m)" if "i < length (cp_threads (run n))" for n
    using that
  proof (induction "steps_left (ct_point (cp_threads (run n) ! i))" arbitrary: n rule: less_induct)
    case less
    let ?next = "\<lambda>m. n \<le> m \<and> (has_returned i (run m) \<or> command_moves P i (run m) (run (Suc m)))"
    define m where "m = (LEAST m. ?next m)"
    have m: "?next m"
      using assms(2) unfolding m_def scheduled_def by (metis (mono_tags, lifting) LeastI_ex)
    have least: "n \<le> j \<Longrightarrow> j < m \<Longrightarrow> \<not> command_moves P i (run j) (run (Suc j))" for j
      using not_less_Least [of j ?next] by (auto simp: m_def)
    have same: "i < length (cp_threads (run m))" "cp_threads (run m) ! i = cp_threads (run n) ! i"
      using run_keeps_until_move [OF assms(1) less.prems, of "m - n"] least m by auto
    show ?case
    proof (cases "has_returned i (run m)")
      case False
      then have "command_moves P i (run m) (run (Suc m))" using m by blast
      from move_decreases [OF this] show ?thesis
        using less.hyps [of "Suc m"] same(2) by metis
    qed blast
  qed
  moreover have "steps_left pt \<le> 5" for pt by (cases pt) simp_all
  ultimately show ?thesis
    using assms(3) command_enabled by (auto simp: has_returned_def)
qed

subsection \<open>A command on its own\<close>

text \<open>Up to \<open>n\<close> steps of one command with nothing in between.\<close>

fun command_steps ::
    "transport_ports \<Rightarrow> string option \<Rightarrow> nat \<Rightarrow> nat \<Rightarrow> command_thread \<times> live \<Rightarrow> command_thread \<times> live" where
  "command_steps P expiry w 0 s = s"
| "command_steps P expiry w (Suc n) (t, st) =
     (case command_step P expiry w t st of
        None \<Rightarrow> (t, st)
      | Some (pt, st') \<Rightarrow> command_steps P expiry w n (t\<lparr>ct_point := pt\<rparr>, st'))"

text \<open>A whole command, interrupted only while it waits, by \<open>others\<close>; \<open>c\<close> is the error text of the wait.\<close>

definition run_command ::
    "transport_ports \<Rightarrow> nat \<Rightarrow> (live \<Rightarrow> live) \<Rightarrow> string \<Rightarrow> string \<Rightarrow> envelope \<Rightarrow> live \<Rightarrow> command_thread \<times> live" where
  "run_command P w others c d e st =
     (case command_steps P None w 4 (\<lparr>ct_device = d, ct_envelope = e, ct_point = Looking\<rparr>, st) of
        (t, st1) \<Rightarrow>
          if ct_point t = Waiting then command_steps P (Some c) w 2 (t, others st1) else (t, st1))"

lemma command_steps_numeral:
  "command_steps P expiry w 4 s = command_steps P expiry w (Suc (Suc (Suc (Suc 0)))) s"
  "command_steps P expiry w 2 s = command_steps P expiry w (Suc (Suc 0)) s"
  by (simp_all add: numeral_eq_Suc)

lemma outgoing_send_delivered:
  "outgoing_send ch b st = Some st' \<Longrightarrow> lv_delivered st' = lv_delivered st"
  by (rule outgoing_send_frame)

lemma run_waits:
  assumes "ct_point t = Waiting"
  shows "command_steps P (Some c) w 2 (t, st) =
    (case finish_command w (thread_request t) c st of (r, st') \<Rightarrow> (t\<lparr>ct_point := Finished r\<rparr>, st'))"
  using assms
  by (cases "lv_delivered st w")
    (simp_all add: command_steps_numeral command_step_def finish_command_def command_timeout_def
      thread_request_def)

text \<open>A command whose steps nothing interrupts but the listener while it waits is the operation of
  the sequential model: the same result and the same state, on every branch.\<close>

theorem uninterrupted_command:
  assumes "lv_delivered st w = None"
  shows "run_command P w others c d e st =
           (case send_command_envelope P w others c d e st of
              (r, st') \<Rightarrow> (\<lparr>ct_device = d, ct_envelope = e, ct_point = Finished r\<rparr>, st'))"
proof (cases "bt_get d (lv_sessions st)")
  case None
  then show ?thesis
    by (simp add: run_command_def command_steps_numeral command_step_def send_command_envelope_def
        start_command_def)
next
  case (Some h)
  let ?rid = "command_request_id e"
  let ?st = "st\<lparr>lv_pending := bt_insert ?rid w (lv_pending st)\<rparr>"
  let ?t = "\<lambda>pt. \<lparr>ct_device = d, ct_envelope = e, ct_point = pt\<rparr>"
  show ?thesis
  proof (cases "tp_to_vec P e")
    case (Inl k)
    then show ?thesis
      using Some by (simp add: run_command_def command_steps_numeral command_step_def
          send_command_envelope_def start_command_def)
  next
    case (Inr bytes)
    show ?thesis
    proof (cases "outgoing_send (sh_outgoing h) bytes ?st")
      case None
      then show ?thesis
        using Some Inr by (simp add: run_command_def command_steps_numeral command_step_def
            send_command_envelope_def start_command_def Let_def thread_request_def command_send_failed_def)
    next
      case (Some st')
      then have "lv_delivered st' w = None" using assms outgoing_send_delivered by fastforce
      then have "command_steps P None w 4 (?t Looking, st) = (?t Waiting, st')"
        using Some Inr \<open>bt_get d (lv_sessions st) = Some h\<close>
        by (simp add: command_steps_numeral command_step_def thread_request_def)
      moreover have "start_command P w d e st = (Inr ?rid, st')"
        using Some Inr \<open>bt_get d (lv_sessions st) = Some h\<close> by (simp add: start_command_def Let_def)
      ultimately show ?thesis
        using run_waits [of "?t Waiting" P c w "others st'"]
        by (simp add: run_command_def send_command_envelope_def thread_request_def case_prod_beta)
    qed
  qed
qed

subsection \<open>Two commands with one request id\<close>

text \<open>A command whose registration was replaced: nothing was delivered to it and no entry is its own.\<close>

definition overtaken :: "nat \<Rightarrow> command_pool \<Rightarrow> bool" where
  "overtaken i p \<longleftrightarrow>
     i < length (cp_threads p) \<and> has_registered (ct_point (cp_threads p ! i)) \<and>
     lv_delivered (pool_live p) i = None \<and> (\<forall>rid. bt_get rid (lv_pending (pool_live p)) \<noteq> Some i)"

lemma delivers_overtaken:
  assumes "delivers st st'" and "lv_delivered st i = None" and "\<forall>rid. bt_get rid (lv_pending st) \<noteq> Some i"
  shows "lv_delivered st' i = None \<and> (\<forall>rid. bt_get rid (lv_pending st') \<noteq> Some i)"
  using assms by (auto simp: delivers_def deliver_response_def Let_def split: option.splits if_splits)

lemma overtaken_step:
  assumes "overtaken i p" and "commands_step P F parse p p'"
  shows "overtaken i p'"
  using assms(2)
proof (cases rule: commands_step.cases)
  case (listens q')
  then show ?thesis
    using assms(1) delivers_overtaken [OF listener_delivers(1), of P F parse "cp_server p" q' i]
    by (simp add: overtaken_def pool_live_def)
next
  case (called d e)
  then show ?thesis using assms(1) by (simp add: overtaken_def pool_live_def nth_append)
next
  case (advances j expiry pt st')
  note same = command_step_frame(4) [OF advances(3)]
  have registered: "has_registered (ct_point (cp_threads p ! j)) \<Longrightarrow> has_registered pt"
    using advances(3) by (auto simp: command_step_def split: command_point.splits option.splits sum.splits)
  have "bt_get rid (lv_pending st') = Some i \<Longrightarrow> j = i \<and> \<not> has_registered (ct_point (cp_threads p ! i)) \<or>
      bt_get rid (lv_pending (pool_live p)) = Some i" for rid
    using advances(3)
    by (auto simp: command_step_def ok_iff split: command_point.splits option.splits sum.splits if_splits)
  then have "bt_get rid (lv_pending st') \<noteq> Some i" for rid using assms(1) unfolding overtaken_def by blast
  then show ?thesis
    using advances(1,2) assms(1) same registered
    by (cases "j = i") (simp_all add: overtaken_def pool_live_def)
qed

text \<open>C38. Two commands in flight under one request id, which the two sides choose independently of each
  other: as soon as the second has replaced the registration of the first, the first can no longer
  return with success in any continuation, and the next envelope that names the request, though a
  companion may have sent it in answer to the first, is handed to the second.\<close>

theorem shared_request_id_loses:
  assumes "reachable commands_start (commands_step P F parse) p"
    and "i < length (cp_threads p)" and "ct_point (cp_threads p ! i) = Waiting"
    and "lv_delivered (pool_live p) i = None" and "j \<noteq> i"
    and "bt_get (thread_request (cp_threads p ! i)) (lv_pending (pool_live p)) = Some j"
    and "reachable (\<lambda>q. q = p) (commands_step P F parse) p'"
  shows "(\<forall>payload. ct_point (cp_threads p' ! i) \<noteq> Finished (Inr payload)) \<and>
         (\<forall>e. response_request_id e = thread_request (cp_threads p ! i) \<longrightarrow>
            lv_delivered (deliver_response e (pool_live p)) j = Some e \<and>
            lv_delivered (deliver_response e (pool_live p)) i = None)"
proof -
  have ok: "command_pool_ok p" using assms(1) by (rule commands.reach_inv)
  then have own: "thread_ok (pool_live p) i (cp_threads p ! i)"
    using assms(2) by (simp add: command_pool_ok_def commands_ok_def)
  have "bt_get rid (lv_pending (pool_live p)) \<noteq> Some i" for rid
    using own assms(5,6) by (auto simp: thread_ok_def)
  then have start: "overtaken i p" using assms(2-4) by (simp add: overtaken_def)
  have "command_pool_ok p' \<and> overtaken i p'"
    using assms(7) by (induction rule: reachable.induct) (auto intro: ok start commands_step_ok overtaken_step)
  then have "thread_ok (pool_live p') i (cp_threads p' ! i)" "lv_delivered (pool_live p') i = None"
    by (simp_all add: command_pool_ok_def commands_ok_def overtaken_def)
  then show ?thesis
    using assms(4-6) by (auto simp: thread_ok_def deliver_response_def)
qed

end
