(* ===== verification/Command_Witnesses.thy ===== *)
theory Command_Witnesses
  imports Companion_Commands_Facts Live_Runs
begin

text \<open>Concrete runs of interleaved commands, and the properties of \<open>Companion_Commands_Facts\<close> applied to them.\<close>

abbreviation "pool_reachable \<equiv> reachable commands_start (commands_step letter_ports network_order letter_parse)"

definition listener_at :: "live \<Rightarrow> quic_server" where
  "listener_at st = \<lparr>qs_live = st, qs_running = [\<lparr>cn_id = 1, cn_channel = 0, cn_device = Some ''d'',
     cn_input = frames [''r'']\<rparr>], qs_draining = [], qs_next_id = 2, qs_next_channel = 1,
     qs_waiting = [], qs_clones = [], qs_next_waiter = 0\<rparr>"

definition demo_at :: "command_point \<Rightarrow> command_thread" where
  "demo_at pt = \<lparr>ct_device = ''d'', ct_envelope = build_command_request_envelope demo_dispatch, ct_point = pt\<rparr>"

definition pool_at :: "live \<Rightarrow> command_point list \<Rightarrow> command_pool" where
  "pool_at st pts = \<lparr>cp_server = listener_at st, cp_threads = map demo_at pts\<rparr>"

definition demo_handle :: session_handle where
  "demo_handle = \<lparr>sh_connection_id = 1, sh_outgoing = 0\<rparr>"

definition enlisted :: "nat \<Rightarrow> live \<Rightarrow> live" where
  "enlisted w st = st\<lparr>lv_pending := bt_insert ''c1'' w (lv_pending st)\<rparr>"

definition sent :: "nat \<Rightarrow> live \<Rightarrow> live" where
  "sent w st = (enlisted w st)\<lparr>lv_outboxes := (lv_outboxes st)(0 := (lv_outboxes st 0)
     \<lparr>ob_messages := ob_messages (lv_outboxes st 0) @ [''command-c1'']\<rparr>)\<rparr>"

text \<open>The state is one in which the device's connection can take commands.\<close>

definition connected :: "live \<Rightarrow> bool" where
  "connected st \<longleftrightarrow> bt_get ''d'' (lv_sessions st) = Some demo_handle \<and> ob_open (lv_outboxes st 0)"

lemma sent_sel [simp]:
  "connected (sent w st) = connected st" "lv_delivered (sent w st) = lv_delivered st"
  "lv_pending (sent w st) = bt_insert ''c1'' w (lv_pending st)"
  by (simp_all add: sent_def enlisted_def connected_def)

lemma pool_at_sel [simp]:
  "pool_live (pool_at st pts) = st" "cp_threads (pool_at st pts) = map demo_at pts"
  "cp_server (pool_at st pts) = listener_at st"
  by (simp_all add: pool_at_def pool_live_def listener_at_def)

lemma demo_at_sel [simp]:
  "ct_point (demo_at pt) = pt" "(demo_at pt)\<lparr>ct_point := pt'\<rparr> = demo_at pt'" "thread_request (demo_at pt) = ''c1''"
  "ct_device (demo_at pt) = ''d''" "tp_to_vec letter_ports (ct_envelope (demo_at pt)) = Inr ''command-c1''"
  by (simp_all add: demo_at_def thread_request_def letter_ports_def build_command_request_envelope_def
      command_request_id_def command_request_json_def get_str_def demo_dispatch_def)

lemma demo_steps:
  "connected st \<Longrightarrow> command_step letter_ports x w (demo_at Looking) st =
     Some (Registering demo_handle ''command-c1'', st)"
  "command_step letter_ports x w (demo_at (Registering h b)) st = Some (Sending h b, enlisted w st)"
  "connected st \<Longrightarrow>
   command_step letter_ports x w (demo_at (Sending demo_handle ''command-c1'')) (enlisted w st) = Some (Waiting, sent w st)"
  "lv_delivered st w = Some e \<Longrightarrow>
   command_step letter_ports x w (demo_at Waiting) st = Some (Finished (command_result e), st)"
  "lv_delivered st w = None \<Longrightarrow>
   command_step letter_ports (Some c) w (demo_at Waiting) st = Some (Expired c, st)"
  "command_step letter_ports x w (demo_at (Expired c)) st =
     Some (Finished (Inl (command_timeout c)), st\<lparr>lv_pending := bt_remove ''c1'' (lv_pending st)\<rparr>)"
  by (simp_all add: command_step_def connected_def enlisted_def sent_def outgoing_send_def demo_handle_def Let_def)

lemma move_pool_at:
  assumes "i < length pts" and "command_step letter_ports x i (demo_at (pts ! i)) st = Some (pt, st')"
  shows "command_moves letter_ports i (pool_at st pts) (pool_at st' (pts[i := pt]))"
  unfolding command_moves_def
proof (intro exI conjI)
  show "command_step letter_ports x i (cp_threads (pool_at st pts) ! i) (pool_live (pool_at st pts)) = Some (pt, st')"
    using assms by simp
  show "pool_at st' (pts[i := pt]) = (pool_at st pts)
      \<lparr>cp_server := (cp_server (pool_at st pts))\<lparr>qs_live := st'\<rparr>,
       cp_threads := (cp_threads (pool_at st pts))[i := (cp_threads (pool_at st pts) ! i)\<lparr>ct_point := pt\<rparr>]\<rparr>"
    using assms(1) by (simp add: pool_at_def listener_at_def map_update)
qed (use assms(1) in simp)

lemma move_is_step: "command_moves P i p p' \<Longrightarrow> commands_step P F parse p p'"
  by (auto simp: command_moves_def intro: advances)

lemma reachable_move:
  assumes "pool_reachable (pool_at st pts)" and "i < length pts"
    and "command_step letter_ports x i (demo_at (pts ! i)) st = Some (pt, st')"
  shows "pool_reachable (pool_at st' (pts[i := pt]))"
  using assms(1) move_is_step [OF move_pool_at [OF assms(2,3)]] by (rule reachable_step)

lemma reachable_call:
  assumes "pool_reachable (pool_at st pts)"
  shows "pool_reachable (pool_at st (pts @ [Looking]))"
proof -
  have "pool_at st (pts @ [Looking]) = (pool_at st pts)\<lparr>cp_threads := cp_threads (pool_at st pts) @
      [\<lparr>ct_device = ''d'', ct_envelope = build_command_request_envelope demo_dispatch, ct_point = Looking\<rparr>]\<rparr>"
    by (simp add: pool_at_def demo_at_def)
  then show ?thesis using reachable_step [OF assms called] by simp
qed

text \<open>A command that is called and goes on until it waits.\<close>

lemma reachable_sent:
  assumes "pool_reachable (pool_at st pts)" and "connected st"
  shows "pool_reachable (pool_at (sent (length pts) st) (pts @ [Waiting]))"
proof -
  let ?i = "length pts"
  have "pool_reachable (pool_at st (pts @ [Registering demo_handle ''command-c1'']))"
    using reachable_move [OF reachable_call [OF assms(1)], of ?i] demo_steps(1) [OF assms(2)] by simp
  then have "pool_reachable (pool_at (enlisted ?i st) (pts @ [Sending demo_handle ''command-c1'']))"
    using reachable_move [of st "pts @ [_]" ?i] demo_steps(2) by fastforce
  then show ?thesis
    using reachable_move [of "enlisted ?i st" "pts @ [_]" ?i] demo_steps(3) [OF assms(2), of None ?i] by fastforce
qed

lemma reachable_listens:
  assumes "pool_reachable p" and "server_step letter_ports network_order letter_parse (cp_server p) q'"
    and "qs_waiting (cp_server p) = []" and "qs_next_waiter q' = qs_next_waiter (cp_server p)"
  shows "pool_reachable (p\<lparr>cp_server := q'\<rparr>)"
  using assms(2-4) by (intro reachable_step [OF assms(1)] listens) (simp add: listener_step_def)

lemma reachable_listener_turn:
  assumes "pool_reachable p" and "qs_waiting (cp_server p) = []" and "qs_running (cp_server p) \<noteq> []"
  shows "pool_reachable (p\<lparr>cp_server := turn_first (cp_server p)\<rparr>)"
proof -
  have "qs_next_waiter (turn_first (cp_server p)) = qs_next_waiter (cp_server p)"
    by (simp add: turn_first_def split: prod.splits sum.splits)
  then show ?thesis
    using turn_first_step [OF assms(3)] reachable_listens [OF assms(1) _ assms(2)] assms(1) by auto
qed

lemma reachable_idle: "pool_reachable (pool_at capable_live [])"
proof -
  let ?p = "\<lparr>cp_server = live_start, cp_threads = []\<rparr>"
  have "commands_start ?p" by (simp add: commands_start_def server_start_def live_start_def)
  then have start: "pool_reachable ?p" by (rule reachable_start)
  let ?q = "connect (frames [''h'', ''c'', ''r'']) live_start"
  have "read_preface [] (wire_magic @ [stream_control] @ frames [''h'', ''c'', ''r'']) =
      Inr (frames [''h'', ''c'', ''r''])"
    by (simp add: read_preface_def read_exact_def wire_magic_def)
  then have "server_step letter_ports network_order letter_parse live_start ?q"
    unfolding connect_def by (rule accepted)
  then have "pool_reachable (?p\<lparr>cp_server := ?q\<rparr>)"
    by (intro reachable_listens [OF start]) (simp_all add: connect_def live_start_def)
  then have one: "pool_reachable \<lparr>cp_server = ?q, cp_threads = []\<rparr>" by simp
  have "qs_waiting ?q = []" by (simp add: connect_def live_start_def)
  then have "pool_reachable \<lparr>cp_server = greeted, cp_threads = []\<rparr>"
    using reachable_listener_turn [OF one] by (simp add: greeted_def)
  then have "pool_reachable \<lparr>cp_server = capable, cp_threads = []\<rparr>"
    using reachable_listener_turn [of "\<lparr>cp_server = greeted, cp_threads = []\<rparr>"]
    by (simp add: greeted_eq capable_def)
  then show ?thesis by (simp add: capable_eq pool_at_def listener_at_def)
qed

lemma capable_connected: "connected capable_live" "lv_pending capable_live = []"
  "lv_delivered capable_live 0 = None" "lv_delivered capable_live 1 = None"
proof -
  have "ob_open (lv_outboxes capable_live 0)" by code_simp
  then show "connected capable_live" using capable_handle by (simp add: connected_def demo_handle_def)
  show "lv_pending capable_live = []" "lv_delivered capable_live 0 = None" "lv_delivered capable_live 1 = None"
    by code_simp+
qed

subsection \<open>One command and its response\<close>

abbreviation "waiting_pool \<equiv> pool_at (sent 0 capable_live) [Waiting]"

definition answered_pool :: command_pool where
  "answered_pool = waiting_pool\<lparr>cp_server := turn_first (listener_at (sent 0 capable_live))\<rparr>"

definition done_pool :: command_pool where
  "done_pool = answered_pool\<lparr>cp_threads := [demo_at (Finished (Inr (ev_payload demo_response)))]\<rparr>"

lemma reachable_waiting: "pool_reachable waiting_pool"
  using reachable_sent [of capable_live "[]"] reachable_idle capable_connected by simp

lemma response_turn:
  "turn_first (listener_at st) = (listener_at st)\<lparr>qs_live := deliver_response demo_response st,
     qs_running := [\<lparr>cn_id = 1, cn_channel = 0, cn_device = Some ''d'', cn_input = frames []\<rparr>]\<rparr>"
  using turn_first_letter [of "listener_at st"
      "\<lparr>cn_id = 1, cn_channel = 0, cn_device = Some ''d'', cn_input = frames [''r'']\<rparr>" "[]"
      "''r''" "[]" demo_response None] response_accepted
  by (simp add: listener_at_def letter_parse_def)

lemma demo_response_names: "response_request_id demo_response = ''c1''" "command_result demo_response = Inr (ev_payload demo_response)"
  by code_simp+

lemma reachable_answered_pool: "pool_reachable answered_pool"
  using reachable_listener_turn [OF reachable_waiting] by (simp add: answered_pool_def listener_at_def)

lemma pending_first: "lv_pending (sent 0 capable_live) = [(''c1'', 0)]"
  by (simp add: capable_connected)

lemma answered_live: "lv_delivered (pool_live answered_pool) 0 = Some demo_response"
  by (simp add: answered_pool_def pool_live_def response_turn deliver_response_def demo_response_names Let_def)

lemma reachable_done: "pool_reachable done_pool"
proof -
  have "command_moves letter_ports 0 answered_pool done_pool"
    using demo_steps(4) [OF answered_live] demo_response_names(2)
    by (auto simp: command_moves_def done_pool_def answered_pool_def pool_live_def)
  with reachable_answered_pool show ?thesis using move_is_step by (auto intro: reachable_step)
qed

lemma done_threads: "cp_threads done_pool = [demo_at (Finished (Inr (ev_payload demo_response)))]"
  by (simp add: done_pool_def)

theorem command_gets_own_response_witness:
  "\<exists>e. lv_delivered (pool_live done_pool) 0 = Some e \<and> response_request_id e = ''c1'' \<and>
     ct_point (cp_threads done_pool ! 0) = Finished (Inr (ev_payload e))"
  using command_gets_own_response [OF reachable_done, of 0 "ev_payload demo_response"]
  by (auto simp: done_threads)

theorem no_registration_leaks_witness:
  "lv_pending (pool_live waiting_pool) = [(''c1'', 0)] \<and> lv_pending (pool_live done_pool) = []"
  using no_registration_leaks [OF reachable_done] by (simp add: done_threads capable_connected)

subsection \<open>A run\<close>

text \<open>The command is called, runs into the end of its wait and returns; then connections fail for ever.\<close>

fun late_point :: "nat \<Rightarrow> command_point \<times> live" where
  "late_point 0 = (Looking, capable_live)"
| "late_point (Suc 0) = (Registering demo_handle ''command-c1'', capable_live)"
| "late_point (Suc (Suc 0)) = (Sending demo_handle ''command-c1'', enlisted 0 capable_live)"
| "late_point (Suc (Suc (Suc 0))) = (Waiting, sent 0 capable_live)"
| "late_point (Suc (Suc (Suc (Suc 0)))) = (Expired ''late'', sent 0 capable_live)"
| "late_point (Suc (Suc (Suc (Suc (Suc n))))) = (Finished (Inl (command_timeout ''late'')),
     (sent 0 capable_live)\<lparr>lv_pending := bt_remove ''c1'' (lv_pending (sent 0 capable_live))\<rparr>)"

definition late_run :: "nat \<Rightarrow> command_pool" where
  "late_run n =
     (let p = pool_at (snd (late_point n)) [fst (late_point n)]
      in p\<lparr>cp_server := (cp_server p)\<lparr>qs_next_id := 2 + of_nat (n - 5)\<rparr>\<rparr>)"

lemma late_move:
  assumes "n < 5"
  shows "command_moves letter_ports 0 (late_run n) (late_run (Suc n))"
proof -
  have "n = 0 \<or> n = Suc 0 \<or> n = Suc (Suc 0) \<or> n = Suc (Suc (Suc 0)) \<or> n = Suc (Suc (Suc (Suc 0)))"
    using assms by auto
  then have "command_step letter_ports (Some ''late'') 0 (demo_at (fst (late_point n))) (snd (late_point n)) =
      Some (late_point (Suc n))"
    using capable_connected by (elim disjE) (simp_all add: demo_steps)
  then have "command_moves letter_ports 0 (pool_at (snd (late_point n)) [fst (late_point n)])
      (pool_at (snd (late_point (Suc n))) [fst (late_point (Suc n))])"
    using move_pool_at [of 0 "[fst (late_point n)]" "Some ''late''" "snd (late_point n)"
        "fst (late_point (Suc n))" "snd (late_point (Suc n))"] by simp
  moreover have "late_run m = pool_at (snd (late_point m)) [fst (late_point m)]" if "m \<le> 5" for m
    using that by (simp add: late_run_def pool_at_def listener_at_def)
  ultimately show ?thesis using assms by simp
qed

lemma late_rest:
  assumes "5 \<le> n"
  shows "late_run (Suc n) = (late_run n)\<lparr>cp_server := (cp_server (late_run n))
           \<lparr>qs_next_id := qs_next_id (cp_server (late_run n)) + 1\<rparr>\<rparr>"
proof -
  define m where "m = n - 5"
  then have n: "n = 5 + m" using assms by simp
  have "late_point (5 + k) = late_point 5" for k by (simp add: numeral_eq_Suc)
  then have same: "late_point (Suc n) = late_point n" using n by (metis add_Suc_right)
  have "(2 + of_nat (Suc n - 5) :: 64 word) = 2 + of_nat (n - 5) + 1" using n by simp
  then show ?thesis by (simp add: late_run_def Let_def same pool_at_def listener_at_def del: of_nat_diff)
qed

lemma late_step: "commands_step letter_ports network_order letter_parse (late_run n) (late_run (Suc n))"
proof (cases "n < 5")
  case True
  then show ?thesis using late_move move_is_step by blast
next
  case False
  have "qs_waiting (cp_server (late_run n)) = []" by (simp add: late_run_def Let_def listener_at_def)
  then have "listener_step letter_ports network_order letter_parse (cp_server (late_run n))
      ((cp_server (late_run n))\<lparr>qs_next_id := qs_next_id (cp_server (late_run n)) + 1\<rparr>)"
    by (simp add: listener_step_def handshake_failed)
  then show ?thesis using False by (simp add: late_rest listens)
qed

lemma late_returned: "has_returned 0 (late_run (n + 5))"
  by (simp add: has_returned_def late_run_def Let_def numeral_eq_Suc)

theorem commands_return_witness:
  "ct_point (cp_threads (late_run 0) ! 0) = Looking \<and> (\<exists>n. has_returned 0 (late_run n))"
proof -
  have run: "commands_run letter_ports network_order letter_parse late_run"
    using late_step by (simp add: commands_run_def)
  have "scheduled letter_ports 0 late_run"
    unfolding scheduled_def using late_returned le_add1 by blast
  moreover have start: "cp_threads (late_run 0) = [demo_at Looking]" by (simp add: late_run_def Let_def)
  ultimately show ?thesis using commands_return [OF run, of 0] by simp
qed

subsection \<open>Two commands with one request id\<close>

abbreviation "shared_pool \<equiv> pool_at (sent 1 (sent 0 capable_live)) [Waiting, Waiting]"

theorem shared_request_id_loses_witness:
  "lv_delivered (deliver_response demo_response (pool_live shared_pool)) 1 = Some demo_response \<and>
   lv_delivered (deliver_response demo_response (pool_live shared_pool)) 0 = None \<and>
   ct_point (cp_threads shared_pool ! 0) = Waiting"
proof -
  have r: "pool_reachable shared_pool"
    using reachable_sent [OF reachable_waiting] capable_connected by simp
  have p: "0 < length (cp_threads shared_pool)" "ct_point (cp_threads shared_pool ! 0) = Waiting"
    "lv_delivered (pool_live shared_pool) 0 = None"
    "bt_get (thread_request (cp_threads shared_pool ! 0)) (lv_pending (pool_live shared_pool)) = Some 1"
    using capable_connected by (simp_all add: bt_get_def)
  have "reachable (\<lambda>q. q = shared_pool) (commands_step letter_ports network_order letter_parse) shared_pool"
    by (rule reachable_start) (rule refl)
  from shared_request_id_loses [OF r p(1-3) _ p(4) this] demo_response_names(1) show ?thesis by simp
qed

theorem uninterrupted_command_witness:
  "ct_point (fst (run_command letter_ports 0 (deliver_response demo_response) [] ''d''
      (build_command_request_envelope demo_dispatch) capable_live)) =
     Finished (fst (send_command_envelope letter_ports 0 (deliver_response demo_response) [] ''d''
      (build_command_request_envelope demo_dispatch) capable_live))"
  using uninterrupted_command [OF capable_connected(3), of letter_ports "deliver_response demo_response" "[]" "''d''"
      "build_command_request_envelope demo_dispatch"]
  by (simp add: case_prod_beta)

end
