(* ===== verification/Core_Races.thy ===== *)
theory Core_Races
  imports Concurrent_Facts
begin

text \<open>
  What other requests can and cannot do to a request of the core that takes several steps: a
  pairing keeps to its protocol whatever runs between its steps, and is not stopped by
  cancelling its session; two configurations of the keep-alive supervisor can undo each other.
\<close>

subsection \<open>The steps a task of the pool has taken\<close>

definition task_traced :: "('n, 'w) core_ports \<Rightarrow> ('n, 'w) task \<Rightarrow> bool" where
  "task_traced P t \<longleftrightarrow>
     (\<exists>tr. after (job_program P (tk_job t)) tr (tk_left t) \<and> map fst tr = tk_seen t)"

lemma pool_traced:
  assumes "reachable (pool_start P) (pool_step P) p" and "pl_tasks p i = Some t"
  shows "task_traced P t"
  using assms
proof (induction arbitrary: i t rule: reachable.induct)
  case (reachable_start p)
  then show ?case by (simp add: pool_start_def)
next
  case (reachable_step p p')
  from reachable_step.hyps(2) show ?case
  proof cases
    case (task_arrives j k)
    then show ?thesis
      using reachable_step.IH reachable_step.prems
      by (auto simp: task_traced_def new_task_def split: if_splits intro: after_none)
  next
    case (task_advances j u f st rest)
    have "task_traced P (advanced u (pl_service p) rest)"
      using reachable_step.IH [OF task_advances(2)] task_advances after_snoc
      by (fastforce simp: task_traced_def advanced_def)
    then show ?thesis
      using reachable_step.IH reachable_step.prems task_advances by (auto split: if_splits)
  next
    case (task_answers j u r)
    then show ?thesis using reachable_step.IH reachable_step.prems by (auto split: if_splits)
  qed
qed

lemma finishes_unless_errorE:
  assumes "finishes (unless_error p k) tr r"
  obtains (error) e where "finishes p tr (Inl e)" "r = Inl e"
    | (goes_on) tr1 tr2 x where "tr = tr1 @ tr2" "finishes p tr1 (Inr x)" "finishes (k x) tr2 r"
proof -
  obtain tr1 tr2 y where y: "tr = tr1 @ tr2" "finishes p tr1 y"
    "finishes (case y of Inl e \<Rightarrow> Done (Inl e) | Inr x \<Rightarrow> k x) tr2 r"
    using assms by (auto simp: unless_error_def finishes_and_then)
  show ?thesis using y error goes_on by (cases y) auto
qed

subsection \<open>Pairing\<close>

definition adb_log :: "('n, 'w \<times> string list list) core service \<Rightarrow> string list list" where
  "adb_log st = snd (co_world (sv_core st))"

text \<open>The adb commands the steps of a trace ran; the steps others took in between are not in it.\<close>

definition commands_of ::
    "(('n, 'w \<times> string list list) core service \<times> ('n, 'w \<times> string list list) core service) list \<Rightarrow>
     string list list" where
  "commands_of tr = concat (map (\<lambda>(s, s'). drop (length (adb_log s)) (adb_log s')) tr)"

lemma commands_of_simps [simp]:
  "commands_of [] = []"
  "commands_of ((s, s') # tr) = drop (length (adb_log s)) (adb_log s') @ commands_of tr"
  "commands_of (tr1 @ tr2) = commands_of tr1 @ commands_of tr2"
  by (simp_all add: commands_of_def)

lemma wireless_step_log [simp]: "adb_log (snd (on_core (on_wireless f) st)) = adb_log st"
  by (simp add: adb_log_def on_core_def on_wireless_def case_prod_beta)

lemma finishes_adb_step:
  assumes "pt_runner P = logged_runner runner"
  shows "finishes (adb_step P path args) tr r \<longleftrightarrow>
    (\<exists>s s'. tr = [(s, s')] \<and> s' = snd (on_core (\<lambda>co. case pt_runner P path args (co_world co) of
         (r, w) \<Rightarrow> (r, co\<lparr>co_world := w\<rparr>)) s) \<and> adb_log s' = adb_log s @ [args] \<and>
       r = fst (runner path args (fst (co_world (sv_core s)))))"
  by (auto simp: adb_step_def finishes_atomically assms adb_log_def on_core_def logged_runner_def
      case_prod_beta)

text \<open>The commands a pairing may run, when \<open>seen\<close> holds the states it saw.\<close>

definition pairing_commands ::
    "'w runner \<Rightarrow> string \<Rightarrow> nat \<Rightarrow> string \<Rightarrow> ('n, 'w \<times> string list list) core service set \<Rightarrow>
     string list list \<Rightarrow> bool" where
  "pairing_commands runner path now sid seen cs \<longleftrightarrow>
     (\<exists>s \<in> seen. \<exists>p. wp_pending (co_wireless (sv_core s)) sid = Some p \<and> now < pp_expires_at p \<and>
        (cs = [[''mdns'', ''services'']] \<or>
         (\<exists>s' \<in> seen. \<exists>out endpoint.
            fst (runner path [''mdns'', ''services''] (fst (co_world (sv_core s')))) = Inr out \<and>
            find_pairing_endpoint (ao_stdout out) (pp_service_name p) = Some endpoint \<and>
            cs = [[''mdns'', ''services''], [''pair'', endpoint, pp_password p]])))"

lemma pairing_commands_mono:
  "pairing_commands runner path now sid seen cs \<Longrightarrow> seen \<subseteq> seen' \<Longrightarrow>
   pairing_commands runner path now sid seen' cs"
  unfolding pairing_commands_def by (meson subsetD)

definition pairing_kept ::
    "'w runner \<Rightarrow> string \<Rightarrow> nat \<Rightarrow> string \<Rightarrow>
     (('n, 'w \<times> string list list) core service \<times> ('n, 'w \<times> string list list) core service) list \<Rightarrow> bool \<Rightarrow> bool" where
  "pairing_kept runner path now sid tr ok \<longleftrightarrow>
     (commands_of tr \<noteq> [] \<longrightarrow> pairing_commands runner path now sid (fst ` set tr) (commands_of tr)) \<and>
     (ok \<longrightarrow> length (commands_of tr) = 2 \<and> wp_pending (co_wireless (sv_core (snd (last tr)))) sid = None)"

lemma pairing_kept_append:
  assumes "pairing_kept runner path now sid tr2 ok" and "commands_of tr1 = []"
  shows "pairing_kept runner path now sid (tr1 @ tr2) ok"
proof -
  have "ok \<longrightarrow> tr2 \<noteq> []" using assms(1) by (auto simp: pairing_kept_def)
  then show ?thesis
    using assms pairing_commands_mono [of runner path now sid "fst ` set tr2" _ "fst ` set (tr1 @ tr2)"]
    by (auto simp: pairing_kept_def)
qed

lemma confirm_amid:
  assumes "finishes (pair_confirm P sid path p endpoint) tr r" and "pt_runner P = logged_runner runner"
  shows "commands_of tr = [[''pair'', endpoint, pp_password p]] \<and>
    (is_ok r \<longrightarrow> tr \<noteq> [] \<and> wp_pending (co_wireless (sv_core (snd (last tr)))) sid = None)"
  using assms(1) unfolding pair_confirm_def
proof (cases rule: finishes_unless_errorE)
  case (error e)
  then show ?thesis by (auto simp: finishes_adb_step [OF assms(2)])
next
  case (goes_on tr1 tr2 out)
  then show ?thesis
    by (auto simp: finishes_adb_step [OF assms(2)] finishes_returning finishes_atomically cancel_pairing_def
        on_core_def on_wireless_def adb_log_def case_prod_beta lock_pending_def split: if_splits)
qed

lemma attempt_amid:
  assumes "finishes (pair_attempt P sid path p) tr r" and "pt_runner P = logged_runner runner"
  shows "(commands_of tr = [[''mdns'', ''services'']] \<and> \<not> is_ok r \<or>
      (\<exists>s \<in> fst ` set tr. \<exists>out endpoint.
         fst (runner path [''mdns'', ''services''] (fst (co_world (sv_core s)))) = Inr out \<and>
         find_pairing_endpoint (ao_stdout out) (pp_service_name p) = Some endpoint \<and>
         commands_of tr = [[''mdns'', ''services''], [''pair'', endpoint, pp_password p]])) \<and>
    (is_ok r \<longrightarrow> tr \<noteq> [] \<and> wp_pending (co_wireless (sv_core (snd (last tr)))) sid = None)"
  using assms(1) unfolding pair_attempt_def
proof (cases rule: finishes_unless_errorE)
  case (error e)
  then show ?thesis by (auto simp: finishes_adb_step [OF assms(2)])
next
  case (goes_on tr1 tr2 out)
  then show ?thesis
    using confirm_amid [OF _ assms(2), of sid path p _ tr2 r]
    by (auto simp: finishes_adb_step [OF assms(2)] split: if_splits option.splits)
qed

lemma pair_amid:
  assumes "finishes (pair_program P now sid path) tr r" and "pt_runner P = logged_runner runner"
  shows "pairing_kept runner path now sid tr (is_ok r)"
  using assms(1) unfolding pair_program_def
proof (cases rule: finishes_unless_errorE)
  case (error e)
  then show ?thesis by (auto simp: pairing_kept_def finishes_atomically)
next
  case (goes_on tr1 tr2 p)
  then obtain s where s: "tr1 = [(s, snd (on_core (on_wireless (get_pending now sid)) s))]"
    and p: "get_pending now sid (co_wireless (sv_core s)) =
        (Inr p, snd (get_pending now sid (co_wireless (sv_core s))))"
    by (auto simp: finishes_atomically on_core_def on_wireless_def case_prod_beta prod_eq_iff)
  then have "wp_pending (co_wireless (sv_core s)) sid = Some p \<and> now < pp_expires_at p"
    by (simp add: get_pending_Inr_iff)
  with attempt_amid [OF goes_on(3) assms(2)] goes_on(1) s show ?thesis
    by (auto simp: pairing_kept_def pairing_commands_def)
qed

lemma qr_pair_amid:
  assumes "finishes (qr_pair_program P env params) tr r" and "pt_runner P = logged_runner runner"
  shows "commands_of tr = [] \<and> \<not> is_ok r \<or>
    (\<exists>sid path. parse_ipc_params (pt_serde P) ''adb.wifi.qr.pair'' decode_session_id
        ''adb.wifi.qr.pair params must match { sessionId: string }.'' params = Inr sid \<and>
       pairing_kept runner path (cv_instant env) sid tr (is_ok r))"
proof -
  have kept: "pairing_kept runner path (cv_instant env) sid (tr1 @ tr2) (is_ok r)"
    if one: "finishes (resolve_adb_step P env) tr1 (Inr path)"
      and two: "finishes (returning (map_ok pairing_result_json) (pair_program P (cv_instant env) sid path)) tr2 r"
    for tr1 tr2 path sid
  proof -
    obtain x where "finishes (pair_program P (cv_instant env) sid path) tr2 x" "is_ok r = is_ok x"
      using two by (auto simp: finishes_returning)
    moreover have "commands_of tr1 = []"
      using one by (auto simp: resolve_adb_step_def finishes_atomically adb_log_def on_core_def)
    ultimately show ?thesis
      using pair_amid [OF _ assms(2), of "cv_instant env" sid path tr2 x] by (simp add: pairing_kept_append)
  qed
  show ?thesis
  proof (cases "parse_ipc_params (pt_serde P) ''adb.wifi.qr.pair'' decode_session_id
      ''adb.wifi.qr.pair params must match { sessionId: string }.'' params")
    case (Inr sid)
    show ?thesis
    proof (cases "require_non_empty sid ''sessionId''")
      case (Inr u)
      then have "finishes (unless_error (resolve_adb_step P env) (\<lambda>path. returning (map_ok pairing_result_json)
          (pair_program P (cv_instant env) sid path))) tr r"
        using assms(1) \<open>_ = Inr sid\<close> by (simp add: qr_pair_program_def)
      then show ?thesis
      proof (cases rule: finishes_unless_errorE)
        case (error e)
        then show ?thesis by (auto simp: resolve_adb_step_def finishes_atomically on_core_def adb_log_def)
      next
        case (goes_on tr1 tr2 path)
        then show ?thesis using kept \<open>_ = Inr sid\<close> by blast
      qed
    qed (use assms(1) Inr in \<open>auto simp: qr_pair_program_def\<close>)
  qed (use assms(1) in \<open>auto simp: qr_pair_program_def\<close>)
qed

lemma take_env_log [simp]: "adb_log (snd (take_env st)) = adb_log st"
  by (simp add: take_env_def adb_log_def)

text \<open>The environment a request of the core works in is the one it finds in its first step.\<close>

definition env_of :: "('n, 'w) core service list \<Rightarrow> core_env" where
  "env_of seen = co_envs (sv_core (hd seen)) (co_requests (sv_core (hd seen)))"

lemma qr_pair_job:
  assumes "rq_method rq = ''adb.wifi.qr.pair''" and "finishes (job_program P (Host rq)) tr (To_host resp)"
  obtains r tr' where "resp = ipc_reply (rq_id rq) r"
    and "finishes (qr_pair_program P (env_of (map fst tr)) (rq_params rq)) tr' r"
    and "tr = (hd (map fst tr), snd (take_env (hd (map fst tr)))) # tr'"
proof -
  have m: "rq_method rq \<in> set stepwise_methods" using assms(1) by (simp add: stepwise_methods_def)
  have prog: "core_program P rq = and_then (atomically take_env) (\<lambda>(env, has).
      returning (ipc_reply (rq_id rq)) (qr_pair_program P env (rq_params rq)))"
    using m stepwise_not_local [OF m] assms(1) by (simp add: core_program_def stepwise_program_def)
  have "finishes (core_program P rq) tr resp"
    using assms(2) by (auto simp: job_program_def finishes_returning)
  then obtain tr1 tr' y where y: "tr = tr1 @ tr'" "finishes (atomically take_env) tr1 y"
    "finishes (returning (ipc_reply (rq_id rq)) (qr_pair_program P (fst y) (rq_params rq))) tr' resp"
    unfolding prog finishes_and_then case_prod_beta by blast
  obtain s where s: "tr1 = [(s, snd (take_env s))]" "y = fst (take_env s)"
    using y(2) by (auto simp: finishes_atomically)
  obtain r where r: "finishes (qr_pair_program P (fst y) (rq_params rq)) tr' r" "resp = ipc_reply (rq_id rq) r"
    using y(3) by (auto simp: finishes_returning)
  have "fst y = env_of (map fst tr)" by (simp add: y(1) s take_env_def env_of_def)
  with that [OF r(2), of tr'] r(1) show ?thesis by (simp add: y(1) s(1))
qed

text \<open>C20. Pairing over Wi-Fi amid other requests: however the steps of an \<open>adb.wifi.qr.pair\<close> request of the host
  interleave with any other requests, the request itself runs adb only if a state it saw held the
  named session, live, and then runs the service query and at most one \<open>pair\<close>, with the address the
  phone advertised under this session's service name and with this session's password; when it
  answers success it has run both and its last step left the session removed.\<close>

theorem concurrent_pairing_protocol:
  assumes "pt_runner P = logged_runner runner"
    and "reachable (pool_start P) (pool_step P) p" and "pl_tasks p i = Some t"
    and "tk_job t = Host rq" and "rq_method rq = ''adb.wifi.qr.pair''" and "tk_left t = Done (To_host resp)"
  shows "\<exists>tr. finishes (job_program P (Host rq)) tr (To_host resp) \<and> map fst tr = tk_seen t \<and>
    (commands_of tr \<noteq> [] \<longrightarrow>
       (\<exists>sid path.
          parse_ipc_params (pt_serde P) ''adb.wifi.qr.pair'' decode_session_id
            ''adb.wifi.qr.pair params must match { sessionId: string }.'' (rq_params rq) = Inr sid \<and>
          pairing_commands runner path (cv_instant (env_of (tk_seen t))) sid (set (tk_seen t)) (commands_of tr) \<and>
          (rs_ok resp \<longrightarrow> wp_pending (co_wireless (sv_core (snd (last tr)))) sid = None))) \<and>
    (rs_ok resp \<longrightarrow> length (commands_of tr) = 2)"
proof -
  obtain tr where tr: "finishes (job_program P (Host rq)) tr (To_host resp)" "map fst tr = tk_seen t"
    using pool_traced [OF assms(2,3)] assms(4,6) by (auto simp: task_traced_def)
  obtain r tr' where r: "resp = ipc_reply (rq_id rq) r"
    "finishes (qr_pair_program P (env_of (tk_seen t)) (rq_params rq)) tr' r"
    "tr = (hd (tk_seen t), snd (take_env (hd (tk_seen t)))) # tr'"
    using qr_pair_job [OF assms(5) tr(1)] unfolding tr(2) by blast
  have ok: "rs_ok resp = is_ok r" by (cases r) (simp_all add: r(1) ipc_reply_def ipc_failure_def ipc_success_def)
  have first: "commands_of [(hd (tk_seen t), snd (take_env (hd (tk_seen t))))] = []" by simp
  have states: "fst ` set tr = set (tk_seen t)" by (simp flip: tr(2))
  from qr_pair_amid [OF r(2) assms(1)] show ?thesis
  proof
    assume "commands_of tr' = [] \<and> \<not> is_ok r"
    then have "commands_of tr = [] \<and> \<not> rs_ok resp" by (simp add: r(3) ok)
    with tr show ?thesis by auto
  next
    assume "\<exists>sid path. parse_ipc_params (pt_serde P) ''adb.wifi.qr.pair'' decode_session_id
        ''adb.wifi.qr.pair params must match { sessionId: string }.'' (rq_params rq) = Inr sid \<and>
      pairing_kept runner path (cv_instant (env_of (tk_seen t))) sid tr' (is_ok r)"
    then obtain sid path where sid: "parse_ipc_params (pt_serde P) ''adb.wifi.qr.pair'' decode_session_id
        ''adb.wifi.qr.pair params must match { sessionId: string }.'' (rq_params rq) = Inr sid"
      and kept: "pairing_kept runner path (cv_instant (env_of (tk_seen t))) sid tr' (is_ok r)" by blast
    have "tr = [(hd (tk_seen t), snd (take_env (hd (tk_seen t))))] @ tr'" by (simp flip: r(3))
    then have "pairing_kept runner path (cv_instant (env_of (tk_seen t))) sid tr (rs_ok resp)"
      using pairing_kept_append [OF kept first] ok by (simp only:)
    with tr states sid show ?thesis by (auto simp: pairing_kept_def)
  qed
qed

text \<open>
  After the lookup a pairing no longer depends on the pending sessions: cancelling the session, or
  its expiry, changes neither the answer nor the commands.
\<close>

definition with_pending :: "(string \<rightharpoonup> pending_pairing) \<Rightarrow> ('n, 'w) core service \<Rightarrow> ('n, 'w) core service" where
  "with_pending m st =
     st\<lparr>sv_core := (sv_core st)\<lparr>co_wireless := (co_wireless (sv_core st))\<lparr>wp_pending := m\<rparr>\<rparr>\<rparr>"

theorem cancelled_pairing_goes_on:
  "fst (run_alone (pair_attempt P sid path p) (with_pending m st)) =
     fst (run_alone (pair_attempt P sid path p) st) \<and>
   co_world (sv_core (snd (run_alone (pair_attempt P sid path p) (with_pending m st)))) =
     co_world (sv_core (snd (run_alone (pair_attempt P sid path p) st)))"
  by (auto simp: pair_attempt_def pair_confirm_def adb_step_def with_pending_def on_core_def on_wireless_def
      cancel_pairing_def lock_pending_def split: sum.splits prod.splits option.splits if_splits)

subsection \<open>Two configurations of the supervisor\<close>
















lemma take_env_keepalive [simp]: "co_keepalive (sv_core (snd (take_env st))) = co_keepalive (sv_core st)"
  by (simp add: take_env_def)

text \<open>The last three steps of a configuration, when the thread is there to receive it.\<close>

definition configured :: "keepalive_config \<Rightarrow> keepalive \<Rightarrow> keepalive" where
  "configured c k = snd (send_config c (snd (store_config c k)))"

lemma configured_sel [simp]:
  "ks_enabled (ka_status (configured c k)) = kc_enabled c"
  "ks_interval_secs (ka_status (configured c k)) = kc_interval_secs c"
  "ka_receiver (configured c k) = ka_receiver k"
  by (simp_all add: configured_def send_config_def store_config_def)














end
