(* ===== verification/Race_Witnesses.thy ===== *)
theory Race_Witnesses
  imports Core_Races Concurrent_Witnesses Core_Witnesses
begin

text \<open>
  The properties of \<open>Core_Races\<close> applied to concrete pools: a pairing whose session is cancelled while
  adb works, and two configurations of a running keep-alive supervisor.
\<close>

subsection \<open>A pairing and its cancellation\<close>

definition pairing_ports ::
    "((string \<rightharpoonup> memory_session) \<times> dispatch_command list, unit \<times> string list list) core_ports" where
  "pairing_ports = run_ports\<lparr>pt_runner := logged_runner pairing_runner\<rparr>"

definition pairing_pool :: "((string \<rightharpoonup> memory_session) \<times> dispatch_command list, unit \<times> string list list) pool" where
  "pairing_pool = bob_pool\<lparr>pl_service := (pl_service bob_pool)\<lparr>sv_core := run_core\<lparr>co_wireless := one_pairing\<rparr>\<rparr>\<rparr>"

definition pairing_request :: ipc_request where
  "pairing_request = \<lparr>rq_id = ''p1'', rq_method = ''adb.wifi.qr.pair'', rq_params = JObj [(''sessionId'', JStr ''q1'')]\<rparr>"

definition cancel_request :: ipc_request where
  "cancel_request = \<lparr>rq_id = ''p2'', rq_method = ''adb.wifi.qr.cancel'', rq_params = JObj [(''sessionId'', JStr ''q1'')]\<rparr>"

text \<open>The cancellation is answered after the pairing looked its session up.\<close>

definition pairing_events :: "pool_event list" where
  "pairing_events =
     [Arrive 0 (Host pairing_request), Turn 0, Turn 0, Turn 0, Arrive 1 (Host cancel_request), Turn 1, Turn 1,
      Turn 0, Turn 0, Turn 0]"

definition pairing_done :: "((string \<rightharpoonup> memory_session) \<times> dispatch_command list, unit \<times> string list list) pool" where
  "pairing_done = fold (pool_turn pairing_ports) pairing_events pairing_pool"

lemma pairing_pool_start: "pool_start pairing_ports pairing_pool"
  using bob_pool_start
  by (simp add: pool_start_def system_start_def pairing_pool_def pairing_ports_def bob_pool_def)

lemma pairing_done_reachable: "reachable (pool_start pairing_ports) (pool_step pairing_ports) pairing_done"
  unfolding pairing_done_def by (intro schedule_reachable reachable_start pairing_pool_start)

lemma pairing_answered:
  "case pl_tasks pairing_done 0 of
     None \<Rightarrow> False
   | Some t \<Rightarrow> (case tk_job t of Remote E rr \<Rightarrow> False | Host rq \<Rightarrow> rq = pairing_request) \<and>
       (case tk_left t of Done (To_host r) \<Rightarrow> rs_ok r | _ \<Rightarrow> False)"
  by code_simp

theorem concurrent_pairing_protocol_witness:
  "\<exists>tr resp. finishes (job_program pairing_ports (Host pairing_request)) tr (To_host resp) \<and> rs_ok resp \<and>
     length (commands_of tr) = 2 \<and> wp_pending (co_wireless (sv_core (snd (last tr)))) ''q1'' = None"
proof -
  obtain t resp where t: "pl_tasks pairing_done 0 = Some t" "tk_job t = Host pairing_request"
    "tk_left t = Done (To_host resp)" "rs_ok resp"
    using pairing_answered by (auto split: option.splits job.splits program.splits answer.splits)
  have "pt_runner pairing_ports = logged_runner pairing_runner" by (simp add: pairing_ports_def)
  moreover have "rq_method pairing_request = ''adb.wifi.qr.pair''" by (simp add: pairing_request_def)
  moreover have "parse_ipc_params sm ''adb.wifi.qr.pair'' decode_session_id e (rq_params pairing_request) = Inr sid \<longrightarrow>
      sid = ''q1''" for sm e sid
    by (simp add: pairing_request_def parse_ipc_params_def from_value_def, code_simp, simp)
  ultimately show ?thesis
    using concurrent_pairing_protocol [OF _ pairing_done_reachable t(1,2) _ t(3)] t(4) by fastforce
qed

subsection \<open>Two configurations\<close>





end
