(* ===== verification/Spec2Isabelle.thy ===== *)
theory Spec2Isabelle
  imports Remote_Witnesses Account_Witnesses Core_Witnesses Companion_Witnesses Process_Witnesses
    Keepalive_Supervisor Concurrent_Witnesses Command_Witnesses Race_Witnesses
begin

text \<open>
  \<^bold>\<open>ADBControl Core.\<close> The program is the Rust crate \<open>src/core/crates/adbcontrol-core\<close>: a process
  that owns adb on a host, keeps the accounts of remote users, talks to the Android companion
  app, and answers requests from two sides. The trusted host (a Go or desktop process) writes
  JSON lines to its standard input; remote clients send JSON requests over QUIC. Both kinds of
  request end in \<open>CoreService::handle_request\<close> of \<open>protocol.rs\<close>; a remote request passes
  \<open>RemoteControlService\<close> of \<open>remote/service.rs\<close> first. Companions connect to a second QUIC endpoint,
  which keeps the registry of devices and carries the core's commands to them; their side of the
  wire is the crate \<open>src/core/crates/adbcontrol-quic-android\<close>.

  \<^bold>\<open>Theories.\<close>
  \<^item> \<open>Prelude\<close>, \<open>Rust_Strings\<close>, \<open>Ordered_Map\<close>, \<open>Json\<close>, \<open>App_Error\<close>, \<open>Transition\<close>: what the source uses of Rust and of its
    libraries. \<open>Result\<close> is \<open>error + 'a\<close>, a string is the list of its UTF-8 bytes, \<open>BTreeMap\<close> and
    \<open>BTreeSet\<close> are ordered lists behind the locale \<open>ordered_map\<close>, \<open>serde_json::Value\<close> is the
    datatype \<open>json\<close> with the decoders of derived structs, \<open>AppError\<close> is \<open>app_error\<close>. The locale
    \<open>invariant_machine\<close> is the contract of a state machine whose invariant holds in every reachable
    state, \<open>simulation\<close> that of a machine that implements another.
  \<^item> \<open>Remote_Auth\<close>, \<open>Remote_Auth_Facts\<close> (\<open>remote/auth.rs\<close>): the account database, its sessions and
    its file, one definition per public method; the invariant \<open>manager_ok\<close>. \<open>Account_Directory\<close>: the
    abstract directory of accounts and sessions that the manager implements (a \<open>simulation\<close>).
    \<open>Account_Lifetimes\<close>: starts, operations, crashes and torn writes of an installation, with what
    every stored account ever looks like.
  \<^item> \<open>Ipc\<close>, \<open>Local_Admin\<close> (\<open>remote/local_admin.rs\<close>): request and response envelopes, and the
    administrator's management interface.
  \<^item> \<open>Device_Identity\<close>, \<open>Remote_Service\<close>, \<open>Remote_Service_Facts\<close> (\<open>remote/service.rs\<close>):
    authentication, authorisation, device aliases, the user's device directory, client
    diagnostics. The core behind it is a function, and \<open>core_request_handler\<close> the contract it
    has to meet.
  \<^item> \<open>Platform_Assets\<close> (\<open>platform.rs\<close>, \<open>assets.rs\<close>), \<open>Adb\<close> (\<open>adb.rs\<close>), \<open>Keepalive\<close> (\<open>keepalive.rs\<close>),
    \<open>Wireless\<close> (\<open>wireless.rs\<close>): the adb binary of the host, running it, the scrcpy processes, the
    supervisor thread and its handle, pairing by QR code. \<open>Keepalive_Supervisor\<close>: the supervisor
    with its thread and the calls of its handle interleaved at their single steps.
  \<^item> \<open>Capability\<close>, \<open>Companion_Protocol\<close>, \<open>Companion_Registry\<close>, \<open>Companion_Session\<close>,
    \<open>Companion_Session_Facts\<close>, \<open>Companion_Trust\<close>, \<open>Companion_Trust_Facts\<close>, \<open>Media_Store\<close>,
    \<open>Companion_Ingress\<close>, \<open>Companion_Router\<close> (\<open>capability.rs\<close> and \<open>companion/\<close>): the capability
    catalog, the envelopes, the device registry and its abstraction to a finite map, the
    handshake, pairing and trust, stored media, the entrance for messages and the routers for
    commands (locale \<open>command_router\<close>).
  \<^item> \<open>Core_Service\<close>, \<open>Core_Service_Facts\<close> (\<open>protocol.rs\<close>): the core's handlers and dispatcher, and
    that it meets \<open>core_request_handler\<close>.
  \<^item> \<open>Response_Types\<close>: the shape of the answers of both protocols.
  \<^item> \<open>Companion_Wire\<close>, \<open>Companion_Transport\<close>, \<open>Companion_Connections\<close>, \<open>Companion_Connections_Facts\<close>,
    \<open>Companion_Ends\<close> (\<open>companion/quinn_transport.rs\<close>): the framing (locale \<open>wire_format\<close>, interpreted on network byte
    order), \<open>LiveCompanionTransport\<close>, the control loop of a connection with its heartbeat, and the
    listener as a step relation over its connections (running, or draining: the loop has ended and
    the writer is awaited) and the commands that wait; how a connection with two devices ends.
    \<open>Companion_Commands\<close>, \<open>Companion_Commands_Facts\<close>: sending a command lock by lock, by several
    threads at once, while the listener goes on.
  \<^item> \<open>Remote_Transport\<close> (\<open>remote/quinn_transport.rs\<close>): one request per stream, within a limit.
  \<^item> \<open>Quic_Identity\<close> (\<open>companion/quic_identity.rs\<close>), \<open>Diagnostics\<close> (\<open>diagnostics.rs\<close>), \<open>Stdio\<close>
    (\<open>ipc/stdio.rs\<close>), \<open>Startup\<close> and \<open>Process_Run\<close> (\<open>main.rs\<close>): certificates and their files, the
    bounded event log, the loop over the standard input, the start, and \<open>main\<close> from its first
    event to the exit code.
  \<^item> \<open>Quic_Android\<close>, \<open>Android_Jni\<close> (\<open>adbcontrol-quic-android/src/lib.rs\<close>): the client, and the functions
    it exports to Java over a heap of clients.
  \<^item> \<open>System\<close>: the remote service over the core, and the runs of the whole process. \<open>Live_System\<close>: the
    core over the live transport.
  \<^item> \<open>Atomic_Programs\<close>: programs of atomic steps, their runs alone and amid others. \<open>Core_Steps\<close>,
    \<open>Concurrent_Requests\<close>, \<open>Concurrent_Facts\<close>: the requests of both sides as such programs, one step
    per lock, adb command or spawned process, and the pool of tasks in which they interleave. Run
    alone, such a program is the function of the sequential model. \<open>Core_Races\<close>: what others can do
    to a pairing and to a configuration of the supervisor between their steps.
  \<^item> \<open>Concrete_Runs\<close>, \<open>Live_Runs\<close>, \<open>Remote_Witnesses\<close>, \<open>Account_Witnesses\<close>, \<open>Core_Witnesses\<close>,
    \<open>Companion_Witnesses\<close>, \<open>Transport_Witnesses\<close>, \<open>Process_Witnesses\<close>, \<open>Concurrent_Witnesses\<close>,
    \<open>Command_Witnesses\<close>, \<open>Race_Witnesses\<close>: concrete parameters and states, and every property
    applied to them.

  \<^bold>\<open>How state and operations correspond.\<close> A struct is a record, an enum a datatype, a method a
  function that returns its result with the new state. What a method reads from outside is an
  argument: the clock, random numbers, and what the file system, a spawned process or a killed
  process answers. A \<open>HashMap\<close> is a partial function or an ordered map; where the code iterates over
  one, the order is a choice (\<open>iterate\<close>). A lock that a panicking thread poisoned is a flag of the state. Fixed
  widths are kept where they matter (\<open>64 word\<close> time stamps of pairing, the \<open>32 word\<close> failure
  counter, range checks when a number is decoded). Libraries are parameters: argon2 (\<open>argon\<close>),
  base64, the QR encoder, serde's reading of a text and the wording of its errors, Unicode's
  lower-case mapping outside ASCII. The only law assumed of one is that argon2 accepts a password
  for a hash it made of it; it is a hypothesis of the theorems that use it.

  Concurrency is interleaving. The listener's steps are the turns of its connections, the end of a
  control loop, the cleanup after it (at once after an error, otherwise when the writer has ended),
  the start and the end of a command, and what the environment does to a stream; the parts of an operation that
  hold no lock together are separate steps or take what happens between them as a function, as in
  \<open>send_command_envelope\<close>, which \<open>Companion_Commands\<close> takes apart into the steps between its locks; a
  theorem there says that the steps of one command, uninterrupted, are the function. A stream is the bytes it will still give and the error it ends with;
  what is written goes to a \<open>sink\<close>, which may fail. A request is modelled twice: as a function of the
  whole state, on which most theorems rest, and as a program of atomic steps, which other requests
  interrupt.

  \<^bold>\<open>What is shown.\<close> Across components: what an ordinary user's request can make the core run, send
  or change; who can change the account database; the invariant of all runs of the process; that
  the local management interface is in fact reachable over the remote transport with an
  administrator's token; that a successful \<open>device.invoke\<close> reached a connection that had said
  hello for the device and was not cleaned up, and returns a companion's answer to this very request; that the process answers its
  input line by line up to the first line it cannot read, or refuses to start; that every answer has the declared shape. Per component:
  invariants of all reachable states (accounts, companion sessions, trust, the live transport, the
  clients behind the Java handles), the effect and the error paths of each operation that changes
  state, confinement of arguments and paths (adb, scrcpy, media files, diagnostics), bounds
  (pairing guesses, queues and files), round trips (trust file, account file, certificate files,
  the control stream between both ends), refinements (of the account manager to a directory with
  seven kinds of event, of the registry to a finite map), totality of the ingress. Over time: what
  accounts look like through all restarts and crashes; that interleaved requests keep the accounts
  a sequence of whole operations, cannot widen what a user may do and all end; that the supervisor
  loses no configuration, ends when it is stopped and, left alone, checks for ever; that commands
  sent by several threads each get their own response, return and leave no registration behind; that a
  pairing keeps to its protocol amid other requests. Some theorems show behaviour the code does not
  intend: a heartbeat that breaks a frame in progress, a refused hello that takes a device's
  commands over, a disconnected device that is listed again, a device that stays online, commands accepted,
  on a connection whose loop has ended, a request that keeps the rights its
  session had when it began, a supervisor that never checks because it is reconfigured too often, a
  command that loses its response to another with the same request id, a setting of the supervisor
  undone by a request for another setting, a pairing that goes on after its session was cancelled.

  Loops over input are structural recursions, folds, or recursions on the rest of a stream, whose
  termination is proved by its length; the only bound on steps is that of \<open>run_command\<close>, four up to the
  wait of a command and two after it, which is all it takes. Loops that run until the process ends (the
  supervisor, a connection, the listener, the diagnostics worker) are step relations, one turn per
  step; for the supervisor, infinite runs are functions from moments to states. That a remote
  request ends is a bound of 51 on its steps: one for the session, and at most one per
  line of a batch of 50 diagnostics, or six for each of up to three requests to the core.

  \<^bold>\<open>Not modelled.\<close> The libraries themselves: quinn, rustls and tokio (handshakes, scheduling, what a
  task that is dropped does), rcgen, argon2, serde's text format. The conversion of Java arguments
  and the panic logger of the Android library; text on the standard error except where a client
  chooses it; the build without the QUIC feature. The Go, web and Kotlin parts of the repository are
  other programs, which talk to this one through the interfaces modelled here. In the pool a command
  to a companion is one step and the supervisor's thread is at rest; their own interleavings are
  those of \<open>Companion_Commands\<close> and \<open>Keepalive_Supervisor\<close>.
\<close>

section \<open>Properties across components\<close>

lemma free_dispatch_core:
  "rr_method rr \<in> set remote_free_methods \<Longrightarrow>
   sv_core (snd (remote_dispatch A sm core E rr t s st)) = sv_core st"
  by (auto simp: remote_dispatch_def Let_def reply_with_def remote_free_methods_def case_prod_beta
      remote_change_password_def split: sum.splits)

lemma login_core [simp]: "sv_core (snd (remote_login A sm E p st)) = sv_core st"
  by (auto simp: remote_login_def case_prod_beta split: sum.splits)

lemma recording_id:
  "pt_runner P = logged_runner runner \<Longrightarrow> pt_router P = logged_router router \<Longrightarrow>
   recording runner router P = P"
  by (simp add: recording_def)

text \<open>C1. What an ordinary user can make the core do, end to end: a remote request leaves the core
  as it was unless it carries the token of a live session with no outstanding password change;
  and if that session is not the administrator's, the only programs the core runs for it are adb
  queries for the connected devices and adb commands confined to a device assigned to the account,
  the only commands it sends go to assigned, registered devices and their exposed operations, and
  its registry, scrcpy processes, pairing sessions and keep-alive settings stay as they are.\<close>

theorem user_request_confined:
  assumes "pt_runner P = logged_runner runner" and "pt_router P = logged_router router"
    and "remote_handle_request A sm (core_handle_request P) E rr st = (resp, st')"
  shows "sv_core st' = sv_core st \<or>
         (\<exists>t s. rr_session_token rr = Some t \<and> fst (authenticate (E 0) t (sv_accounts st)) = Inr s \<and>
            \<not> as_password_change_required s \<and>
            (as_role s = Admin \<or> confined s (sv_core st) (sv_core st')))"
proof (cases "rr_method rr = ''auth.login''")
  case True
  then have "sv_core st' = sv_core st"
    using assms(3) by (auto simp: remote_handle_request_def reply_with_def)
  then show ?thesis by simp
next
  case False
  then show ?thesis
  proof (cases rule: remote_handle_cases
      [where A = A and sm = sm and core = "core_handle_request P" and E = E and st = st])
    case (refused e st'')
    then show ?thesis using assms(3) by auto
  next
    case (session t s)
    show ?thesis
    proof (cases "as_password_change_required s")
      case True
      then have "sv_core st' = sv_core st"
        using session assms(3) free_dispatch_core [of rr A sm "core_handle_request P" E t s
            "snd (on_accounts (authenticate (E 0) t) st)"] by (metis on_accounts_frame(1) snd_conv)
      then show ?thesis by simp
    next
      case no_change: False
      show ?thesis
      proof (cases "as_role s = Admin")
        case user: False
        have "confined s (sv_core st) (sv_core (snd (remote_handle_request A sm
            (core_handle_request (recording runner router P)) E rr st)))"
          using user confined_refl False session(1,2) by (rule user_core.request_inv)
        then have "confined s (sv_core st) (sv_core st')"
          using assms(3) by (simp add: recording_id [OF assms(1,2)])
        then show ?thesis using session no_change by blast
      qed (use session no_change in blast)
    qed
  qed
qed

theorem user_request_confined_witness:
  "snd (co_world (sv_core (snd (run_serve shell_request bob_signed_in)))) =
     [[''devices'', ''-l''], [''-s'', ''phone'', ''shell'', ''ls'']] \<and>
   (\<exists>s. fst (authenticate (env_at 20 []) ''t1'' bob_signed_in) = Inr s \<and> as_username s = ''bob'' \<and>
      confined s run_core (sv_core (snd (run_serve shell_request bob_signed_in))))"
proof -
  let ?st = "snd (run_serve shell_request bob_signed_in)"
  have "sv_core ?st \<noteq> sv_core (service_over bob_signed_in)"
    using shell_request_runs run_core_world by auto
  with user_request_confined [of run_ports listing_runner in_memory_dispatch plain_argon
      "pt_serde run_ports" "\<lambda>i. env_at 20 []" shell_request "service_over bob_signed_in"
      "fst (run_serve shell_request bob_signed_in)" ?st]
  show ?thesis
    using bob_session shell_request_runs by (auto simp: run_serve_def shell_request_def ask_def)
qed

text \<open>C10. The account database answers only to the administrator and to the account's owner: if a
  remote request changes what is stored for an account, it carries the token of a live session,
  which is the administrator's, or the request is the change of the password of that very account.\<close>

theorem remote_database_authority:
  assumes "remote_handle_request A sm (core_handle_request P) E rr st = (resp, st')"
    and "bt_get k (users (sv_accounts st')) \<noteq> bt_get k (users (sv_accounts st))"
  shows "\<exists>t s. rr_session_token rr = Some t \<and> fst (authenticate (E 0) t (sv_accounts st)) = Inr s \<and>
           (as_role s = Admin \<or> rr_method rr = ''auth.changePassword'' \<and> k = as_username s)"
  using core_service.database_change [of k A sm P E rr st] assms by simp

theorem remote_database_authority_witness:
  "\<exists>s. fst (authenticate (env_at 20 []) ''t1'' bob_signed_in) = Inr s \<and> as_username s = ''bob'' \<and>
     bt_get ''bob'' (users (sv_accounts (snd (run_serve change_request bob_signed_in)))) \<noteq>
     bt_get ''bob'' (users bob_signed_in)"
proof -
  have "bt_get ''bob'' (users (sv_accounts (snd (run_serve change_request bob_signed_in)))) \<noteq>
     bt_get ''bob'' (users (sv_accounts (service_over bob_signed_in)))"
    by code_simp
  with remote_database_authority [of plain_argon "pt_serde run_ports" run_ports "\<lambda>i. env_at 20 []"
      change_request "service_over bob_signed_in" "fst (run_serve change_request bob_signed_in)"
      "snd (run_serve change_request bob_signed_in)" "''bob''"]
  show ?thesis using bob_session by (auto simp: run_serve_def change_request_def ask_def)
qed

text \<open>In every state the process can reach, serving remote requests and the host's stdio lines in
  any order and whatever the clock, the random source, adb and the file system answer: the built-in
  administrator exists and is the only administrator, every live session belongs to an existing
  account, and the next remote request is answered under its own id.\<close>

theorem process_accounts_ok:
  assumes "reachable (system_start P) (system_step P) st"
  shows "(\<exists>a. bt_get default_admin_username (users (sv_accounts st)) = Some a \<and>
              sa_role a = Admin \<and> sa_built_in a) \<and>
         (\<forall>k u. bt_get k (users (sv_accounts st)) = Some u \<longrightarrow> sa_role u = Admin \<longrightarrow>
            k = default_admin_username) \<and>
         (\<forall>t r. mg_sessions (sv_accounts st) t = Some r \<longrightarrow>
            (\<exists>u. bt_get (sr_username r) (users (sv_accounts st)) = Some u)) \<and>
         (\<forall>E rr. rp_id (fst (remote_handle_request (pt_argon P) (pt_serde P) (core_handle_request P) E rr st)) =
            Some (rr_id rr))"
  using manager_okD [OF process.reach_inv [OF assms]] core_service.remote_echo
  by (auto simp: account_ok_def)

theorem process_accounts_ok_witness:
  "reachable (system_start run_ports) (system_step run_ports)
     (snd (run_serve shell_request fresh_manager)) \<and>
   (\<exists>a. bt_get default_admin_username (users (sv_accounts (snd (run_serve shell_request fresh_manager)))) =
        Some a \<and> sa_role a = Admin \<and> sa_built_in a)"
proof -
  have "system_start run_ports (service_over fresh_manager)"
    using fresh_manager_opens by (simp add: system_start_def)
  then have r: "reachable (system_start run_ports) (system_step run_ports)
      (snd (run_serve shell_request fresh_manager))"
    using remote_request_step [of run_ports "service_over fresh_manager" "\<lambda>i. env_at 20 []"
        "\<lambda>b. Inr shell_request" "[]"]
    by (auto simp: run_serve_def remote_handle_json_bytes_def intro: reachable_start reachable_step)
  with process_accounts_ok [OF r] show ?thesis by blast
qed

lemma local_method_dispatch:
  assumes "local_method (rr_method rr)"
  shows "remote_dispatch A sm core E rr t s st = forward_core_request core s rr st"
    and "rr_method rr \<noteq> ''auth.login''" and "rr_method rr \<noteq> ''device.list''"
proof -
  have "\<not> local_method x" if "x \<in> set [''auth.login'', ''auth.me'', ''auth.logout'', ''auth.changePassword'',
      ''diagnostics.report'', ''admin.users.list'', ''admin.users.create'', ''admin.users.delete'',
      ''admin.users.resetPassword'', ''admin.devices.assign'', ''device.list'']" for x
    using that by (auto simp: local_method_def starts_with_def)
  with assms have "rr_method rr \<notin> set [''auth.login'', ''auth.me'', ''auth.logout'', ''auth.changePassword'',
      ''diagnostics.report'', ''admin.users.list'', ''admin.users.create'', ''admin.users.delete'',
      ''admin.users.resetPassword'', ''admin.devices.assign'', ''device.list'']"
    by blast
  then show "remote_dispatch A sm core E rr t s st = forward_core_request core s rr st"
    "rr_method rr \<noteq> ''auth.login''" "rr_method rr \<noteq> ''device.list''"
    unfolding list.set insert_iff de_Morgan_disj by (simp_all add: remote_dispatch_def Let_def)
qed

text \<open>C30. The local management interface is not separate from the remote transport: a remote request
  with the token of an administrator's live session, without an outstanding password change, that
  names one of its methods is handed to it unchanged, and its answer and its effect on the accounts
  are those of the local interface. Whichever login made the session does not matter, although the
  remote login refuses the administrator with whatever password, and leaves the whole state as it is.\<close>

theorem admin_session_reaches_local_admin:
  assumes "local_method (rr_method rr)" and "rr_session_token rr = Some t" and "t \<noteq> []"
    and "fst (authenticate (E 0) t (sv_accounts st)) = Inr s" and "as_role s = Admin"
    and "\<not> as_password_change_required s" and "co_has_local_admin (sv_core st)"
    and "local_admin_handle (pt_argon P) (pt_serde P) (cv_auth (co_envs (sv_core st) (co_requests (sv_core st))))
           \<lparr>rq_id = rr_id rr, rq_method = rr_method rr, rq_params = rr_params rr\<rparr>
           (snd (authenticate (E 0) t (sv_accounts st))) = (resp, m')"
  shows "(\<exists>st'. remote_handle_request A sm (core_handle_request P) E rr st = (remote_of_ipc resp, st') \<and>
            sv_accounts st' = m') \<and>
         (rr_method attempt = ''auth.login'' \<longrightarrow>
          remote_params sm ''login'' (decode_two ''username'' ''password'') (rr_params attempt) =
            Inr (default_admin_username, password) \<longrightarrow>
          remote_handle_request A sm (core_handle_request P) E attempt before =
            (remote_failure (Some (rr_id attempt)) admin_local_only, before))"
proof
  show "rr_method attempt = ''auth.login'' \<longrightarrow>
      remote_params sm ''login'' (decode_two ''username'' ''password'') (rr_params attempt) =
        Inr (default_admin_username, password) \<longrightarrow>
      remote_handle_request A sm (core_handle_request P) E attempt before =
        (remote_failure (Some (rr_id attempt)) admin_local_only, before)"
    by (simp add: remote_handle_request_def reply_with_def remote_login_def remote_reply_def)
  let ?st = "snd (on_accounts (authenticate (E 0) t) st)"
  have "remote_handle_request A sm (core_handle_request P) E rr st =
      forward_core_request (core_handle_request P) s rr ?st"
    using assms(1-4,6) local_method_dispatch(1,2) [OF assms(1)]
    by (simp add: remote_handle_request_def on_accounts_def case_prod_beta)
  moreover have "fst (forward_core_request (core_handle_request P) s rr ?st) = remote_of_ipc resp"
    "sv_accounts (snd (forward_core_request (core_handle_request P) s rr ?st)) = m'"
    using assms(1,5,7,8) local_method_dispatch(3) [OF assms(1)]
    by (simp_all add: forward_core_request_def call_core_def core_handle_request_def Let_def)
  ultimately show "\<exists>st'. remote_handle_request A sm (core_handle_request P) E rr st = (remote_of_ipc resp, st') \<and>
      sv_accounts st' = m'"
    by (metis prod.collapse)
qed

theorem admin_session_reaches_local_admin_witness:
  "rp_ok (fst (run_serve (ask ''a1'' ''remote.admin.users.delete''
       (JObj [(''sessionToken'', JStr ''a1''), (''username'', JStr ''bob'')])) admin_signed_in)) \<and>
   bt_get ''bob'' (users (sv_accounts (snd (run_serve (ask ''a1'' ''remote.admin.users.delete''
       (JObj [(''sessionToken'', JStr ''a1''), (''username'', JStr ''bob'')])) admin_signed_in)))) = None \<and>
   run_serve (ask [] ''auth.login'' (JObj [(''username'', JStr ''admin''), (''password'', JStr ''long-password'')])) admin_signed_in =
     (remote_failure (Some ''r1'') admin_local_only, service_over admin_signed_in)"
proof -
  let ?login = "ask [] ''auth.login'' (JObj [(''username'', JStr ''admin''), (''password'', JStr ''long-password'')])"
  have d: "remote_params (pt_serde run_ports) ''login'' (decode_two ''username'' ''password'') (rr_params ?login) =
      Inr (default_admin_username, ''long-password'')"
    by code_simp
  let ?ps = "JObj [(''sessionToken'', JStr ''a1''), (''username'', JStr ''bob'')]"
  let ?rr = "ask ''a1'' ''remote.admin.users.delete'' ?ps"
  let ?local = "local_admin_handle plain_argon (pt_serde run_ports) (\<lambda>i. env_at 20 [])
      \<lparr>rq_id = ''r1'', rq_method = ''remote.admin.users.delete'', rq_params = ?ps\<rparr>
      (snd (authenticate (env_at 20 []) ''a1'' admin_signed_in))"
  have l: "rs_ok (fst ?local)" "bt_get ''bob'' (users (snd ?local)) = None"
    by code_simp+
  have "co_has_local_admin run_core" "cv_auth (co_envs run_core (co_requests run_core)) = (\<lambda>i. env_at 20 [])"
    by (simp_all add: run_core_def with_local_admin_def new_core_def run_env_def)
  then have "(\<exists>st'. run_serve ?rr admin_signed_in = (remote_of_ipc (fst ?local), st') \<and>
      sv_accounts st' = snd ?local) \<and>
    (rr_method ?login = ''auth.login'' \<longrightarrow>
     remote_params (pt_serde run_ports) ''login'' (decode_two ''username'' ''password'') (rr_params ?login) =
       Inr (default_admin_username, ''long-password'') \<longrightarrow>
     run_serve ?login admin_signed_in =
       (remote_failure (Some (rr_id ?login)) admin_local_only, service_over admin_signed_in))"
    unfolding run_serve_def
    by (intro admin_session_reaches_local_admin [where A = plain_argon and sm = "pt_serde run_ports" and
        P = run_ports and E = "\<lambda>i. env_at 20 []" and rr = ?rr and st = "service_over admin_signed_in" and
        attempt = ?login and password = "''long-password''" and before = "service_over admin_signed_in" and
        t = "''a1''" and s = "\<lparr>as_token = ''a1'', as_username = ''admin'', as_role = Admin, as_devices = [],
          as_password_change_required = False\<rparr>"])
      (simp_all add: ask_def admin_session local_method_def starts_with_def)
  with l d show ?thesis by (auto simp: remote_of_ipc_def ask_def)
qed

end
